(* ===== verification/Prelude.thy ===== *)
theory Prelude
  imports Main "HOL-Library.Word"
begin

text \<open>
  Shared vocabulary of the development: the machine integers of the Rust
  sources as words, results and fallible stateful actions, the saturating
  operations of the standard library, and the generic lemmas the component
  theories rely on.
\<close>

unbundle bit_operations_syntax

section \<open>Machine integers\<close>

type_synonym u8 = "8 word"
type_synonym u16 = "16 word"
type_synonym u32 = "32 word"
type_synonym u64 = "64 word"

text \<open>
  \<open>saturating_add\<close>, \<open>saturating_sub\<close> and \<open>clamp\<close> of \<open>core\<close>, at any width. \<open>Ord::clamp\<close> panics when
  \<open>lo\<close> is above \<open>hi\<close>; the callers here keep the limits ordered.
\<close>

definition saturating_add :: "'a::len word \<Rightarrow> 'a word \<Rightarrow> 'a word" where
  "saturating_add a b = (if a + b < a then - 1 else a + b)"

definition saturating_sub :: "'a::len word \<Rightarrow> 'a word \<Rightarrow> 'a word" where
  "saturating_sub a b = (if a < b then 0 else a - b)"

definition saturating_mul :: "'a::len word \<Rightarrow> 'a word \<Rightarrow> 'a word" where
  "saturating_mul a b = (if unat a * unat b < 2 ^ LENGTH('a) then a * b else - 1)"

definition clamp :: "'a::linorder \<Rightarrow> 'a \<Rightarrow> 'a \<Rightarrow> 'a" where
  "clamp x lo hi = (if x < lo then lo else if hi < x then hi else x)"

section \<open>Results and fallible actions\<close>

abbreviation Err :: "'e \<Rightarrow> 'e + 'a" where "Err \<equiv> Inl"
abbreviation Ok :: "'a \<Rightarrow> 'e + 'a" where "Ok \<equiv> Inr"

text \<open>
  A method taking \<open>&mut self\<close> and returning \<open>Result<a, e>\<close>: the state is
  threaded also through the error path.
\<close>

type_synonym ('c, 'e, 'a) act = "'c \<Rightarrow> ('e + 'a) \<times> 'c"

definition pass :: "'a \<Rightarrow> ('c, 'e, 'a) act" where
  "pass x c = (Ok x, c)"

definition fail :: "'e \<Rightarrow> ('c, 'e, 'a) act" where
  "fail e c = (Err e, c)"

text \<open>The \<open>?\<close> operator: run \<open>m\<close>, leave on an error, continue with its value.\<close>

definition andThen :: "('c, 'e, 'a) act \<Rightarrow> ('a \<Rightarrow> ('c, 'e, 'b) act) \<Rightarrow> ('c, 'e, 'b) act" where
  "andThen m k c = (case m c of (r, c') \<Rightarrow> (case r of Inl e \<Rightarrow> (Err e, c') | Inr x \<Rightarrow> k x c'))"

text \<open>\<open>Result::map_err\<close> on an action.\<close>

definition mapErr :: "('e \<Rightarrow> 'f) \<Rightarrow> ('c, 'e, 'a) act \<Rightarrow> ('c, 'f, 'a) act" where
  "mapErr f m c = (case m c of (r, c') \<Rightarrow> (case r of Inl e \<Rightarrow> (Err (f e), c') | Inr x \<Rightarrow> (Ok x, c')))"

section \<open>Generic lemmas\<close>

named_theorems act_simps \<open>evaluation of fallible actions\<close>

lemma pass_eval [act_simps, simp]: "pass x c = (Ok x, c)"
  by (simp add: pass_def)

lemma fail_eval [act_simps, simp]: "fail e c = (Err e, c)"
  by (simp add: fail_def)

lemma andThen_ok [act_simps]: "m c = (Ok x, c') \<Longrightarrow> andThen m k c = k x c'"
  by (simp add: andThen_def)

lemma andThen_err [act_simps]: "m c = (Err e, c') \<Longrightarrow> andThen m k c = (Err e, c')"
  by (simp add: andThen_def)

lemma andThen_assoc: "andThen (andThen m k) l = andThen m (\<lambda>x. andThen (k x) l)"
  by (rule ext) (simp add: andThen_def split: prod.split sum.split)

lemma unat_saturating_add: "unat (saturating_add a (b :: 'a::len word)) = min (unat a + unat b) (2 ^ LENGTH('a) - 1)"
proof (cases "unat a + unat b < 2 ^ LENGTH('a)")
  case True
  then have "unat (a + b) = unat a + unat b"
    unfolding unat_word_ariths by (rule mod_less)
  with True show ?thesis
    by (simp add: saturating_add_def word_less_nat_alt)
next
  case False
  have a: "unat a < 2 ^ LENGTH('a)" and b: "unat b < 2 ^ LENGTH('a)"
    by (rule unsigned_less)+
  have "unat (a + b) = (unat a + unat b - 2 ^ LENGTH('a)) mod 2 ^ LENGTH('a)"
    unfolding unat_word_ariths using False by (intro le_mod_geq) simp
  also have "\<dots> = unat a + unat b - 2 ^ LENGTH('a)"
    using a b by (intro mod_less) linarith
  finally have "a + b < a"
    unfolding word_less_nat_alt using False b by linarith
  then have "unat (saturating_add a b) = 2 ^ LENGTH('a) - 1"
    by (simp add: saturating_add_def unsigned_minus_1_eq_mask mask_eq_exp_minus_1)
  with False show ?thesis
    by linarith
qed

lemma unat_saturating_sub: "unat (saturating_sub a b) = unat a - unat b"
  by (simp add: saturating_sub_def word_less_nat_alt unat_sub word_le_nat_alt)

lemma unat_saturating_mul: "unat (saturating_mul a (b :: 'a::len word)) = min (unat a * unat b) (2 ^ LENGTH('a) - 1)"
proof (cases "unat a * unat b < 2 ^ LENGTH('a)")
  case True
  then have "unat (a * b) = unat a * unat b"
    unfolding unat_word_ariths by (rule mod_less)
  with True show ?thesis
    by (simp add: saturating_mul_def)
next
  case False
  then show ?thesis
    by (simp add: saturating_mul_def unsigned_minus_1_eq_mask mask_eq_exp_minus_1)
qed

lemma clamp_in_range: "lo \<le> hi \<Longrightarrow> lo \<le> clamp x lo hi \<and> clamp x lo hi \<le> hi"
  by (auto simp: clamp_def not_less)

lemma clamp_inside [simp]: "lo \<le> x \<Longrightarrow> x \<le> hi \<Longrightarrow> clamp x lo hi = x"
  by (auto simp: clamp_def)

text \<open>Octets of wider words.\<close>

lemma bit_u8_high [simp]: "8 \<le> n \<Longrightarrow> \<not> bit (w :: u8) n"
  using bit_imp_le_length [of w n] by auto

lemma u16_mask_octet: "(0xFF :: u16) = mask 8"
  by (simp add: mask_eq_exp_minus_1)

lemma u32_mask_octet: "(0xFF :: u32) = mask 8"
  by (simp add: mask_eq_exp_minus_1)

text \<open>The 256 octets, so that a statement about all of them is checked by evaluation.\<close>

definition octets :: "u8 list" where
  "octets = [
    0x00, 0x01, 0x02, 0x03, 0x04, 0x05, 0x06, 0x07, 0x08, 0x09, 0x0A, 0x0B, 0x0C, 0x0D, 0x0E, 0x0F,
    0x10, 0x11, 0x12, 0x13, 0x14, 0x15, 0x16, 0x17, 0x18, 0x19, 0x1A, 0x1B, 0x1C, 0x1D, 0x1E, 0x1F,
    0x20, 0x21, 0x22, 0x23, 0x24, 0x25, 0x26, 0x27, 0x28, 0x29, 0x2A, 0x2B, 0x2C, 0x2D, 0x2E, 0x2F,
    0x30, 0x31, 0x32, 0x33, 0x34, 0x35, 0x36, 0x37, 0x38, 0x39, 0x3A, 0x3B, 0x3C, 0x3D, 0x3E, 0x3F,
    0x40, 0x41, 0x42, 0x43, 0x44, 0x45, 0x46, 0x47, 0x48, 0x49, 0x4A, 0x4B, 0x4C, 0x4D, 0x4E, 0x4F,
    0x50, 0x51, 0x52, 0x53, 0x54, 0x55, 0x56, 0x57, 0x58, 0x59, 0x5A, 0x5B, 0x5C, 0x5D, 0x5E, 0x5F,
    0x60, 0x61, 0x62, 0x63, 0x64, 0x65, 0x66, 0x67, 0x68, 0x69, 0x6A, 0x6B, 0x6C, 0x6D, 0x6E, 0x6F,
    0x70, 0x71, 0x72, 0x73, 0x74, 0x75, 0x76, 0x77, 0x78, 0x79, 0x7A, 0x7B, 0x7C, 0x7D, 0x7E, 0x7F,
    0x80, 0x81, 0x82, 0x83, 0x84, 0x85, 0x86, 0x87, 0x88, 0x89, 0x8A, 0x8B, 0x8C, 0x8D, 0x8E, 0x8F,
    0x90, 0x91, 0x92, 0x93, 0x94, 0x95, 0x96, 0x97, 0x98, 0x99, 0x9A, 0x9B, 0x9C, 0x9D, 0x9E, 0x9F,
    0xA0, 0xA1, 0xA2, 0xA3, 0xA4, 0xA5, 0xA6, 0xA7, 0xA8, 0xA9, 0xAA, 0xAB, 0xAC, 0xAD, 0xAE, 0xAF,
    0xB0, 0xB1, 0xB2, 0xB3, 0xB4, 0xB5, 0xB6, 0xB7, 0xB8, 0xB9, 0xBA, 0xBB, 0xBC, 0xBD, 0xBE, 0xBF,
    0xC0, 0xC1, 0xC2, 0xC3, 0xC4, 0xC5, 0xC6, 0xC7, 0xC8, 0xC9, 0xCA, 0xCB, 0xCC, 0xCD, 0xCE, 0xCF,
    0xD0, 0xD1, 0xD2, 0xD3, 0xD4, 0xD5, 0xD6, 0xD7, 0xD8, 0xD9, 0xDA, 0xDB, 0xDC, 0xDD, 0xDE, 0xDF,
    0xE0, 0xE1, 0xE2, 0xE3, 0xE4, 0xE5, 0xE6, 0xE7, 0xE8, 0xE9, 0xEA, 0xEB, 0xEC, 0xED, 0xEE, 0xEF,
    0xF0, 0xF1, 0xF2, 0xF3, 0xF4, 0xF5, 0xF6, 0xF7, 0xF8, 0xF9, 0xFA, 0xFB, 0xFC, 0xFD, 0xFE, 0xFF]"

lemma octets_unat: "map unat octets = [0..<256]"
  by (simp add: octets_def upt_rec)

lemma in_octets: "w \<in> set octets"
proof -
  have "unat w \<in> set (map unat octets)"
    unfolding octets_unat using unsigned_less [of w, where 'a = nat] by simp
  then show ?thesis by (auto dest!: unsigned_word_eqI)
qed

lemma all_octets: "list_all P octets \<Longrightarrow> P w"
  using in_octets [of w] by (simp add: list_all_iff)

text \<open>The same for the values of a four-bit field.\<close>

definition nibbles :: "u8 list" where
  "nibbles = [0, 1, 2, 3, 4, 5, 6, 7, 8, 9, 10, 11, 12, 13, 14, 15]"

lemma nibbles_unat: "map unat nibbles = [0..<16]"
  by (simp add: nibbles_def upt_rec)

lemma all_nibbles: "list_all P nibbles \<Longrightarrow> w \<le> 15 \<Longrightarrow> P w"
proof -
  assume all: "list_all P nibbles" and "w \<le> 15"
  then have "unat w \<in> set (map unat nibbles)"
    unfolding nibbles_unat by (simp add: word_le_nat_alt)
  then show "P w"
    using all by (auto simp: list_all_iff dest!: unsigned_word_eqI)
qed

end
