(* ===== verification/Wire_Address.thy ===== *)
theory Wire_Address
  imports Prelude
begin

text \<open>
  Frames and addresses of the wire (\<open>dali2rust-domain/src/dali/frame.rs\<close>,
  \<open>net/address.rs\<close>, \<open>net/routing.rs\<close>, \<open>types.rs\<close>): 16-bit forward frames,
  8-bit backward frames, frame times, and the address byte with its decoder.
\<close>

section \<open>Frames\<close>

datatype ForwardFrame = ForwardFrame u16

datatype BackwardFrame = BackwardFrame u8

definition forward_new :: "u8 \<Rightarrow> u8 \<Rightarrow> ForwardFrame" where
  "forward_new address_byte command_byte =
     ForwardFrame (push_bit 8 (ucast address_byte) OR ucast command_byte)"

primrec raw :: "ForwardFrame \<Rightarrow> u16" where
  "raw (ForwardFrame f) = f"

definition address_byte :: "ForwardFrame \<Rightarrow> u8" where
  "address_byte f = ucast (drop_bit 8 (raw f))"

definition command_byte :: "ForwardFrame \<Rightarrow> u8" where
  "command_byte f = ucast (raw f AND 0xFF)"

definition is_direct_arc_power :: "ForwardFrame \<Rightarrow> bool" where
  "is_direct_arc_power f \<longleftrightarrow> address_byte f AND 0x01 = 0"

primrec backward_raw :: "BackwardFrame \<Rightarrow> u8" where
  "backward_raw (BackwardFrame v) = v"

definition forward_frame_us :: "u8 \<Rightarrow> u32" where
  "forward_frame_us data_bits = (ucast data_bits + 1) * 2 * 1000000 div 2400"

definition send_twice_span_ms :: "u8 \<Rightarrow> u32" where
  "send_twice_span_ms data_bits =
     (let us = 105000 + forward_frame_us data_bits in
      us div 1000 + (if us mod 1000 > 0 then 1 else 0))"

datatype HoldCause = Passive | Quiescent

datatype FrameError =
    BackwardTimeout | BackwardNack | Collision | BusBusy | TransportError | Preempted
  | Held HoldCause

primrec hold_message :: "HoldCause \<Rightarrow> string" where
  "hold_message Passive = ''controller_passive''"
| "hold_message Quiescent = ''controller_quiescent''"

section \<open>Addresses\<close>

datatype DaliAddress = Short u8 | Group u8 | Broadcast | BroadcastUnaddressed

datatype DaliAddressError = OutOfRange (max_index: u8) (got_index: u8)

definition short :: "u8 \<Rightarrow> DaliAddressError + DaliAddress" where
  "short addr = (if addr > 63 then Err (OutOfRange 63 addr) else Ok (Short addr))"

definition group :: "u8 \<Rightarrow> DaliAddressError + DaliAddress" where
  "group addr = (if addr > 15 then Err (OutOfRange 15 addr) else Ok (Group addr))"

primrec encode_address_byte :: "DaliAddress \<Rightarrow> u8" where
  "encode_address_byte (Short a) = push_bit 1 (a AND 0x3F)"
| "encode_address_byte (Group a) = push_bit 1 (a AND 0x0F) OR 0x80"
| "encode_address_byte Broadcast = 0xFE"
| "encode_address_byte BroadcastUnaddressed = 0xFC"

definition decode_wire_address :: "u8 \<Rightarrow> DaliAddressError + DaliAddress" where
  "decode_wire_address w =
     (if w = 0xFE \<or> w = 0xFF then Ok Broadcast
      else if w = 0xFC \<or> w = 0xFD then Ok BroadcastUnaddressed
      else if w AND 0xE0 = 0x80 then group (drop_bit 1 w AND 0x0F)
      else if w AND 0x80 = 0 then short (drop_bit 1 w AND 0x3F)
      else Err (OutOfRange 0 w))"

definition index_new :: "u8 \<Rightarrow> u8 \<Rightarrow> DaliAddressError + u8" where
  "index_new mx index = (if index > mx then Err (OutOfRange mx index) else Ok index)"

record Route =
  target :: DaliAddress
  expects_reply :: bool

definition route_new :: "DaliAddress \<Rightarrow> bool \<Rightarrow> Route" where
  "route_new t is_query =
     \<lparr>target = t, expects_reply = is_query \<and> (case t of Short _ \<Rightarrow> True | _ \<Rightarrow> False)\<rparr>"

text \<open>The range the constructors \<open>short\<close> and \<open>group\<close> enforce.\<close>

primrec address_ok :: "DaliAddress \<Rightarrow> bool" where
  "address_ok (Short a) = (a \<le> 63)"
| "address_ok (Group a) = (a \<le> 15)"
| "address_ok Broadcast = True"
| "address_ok BroadcastUnaddressed = True"

section \<open>Lemmas\<close>

lemma address_byte_new [simp]: "address_byte (forward_new a c) = a"
  unfolding address_byte_def forward_new_def
  by (rule bit_word_eqI) (auto simp: bit_simps)

lemma command_byte_new [simp]: "command_byte (forward_new a c) = c"
  unfolding command_byte_def forward_new_def u16_mask_octet
  by (rule bit_word_eqI) (auto simp: bit_simps)


text \<open>What the decoder accepts, checked on all 256 bytes.\<close>

lemma decode_wire_address_sound:
  "case decode_wire_address w of Inl _ \<Rightarrow> 0xA0 \<le> w \<and> w \<le> 0xFB
   | Inr a \<Rightarrow> address_ok a \<and> encode_address_byte a = w AND 0xFE \<and> \<not> (0xA0 \<le> w \<and> w \<le> 0xFB)"
  by (rule all_octets) code_simp

lemma decode_ignores_selector:
  "case decode_wire_address (w AND 0xFE) of Inl _ \<Rightarrow> True | Inr a \<Rightarrow> decode_wire_address w = Ok a"
  by (rule all_octets) code_simp

lemma decode_encoded_address:
  assumes "address_ok a"
  shows "decode_wire_address (encode_address_byte a) = Ok a"
proof (cases a)
  case (Short x)
  have "address_ok (Short x) \<longrightarrow> decode_wire_address (encode_address_byte (Short x)) = Ok (Short x)"
    by (rule all_octets) code_simp
  with Short assms show ?thesis by simp
next
  case (Group x)
  have "address_ok (Group x) \<longrightarrow> decode_wire_address (encode_address_byte (Group x)) = Ok (Group x)"
    by (rule all_octets) code_simp
  with Group assms show ?thesis by simp
qed (simp_all add: decode_wire_address_def)

lemma decode_wire_address_iff:
  "decode_wire_address w = Ok a \<longleftrightarrow> address_ok a \<and> encode_address_byte a = w AND 0xFE"
proof
  assume "decode_wire_address w = Ok a"
  then show "address_ok a \<and> encode_address_byte a = w AND 0xFE"
    using decode_wire_address_sound [of w] by simp
next
  assume "address_ok a \<and> encode_address_byte a = w AND 0xFE"
  then show "decode_wire_address w = Ok a"
    using decode_encoded_address [of a] decode_ignores_selector [of w] by simp
qed

lemma encode_address_byte_selector [simp]: "encode_address_byte a AND 1 = 0"
proof (cases a)
  case (Short x)
  have "encode_address_byte (Short x) AND 1 = 0"
    by (rule all_octets) code_simp
  with Short show ?thesis by simp
next
  case (Group x)
  have "encode_address_byte (Group x) AND 1 = 0"
    by (rule all_octets) code_simp
  with Group show ?thesis by simp
qed simp_all

end
