(* ===== verification/Device_Commands.thy ===== *)
theory Device_Commands
  imports Wire_Address
begin

text \<open>
  Application-extended commands of the device types
  (\<open>dali2rust-domain/src/dali/devices\<close>): LED modules (DT6), switching
  (DT7) and colour control (DT8), their opcodes, their metadata, and the DT8
  value tables. Constructors keep the source's names; where two device types share a
  name the type qualifies it.
\<close>

section \<open>Device types and command metadata\<close>

datatype DeviceType =
    Fluorescent | Emergency | Discharge | LowVoltageHalogen | Incandescent
  | DcConverter | Led | Switching | Color

primrec code :: "DeviceType \<Rightarrow> u8" where
  "code Fluorescent = 0" | "code Emergency = 1" | "code Discharge = 2"
| "code LowVoltageHalogen = 3" | "code Incandescent = 4" | "code DcConverter = 5"
| "code Led = 6" | "code Switching = 7" | "code Color = 8"

definition device_type_from_u8 :: "u8 \<Rightarrow> DeviceType option" where
  "device_type_from_u8 v =
     (if v = 0 then Some Fluorescent else if v = 1 then Some Emergency
      else if v = 2 then Some Discharge else if v = 3 then Some LowVoltageHalogen
      else if v = 4 then Some Incandescent else if v = 5 then Some DcConverter
      else if v = 6 then Some Led else if v = 7 then Some Switching
      else if v = 8 then Some Color else None)"

record CommandMetadata =
  md_device_type :: "DeviceType option"
  md_opcode :: u8
  md_expects_backward :: bool
  md_requires_repeat :: bool

text \<open>The trait's \<open>to_forward_frame\<close>: opcode addressing sets the selector bit.\<close>

definition metadata_forward_frame :: "CommandMetadata \<Rightarrow> DaliAddress \<Rightarrow> ForwardFrame" where
  "metadata_forward_frame md a = forward_new (encode_address_byte a OR 0x01) (md_opcode md)"

section \<open>DT6: LED modules\<close>

datatype Dt6Command =
    ReferenceSystemPower
  | EnableCurrentProtector
  | DisableCurrentProtector
  | SelectDimmingCurve
  | StoreDtrAsFastFadeTime
  | QueryGearType
  | QueryDimmingCurve
  | QueryPossibleOperatingMode
  | QueryFeatures
  | QueryFailureStatus
  | QueryShortCircuit
  | QueryOpenCircuit
  | QueryLoadDecrease
  | QueryLoadIncrease
  | QueryCurrentProtectorActive
  | QueryThermalShutdown
  | QueryThermalOverload
  | QueryReferenceRunning
  | QueryReferenceMeasurementFailed
  | QueryCurrentProtectorEnabled
  | QueryOperatingMode
  | QueryFastFadeTime
  | QueryMinFastFadeTime
  | QueryExtendedVersionNumber

primrec dt6_opcode :: "Dt6Command \<Rightarrow> u8" where
  "dt6_opcode Dt6Command.ReferenceSystemPower = 0xE0"
| "dt6_opcode Dt6Command.EnableCurrentProtector = 0xE1"
| "dt6_opcode Dt6Command.DisableCurrentProtector = 0xE2"
| "dt6_opcode Dt6Command.SelectDimmingCurve = 0xE3"
| "dt6_opcode Dt6Command.StoreDtrAsFastFadeTime = 0xE4"
| "dt6_opcode Dt6Command.QueryGearType = 0xED"
| "dt6_opcode Dt6Command.QueryDimmingCurve = 0xEE"
| "dt6_opcode Dt6Command.QueryPossibleOperatingMode = 0xEF"
| "dt6_opcode Dt6Command.QueryFeatures = 0xF0"
| "dt6_opcode Dt6Command.QueryFailureStatus = 0xF1"
| "dt6_opcode Dt6Command.QueryShortCircuit = 0xF2"
| "dt6_opcode Dt6Command.QueryOpenCircuit = 0xF3"
| "dt6_opcode Dt6Command.QueryLoadDecrease = 0xF4"
| "dt6_opcode Dt6Command.QueryLoadIncrease = 0xF5"
| "dt6_opcode Dt6Command.QueryCurrentProtectorActive = 0xF6"
| "dt6_opcode Dt6Command.QueryThermalShutdown = 0xF7"
| "dt6_opcode Dt6Command.QueryThermalOverload = 0xF8"
| "dt6_opcode Dt6Command.QueryReferenceRunning = 0xF9"
| "dt6_opcode Dt6Command.QueryReferenceMeasurementFailed = 0xFA"
| "dt6_opcode Dt6Command.QueryCurrentProtectorEnabled = 0xFB"
| "dt6_opcode Dt6Command.QueryOperatingMode = 0xFC"
| "dt6_opcode Dt6Command.QueryFastFadeTime = 0xFD"
| "dt6_opcode Dt6Command.QueryMinFastFadeTime = 0xFE"
| "dt6_opcode Dt6Command.QueryExtendedVersionNumber = 0xFF"

definition dt6_from_opcode :: "u8 \<Rightarrow> Dt6Command option" where
  "dt6_from_opcode opcode =
    (if opcode = 0xE0 then Some Dt6Command.ReferenceSystemPower
     else if opcode = 0xE1 then Some Dt6Command.EnableCurrentProtector
     else if opcode = 0xE2 then Some Dt6Command.DisableCurrentProtector
     else if opcode = 0xE3 then Some Dt6Command.SelectDimmingCurve
     else if opcode = 0xE4 then Some Dt6Command.StoreDtrAsFastFadeTime
     else if opcode = 0xED then Some Dt6Command.QueryGearType
     else if opcode = 0xEE then Some Dt6Command.QueryDimmingCurve
     else if opcode = 0xEF then Some Dt6Command.QueryPossibleOperatingMode
     else if opcode = 0xF0 then Some Dt6Command.QueryFeatures
     else if opcode = 0xF1 then Some Dt6Command.QueryFailureStatus
     else if opcode = 0xF2 then Some Dt6Command.QueryShortCircuit
     else if opcode = 0xF3 then Some Dt6Command.QueryOpenCircuit
     else if opcode = 0xF4 then Some Dt6Command.QueryLoadDecrease
     else if opcode = 0xF5 then Some Dt6Command.QueryLoadIncrease
     else if opcode = 0xF6 then Some Dt6Command.QueryCurrentProtectorActive
     else if opcode = 0xF7 then Some Dt6Command.QueryThermalShutdown
     else if opcode = 0xF8 then Some Dt6Command.QueryThermalOverload
     else if opcode = 0xF9 then Some Dt6Command.QueryReferenceRunning
     else if opcode = 0xFA then Some Dt6Command.QueryReferenceMeasurementFailed
     else if opcode = 0xFB then Some Dt6Command.QueryCurrentProtectorEnabled
     else if opcode = 0xFC then Some Dt6Command.QueryOperatingMode
     else if opcode = 0xFD then Some Dt6Command.QueryFastFadeTime
     else if opcode = 0xFE then Some Dt6Command.QueryMinFastFadeTime
     else if opcode = 0xFF then Some Dt6Command.QueryExtendedVersionNumber
     else None)"

definition dt6_opcode_requires_repeat :: "u8 \<Rightarrow> bool" where
  "dt6_opcode_requires_repeat opcode \<longleftrightarrow> 0xE0 \<le> opcode \<and> opcode \<le> 0xE4"

definition dt6_metadata :: "Dt6Command \<Rightarrow> CommandMetadata" where
  "dt6_metadata c = \<lparr>md_device_type = Some Led, md_opcode = dt6_opcode c,
     md_expects_backward = (dt6_opcode c \<ge> 0xED),
     md_requires_repeat = dt6_opcode_requires_repeat (dt6_opcode c)\<rparr>"

record FailureStatusBits =
  short_circuit :: bool
  open_circuit :: bool
  load_decrease :: bool
  load_increase :: bool
  current_protector_active :: bool
  thermal_shut_down :: bool
  thermal_overload :: bool
  reference_measurement_failed :: bool

definition decode_failure_status :: "u8 \<Rightarrow> FailureStatusBits" where
  "decode_failure_status r = \<lparr>
     short_circuit = (r AND 0x01 \<noteq> 0),
     open_circuit = (r AND 0x02 \<noteq> 0),
     load_decrease = (r AND 0x04 \<noteq> 0),
     load_increase = (r AND 0x08 \<noteq> 0),
     current_protector_active = (r AND 0x10 \<noteq> 0),
     thermal_shut_down = (r AND 0x20 \<noteq> 0),
     thermal_overload = (r AND 0x40 \<noteq> 0),
     reference_measurement_failed = (r AND 0x80 \<noteq> 0)\<rparr>"

section \<open>DT7: switching\<close>

datatype Threshold = UpSwitchOn | UpSwitchOff | DownSwitchOn | DownSwitchOff

primrec threshold_index :: "Threshold \<Rightarrow> u8" where
  "threshold_index UpSwitchOn = 0" | "threshold_index UpSwitchOff = 1"
| "threshold_index DownSwitchOn = 2" | "threshold_index DownSwitchOff = 3"

definition threshold_from_index :: "u8 \<Rightarrow> Threshold option" where
  "threshold_from_index i =
     (if i = 0 then Some UpSwitchOn else if i = 1 then Some UpSwitchOff
      else if i = 2 then Some DownSwitchOn else if i = 3 then Some DownSwitchOff else None)"

primrec threshold_factory :: "Threshold \<Rightarrow> u8" where
  "threshold_factory UpSwitchOn = 1" | "threshold_factory UpSwitchOff = 0xFF"
| "threshold_factory DownSwitchOn = 0xFF" | "threshold_factory DownSwitchOff = 0"

definition within_range :: "Threshold \<Rightarrow> u8 \<Rightarrow> u8" where
  "within_range t dtr = (if (t = UpSwitchOn \<or> t = UpSwitchOff) \<and> dtr = 0 then 1 else dtr)"

datatype Dt7Command =
    ReferenceSystemPower
  | StoreDtrAsThreshold Threshold
  | StoreDtrAsErrorHoldOffTime
  | QueryFeatures
  | QuerySwitchStatus
  | QueryThreshold Threshold
  | QueryErrorHoldOffTime
  | QueryGearType
  | QueryReferenceRunning
  | QueryReferenceMeasurementFailed
  | QueryExtendedVersionNumber

primrec dt7_opcode :: "Dt7Command \<Rightarrow> u8" where
  "dt7_opcode Dt7Command.ReferenceSystemPower = 0xE0"
| "dt7_opcode (StoreDtrAsThreshold t) = 0xE1 + threshold_index t"
| "dt7_opcode StoreDtrAsErrorHoldOffTime = 0xE5"
| "dt7_opcode Dt7Command.QueryFeatures = 0xF0"
| "dt7_opcode QuerySwitchStatus = 0xF1"
| "dt7_opcode (QueryThreshold t) = 0xF2 + threshold_index t"
| "dt7_opcode QueryErrorHoldOffTime = 0xF6"
| "dt7_opcode Dt7Command.QueryGearType = 0xF7"
| "dt7_opcode Dt7Command.QueryReferenceRunning = 0xF9"
| "dt7_opcode Dt7Command.QueryReferenceMeasurementFailed = 0xFA"
| "dt7_opcode Dt7Command.QueryExtendedVersionNumber = 0xFF"

definition dt7_from_opcode :: "u8 \<Rightarrow> Dt7Command option" where
  "dt7_from_opcode opcode =
    (if opcode = 0xE0 then Some Dt7Command.ReferenceSystemPower
     else if 0xE1 \<le> opcode \<and> opcode \<le> 0xE4 then
       map_option StoreDtrAsThreshold (threshold_from_index (opcode - 0xE1))
     else if opcode = 0xE5 then Some StoreDtrAsErrorHoldOffTime
     else if opcode = 0xF0 then Some Dt7Command.QueryFeatures
     else if opcode = 0xF1 then Some QuerySwitchStatus
     else if 0xF2 \<le> opcode \<and> opcode \<le> 0xF5 then
       map_option QueryThreshold (threshold_from_index (opcode - 0xF2))
     else if opcode = 0xF6 then Some QueryErrorHoldOffTime
     else if opcode = 0xF7 then Some Dt7Command.QueryGearType
     else if opcode = 0xF9 then Some Dt7Command.QueryReferenceRunning
     else if opcode = 0xFA then Some Dt7Command.QueryReferenceMeasurementFailed
     else if opcode = 0xFF then Some Dt7Command.QueryExtendedVersionNumber
     else None)"

definition dt7_opcode_requires_repeat :: "u8 \<Rightarrow> bool" where
  "dt7_opcode_requires_repeat opcode \<longleftrightarrow> 0xE0 \<le> opcode \<and> opcode \<le> 0xEF"

definition dt7_metadata :: "Dt7Command \<Rightarrow> CommandMetadata" where
  "dt7_metadata c = \<lparr>md_device_type = Some Switching, md_opcode = dt7_opcode c,
     md_expects_backward = (dt7_opcode c \<ge> dt7_opcode Dt7Command.QueryFeatures),
     md_requires_repeat = dt7_opcode_requires_repeat (dt7_opcode c)\<rparr>"

section \<open>DT8: colour control\<close>

datatype Dt8Command =
    SetTemporaryXCoordinate
  | SetTemporaryYCoordinate
  | Activate
  | XCoordinateStepUp
  | XCoordinateStepDown
  | YCoordinateStepUp
  | YCoordinateStepDown
  | SetTemporaryColourTemperature
  | ColourTemperatureStepCooler
  | ColourTemperatureStepWarmer
  | SetTemporaryPrimaryNDimLevel
  | SetTemporaryRgbDimLevel
  | SetTemporaryWafDimLevel
  | SetTemporaryRgbwafControl
  | CopyReportToTemporary
  | StoreColourTemperatureTcLimit
  | StoreGearFeaturesStatus
  | QueryGearFeaturesStatus
  | QueryColourStatus
  | QueryColourTypeFeatures
  | QueryColourValue
  | QueryRgbwafControl

primrec dt8_opcode :: "Dt8Command \<Rightarrow> u8" where
  "dt8_opcode Dt8Command.SetTemporaryXCoordinate = 0xE0"
| "dt8_opcode Dt8Command.SetTemporaryYCoordinate = 0xE1"
| "dt8_opcode Dt8Command.Activate = 0xE2"
| "dt8_opcode Dt8Command.XCoordinateStepUp = 0xE3"
| "dt8_opcode Dt8Command.XCoordinateStepDown = 0xE4"
| "dt8_opcode Dt8Command.YCoordinateStepUp = 0xE5"
| "dt8_opcode Dt8Command.YCoordinateStepDown = 0xE6"
| "dt8_opcode Dt8Command.SetTemporaryColourTemperature = 0xE7"
| "dt8_opcode Dt8Command.ColourTemperatureStepCooler = 0xE8"
| "dt8_opcode Dt8Command.ColourTemperatureStepWarmer = 0xE9"
| "dt8_opcode Dt8Command.SetTemporaryPrimaryNDimLevel = 0xEA"
| "dt8_opcode Dt8Command.SetTemporaryRgbDimLevel = 0xEB"
| "dt8_opcode Dt8Command.SetTemporaryWafDimLevel = 0xEC"
| "dt8_opcode Dt8Command.SetTemporaryRgbwafControl = 0xED"
| "dt8_opcode Dt8Command.CopyReportToTemporary = 0xEE"
| "dt8_opcode Dt8Command.StoreColourTemperatureTcLimit = 0xF2"
| "dt8_opcode Dt8Command.StoreGearFeaturesStatus = 0xF3"
| "dt8_opcode Dt8Command.QueryGearFeaturesStatus = 0xF7"
| "dt8_opcode Dt8Command.QueryColourStatus = 0xF8"
| "dt8_opcode Dt8Command.QueryColourTypeFeatures = 0xF9"
| "dt8_opcode Dt8Command.QueryColourValue = 0xFA"
| "dt8_opcode Dt8Command.QueryRgbwafControl = 0xFB"

definition dt8_from_opcode :: "u8 \<Rightarrow> Dt8Command option" where
  "dt8_from_opcode opcode =
    (if opcode = 0xE0 then Some Dt8Command.SetTemporaryXCoordinate
     else if opcode = 0xE1 then Some Dt8Command.SetTemporaryYCoordinate
     else if opcode = 0xE2 then Some Dt8Command.Activate
     else if opcode = 0xE3 then Some Dt8Command.XCoordinateStepUp
     else if opcode = 0xE4 then Some Dt8Command.XCoordinateStepDown
     else if opcode = 0xE5 then Some Dt8Command.YCoordinateStepUp
     else if opcode = 0xE6 then Some Dt8Command.YCoordinateStepDown
     else if opcode = 0xE7 then Some Dt8Command.SetTemporaryColourTemperature
     else if opcode = 0xE8 then Some Dt8Command.ColourTemperatureStepCooler
     else if opcode = 0xE9 then Some Dt8Command.ColourTemperatureStepWarmer
     else if opcode = 0xEA then Some Dt8Command.SetTemporaryPrimaryNDimLevel
     else if opcode = 0xEB then Some Dt8Command.SetTemporaryRgbDimLevel
     else if opcode = 0xEC then Some Dt8Command.SetTemporaryWafDimLevel
     else if opcode = 0xED then Some Dt8Command.SetTemporaryRgbwafControl
     else if opcode = 0xEE then Some Dt8Command.CopyReportToTemporary
     else if opcode = 0xF2 then Some Dt8Command.StoreColourTemperatureTcLimit
     else if opcode = 0xF3 then Some Dt8Command.StoreGearFeaturesStatus
     else if opcode = 0xF7 then Some Dt8Command.QueryGearFeaturesStatus
     else if opcode = 0xF8 then Some Dt8Command.QueryColourStatus
     else if opcode = 0xF9 then Some Dt8Command.QueryColourTypeFeatures
     else if opcode = 0xFA then Some Dt8Command.QueryColourValue
     else if opcode = 0xFB then Some Dt8Command.QueryRgbwafControl
     else None)"

definition dt8_is_query :: "Dt8Command \<Rightarrow> bool" where
  "dt8_is_query c \<longleftrightarrow> c \<in> {QueryGearFeaturesStatus, QueryColourStatus, QueryColourTypeFeatures,
     QueryColourValue, QueryRgbwafControl}"

definition dt8_opcode_requires_repeat :: "u8 \<Rightarrow> bool" where
  "dt8_opcode_requires_repeat opcode \<longleftrightarrow> 0xEF \<le> opcode \<and> opcode \<le> 0xF6"

definition dt8_metadata :: "Dt8Command \<Rightarrow> CommandMetadata" where
  "dt8_metadata c = \<lparr>md_device_type = Some Color, md_opcode = dt8_opcode c,
     md_expects_backward = dt8_is_query c,
     md_requires_repeat = dt8_opcode_requires_repeat (dt8_opcode c)\<rparr>"

definition colour_value_is_wide :: "u8 \<Rightarrow> bool" where
  "colour_value_is_wide v \<longleftrightarrow> v \<le> 8 \<or> 64 \<le> v \<and> v \<le> 81 \<or> 128 \<le> v \<and> v \<le> 131
     \<or> 192 \<le> v \<and> v \<le> 200 \<or> 224 \<le> v \<and> v \<le> 232"

definition colour_value_is_defined :: "u8 \<Rightarrow> bool" where
  "colour_value_is_defined v \<longleftrightarrow> colour_value_is_wide v \<or> 9 \<le> v \<and> v \<le> 15 \<or> v = 82
     \<or> 201 \<le> v \<and> v \<le> 208 \<or> 233 \<le> v \<and> v \<le> 240"

datatype ColorType = XyCoordinate | ColorTemperature | PrimaryN | Rgbwaf

definition active_colour_type :: "u8 \<Rightarrow> ColorType option" where
  "active_colour_type status =
     (let t = status AND (0x10 OR 0x20 OR 0x40 OR 0x80) in
      if t = 0x10 then Some XyCoordinate else if t = 0x20 then Some ColorTemperature
      else if t = 0x40 then Some PrimaryN else if t = 0x80 then Some Rgbwaf else None)"

definition gear_features_store_operand :: "bool \<Rightarrow> u8" where
  "gear_features_store_operand automatic_activation = (if automatic_activation then 0x01 else 0x00)"

definition gear_features_automatic_activation :: "u8 \<Rightarrow> bool" where
  "gear_features_automatic_activation features \<longleftrightarrow> features AND 0x01 \<noteq> 0"

definition rgbwaf_control_operand :: u8 where
  "rgbwaf_control_operand = 0x80"

definition rgbwaf_control_drives :: "u8 \<Rightarrow> u8 \<Rightarrow> bool" where
  "rgbwaf_control_drives answer driven \<longleftrightarrow> answer AND driven = 0"

definition rgbwaf_control_is_target :: "u8 \<Rightarrow> u8 \<Rightarrow> bool" where
  "rgbwaf_control_is_target answer driven \<longleftrightarrow> answer AND 0xC0 = 0x80 \<and> answer AND driven = 0"

definition SRGB_TO_DIM_LEVEL :: "u8 list" where
  "SRGB_TO_DIM_LEVEL =
    [0, 1, 1, 1, 1, 1, 1, 1, 1, 1, 1, 1, 1, 1, 1, 1, 1, 1, 2, 2,
     2, 2, 2, 2, 2, 2, 3, 3, 3, 3, 3, 3, 4, 4, 4, 4, 4, 5, 5, 5,
     5, 6, 6, 6, 6, 7, 7, 7, 8, 8, 8, 8, 9, 9, 9, 10, 10, 10, 11, 11,
     11, 12, 12, 13, 13, 13, 14, 14, 15, 15, 16, 16, 16, 17, 17, 18, 18, 19, 19, 20,
     20, 21, 21, 22, 23, 23, 24, 24, 25, 25, 26, 27, 27, 28, 28, 29, 30, 30, 31, 32,
     32, 33, 34, 34, 35, 36, 37, 37, 38, 39, 40, 40, 41, 42, 43, 44, 44, 45, 46, 47,
     48, 49, 49, 50, 51, 52, 53, 54, 55, 56, 57, 58, 59, 60, 61, 62, 63, 64, 65, 66,
     67, 68, 69, 70, 71, 72, 73, 74, 75, 76, 77, 79, 80, 81, 82, 83, 84, 86, 87, 88,
     89, 91, 92, 93, 94, 96, 97, 98, 99, 101, 102, 103, 105, 106, 108, 109, 110, 112, 113, 114,
     116, 117, 119, 120, 122, 123, 125, 126, 128, 129, 131, 132, 134, 135, 137, 139, 140, 142, 143, 145,
     147, 148, 150, 152, 153, 155, 157, 158, 160, 162, 164, 165, 167, 169, 171, 173, 174, 176, 178, 180,
     182, 184, 186, 187, 189, 191, 193, 195, 197, 199, 201, 203, 205, 207, 209, 211, 213, 215, 217, 219,
     221, 223, 226, 228, 230, 232, 234, 236, 238, 241, 243, 245, 247, 249, 252, 254]"

definition DIM_LEVEL_TO_SRGB :: "u8 list" where
  "DIM_LEVEL_TO_SRGB =
    [0, 1, 18, 26, 32, 37, 41, 45, 48, 52, 55, 58, 61, 63, 66, 68, 70, 73, 75, 77,
     79, 81, 83, 84, 86, 88, 90, 91, 93, 95, 96, 98, 99, 101, 102, 104, 105, 106, 108, 109,
     110, 112, 113, 114, 115, 117, 118, 119, 120, 121, 123, 124, 125, 126, 127, 128, 129, 130, 131, 132,
     133, 134, 135, 136, 137, 138, 139, 140, 141, 142, 143, 144, 145, 146, 147, 148, 149, 150, 150, 151,
     152, 153, 154, 155, 156, 156, 157, 158, 159, 160, 160, 161, 162, 163, 164, 164, 165, 166, 167, 168,
     168, 169, 170, 171, 171, 172, 173, 173, 174, 175, 176, 176, 177, 178, 179, 179, 180, 181, 181, 182,
     183, 183, 184, 185, 185, 186, 187, 187, 188, 189, 189, 190, 191, 191, 192, 193, 193, 194, 194, 195,
     196, 196, 197, 198, 198, 199, 199, 200, 201, 201, 202, 202, 203, 204, 204, 205, 205, 206, 207, 207,
     208, 208, 209, 209, 210, 211, 211, 212, 212, 213, 213, 214, 214, 215, 216, 216, 217, 217, 218, 218,
     219, 219, 220, 220, 221, 221, 222, 223, 223, 224, 224, 225, 225, 226, 226, 227, 227, 228, 228, 229,
     229, 230, 230, 231, 231, 232, 232, 233, 233, 234, 234, 235, 235, 236, 236, 237, 237, 238, 238, 239,
     239, 240, 240, 241, 241, 242, 242, 242, 243, 243, 244, 244, 245, 245, 246, 246, 247, 247, 248, 248,
     249, 249, 249, 250, 250, 251, 251, 252, 252, 253, 253, 254, 254, 254, 255, 255]"

definition srgb_channel_to_dim_level :: "u8 \<Rightarrow> u8" where
  "srgb_channel_to_dim_level srgb = SRGB_TO_DIM_LEVEL ! unat srgb"

definition dim_level_to_srgb_channel :: "u8 \<Rightarrow> u8" where
  "dim_level_to_srgb_channel dim = DIM_LEVEL_TO_SRGB ! unat dim"

section \<open>Opcodes of each device type\<close>

lemma dt6_opcode_round_trip: "dt6_from_opcode opcode = Some c \<longleftrightarrow> dt6_opcode c = opcode"
  by (cases c) (auto simp: dt6_from_opcode_def split: if_splits)

lemma dt8_opcode_round_trip: "dt8_from_opcode opcode = Some c \<longleftrightarrow> dt8_opcode c = opcode"
  by (cases c) (auto simp: dt8_from_opcode_def split: if_splits)

end
