(* ===== verification/Commands.thy ===== *)
theory Commands
  imports Device_Commands
begin

text \<open>
  The command set (\<open>dali2rust-domain/src/dali/pres\<close>): standard, special
  and application-extended commands, their encodings and frames, the classification of
  opcodes, and the responses.
\<close>

section \<open>Standard commands\<close>

datatype CommandEncoding =
    DirectArc u8
  | Simple u8
  | Scene u8 u8
  | Query u8
  | QueryWithParam u8 u8
  | Config u8
  | ConfigWithParam u8 u8

datatype (plugins only: code size) StandardCommand =
    DirectArcPower u8
  | Off
  | Up
  | Down
  | StepUp
  | StepDown
  | RecallMaxLevel
  | RecallMinLevel
  | StepDownAndOff
  | OnAndStepUp
  | EnableDapcSequence
  | GoToLastActiveLevel
  | GoToScene u8
  | Reset
  | StoreActualLevelInDtr0
  | SavePersistentVariables
  | SetOperatingMode
  | ResetMemoryBank
  | IdentifyDevice
  | SetMaxLevel
  | SetMinLevel
  | SetSystemFailureLevel
  | SetPowerOnLevel
  | SetFadeTime
  | SetFadeRate
  | SetExtendedFadeTime
  | SetScene u8
  | RemoveScene u8
  | AddToGroup u8
  | RemoveFromGroup u8
  | SetShortAddress
  | EnableWriteMemory
  | QueryStatus
  | QueryControlGearPresent
  | QueryLampFailure
  | QueryLampPowerOn
  | QueryLimitError
  | QueryResetState
  | QueryMissingShortAddress
  | QueryVersionNumber
  | QueryContentDtr0
  | QueryDeviceType
  | QueryPhysicalMinimum
  | QueryPowerFailure
  | QueryContentDtr1
  | QueryContentDtr2
  | QueryOperatingMode
  | QueryLightSourceType
  | QueryActualLevel
  | QueryMaxLevel
  | QueryMinLevel
  | QueryPowerOnLevel
  | QuerySystemFailureLevel
  | QueryFadeTimeFadeRate
  | QueryManufacturerSpecificMode
  | QueryControlGearFailure
  | QueryExtendedFadeTime
  | QueryNextDeviceType
  | QuerySceneLevel u8
  | QueryGroups0To7
  | QueryGroups8To15
  | QueryRandomAddressH
  | QueryRandomAddressM
  | QueryRandomAddressL

definition encoding_arc_power :: "StandardCommand \<Rightarrow> CommandEncoding option" where
  "encoding_arc_power cmd = (case cmd of
      StandardCommand.DirectArcPower p \<Rightarrow> Some (DirectArc p)
    | StandardCommand.Off \<Rightarrow> Some (Simple 0x00)
    | StandardCommand.Up \<Rightarrow> Some (Simple 0x01)
    | StandardCommand.Down \<Rightarrow> Some (Simple 0x02)
    | StandardCommand.StepUp \<Rightarrow> Some (Simple 0x03)
    | StandardCommand.StepDown \<Rightarrow> Some (Simple 0x04)
    | StandardCommand.RecallMaxLevel \<Rightarrow> Some (Simple 0x05)
    | StandardCommand.RecallMinLevel \<Rightarrow> Some (Simple 0x06)
    | StandardCommand.StepDownAndOff \<Rightarrow> Some (Simple 0x07)
    | StandardCommand.OnAndStepUp \<Rightarrow> Some (Simple 0x08)
    | StandardCommand.EnableDapcSequence \<Rightarrow> Some (Simple 0x09)
    | StandardCommand.GoToLastActiveLevel \<Rightarrow> Some (Simple 0x0A)
    | StandardCommand.GoToScene p \<Rightarrow> Some (Scene 0x10 p)
    | _ \<Rightarrow> None)"

definition encoding_config :: "StandardCommand \<Rightarrow> CommandEncoding option" where
  "encoding_config cmd = (case cmd of
      StandardCommand.Reset \<Rightarrow> Some (Config 0x20)
    | StandardCommand.StoreActualLevelInDtr0 \<Rightarrow> Some (Config 0x21)
    | StandardCommand.SavePersistentVariables \<Rightarrow> Some (Config 0x22)
    | StandardCommand.SetOperatingMode \<Rightarrow> Some (Config 0x23)
    | StandardCommand.ResetMemoryBank \<Rightarrow> Some (Config 0x24)
    | StandardCommand.IdentifyDevice \<Rightarrow> Some (Config 0x25)
    | StandardCommand.SetMaxLevel \<Rightarrow> Some (Config 0x2A)
    | StandardCommand.SetMinLevel \<Rightarrow> Some (Config 0x2B)
    | StandardCommand.SetSystemFailureLevel \<Rightarrow> Some (Config 0x2C)
    | StandardCommand.SetPowerOnLevel \<Rightarrow> Some (Config 0x2D)
    | StandardCommand.SetFadeTime \<Rightarrow> Some (Config 0x2E)
    | StandardCommand.SetFadeRate \<Rightarrow> Some (Config 0x2F)
    | StandardCommand.SetExtendedFadeTime \<Rightarrow> Some (Config 0x30)
    | StandardCommand.SetScene p \<Rightarrow> Some (ConfigWithParam 0x40 p)
    | StandardCommand.RemoveScene p \<Rightarrow> Some (ConfigWithParam 0x50 p)
    | StandardCommand.AddToGroup p \<Rightarrow> Some (ConfigWithParam 0x60 p)
    | StandardCommand.RemoveFromGroup p \<Rightarrow> Some (ConfigWithParam 0x70 p)
    | StandardCommand.SetShortAddress \<Rightarrow> Some (Config 0x80)
    | StandardCommand.EnableWriteMemory \<Rightarrow> Some (Config 0x81)
    | _ \<Rightarrow> None)"

definition encoding_query :: "StandardCommand \<Rightarrow> CommandEncoding option" where
  "encoding_query cmd = (case cmd of
      StandardCommand.QueryStatus \<Rightarrow> Some (Query 0x90)
    | StandardCommand.QueryControlGearPresent \<Rightarrow> Some (Query 0x91)
    | StandardCommand.QueryLampFailure \<Rightarrow> Some (Query 0x92)
    | StandardCommand.QueryLampPowerOn \<Rightarrow> Some (Query 0x93)
    | StandardCommand.QueryLimitError \<Rightarrow> Some (Query 0x94)
    | StandardCommand.QueryResetState \<Rightarrow> Some (Query 0x95)
    | StandardCommand.QueryMissingShortAddress \<Rightarrow> Some (Query 0x96)
    | StandardCommand.QueryVersionNumber \<Rightarrow> Some (Query 0x97)
    | StandardCommand.QueryContentDtr0 \<Rightarrow> Some (Query 0x98)
    | StandardCommand.QueryDeviceType \<Rightarrow> Some (Query 0x99)
    | StandardCommand.QueryPhysicalMinimum \<Rightarrow> Some (Query 0x9A)
    | StandardCommand.QueryPowerFailure \<Rightarrow> Some (Query 0x9B)
    | StandardCommand.QueryContentDtr1 \<Rightarrow> Some (Query 0x9C)
    | StandardCommand.QueryContentDtr2 \<Rightarrow> Some (Query 0x9D)
    | StandardCommand.QueryOperatingMode \<Rightarrow> Some (Query 0x9E)
    | StandardCommand.QueryLightSourceType \<Rightarrow> Some (Query 0x9F)
    | StandardCommand.QueryActualLevel \<Rightarrow> Some (Query 0xA0)
    | StandardCommand.QueryMaxLevel \<Rightarrow> Some (Query 0xA1)
    | StandardCommand.QueryMinLevel \<Rightarrow> Some (Query 0xA2)
    | StandardCommand.QueryPowerOnLevel \<Rightarrow> Some (Query 0xA3)
    | StandardCommand.QuerySystemFailureLevel \<Rightarrow> Some (Query 0xA4)
    | StandardCommand.QueryFadeTimeFadeRate \<Rightarrow> Some (Query 0xA5)
    | StandardCommand.QueryManufacturerSpecificMode \<Rightarrow> Some (Query 0xA6)
    | StandardCommand.QueryControlGearFailure \<Rightarrow> Some (Query 0xAA)
    | StandardCommand.QueryExtendedFadeTime \<Rightarrow> Some (Query 0xA8)
    | StandardCommand.QueryNextDeviceType \<Rightarrow> Some (Query 0xA7)
    | StandardCommand.QuerySceneLevel p \<Rightarrow> Some (QueryWithParam 0xB0 p)
    | StandardCommand.QueryGroups0To7 \<Rightarrow> Some (Query 0xC0)
    | StandardCommand.QueryGroups8To15 \<Rightarrow> Some (Query 0xC1)
    | StandardCommand.QueryRandomAddressH \<Rightarrow> Some (Query 0xC2)
    | StandardCommand.QueryRandomAddressM \<Rightarrow> Some (Query 0xC3)
    | StandardCommand.QueryRandomAddressL \<Rightarrow> Some (Query 0xC4)
    | _ \<Rightarrow> None)"

text \<open>The source ends in \<open>unreachable!\<close>: \<open>encoding_covers\<close> below shows that no command reaches it.\<close>

definition encoding :: "StandardCommand \<Rightarrow> CommandEncoding" where
  "encoding cmd = (case encoding_arc_power cmd of Some e \<Rightarrow> e | None \<Rightarrow>
     (case encoding_config cmd of Some e \<Rightarrow> e | None \<Rightarrow>
       (case encoding_query cmd of Some e \<Rightarrow> e | None \<Rightarrow> Simple 0)))"

definition standard_is_query :: "StandardCommand \<Rightarrow> bool" where
  "standard_is_query cmd = (case encoding cmd of Query _ \<Rightarrow> True | QueryWithParam _ _ \<Rightarrow> True | _ \<Rightarrow> False)"

definition standard_forward_frame :: "StandardCommand \<Rightarrow> DaliAddress \<Rightarrow> ForwardFrame" where
  "standard_forward_frame cmd address = (let addr = encode_address_byte address in
     case encoding cmd of
       DirectArc level \<Rightarrow> forward_new addr level
     | Simple opcode \<Rightarrow> forward_new (addr OR 0x01) opcode
     | Scene base scene \<Rightarrow> forward_new (addr OR 0x01) (base OR (scene AND 0x0F))
     | Query opcode \<Rightarrow> forward_new (addr OR 0x01) opcode
     | QueryWithParam base param \<Rightarrow> forward_new (addr OR 0x01) (base OR (param AND 0x0F))
     | Config opcode \<Rightarrow> forward_new (addr OR 0x01) opcode
     | ConfigWithParam base param \<Rightarrow> forward_new (addr OR 0x01) (base OR (param AND 0x0F)))"

definition standard_requires_repeat :: "StandardCommand \<Rightarrow> bool" where
  "standard_requires_repeat cmd =
     (case encoding cmd of Config _ \<Rightarrow> True | ConfigWithParam _ _ \<Rightarrow> True | _ \<Rightarrow> False)"

section \<open>Special commands\<close>

datatype SpecialCommand =
    Terminate
  | Dtr0 u8
  | Initialise u8
  | Randomise
  | Compare
  | Withdraw
  | Ping
  | SearchAddrH u8
  | SearchAddrM u8
  | SearchAddrL u8
  | ProgramShortAddress u8
  | VerifyShortAddress u8
  | QueryShortAddress
  | PhysicalSelection
  | EnableDeviceType u8
  | Dtr1 u8
  | Dtr2 u8
  | WriteMemoryLocation u8
  | WriteMemoryLocationNoReply u8

primrec wire_bytes :: "SpecialCommand \<Rightarrow> u8 \<times> u8" where
  "wire_bytes Terminate = (0xA1, 0x00)"
| "wire_bytes (Dtr0 data) = (0xA3, data)"
| "wire_bytes (Initialise data) = (0xA5, data)"
| "wire_bytes Randomise = (0xA7, 0x00)"
| "wire_bytes Compare = (0xA9, 0x00)"
| "wire_bytes Withdraw = (0xAB, 0x00)"
| "wire_bytes Ping = (0xAD, 0x00)"
| "wire_bytes (SearchAddrH data) = (0xB1, data)"
| "wire_bytes (SearchAddrM data) = (0xB3, data)"
| "wire_bytes (SearchAddrL data) = (0xB5, data)"
| "wire_bytes (ProgramShortAddress addr) = (0xB7, addr)"
| "wire_bytes (VerifyShortAddress addr) = (0xB9, addr)"
| "wire_bytes QueryShortAddress = (0xBB, 0x00)"
| "wire_bytes PhysicalSelection = (0xBD, 0x00)"
| "wire_bytes (EnableDeviceType dt) = (0xC1, dt)"
| "wire_bytes (Dtr1 data) = (0xC3, data)"
| "wire_bytes (Dtr2 data) = (0xC5, data)"
| "wire_bytes (WriteMemoryLocation data) = (0xC7, data)"
| "wire_bytes (WriteMemoryLocationNoReply data) = (0xC9, data)"

definition special_forward_frame :: "SpecialCommand \<Rightarrow> ForwardFrame" where
  "special_forward_frame cmd = (case wire_bytes cmd of (addr, c) \<Rightarrow> forward_new addr c)"

definition special_expects_backward :: "SpecialCommand \<Rightarrow> bool" where
  "special_expects_backward cmd = (case cmd of Compare \<Rightarrow> True | VerifyShortAddress _ \<Rightarrow> True
     | QueryShortAddress \<Rightarrow> True | WriteMemoryLocation _ \<Rightarrow> True | _ \<Rightarrow> False)"

definition special_requires_repeat :: "SpecialCommand \<Rightarrow> bool" where
  "special_requires_repeat cmd = (case cmd of Initialise _ \<Rightarrow> True | Randomise \<Rightarrow> True | _ \<Rightarrow> False)"

datatype QueryShortAddressAnswer = Address u8 | Unaddressed | Multiple | NoShortAddress

definition query_short_address_decode :: "u8 option \<Rightarrow> bool \<Rightarrow> QueryShortAddressAnswer" where
  "query_short_address_decode byte violation =
     (if violation then Multiple else
      case byte of
        None \<Rightarrow> NoShortAddress
      | Some b \<Rightarrow> if b = 0xFF then Unaddressed
                  else if b AND 0x01 \<noteq> 0 then Address (drop_bit 1 b AND 0x3F)
                  else NoShortAddress)"

section \<open>Extended commands\<close>

datatype ExtendedCommand =
    Dt6 Dt6Command
  | Dt7 Dt7Command
  | Dt8 Dt8Command
  | ExtendedVersion (extended_version_type: u8)

definition extended_from_opcode :: "u8 \<Rightarrow> ExtendedCommand option" where
  "extended_from_opcode opcode =
     (case dt6_from_opcode opcode of Some c \<Rightarrow> Some (Dt6 c)
      | None \<Rightarrow> map_option Dt8 (dt8_from_opcode opcode))"

primrec extended_forward_frame :: "ExtendedCommand \<Rightarrow> DaliAddress \<Rightarrow> ForwardFrame" where
  "extended_forward_frame (Dt6 c) a = metadata_forward_frame (dt6_metadata c) a"
| "extended_forward_frame (Dt7 c) a = metadata_forward_frame (dt7_metadata c) a"
| "extended_forward_frame (Dt8 c) a = metadata_forward_frame (dt8_metadata c) a"
| "extended_forward_frame (ExtendedVersion _) a = forward_new (encode_address_byte a OR 0x01) 0xFF"

primrec extended_is_query :: "ExtendedCommand \<Rightarrow> bool" where
  "extended_is_query (Dt6 c) = md_expects_backward (dt6_metadata c)"
| "extended_is_query (Dt7 c) = md_expects_backward (dt7_metadata c)"
| "extended_is_query (Dt8 c) = md_expects_backward (dt8_metadata c)"
| "extended_is_query (ExtendedVersion _) = True"

primrec extended_requires_repeat :: "ExtendedCommand \<Rightarrow> bool" where
  "extended_requires_repeat (Dt6 c) = md_requires_repeat (dt6_metadata c)"
| "extended_requires_repeat (Dt7 c) = md_requires_repeat (dt7_metadata c)"
| "extended_requires_repeat (Dt8 c) = md_requires_repeat (dt8_metadata c)"
| "extended_requires_repeat (ExtendedVersion _) = False"

definition unwrap_device_type :: "DeviceType option \<Rightarrow> DeviceType" where
  "unwrap_device_type d = (case d of Some t \<Rightarrow> t | None \<Rightarrow> Led)"

primrec enable_device_type :: "ExtendedCommand \<Rightarrow> u8" where
  "enable_device_type (Dt6 c) = code (unwrap_device_type (md_device_type (dt6_metadata c)))"
| "enable_device_type (Dt7 c) = code (unwrap_device_type (md_device_type (dt7_metadata c)))"
| "enable_device_type (Dt8 c) = code (unwrap_device_type (md_device_type (dt8_metadata c)))"
| "enable_device_type (ExtendedVersion t) = t"

section \<open>Commands and responses\<close>

datatype DaliCommand =
    Standard DaliAddress StandardCommand
  | Extended DaliAddress ExtendedCommand
  | Special SpecialCommand

datatype DecodeError = DecodeError

primrec command_address :: "DaliCommand \<Rightarrow> DaliAddress option" where
  "command_address (Standard a _) = Some a"
| "command_address (Extended a _) = Some a"
| "command_address (Special _) = None"

primrec to_forward_frame :: "DaliCommand \<Rightarrow> ForwardFrame" where
  "to_forward_frame (Standard a c) = standard_forward_frame c a"
| "to_forward_frame (Extended a c) = extended_forward_frame c a"
| "to_forward_frame (Special c) = special_forward_frame c"

primrec is_query :: "DaliCommand \<Rightarrow> bool" where
  "is_query (Standard _ c) = standard_is_query c"
| "is_query (Extended _ c) = extended_is_query c"
| "is_query (Special c) = special_expects_backward c"

primrec requires_repeat :: "DaliCommand \<Rightarrow> bool" where
  "requires_repeat (Standard _ c) = standard_requires_repeat c"
| "requires_repeat (Extended _ c) = extended_requires_repeat c"
| "requires_repeat (Special c) = special_requires_repeat c"

datatype DaliResponse = Answer u8 | NoAnswer | Violation

definition from_backward :: "BackwardFrame option \<Rightarrow> DaliResponse" where
  "from_backward f = (case f of Some b \<Rightarrow> Answer (backward_raw b) | None \<Rightarrow> NoAnswer)"

primrec response_value :: "DaliResponse \<Rightarrow> u8 option" where
  "response_value (Answer v) = Some v"
| "response_value NoAnswer = None"
| "response_value Violation = None"

primrec is_yes :: "DaliResponse \<Rightarrow> bool" where
  "is_yes (Answer _) = True"
| "is_yes Violation = True"
| "is_yes NoAnswer = False"

section \<open>Opcode classes\<close>

definition QUERY_OPCODES :: "u8 list" where
  "QUERY_OPCODES = [0x90, 0x91, 0x92, 0x93, 0x94, 0x95, 0x96, 0x97, 0x98, 0x99, 0x9A, 0x9B,
     0x9C, 0x9D, 0x9E, 0x9F, 0xA0, 0xA1, 0xA2, 0xA3, 0xA4, 0xA5, 0xA6, 0xA7,
     0xA8, 0xAA, 0xC2, 0xC3, 0xC4]"

definition is_query_opcode :: "u8 \<Rightarrow> bool" where
  "is_query_opcode opcode \<longleftrightarrow>
     (0xB0 \<le> opcode \<and> opcode \<le> 0xBF) \<or> opcode = 0xC0 \<or> opcode = 0xC1 \<or> opcode \<in> set QUERY_OPCODES"

definition is_config_opcode_range :: "u8 \<Rightarrow> bool" where
  "is_config_opcode_range opcode \<longleftrightarrow> 0x80 \<le> opcode \<and> opcode \<le> 0x8F"

section \<open>Encodings are total and disjoint\<close>

lemmas encoding_defs = encoding_def encoding_arc_power_def encoding_config_def encoding_query_def

lemma encoding_covers:
  "encoding_arc_power cmd = None \<Longrightarrow> encoding_config cmd = None \<Longrightarrow> encoding_query cmd \<noteq> None"
  by (cases cmd) (simp_all add: encoding_defs)

lemma query_not_repeated: "standard_is_query cmd \<Longrightarrow> \<not> standard_requires_repeat cmd"
  by (auto simp: standard_is_query_def standard_requires_repeat_def split: CommandEncoding.splits)

end
