(* ===== verification/Wire_Codec.thy ===== *)
theory Wire_Codec
  imports Commands
begin

text \<open>
  The wire decoder (\<open>dali2rust-domain/src/dali/pres/codec.rs\<close>) and its
  relation to the encoders: decoding is exactly the inverse of encoding on the commands
  that have a canonical frame.
\<close>

section \<open>Decoder\<close>

definition try_decode_special :: "u8 \<Rightarrow> u8 \<Rightarrow> SpecialCommand option" where
  "try_decode_special wire_address command =
    (if wire_address = 0xA1 \<and> command = 0x00 then Some Terminate
     else if wire_address = 0xA3 then Some (Dtr0 command)
     else if wire_address = 0xA5 then Some (Initialise command)
     else if wire_address = 0xA7 \<and> command = 0x00 then Some Randomise
     else if wire_address = 0xA9 \<and> command = 0x00 then Some Compare
     else if wire_address = 0xAB \<and> command = 0x00 then Some Withdraw
     else if wire_address = 0xAD \<and> command = 0x00 then Some Ping
     else if wire_address = 0xB1 then Some (SearchAddrH command)
     else if wire_address = 0xB3 then Some (SearchAddrM command)
     else if wire_address = 0xB5 then Some (SearchAddrL command)
     else if wire_address = 0xB7 then Some (ProgramShortAddress command)
     else if wire_address = 0xB9 then Some (VerifyShortAddress command)
     else if wire_address = 0xBB \<and> command = 0x00 then Some QueryShortAddress
     else if wire_address = 0xBD \<and> command = 0x00 then Some PhysicalSelection
     else if wire_address = 0xC1 then Some (EnableDeviceType command)
     else if wire_address = 0xC3 then Some (Dtr1 command)
     else if wire_address = 0xC5 then Some (Dtr2 command)
     else if wire_address = 0xC7 then Some (WriteMemoryLocation command)
     else if wire_address = 0xC9 then Some (WriteMemoryLocationNoReply command)
     else None)"

definition decode_arc_power_control :: "u8 \<Rightarrow> StandardCommand option" where
  "decode_arc_power_control command =
    (if command = 0x00 then Some StandardCommand.Off
     else if command = 0x01 then Some StandardCommand.Up
     else if command = 0x02 then Some StandardCommand.Down
     else if command = 0x03 then Some StandardCommand.StepUp
     else if command = 0x04 then Some StandardCommand.StepDown
     else if command = 0x05 then Some StandardCommand.RecallMaxLevel
     else if command = 0x06 then Some StandardCommand.RecallMinLevel
     else if command = 0x07 then Some StandardCommand.StepDownAndOff
     else if command = 0x08 then Some StandardCommand.OnAndStepUp
     else if command = 0x09 then Some StandardCommand.EnableDapcSequence
     else if command = 0x0A then Some StandardCommand.GoToLastActiveLevel
     else None)"

definition decode_scene_and_group_command :: "u8 \<Rightarrow> StandardCommand option" where
  "decode_scene_and_group_command command =
    (if 0x10 \<le> command \<and> command \<le> 0x1F then Some (GoToScene (command AND 0x0F))
     else if 0x40 \<le> command \<and> command \<le> 0x4F then Some (SetScene (command AND 0x0F))
     else if 0x50 \<le> command \<and> command \<le> 0x5F then Some (RemoveScene (command AND 0x0F))
     else if 0x60 \<le> command \<and> command \<le> 0x6F then Some (AddToGroup (command AND 0x0F))
     else if 0x70 \<le> command \<and> command \<le> 0x7F then Some (RemoveFromGroup (command AND 0x0F))
     else None)"

definition decode_configuration_command :: "u8 \<Rightarrow> StandardCommand option" where
  "decode_configuration_command command =
    (if command = 0x20 then Some StandardCommand.Reset
     else if command = 0x21 then Some StandardCommand.StoreActualLevelInDtr0
     else if command = 0x22 then Some StandardCommand.SavePersistentVariables
     else if command = 0x23 then Some StandardCommand.SetOperatingMode
     else if command = 0x24 then Some StandardCommand.ResetMemoryBank
     else if command = 0x25 then Some StandardCommand.IdentifyDevice
     else if command = 0x2A then Some StandardCommand.SetMaxLevel
     else if command = 0x2B then Some StandardCommand.SetMinLevel
     else if command = 0x2C then Some StandardCommand.SetSystemFailureLevel
     else if command = 0x2D then Some StandardCommand.SetPowerOnLevel
     else if command = 0x2E then Some StandardCommand.SetFadeTime
     else if command = 0x2F then Some StandardCommand.SetFadeRate
     else if command = 0x30 then Some StandardCommand.SetExtendedFadeTime
     else if command = 0x81 then Some StandardCommand.EnableWriteMemory
     else if command = 0x80 then Some StandardCommand.SetShortAddress
     else None)"

definition decode_query_command :: "u8 \<Rightarrow> StandardCommand option" where
  "decode_query_command command =
    (if command = 0x90 then Some StandardCommand.QueryStatus
     else if command = 0x91 then Some StandardCommand.QueryControlGearPresent
     else if command = 0x92 then Some StandardCommand.QueryLampFailure
     else if command = 0x93 then Some StandardCommand.QueryLampPowerOn
     else if command = 0x94 then Some StandardCommand.QueryLimitError
     else if command = 0x95 then Some StandardCommand.QueryResetState
     else if command = 0x96 then Some StandardCommand.QueryMissingShortAddress
     else if command = 0x97 then Some StandardCommand.QueryVersionNumber
     else if command = 0x98 then Some StandardCommand.QueryContentDtr0
     else if command = 0x99 then Some StandardCommand.QueryDeviceType
     else if command = 0x9A then Some StandardCommand.QueryPhysicalMinimum
     else if command = 0x9B then Some StandardCommand.QueryPowerFailure
     else if command = 0x9C then Some StandardCommand.QueryContentDtr1
     else if command = 0x9D then Some StandardCommand.QueryContentDtr2
     else if command = 0x9E then Some StandardCommand.QueryOperatingMode
     else if command = 0x9F then Some StandardCommand.QueryLightSourceType
     else if command = 0xA0 then Some StandardCommand.QueryActualLevel
     else if command = 0xA1 then Some StandardCommand.QueryMaxLevel
     else if command = 0xA2 then Some StandardCommand.QueryMinLevel
     else if command = 0xA3 then Some StandardCommand.QueryPowerOnLevel
     else if command = 0xA4 then Some StandardCommand.QuerySystemFailureLevel
     else if command = 0xA5 then Some StandardCommand.QueryFadeTimeFadeRate
     else if command = 0xA6 then Some StandardCommand.QueryManufacturerSpecificMode
     else if command = 0xA7 then Some StandardCommand.QueryNextDeviceType
     else if command = 0xAA then Some StandardCommand.QueryControlGearFailure
     else if command = 0xA8 then Some StandardCommand.QueryExtendedFadeTime
     else if 0xB0 \<le> command \<and> command \<le> 0xBF then Some (QuerySceneLevel (command AND 0x0F))
     else if command = 0xC0 then Some StandardCommand.QueryGroups0To7
     else if command = 0xC1 then Some StandardCommand.QueryGroups8To15
     else if command = 0xC2 then Some StandardCommand.QueryRandomAddressH
     else if command = 0xC3 then Some StandardCommand.QueryRandomAddressM
     else if command = 0xC4 then Some StandardCommand.QueryRandomAddressL
     else None)"

definition decode_standard_command :: "u8 \<Rightarrow> DecodeError + StandardCommand" where
  "decode_standard_command command =
     (case decode_arc_power_control command of Some cmd \<Rightarrow> Ok cmd | None \<Rightarrow>
     (case decode_scene_and_group_command command of Some cmd \<Rightarrow> Ok cmd | None \<Rightarrow>
     (case decode_configuration_command command of Some cmd \<Rightarrow> Ok cmd | None \<Rightarrow>
     (case decode_query_command command of Some cmd \<Rightarrow> Ok cmd | None \<Rightarrow> Err DecodeError))))"

definition try_decode_extended :: "u8 \<Rightarrow> ExtendedCommand option" where
  "try_decode_extended opcode = extended_from_opcode opcode"

definition dali_command_from_wire :: "u8 \<Rightarrow> u8 \<Rightarrow> u8 \<Rightarrow> DecodeError + DaliCommand" where
  "dali_command_from_wire wire_address command repeat_count =
     (case try_decode_special wire_address command of Some special \<Rightarrow> Ok (Special special) | None \<Rightarrow>
     (case decode_wire_address wire_address of Inl _ \<Rightarrow> Err DecodeError | Inr address \<Rightarrow>
       if wire_address AND 0x01 = 0 then Ok (Standard address (DirectArcPower command))
       else (case try_decode_extended command of Some e \<Rightarrow> Ok (Extended address e) | None \<Rightarrow>
         (case decode_standard_command command of Inl e \<Rightarrow> Err e
          | Inr standard \<Rightarrow> Ok (Standard address standard)))))"

text \<open>
  The commands with a canonical frame: addresses and four-bit parameters in range, and
  for extended opcodes the reading the decoder prefers (DT6 before DT8).
\<close>

definition param_ok :: "StandardCommand \<Rightarrow> bool" where
  "param_ok cmd = (case cmd of GoToScene p \<Rightarrow> p \<le> 15 | SetScene p \<Rightarrow> p \<le> 15 | RemoveScene p \<Rightarrow> p \<le> 15
     | AddToGroup p \<Rightarrow> p \<le> 15 | RemoveFromGroup p \<Rightarrow> p \<le> 15 | QuerySceneLevel p \<Rightarrow> p \<le> 15 | _ \<Rightarrow> True)"

primrec extended_opcode :: "ExtendedCommand \<Rightarrow> u8" where
  "extended_opcode (Dt6 c) = dt6_opcode c"
| "extended_opcode (Dt7 c) = dt7_opcode c"
| "extended_opcode (Dt8 c) = dt8_opcode c"
| "extended_opcode (ExtendedVersion _) = 0xFF"

primrec canonical :: "DaliCommand \<Rightarrow> bool" where
  "canonical (Standard a c) = (address_ok a \<and> param_ok c)"
| "canonical (Extended a c) = (address_ok a \<and> extended_from_opcode (extended_opcode c) = Some c)"
| "canonical (Special _) = True"

section \<open>Decoding is the inverse of encoding\<close>

lemma try_decode_special_sound: "try_decode_special w c = Some s \<Longrightarrow> wire_bytes s = (w, c)"
  by (auto simp: try_decode_special_def split: if_split_asm)

lemma try_decode_special_complete: "wire_bytes s = (w, c) \<Longrightarrow> try_decode_special w c = Some s"
  by (cases s) (simp_all add: try_decode_special_def)

lemma try_decode_special_iff: "try_decode_special w c = Some s \<longleftrightarrow> wire_bytes s = (w, c)"
  using try_decode_special_sound try_decode_special_complete by blast

lemma special_not_addressed:
  "try_decode_special w c = Some s \<Longrightarrow> decode_wire_address w = Err (OutOfRange 0 w)"
  unfolding try_decode_special_iff by (cases s) (auto simp: decode_wire_address_def)

text \<open>The byte an opcode-addressed standard command carries.\<close>

definition standard_opcode :: "StandardCommand \<Rightarrow> u8" where
  "standard_opcode cmd = command_byte (standard_forward_frame cmd Broadcast)"

lemma standard_frame_opcode:
  "(\<forall>l. cmd \<noteq> DirectArcPower l) \<Longrightarrow>
   standard_forward_frame cmd a = forward_new (encode_address_byte a OR 1) (standard_opcode cmd)"
  by (cases cmd) (simp_all add: standard_opcode_def standard_forward_frame_def encoding_defs)

lemma standard_frame_dapc [simp]:
  "standard_forward_frame (DirectArcPower l) a = forward_new (encode_address_byte a) l"
  by (simp add: standard_forward_frame_def encoding_defs)

lemmas decode_standard_defs = decode_standard_command_def decode_arc_power_control_def
  decode_scene_and_group_command_def decode_configuration_command_def decode_query_command_def

lemma octet_split: "push_bit 4 (drop_bit 4 c) OR (c AND 0x0F) = (c :: u8)"
proof -
  have m: "(0x0F :: u8) = mask 4"
    by (simp add: mask_eq_exp_minus_1)
  show ?thesis
    unfolding m by (rule bit_word_eqI) (auto simp: bit_simps)
qed

lemma octet_block:
  assumes "16 * k \<le> unat c" "unat c \<le> 16 * k + 15"
  shows "push_bit 4 (word_of_nat k) OR (c AND 0x0F) = (c :: u8)"
proof -
  have "unat c div 16 = k"
    using assms by simp
  then have "unat (drop_bit 4 c) = k"
    unfolding unat_drop_bit_eq by (simp add: drop_bit_eq_div)
  then have "drop_bit 4 c = word_of_nat k"
    by auto
  then show ?thesis
    using octet_split [of c] by simp
qed

lemma opcode_blocks:
  "0x10 \<le> c \<Longrightarrow> c \<le> 0x1F \<Longrightarrow> 0x10 OR (c AND 0x0F) = (c :: u8)"
  "0x40 \<le> c \<Longrightarrow> c \<le> 0x4F \<Longrightarrow> 0x40 OR (c AND 0x0F) = c"
  "0x50 \<le> c \<Longrightarrow> c \<le> 0x5F \<Longrightarrow> 0x50 OR (c AND 0x0F) = c"
  "0x60 \<le> c \<Longrightarrow> c \<le> 0x6F \<Longrightarrow> 0x60 OR (c AND 0x0F) = c"
  "0x70 \<le> c \<Longrightarrow> c \<le> 0x7F \<Longrightarrow> 0x70 OR (c AND 0x0F) = c"
  "0xB0 \<le> c \<Longrightarrow> c \<le> 0xBF \<Longrightarrow> 0xB0 OR (c AND 0x0F) = c"
  using octet_block [of 1 c] octet_block [of 4 c] octet_block [of 5 c] octet_block [of 6 c]
    octet_block [of 7 c] octet_block [of 11 c]
  by (simp_all add: word_le_nat_alt)

lemma low_nibble_le: "c AND 0x0F \<le> (15 :: u8)"
  by (rule word_and_le1)

text \<open>What each decoding table guarantees of the command it yields.\<close>

definition carries :: "StandardCommand \<Rightarrow> u8 \<Rightarrow> bool" where
  "carries cmd c \<longleftrightarrow> param_ok cmd \<and> standard_opcode cmd = c \<and> (\<forall>l. cmd \<noteq> DirectArcPower l)"

lemmas carries_defs = carries_def param_ok_def standard_opcode_def standard_forward_frame_def encoding_defs

lemma decode_arc_power_sound: "decode_arc_power_control c = Some cmd \<Longrightarrow> carries cmd c"
  by (auto simp: decode_arc_power_control_def carries_defs split: if_split_asm)

lemma decode_scene_and_group_sound: "decode_scene_and_group_command c = Some cmd \<Longrightarrow> carries cmd c"
  by (auto simp: decode_scene_and_group_command_def carries_defs opcode_blocks low_nibble_le
      split: if_split_asm)

lemma decode_configuration_sound: "decode_configuration_command c = Some cmd \<Longrightarrow> carries cmd c"
  by (auto simp: decode_configuration_command_def carries_defs split: if_split_asm)

lemma decode_query_sound: "decode_query_command c = Some cmd \<Longrightarrow> carries cmd c"
  by (auto simp: decode_query_command_def carries_defs opcode_blocks low_nibble_le split: if_split_asm)

lemma decode_standard_sound:
  assumes "decode_standard_command c = Ok cmd"
  shows "carries cmd c"
  using assms
    decode_arc_power_sound decode_scene_and_group_sound decode_configuration_sound decode_query_sound
  by (auto simp: decode_standard_command_def split: option.splits)

lemma decode_standard_complete:
  assumes "param_ok cmd" "\<forall>l. cmd \<noteq> DirectArcPower l"
  shows "decode_standard_command (standard_opcode cmd) = Ok cmd"
proof (cases "\<exists>p. cmd \<in> {GoToScene p, SetScene p, RemoveScene p, AddToGroup p, RemoveFromGroup p, QuerySceneLevel p}")
  case True
  then obtain p where p: "cmd \<in> {GoToScene p, SetScene p, RemoveScene p, AddToGroup p, RemoveFromGroup p, QuerySceneLevel p}"
    by blast
  have "\<forall>b \<in> {GoToScene, SetScene, RemoveScene, AddToGroup, RemoveFromGroup, QuerySceneLevel}.
      decode_standard_command (standard_opcode (b p)) = Ok (b p)"
    if "p \<le> 15"
    using that
    by (rule all_nibbles [rotated])
      (simp add: nibbles_def decode_standard_defs standard_opcode_def standard_forward_frame_def encoding_defs)
  then show ?thesis
    using p assms(1) by (auto simp: param_ok_def)
next
  case False
  then show ?thesis
    using assms(2)
    by (cases cmd) (simp_all add: decode_standard_defs standard_opcode_def standard_forward_frame_def encoding_defs)
qed

lemma high_not_arc_power: "0x90 \<le> unat c \<Longrightarrow> decode_arc_power_control c = None"
  by (auto simp: decode_arc_power_control_def)

lemma high_not_scene_or_group: "0x90 \<le> unat c \<Longrightarrow> decode_scene_and_group_command c = None"
  by (auto simp: decode_scene_and_group_command_def word_le_nat_alt)

lemma high_not_configuration: "0x90 \<le> unat c \<Longrightarrow> decode_configuration_command c = None"
  by (auto simp: decode_configuration_command_def)

lemma high_not_query: "0xE0 \<le> unat c \<Longrightarrow> decode_query_command c = None"
  by (auto simp: decode_query_command_def word_le_nat_alt)

lemma decode_standard_low: "decode_standard_command c = Ok cmd \<Longrightarrow> c < 0xE0"
  using high_not_arc_power [of c] high_not_scene_or_group [of c] high_not_configuration [of c]
    high_not_query [of c]
  by (cases "c < 0xE0") (auto simp: decode_standard_command_def word_less_nat_alt)

lemma extended_high: "0xE0 \<le> extended_opcode (Dt6 c6)" "0xE0 \<le> extended_opcode (Dt8 c8)"
  by (cases c6; simp) (cases c8; simp)

lemma extended_from_opcode_sound:
  "extended_from_opcode c = Some e \<Longrightarrow> extended_opcode e = c \<and> 0xE0 \<le> c"
  using extended_high
  by (auto simp: extended_from_opcode_def dt6_opcode_round_trip dt8_opcode_round_trip split: option.splits)

lemma extended_frame_opcode:
  "extended_forward_frame e a = forward_new (encode_address_byte a OR 1) (extended_opcode e)"
  by (cases e) (simp_all add: metadata_forward_frame_def dt6_metadata_def dt7_metadata_def dt8_metadata_def)

lemma standard_not_extended: "decode_standard_command c = Ok cmd \<Longrightarrow> try_decode_extended c = None"
  using decode_standard_low [of c cmd] extended_from_opcode_sound [of c]
  by (cases "extended_from_opcode c") (auto simp: try_decode_extended_def)

lemma forward_new_eq_iff [simp]: "forward_new a c = forward_new b d \<longleftrightarrow> a = b \<and> c = d"
  by (metis address_byte_new command_byte_new)

lemma selector_bits:
  fixes w :: u8
  shows "w AND 1 = 0 \<Longrightarrow> w AND 0xFE = w"
    and "w AND 1 \<noteq> 0 \<Longrightarrow> (w AND 0xFE) OR 1 = w"
    and "w AND 1 = 0 \<Longrightarrow> (w OR 1) AND 0xFE = w"
    and "(w OR 1) AND 1 = 1"
proof -
  have m: "(0xFE :: u8) = NOT 1" by simp
  show "w AND 1 = 0 \<Longrightarrow> w AND 0xFE = w"
    unfolding m by (rule bit_word_eqI) (auto simp: bit_simps and_one_eq mod_2_eq_odd bit_0)
  show "w AND 1 \<noteq> 0 \<Longrightarrow> (w AND 0xFE) OR 1 = w"
    unfolding m by (rule bit_word_eqI) (auto simp: bit_simps and_one_eq mod_2_eq_odd bit_0)
  show "w AND 1 = 0 \<Longrightarrow> (w OR 1) AND 0xFE = w"
    unfolding m by (rule bit_word_eqI) (auto simp: bit_simps and_one_eq mod_2_eq_odd bit_0)
  show "(w OR 1) AND 1 = 1"
    by (rule bit_word_eqI) (auto simp: bit_simps)
qed

lemma decode_addressed_iff:
  assumes "try_decode_special w c = None"
  shows "dali_command_from_wire w c n = Ok cmd \<longleftrightarrow>
    (\<exists>a. decode_wire_address w = Ok a \<and>
      (w AND 1 = 0 \<and> cmd = Standard a (DirectArcPower c) \<or>
       w AND 1 \<noteq> 0 \<and> (\<exists>e. cmd = Extended a e \<and> try_decode_extended c = Some e) \<or>
       w AND 1 \<noteq> 0 \<and> (\<exists>s. cmd = Standard a s \<and> decode_standard_command c = Ok s)))"
  using assms standard_not_extended
  by (auto simp: dali_command_from_wire_def split: sum.splits option.splits)

lemma addressed_not_special: "decode_wire_address w = Ok a \<Longrightarrow> try_decode_special w c = None"
  using special_not_addressed [of w c] by (cases "try_decode_special w c") auto

lemma decode_sound:
  assumes "dali_command_from_wire w c n = Ok cmd"
  shows "canonical cmd \<and> to_forward_frame cmd = forward_new w c"
proof (cases "try_decode_special w c")
  case (Some s)
  then show ?thesis
    using assms by (auto simp: dali_command_from_wire_def special_forward_frame_def dest: try_decode_special_sound)
next
  case None
  then obtain a where a: "decode_wire_address w = Ok a"
    and alt: "w AND 1 = 0 \<and> cmd = Standard a (DirectArcPower c) \<or>
       w AND 1 \<noteq> 0 \<and> (\<exists>e. cmd = Extended a e \<and> try_decode_extended c = Some e) \<or>
       w AND 1 \<noteq> 0 \<and> (\<exists>s. cmd = Standard a s \<and> decode_standard_command c = Ok s)"
    using assms decode_addressed_iff by blast
  have w: "address_ok a" "encode_address_byte a = w AND 0xFE"
    using a by (simp_all add: decode_wire_address_iff)
  show ?thesis
    using alt
  proof (elim disjE conjE exE)
    fix e assume "w AND 1 \<noteq> 0" "cmd = Extended a e" "try_decode_extended c = Some e"
    then show ?thesis
      using w extended_from_opcode_sound [of c e]
      by (simp add: extended_frame_opcode selector_bits try_decode_extended_def)
  next
    fix s assume "w AND 1 \<noteq> 0" "cmd = Standard a s" "decode_standard_command c = Ok s"
    then show ?thesis
      using w decode_standard_sound [of c s] standard_frame_opcode [of s a]
      by (simp add: carries_def selector_bits)
  qed (simp add: w selector_bits param_ok_def)
qed

lemma decode_complete:
  assumes "canonical cmd" "to_forward_frame cmd = forward_new w c"
  shows "dali_command_from_wire w c n = Ok cmd"
proof (cases cmd)
  case (Special s)
  then show ?thesis
    using assms try_decode_special_complete [of s w c]
    by (auto simp: special_forward_frame_def dali_command_from_wire_def split: prod.splits)
next
  case (Extended a e)
  then have wc: "w = encode_address_byte a OR 1" "c = extended_opcode e"
    using assms(2) by (simp_all add: extended_frame_opcode)
  have "decode_wire_address w = Ok a"
    using assms(1) Extended wc by (simp add: decode_wire_address_iff selector_bits)
  with wc Extended assms(1) show ?thesis
    by (subst decode_addressed_iff) (auto simp: addressed_not_special try_decode_extended_def selector_bits)
next
  case (Standard a s)
  show ?thesis
  proof (cases "\<exists>l. s = DirectArcPower l")
    case True
    then have wc: "w = encode_address_byte a" "s = DirectArcPower c"
      using assms(2) Standard by auto
    have "decode_wire_address w = Ok a"
      using assms(1) Standard wc by (simp add: decode_wire_address_iff selector_bits)
    with wc Standard show ?thesis
      by (subst decode_addressed_iff) (auto simp: addressed_not_special)
  next
    case False
    then have wc: "w = encode_address_byte a OR 1" "c = standard_opcode s"
      using assms(2) Standard standard_frame_opcode [of s a] by auto
    have "decode_wire_address w = Ok a"
      using assms(1) Standard wc by (simp add: decode_wire_address_iff selector_bits)
    with wc Standard assms(1) False show ?thesis
      by (subst decode_addressed_iff)
        (auto simp: addressed_not_special selector_bits decode_standard_complete)
  qed
qed

section \<open>The query-opcode table\<close>

lemma arc_power_not_query: "decode_arc_power_control c = Some cmd \<Longrightarrow> \<not> standard_is_query cmd"
  by (auto simp: decode_arc_power_control_def standard_is_query_def encoding_defs split: if_split_asm)

lemma scene_and_group_not_query: "decode_scene_and_group_command c = Some cmd \<Longrightarrow> \<not> standard_is_query cmd"
  by (auto simp: decode_scene_and_group_command_def standard_is_query_def encoding_defs split: if_split_asm)

lemma configuration_not_query: "decode_configuration_command c = Some cmd \<Longrightarrow> \<not> standard_is_query cmd"
  by (auto simp: decode_configuration_command_def standard_is_query_def encoding_defs split: if_split_asm)

lemma decode_query_is_query: "decode_query_command c = Some cmd \<Longrightarrow> standard_is_query cmd"
  by (auto simp: decode_query_command_def standard_is_query_def encoding_defs split: if_split_asm)

lemma decode_query_in_table: "decode_query_command c = Some cmd \<Longrightarrow> is_query_opcode c"
  by (auto simp: decode_query_command_def is_query_opcode_def QUERY_OPCODES_def split: if_split_asm)

lemma table_decodes_as_query: "is_query_opcode c \<Longrightarrow> decode_query_command c \<noteq> None"
  by (auto simp: decode_query_command_def is_query_opcode_def QUERY_OPCODES_def)

lemma table_high: "is_query_opcode c \<Longrightarrow> 0x90 \<le> unat c"
  by (auto simp: is_query_opcode_def QUERY_OPCODES_def word_le_nat_alt)

lemma decoded_query_in_table:
  "decode_standard_command c = Ok cmd \<Longrightarrow> standard_is_query cmd \<Longrightarrow> is_query_opcode c"
  using arc_power_not_query scene_and_group_not_query configuration_not_query decode_query_in_table
  by (auto simp: decode_standard_command_def split: option.splits)

lemma table_query_decoded:
  assumes "is_query_opcode c"
  shows "\<exists>cmd. decode_standard_command c = Ok cmd \<and> standard_is_query cmd"
proof -
  obtain cmd where "decode_query_command c = Some cmd"
    using table_decodes_as_query [OF assms] by blast
  then show ?thesis
    using table_high [OF assms] decode_query_is_query
    by (simp add: decode_standard_command_def high_not_arc_power high_not_scene_or_group high_not_configuration)
qed

section \<open>Properties\<close>

text \<open>C19. Decoding inverts encoding exactly: a pair of wire bytes decodes to a command if and
  only if the command is canonical (address and four-bit parameter in range, an extended opcode read
  as the decoder prefers) and its forward frame consists of precisely these two bytes. So
  every decodable frame re-encodes to itself and every canonical command survives the
  wire.\<close>

theorem decode_iff_encode:
  "dali_command_from_wire w c n = Ok cmd \<longleftrightarrow> canonical cmd \<and> to_forward_frame cmd = forward_new w c"
  using decode_sound decode_complete by blast

text \<open>C23. The hand-written query-opcode table agrees with the command set: an opcode is in the
  table exactly when the decoder reads it as a standard command that is a query.\<close>

theorem query_opcode_table:
  "is_query_opcode c \<longleftrightarrow> (\<exists>cmd. decode_standard_command c = Ok cmd \<and> standard_is_query cmd)"
  using decoded_query_in_table table_query_decoded by blast

end
