(* ===== verification/Session.thy ===== *)
theory Session
  imports Wire_Codec
begin

text \<open>
  The session layer (\<open>dali2rust-domain/src/dali/ses\<close>): the settling-time
  bands of the five frame priorities, the priority a command starts a transaction
  with, the wait before the next frame, and the retry policy. Durations are counted in
  microseconds (\<open>Duration::from_micros\<close>) or milliseconds
  (\<open>Duration::from_millis\<close>) as natural numbers.
\<close>

section \<open>Priorities\<close>

datatype DaliPriority = Transaction | UserAction | Configuration | Automatic | PeriodicQuery

primrec min_settle_us :: "DaliPriority \<Rightarrow> u32" where
  "min_settle_us Transaction = 13500"
| "min_settle_us UserAction = 14900"
| "min_settle_us Configuration = 16300"
| "min_settle_us Automatic = 17900"
| "min_settle_us PeriodicQuery = 19500"

primrec max_settle_us :: "DaliPriority \<Rightarrow> u32" where
  "max_settle_us Transaction = 14700"
| "max_settle_us UserAction = 16100"
| "max_settle_us Configuration = 17700"
| "max_settle_us Automatic = 19300"
| "max_settle_us PeriodicQuery = 21100"

definition contains_settle_us :: "DaliPriority \<Rightarrow> u32 \<Rightarrow> bool" where
  "contains_settle_us p settle_us \<longleftrightarrow> settle_us \<ge> min_settle_us p \<and> settle_us \<le> max_settle_us p"

datatype TransactionPriority =
  TxTransaction | TxUserAction | TxConfiguration | TxAutomatic | TxPeriodicQuery

primrec first_frame :: "TransactionPriority \<Rightarrow> DaliPriority" where
  "first_frame TxTransaction = Transaction"
| "first_frame TxUserAction = UserAction"
| "first_frame TxConfiguration = Configuration"
| "first_frame TxAutomatic = Automatic"
| "first_frame TxPeriodicQuery = PeriodicQuery"

definition from_priority :: "u8 \<Rightarrow> TransactionPriority option" where
  "from_priority priority =
     (if priority = 1 then Some TxTransaction else if priority = 2 then Some TxUserAction
      else if priority = 3 then Some TxConfiguration else if priority = 4 then Some TxAutomatic
      else if priority = 5 then Some TxPeriodicQuery else None)"

definition is_configuration_special :: "SpecialCommand \<Rightarrow> bool" where
  "is_configuration_special command =
     (case command of WriteMemoryLocation _ \<Rightarrow> True | WriteMemoryLocationNoReply _ \<Rightarrow> True | _ \<Rightarrow> False)"

definition command_priority :: "DaliCommand \<Rightarrow> TransactionPriority" where
  "command_priority cmd =
     (let configures = (case cmd of
          Standard _ command \<Rightarrow> standard_requires_repeat command
        | Extended _ command \<Rightarrow> extended_requires_repeat command
        | Special command \<Rightarrow> is_configuration_special command)
      in if configures then TxConfiguration else TxUserAction)"

text \<open>The derived order of both enums is that of their discriminants.\<close>

primrec priority_rank :: "DaliPriority \<Rightarrow> nat" where
  "priority_rank Transaction = 1" | "priority_rank UserAction = 2" | "priority_rank Configuration = 3"
| "priority_rank Automatic = 4" | "priority_rank PeriodicQuery = 5"

primrec transaction_rank :: "TransactionPriority \<Rightarrow> u8" where
  "transaction_rank TxTransaction = 1" | "transaction_rank TxUserAction = 2"
| "transaction_rank TxConfiguration = 3" | "transaction_rank TxAutomatic = 4"
| "transaction_rank TxPeriodicQuery = 5"

instantiation DaliPriority :: linorder
begin

definition less_eq_DaliPriority :: "DaliPriority \<Rightarrow> DaliPriority \<Rightarrow> bool" where
  "less_eq_DaliPriority p q \<longleftrightarrow> priority_rank p \<le> priority_rank q"

definition less_DaliPriority :: "DaliPriority \<Rightarrow> DaliPriority \<Rightarrow> bool" where
  "less_DaliPriority p q \<longleftrightarrow> priority_rank p < priority_rank q"

instance
proof
  fix p q :: DaliPriority
  show "p \<le> q \<Longrightarrow> q \<le> p \<Longrightarrow> p = q"
    by (cases p; cases q) (simp_all add: less_eq_DaliPriority_def)
qed (auto simp: less_eq_DaliPriority_def less_DaliPriority_def)

end

section \<open>Spacing of frames\<close>

record DaliSession =
  last_transmission_ms :: "u64 option"

definition session_new :: DaliSession where
  "session_new = \<lparr>last_transmission_ms = None\<rparr>"

text \<open>The clock is read by the caller; the result is a duration in microseconds.\<close>

definition min_wait_before_next :: "DaliSession \<Rightarrow> u32 \<Rightarrow> u64 \<Rightarrow> u64" where
  "min_wait_before_next s min_us now =
     (case last_transmission_ms s of
        Some last_ms \<Rightarrow>
          (let elapsed_us = saturating_mul (saturating_sub now last_ms) 1000;
               settle = ucast min_us
           in if elapsed_us < settle then settle - elapsed_us else 0)
      | None \<Rightarrow> 0)"

definition record_transmission :: "u64 \<Rightarrow> DaliSession \<Rightarrow> DaliSession" where
  "record_transmission now s = s\<lparr>last_transmission_ms := Some now\<rparr>"

section \<open>Retry policy\<close>

record RetryPolicy =
  max_attempts :: u8
  base_backoff_ms :: u64
  jitter_ms :: u64
  query_contention_retry :: bool

definition retry_policy_new :: "u8 \<Rightarrow> u64 \<Rightarrow> u64 \<Rightarrow> RetryPolicy" where
  "retry_policy_new attempts backoff jitter =
     \<lparr>max_attempts = attempts, base_backoff_ms = backoff, jitter_ms = jitter, query_contention_retry = True\<rparr>"

definition retry_policy_default :: RetryPolicy where
  "retry_policy_default = retry_policy_new 3 3 3"

definition effective_max_attempts :: "RetryPolicy \<Rightarrow> u8" where
  "effective_max_attempts p = (if max_attempts p = 0 then 1 else max_attempts p)"

definition bounded_jitter :: "RetryPolicy \<Rightarrow> u64 \<Rightarrow> u64" where
  "bounded_jitter p sample =
     (if jitter_ms p = 0 then 0 else sample mod (saturating_add (jitter_ms p) 1))"

definition backoff_delay :: "RetryPolicy \<Rightarrow> u8 \<Rightarrow> u64 \<Rightarrow> u64" where
  "backoff_delay p retry_index sample =
     (let shift = unat (min retry_index 20);
          multiplier = push_bit shift (1 :: u64);
          base = saturating_mul (base_backoff_ms p) multiplier;
          jitter = bounded_jitter p sample
      in saturating_add base jitter)"

section \<open>Properties\<close>

lemma unat_bounded_jitter: "unat (bounded_jitter p sample) \<le> unat (jitter_ms p)"
proof (cases "jitter_ms p = 0")
  case False
  have "unat (saturating_add (jitter_ms p) 1) \<le> unat (jitter_ms p) + 1" "0 < unat (saturating_add (jitter_ms p) 1)"
    by (simp_all add: unat_saturating_add)
  then show ?thesis
    using False mod_less_divisor [of "unat (saturating_add (jitter_ms p) 1)" "unat sample"]
    by (simp add: bounded_jitter_def unat_mod del: mod_less_divisor)
qed (simp add: bounded_jitter_def)

lemma unat_backoff_delay:
  "unat (backoff_delay p i sample) =
     min (min (unat (base_backoff_ms p) * 2 ^ min (unat i) 20) (2 ^ 64 - 1) + unat (bounded_jitter p sample)) (2 ^ 64 - 1)"
proof -
  have "unat (min i 20) = min (unat i) 20"
    by (simp add: min_def word_le_nat_alt)
  moreover have "unat (push_bit (min (unat i) 20) (1 :: u64)) = 2 ^ min (unat i) 20"
  proof -
    have "(2 :: nat) ^ min (unat i) 20 < 2 ^ 64"
      by (rule power_strict_increasing) simp_all
    then show ?thesis
      unfolding unsigned_push_bit_eq by (simp add: take_bit_nat_eq_self)
  qed
  ultimately show ?thesis
    by (simp add: backoff_delay_def Let_def unat_saturating_add unat_saturating_mul)
qed

text \<open>C20. The settling-time bands separate the priorities: every idle time that
  lies in the band of one priority is strictly shorter than every idle time in the band of a
  less urgent one, so the more urgent frame always reaches the wire first, and no idle time
  belongs to two bands.\<close>

theorem settle_bands_separate:
  assumes "p < q" "contains_settle_us p s" "contains_settle_us q t"
  shows "s < t"
proof -
  have "max_settle_us p < min_settle_us q"
    using assms(1) by (cases p; cases q) (simp_all add: less_DaliPriority_def)
  then show ?thesis
    using assms(2,3) by (auto simp: contains_settle_us_def)
qed

theorem settle_bands_separate_witness:
  "UserAction < Automatic \<and> contains_settle_us UserAction 15000 \<and> contains_settle_us Automatic 18000 \<and>
   (15000 :: u32) < 18000"
  using settle_bands_separate [of UserAction Automatic 15000 18000]
  by (simp add: less_DaliPriority_def contains_settle_us_def)

text \<open>C22. The retry delay never overflows and stays within its envelope: it is at least
  the (saturated) base delay doubled per retry, at most that plus the configured jitter, and the
  doubling stops at the twentieth retry.\<close>

theorem backoff_delay_envelope:
  "let base = min (unat (base_backoff_ms p) * 2 ^ min (unat i) 20) (2 ^ 64 - 1);
       d = unat (backoff_delay p i sample)
   in base \<le> d \<and> d \<le> base + unat (jitter_ms p) \<and> d = min (base + unat (bounded_jitter p sample)) (2 ^ 64 - 1)"
  using unat_bounded_jitter [of p sample]
  by (simp add: unat_backoff_delay Let_def)

text \<open>C21. The wait before the next frame is exact: once it has elapsed, the idle
  time since the last transmission reaches the required settling time, and it is zero if the
  settling time has already passed.\<close>

theorem min_wait_reaches_settle:
  assumes "last_transmission_ms s = Some last_ms" "last_ms \<le> now" "unat (now - last_ms) * 1000 < 2 ^ 64"
  shows "unat (min_wait_before_next s us now) + unat (now - last_ms) * 1000 = max (unat us) (unat (now - last_ms) * 1000)"
proof -
  have sub: "saturating_sub now last_ms = now - last_ms"
    using assms(2) by (auto simp: saturating_sub_def)
  have mul: "unat (saturating_mul (now - last_ms) 1000) = unat (now - last_ms) * 1000"
    using assms(3) by (simp add: unat_saturating_mul)
  have us: "unat (ucast us :: u64) = unat us"
    by (simp add: unsigned_ucast_eq take_bit_nat_eq_self unsigned_less [THEN less_trans])
  show ?thesis
    using assms(1) by (auto simp: min_wait_before_next_def sub Let_def word_less_nat_alt mul us unat_sub word_le_nat_alt)
qed

theorem min_wait_reaches_settle_witness:
  "unat (min_wait_before_next \<lparr>last_transmission_ms = Some 10\<rparr> 14900 15) + 5000 = 14900"
  using min_wait_reaches_settle [of "\<lparr>last_transmission_ms = Some 10\<rparr>" 10 15 14900] by simp

end
