(* ===== verification/Memory_Banks.thy ===== *)
theory Memory_Banks
  imports Prelude
begin

text \<open>
  Memory banks: the value coding and layout of
  \<open>dali2rust-domain/src/dali/banks\<close> (\<open>mod.rs\<close>, \<open>layout.rs\<close>, \<open>identity.rs\<close>,
  \<open>part251.rs\<close>), and the bank images the gear model builds
  (\<open>dali2rust-gear-model/src/luminaire.rs\<close>, \<open>metering.rs\<close>). Byte arrays are
  lists of octets.
\<close>

section \<open>Values\<close>

datatype ValueWidth = WU8 | WU16 | WU24 | WU32 | WU48 | WI8 | WI16 | WI32

primrec width_bytes :: "ValueWidth \<Rightarrow> nat" where
  "width_bytes WU8 = 1" | "width_bytes WI8 = 1" | "width_bytes WU16 = 2" | "width_bytes WI16 = 2"
| "width_bytes WU24 = 3" | "width_bytes WU32 = 4" | "width_bytes WI32 = 4" | "width_bytes WU48 = 6"

primrec width_mask :: "ValueWidth \<Rightarrow> u64" where
  "width_mask WU8 = 0xFF" | "width_mask WU16 = 0xFFFF" | "width_mask WU24 = 0xFFFFFF"
| "width_mask WU32 = 0xFFFFFFFF" | "width_mask WU48 = 0xFFFFFFFFFFFF" | "width_mask WI8 = 0x7F"
| "width_mask WI16 = 0x7FFF" | "width_mask WI32 = 0x7FFFFFFF"

definition width_tmask :: "ValueWidth \<Rightarrow> u64" where
  "width_tmask w = width_mask w - 1"

definition width_max_valid :: "ValueWidth \<Rightarrow> u64" where
  "width_max_valid w = width_mask w - 2"

definition width_is_signed :: "ValueWidth \<Rightarrow> bool" where
  "width_is_signed w \<longleftrightarrow> w = WI8 \<or> w = WI16 \<or> w = WI32"

definition width_to_signed :: "ValueWidth \<Rightarrow> u64 \<Rightarrow> int" where
  "width_to_signed w r =
     (let shift = 64 - width_bytes w * 8 in sint (push_bit shift r) div 2 ^ shift)"

datatype BankValue = Reading u64 | NotImplemented | TemporarilyUnavailable

primrec bank_value :: "BankValue \<Rightarrow> u64 option" where
  "bank_value (Reading v) = Some v"
| "bank_value NotImplemented = None"
| "bank_value TemporarilyUnavailable = None"

definition is_saturated :: "BankValue \<Rightarrow> ValueWidth \<Rightarrow> bool" where
  "is_saturated v w = (case v of Reading r \<Rightarrow> r = width_max_valid w | _ \<Rightarrow> False)"

definition classify :: "u64 \<Rightarrow> ValueWidth \<Rightarrow> BankValue" where
  "classify r w = (if r = width_mask w then NotImplemented
     else if r = width_tmask w then TemporarilyUnavailable else Reading r)"

text \<open>Big-endian accumulation of a byte slice.\<close>

definition be_fold :: "u8 list \<Rightarrow> u64" where
  "be_fold bs = foldl (\<lambda>acc b. push_bit 8 acc OR ucast b) 0 bs"

definition slice :: "u8 list \<Rightarrow> nat \<Rightarrow> nat \<Rightarrow> u8 list option" where
  "slice bs start len = (if start + len \<le> length bs then Some (take len (drop start bs)) else None)"

definition read_value :: "u8 list \<Rightarrow> nat \<Rightarrow> ValueWidth \<Rightarrow> BankValue option" where
  "read_value bs offset w =
     (case slice bs offset (width_bytes w) of None \<Rightarrow> None | Some s \<Rightarrow> Some (classify (be_fold s) w))"

definition be_bytes :: "nat \<Rightarrow> u64 \<Rightarrow> u8 list" where
  "be_bytes n r = map (\<lambda>i. ucast (drop_bit (8 * (n - 1 - i)) r AND 0xFF)) [0..<n]"

text \<open>\<open>encode_value\<close> fills the first \<open>n\<close> slots of its output slice.\<close>

definition encode_value :: "u64 \<Rightarrow> ValueWidth \<Rightarrow> u8 list \<Rightarrow> u8 list" where
  "encode_value r w out = take (length out) (be_bytes (width_bytes w) r) @ drop (width_bytes w) out"

section \<open>Layout\<close>

record BankField =
  bf_offset :: u8
  bf_width :: ValueWidth

definition field :: "u8 \<Rightarrow> ValueWidth \<Rightarrow> BankField" where
  "field offset w = \<lparr>bf_offset = offset, bf_width = w\<rparr>"

definition BANK_LUMINAIRE_INFO_MAP :: "BankField list" where
  "BANK_LUMINAIRE_INFO_MAP =
    [field 0x00 WU8, field 0x01 WU8, field 0x02 WU8, field 0x03 WU8, field 0x04 WU8,
     field 0x05 WU8, field 0x06 WU8, field 0x07 WU8, field 0x08 WU8, field 0x09 WU8,
     field 0x0A WU8, field 0x0B WU8, field 0x0C WU8, field 0x0D WU8, field 0x0E WU8,
     field 0x0F WU8, field 0x10 WU8, field 0x11 WU16, field 0x13 WU8, field 0x14 WU8,
     field 0x15 WU16, field 0x17 WU16, field 0x19 WU16, field 0x1B WU16, field 0x1D WU24,
     field 0x20 WU8, field 0x21 WU16, field 0x23 WU8]"

definition BANK_ENERGY :: "BankField list" where
  "BANK_ENERGY =
    [field 0x00 WU8, field 0x01 WU8, field 0x02 WU8, field 0x03 WU8, field 0x04 WI8,
     field 0x05 WU48, field 0x0B WI8, field 0x0C WU32]"

definition BANK_GEAR_DIAGNOSTICS :: "BankField list" where
  "BANK_GEAR_DIAGNOSTICS =
    [field 0x00 WU8, field 0x01 WU8, field 0x02 WU8, field 0x03 WU8, field 0x04 WU32,
     field 0x08 WU24, field 0x0B WU16, field 0x0D WU8, field 0x0E WU8, field 0x0F WU8,
     field 0x10 WU8, field 0x11 WU8, field 0x12 WU8, field 0x13 WU8, field 0x14 WU8,
     field 0x15 WU8, field 0x16 WU8, field 0x17 WU8, field 0x18 WU8, field 0x19 WU8,
     field 0x1A WU8]"

definition BANK_GEAR_DIAGNOSTICS_TAIL :: "BankField list" where
  "BANK_GEAR_DIAGNOSTICS_TAIL =
    [field 0x1B WU8, field 0x1C WU8]"

definition BANK_SOURCE_DIAGNOSTICS :: "BankField list" where
  "BANK_SOURCE_DIAGNOSTICS =
    [field 0x00 WU8, field 0x01 WU8, field 0x02 WU8, field 0x03 WU8, field 0x04 WU24,
     field 0x07 WU24, field 0x0A WU32, field 0x0E WU32, field 0x12 WU16, field 0x14 WU16,
     field 0x16 WU8, field 0x17 WU8, field 0x18 WU8, field 0x19 WU8, field 0x1A WU8,
     field 0x1B WU8, field 0x1C WU8, field 0x1D WU8, field 0x1E WU8, field 0x1F WU8]"

definition BANK_SOURCE_DIAGNOSTICS_TAIL :: "BankField list" where
  "BANK_SOURCE_DIAGNOSTICS_TAIL =
    [field 0x20 WU8]"

definition BANK_LUMINAIRE :: "BankField list" where
  "BANK_LUMINAIRE =
    [field 0x00 WU8, field 0x01 WU8, field 0x02 WU8, field 0x03 WU8, field 0x04 WU8,
     field 0x05 WU8, field 0x06 WU16]"

definition bank_last_offset :: "u8 \<Rightarrow> u8 option" where
  "bank_last_offset bank =
     (if bank = 202 \<or> bank = 203 \<or> bank = 204 then Some 0x0F
      else if bank = 205 then Some 0x1C
      else if bank = 206 then Some 0x20
      else if bank = 207 then Some 0x07
      else None)"

definition bank_field_map :: "u8 \<Rightarrow> BankField list" where
  "bank_field_map bank =
     (if bank = 1 then BANK_LUMINAIRE_INFO_MAP
      else if bank = 202 \<or> bank = 203 \<or> bank = 204 then BANK_ENERGY
      else if bank = 205 then BANK_GEAR_DIAGNOSTICS @ BANK_GEAR_DIAGNOSTICS_TAIL
      else if bank = 206 then BANK_SOURCE_DIAGNOSTICS @ BANK_SOURCE_DIAGNOSTICS_TAIL
      else if bank = 207 then BANK_LUMINAIRE
      else [])"

definition field_start :: "BankField \<Rightarrow> u16" where
  "field_start f = ucast (bf_offset f)"

definition field_bytes :: "BankField \<Rightarrow> u16" where
  "field_bytes f = word_of_nat (width_bytes (bf_width f))"

definition field_containing :: "u8 \<Rightarrow> u16 \<Rightarrow> BankField option" where
  "field_containing bank offset =
     find (\<lambda>f. field_start f \<le> offset \<and> offset < field_start f + field_bytes f) (bank_field_map bank)"

definition is_field_boundary :: "u8 \<Rightarrow> u16 \<Rightarrow> bool" where
  "is_field_boundary bank offset =
     (case field_containing bank offset of None \<Rightarrow> True | Some f \<Rightarrow> field_start f = offset)"

text \<open>The loop of \<open>chunk_len\<close> over the remaining fields of the map.\<close>

fun chunk_fields :: "u16 \<Rightarrow> u16 \<Rightarrow> u16 \<Rightarrow> BankField list \<Rightarrow> u16 \<Rightarrow> u16" where
  "chunk_fields offset remaining budget [] taken = taken"
| "chunk_fields offset remaining budget (f # fs) taken =
     (let start = field_start f; width = field_bytes f in
      if start < offset then chunk_fields offset remaining budget fs taken
      else if start \<noteq> offset + taken then taken
      else if taken + width > remaining then taken
      else if taken > 0 \<and> taken + width > budget then taken
      else if taken + width \<ge> budget then taken + width
      else chunk_fields offset remaining budget fs (taken + width))"

definition chunk_len :: "u8 \<Rightarrow> u16 \<Rightarrow> u16 \<Rightarrow> u16 \<Rightarrow> u16" where
  "chunk_len bank offset remaining budget =
     (let fs = bank_field_map bank in
      if fs = [] then min budget remaining
      else let taken = chunk_fields offset remaining budget fs 0 in
           if taken = 0 then min budget remaining else taken)"

section \<open>Identity of a device\<close>

record DeviceIdentity =
  gtin :: u64
  identification_number :: u64
  logical_gear_index :: u8

datatype IdentityRead = Unread | Unprovable | Known DeviceIdentity

definition window_part :: "u8 list \<Rightarrow> nat \<Rightarrow> nat \<Rightarrow> u8 list" where
  "window_part window offset len =
     (case slice window (offset - 0x03) len of Some s \<Rightarrow> s | None \<Rightarrow> [])"

definition all_mask :: "u8 list \<Rightarrow> bool" where
  "all_mask bs = list_all (\<lambda>b. b = 0xFF) bs"

definition of_window :: "u8 list \<Rightarrow> IdentityRead" where
  "of_window window =
     (if length window \<noteq> 0x1A - 0x03 + 1 then Unread
      else let g = window_part window 0x03 6;
               n = window_part window 0x0B 8;
               i = window_part window 0x1A 1
           in if all_mask g \<or> all_mask n \<or> all_mask i then Unprovable
              else Known \<lparr>gtin = be_fold g, identification_number = be_fold n,
                     logical_gear_index = (case i of b # _ \<Rightarrow> b | [] \<Rightarrow> 0xFF)\<rparr>)"

definition of_bank0 :: "u8 list \<Rightarrow> IdentityRead" where
  "of_bank0 bank =
     (case bank of [] \<Rightarrow> Unread
      | last_offset # _ \<Rightarrow>
          if last_offset < 0x1A then Unprovable
          else (case slice bank 0x03 (0x1A - 0x03 + 1) of None \<Rightarrow> Unread | Some w \<Rightarrow> of_window w))"

definition identity_known :: "IdentityRead \<Rightarrow> string + DeviceIdentity" where
  "identity_known r = (case r of Known i \<Rightarrow> Ok i | Unread \<Rightarrow> Err ''device_identity_unknown''
     | Unprovable \<Rightarrow> Err ''device_identity_unprovable'')"

section \<open>Luminaire data (bank 1 extension)\<close>

datatype LuminaireFormat = V3 | V4 | V5

definition from_content_format_id :: "u16 \<Rightarrow> LuminaireFormat option" where
  "from_content_format_id i = (if i = 3 then Some V3 else if i = 4 then Some V4 else if i = 5 then Some V5 else None)"

primrec content_format_id :: "LuminaireFormat \<Rightarrow> u16" where
  "content_format_id V3 = 3" | "content_format_id V4 = 4" | "content_format_id V5 = 5"

primrec min_last_offset :: "LuminaireFormat \<Rightarrow> u8" where
  "min_last_offset V3 = 0x77" | "min_last_offset V4 = 0x8F" | "min_last_offset V5 = 0xC9"

definition has_light_distribution :: "LuminaireFormat \<Rightarrow> bool" where
  "has_light_distribution f \<longleftrightarrow> f \<noteq> V3"

definition has_extended_block :: "LuminaireFormat \<Rightarrow> bool" where
  "has_extended_block f \<longleftrightarrow> f = V5"

record TextRegion =
  region_offset :: u8
  region_len :: u8

record LuminaireBank =
  last_accessible :: u8
  lum_bytes :: "u8 list"

definition lum_location :: "LuminaireBank \<Rightarrow> u8 \<Rightarrow> u8 option" where
  "lum_location b offset =
     (if offset > last_accessible b \<or> offset < 0x11 then None
      else if unat (offset - 0x11) < length (lum_bytes b) then Some (lum_bytes b ! unat (offset - 0x11))
      else None)"

definition lum_put :: "u8 \<Rightarrow> u8 \<Rightarrow> LuminaireBank \<Rightarrow> LuminaireBank" where
  "lum_put offset v b =
     (if offset < 0x11 then b else b\<lparr>lum_bytes := (lum_bytes b)[unat (offset - 0x11) := v]\<rparr>)"

definition lum_store :: "u8 \<Rightarrow> u8 \<Rightarrow> LuminaireBank \<Rightarrow> LuminaireBank" where
  "lum_store offset v b = (if offset \<le> last_accessible b then lum_put offset v b else b)"

definition put_u16 :: "u8 \<Rightarrow> u16 \<Rightarrow> LuminaireBank \<Rightarrow> LuminaireBank" where
  "put_u16 offset v b = lum_put (offset + 1) (ucast (v AND 0xFF)) (lum_put offset (ucast (drop_bit 8 v)) b)"

definition put_u24 :: "u8 \<Rightarrow> u32 \<Rightarrow> LuminaireBank \<Rightarrow> LuminaireBank" where
  "put_u24 offset v b =
     lum_put (offset + 2) (ucast (v AND 0xFF))
       (lum_put (offset + 1) (ucast (drop_bit 8 v AND 0xFF))
         (lum_put offset (ucast (drop_bit 16 v AND 0xFF)) b))"

definition fill_numbers :: "u32 \<Rightarrow> bool \<Rightarrow> LuminaireBank \<Rightarrow> LuminaireBank" where
  "fill_numbers seed tc b =
     (let b = lum_put 0x13 (22 + ucast (seed mod 4)) b;
          week = (if seed mod 4 = 3 then 0 else 1 + ucast (seed mod 52));
          b = lum_put 0x14 week b;
          b = put_u16 0x15 (30 + ucast (seed mod 20)) b;
          b = put_u16 0x17 (2 + ucast (seed mod 3)) b;
          b = put_u16 0x19 198 b;
          b = put_u16 0x1B 264 b;
          b = put_u24 0x1D (3000 + seed mod 900) b;
          b = lum_put 0x20 (80 + ucast (seed mod 20)) b;
          cct = (if tc then 0xFFFE else 3000 + ucast (seed mod 8) * 250);
          b = put_u16 0x21 cct b
      in lum_put 0x23 (1 + ucast (seed mod 5)) b)"

definition ascii :: "string \<Rightarrow> u8 list" where
  "ascii s = map of_char s"

definition put_text :: "TextRegion \<Rightarrow> u8 list \<Rightarrow> LuminaireBank \<Rightarrow> LuminaireBank" where
  "put_text region txt b =
     foldl (\<lambda>b i. lum_put (region_offset region + word_of_nat i) (if i < length txt then txt ! i else 0) b)
       b [0..<unat (region_len region)]"

text \<open>\<open>write_digits\<close>: the last digit first, into four cells.\<close>

definition digits4 :: "u32 \<Rightarrow> u8 list" where
  "digits4 n = map (\<lambda>k. 48 + ucast (n div 10 ^ k mod 10)) [3, 2, 1, 0]"

definition fill_text :: "u32 \<Rightarrow> LuminaireFormat \<Rightarrow> LuminaireBank \<Rightarrow> LuminaireBank" where
  "fill_text seed f b =
     (let b = put_text \<lparr>region_offset = 0x24, region_len = 24\<rparr> (ascii ''warm white'') b;
          ident = ascii ''DALI2RUST BENCH LUMINAIRE '' @ digits4 seed @ ascii '' / ASSET TAG A-000000000000000'';
          b = put_text \<lparr>region_offset = 0x3C, region_len = 60\<rparr> ident b;
          b = (if has_light_distribution f
               then put_text \<lparr>region_offset = 0x78, region_len = 24\<rparr> (ascii ''symmetric wide'') b else b)
      in if has_extended_block f then
           let b = put_text \<lparr>region_offset = 0x90, region_len = 32\<rparr> (ascii ''dali2rust reference OEM'') b;
               b = put_text \<lparr>region_offset = 0xB0, region_len = 16\<rparr> (ascii ''STK-0001'') b;
               b = put_u16 0xC0 (350 + ucast (seed mod 100)) b
           in put_text \<lparr>region_offset = 0xC2, region_len = 8\<rparr> (ascii ''site-01'') b
         else b)"

definition luminaire_bank_new :: "u32 \<Rightarrow> LuminaireFormat \<Rightarrow> bool \<Rightarrow> LuminaireBank" where
  "luminaire_bank_new seed f tc =
     fill_text seed f (fill_numbers seed tc
       (put_u16 0x11 (content_format_id f)
         \<lparr>last_accessible = min_last_offset f, lum_bytes = replicate (0xC9 - 0x11 + 1) 0\<rparr>))"

section \<open>Energy and diagnostics banks\<close>

record MeteringBanks =
  active_energy :: "u8 list"
  apparent_energy :: "u8 list"
  loadside_energy :: "u8 list option"
  control_gear :: "u8 list"
  light_source :: "u8 list"
  luminaire_maintenance :: "u8 list"
  met_energy :: bool
  met_diagnostics :: bool

definition write_meta :: "u8 list \<Rightarrow> u8 list" where
  "write_meta b = b[0 := word_of_nat (length b - 1), 1 := 0, 2 := 0x55, 3 := 0x01]"

definition bank_put :: "nat \<Rightarrow> u64 \<Rightarrow> ValueWidth \<Rightarrow> u8 list \<Rightarrow> u8 list" where
  "bank_put offset r w b =
     take offset b @ encode_value r w (take (width_bytes w) (drop offset b)) @ drop (offset + width_bytes w) b"

definition build_energy_bank :: "u64 \<Rightarrow> u64 \<Rightarrow> u8 list" where
  "build_energy_bank energy_wh power_mw =
     (let b = write_meta (replicate 0x10 0);
          b = bank_put 0x04 0 WI8 b;
          b = bank_put 0x05 energy_wh WU48 b;
          b = bank_put 0x0B (- 3 AND 0xFF) WI8 b
      in bank_put 0x0C power_mw WU32 b)"

definition build_gear_bank :: "u32 \<Rightarrow> u8 list" where
  "build_gear_bank seed =
     (let b = write_meta (replicate 0x1D 0);
          b = bank_put 0x04 (ucast (seed mod 1000000) + 3600) WU32 b;
          b = bank_put 0x08 (ucast (seed mod 500)) WU24 b;
          b = bank_put 0x0B 2300 WU16 b
      in b[0x0D := 50, 0x0E := 95, 0x1B := 60 + 45, 0x1C := 100])"

definition build_source_bank :: "u32 \<Rightarrow> u8 list" where
  "build_source_bank seed =
     (let b = write_meta (replicate 0x21 0);
          starts = ucast (seed mod 400);
          b = bank_put 0x04 starts WU24 b;
          b = bank_put 0x07 (starts + 17) WU24 b;
          on_time = ucast (seed mod 900000) + 1200;
          b = bank_put 0x0A on_time WU32 b;
          b = bank_put 0x0E (on_time + 4242) WU32 b;
          b = bank_put 0x12 240 WU16 b;
          b = bank_put 0x14 350 WU16 b
      in b[0x20 := 60 + 50])"

definition build_luminaire_bank :: "u8 list" where
  "build_luminaire_bank =
     (let b = write_meta (replicate 0x08 0)
      in bank_put 0x06 5000 WU16 (b[0x04 := 50, 0x05 := 0xFF]))"

definition metering_banks_new :: "u32 \<Rightarrow> bool \<Rightarrow> bool \<Rightarrow> MeteringBanks" where
  "metering_banks_new seed energy diagnostics =
     (let energy_wh = ucast (seed mod 100000) + 12345 in
      \<lparr>active_energy = build_energy_bank energy_wh 18500,
       apparent_energy = build_energy_bank (energy_wh + energy_wh div 20) 19500,
       loadside_energy = None,
       control_gear = build_gear_bank seed,
       light_source = build_source_bank seed,
       luminaire_maintenance = build_luminaire_bank,
       met_energy = energy, met_diagnostics = diagnostics\<rparr>)"

definition last_accessible_bank :: "MeteringBanks \<Rightarrow> u8 \<Rightarrow> u8" where
  "last_accessible_bank m without_metering =
     (if met_diagnostics m then 207 else if met_energy m then 203 else without_metering)"

definition image :: "MeteringBanks \<Rightarrow> u8 \<Rightarrow> u8 list option" where
  "image m bank =
     (if bank = 202 \<and> met_energy m then Some (active_energy m)
      else if bank = 203 \<and> met_energy m then Some (apparent_energy m)
      else if bank = 204 \<and> met_energy m \<and> loadside_energy m \<noteq> None then loadside_energy m
      else if bank = 205 \<and> met_diagnostics m then Some (control_gear m)
      else if bank = 206 \<and> met_diagnostics m then Some (light_source m)
      else if bank = 207 \<and> met_diagnostics m then Some (luminaire_maintenance m)
      else None)"

definition metering_location :: "MeteringBanks \<Rightarrow> u8 \<Rightarrow> u8 \<Rightarrow> u8 option" where
  "metering_location m bank offset =
     (case image m bank of None \<Rightarrow> None
      | Some b \<Rightarrow> if unat offset < length b then Some (b ! unat offset) else None)"

definition metering_implements_bank :: "MeteringBanks \<Rightarrow> u8 \<Rightarrow> bool" where
  "metering_implements_bank m bank \<longleftrightarrow> image m bank \<noteq> None"

definition set_temporarily_unavailable :: "bool \<Rightarrow> MeteringBanks \<Rightarrow> MeteringBanks" where
  "set_temporarily_unavailable on m =
     (let power = (if on then width_tmask WU32 else 18500);
          voltage = (if on then width_tmask WU16 else 2300);
          g = bank_put 0x0B voltage WU16 (control_gear m)
      in m\<lparr>active_energy := bank_put 0x0C power WU32 (active_energy m),
           apparent_energy := bank_put 0x0C power WU32 (apparent_energy m),
           control_gear := g[0x0E := (if on then ucast (width_tmask WU8) else 95)]\<rparr>)"

definition implement_loadside :: "u64 \<Rightarrow> bool \<Rightarrow> MeteringBanks \<Rightarrow> MeteringBanks" where
  "implement_loadside energy_wh power_available m =
     (let b = build_energy_bank energy_wh 0;
          b = (if power_available then b else bank_put 0x0C (width_tmask WU32) WU32 b)
      in m\<lparr>loadside_energy := Some b\<rparr>)"

definition set_condition :: "u8 \<Rightarrow> u8 \<Rightarrow> bool \<Rightarrow> u8 \<Rightarrow> MeteringBanks \<Rightarrow> MeteringBanks" where
  "set_condition bank flag_offset on count m =
     (let idx = unat flag_offset;
          upd = (\<lambda>b. if idx + 1 < length b then b[idx := (if on then 1 else 0), Suc idx := count] else b)
      in if bank = 205 then m\<lparr>control_gear := upd (control_gear m)\<rparr>
         else if bank = 206 then m\<lparr>light_source := upd (light_source m)\<rparr>
         else m)"

end
