(* ===== verification/Gear.thy ===== *)
theory Gear
  imports Wire_Codec Memory_Banks
begin

text \<open>
  One control gear of the simulated line (\<open>dali2rust-gear-model/src/gear.rs\<close>,
  \<open>switching.rs\<close>): its specification, its variables, how it hears frames, how it executes
  level, configuration and colour commands, and how it answers queries.
\<close>

section \<open>Specification and variables\<close>

datatype TransferOutcome =
    Answer u8 | NoAnswer | Collision | BusBusy | ForeignInWindow | CorruptedInWindow

record GearSpec =
  short_address :: "u8 option"
  random_address :: u32
  device_types :: "u8 list"
  tc_capable :: bool
  xy_capable :: bool
  rgbwaf_channels :: u8
  tc_coolest_mirek :: u16
  tc_warmest_mirek :: u16
  phm :: u8
  energy_reporting :: bool
  diagnostics_reporting :: bool
  bus_unit_extension :: bool
  luminaire_format :: "LuminaireFormat option"
  holds_dtr0_on_unimplemented :: bool
  indicator_byte_unimplemented :: bool
  switching_features :: u8
  switching_gear_type :: u8

definition spec_dt6 :: "u8 option \<Rightarrow> u32 \<Rightarrow> GearSpec" where
  "spec_dt6 short_addr random_addr =
     \<lparr>short_address = short_addr, random_address = random_addr, device_types = [code Led],
      tc_capable = False, xy_capable = False, rgbwaf_channels = 0,
      tc_coolest_mirek = 153, tc_warmest_mirek = 400, phm = 1,
      energy_reporting = False, diagnostics_reporting = False, bus_unit_extension = False,
      luminaire_format = None, holds_dtr0_on_unimplemented = False,
      indicator_byte_unimplemented = False, switching_features = 0, switching_gear_type = 0\<rparr>"

definition spec_dt8 :: "u8 option \<Rightarrow> u32 \<Rightarrow> bool \<times> bool \<times> bool \<Rightarrow> u16 \<times> u16 \<Rightarrow> GearSpec" where
  "spec_dt8 short_addr random_addr caps tc_range =
     (case caps of (tc, xy, rgb) \<Rightarrow>
     \<lparr>short_address = short_addr, random_address = random_addr, device_types = [code Color],
      tc_capable = tc, xy_capable = xy, rgbwaf_channels = (if rgb then 3 else 0),
      tc_coolest_mirek = fst tc_range, tc_warmest_mirek = snd tc_range, phm = 1,
      energy_reporting = False, diagnostics_reporting = False, bus_unit_extension = False,
      luminaire_format = None, holds_dtr0_on_unimplemented = False,
      indicator_byte_unimplemented = False, switching_features = 0, switching_gear_type = 0\<rparr>)"

definition spec_dt7 :: "u8 option \<Rightarrow> u32 \<Rightarrow> u8 \<Rightarrow> u8 \<Rightarrow> GearSpec" where
  "spec_dt7 short_addr random_addr features gear_type =
     (spec_dt6 short_addr random_addr)\<lparr>device_types := [code Switching], phm := 254,
        switching_features := features, switching_gear_type := gear_type\<rparr>"

definition rgb_capable :: "GearSpec \<Rightarrow> bool" where
  "rgb_capable s \<longleftrightarrow> rgbwaf_channels s > 0"

definition with_metering :: "bool \<Rightarrow> bool \<Rightarrow> GearSpec \<Rightarrow> GearSpec" where
  "with_metering energy diagnostics s =
     (let s = s\<lparr>energy_reporting := energy, diagnostics_reporting := diagnostics\<rparr>;
          s = (if energy \<and> 51 \<notin> set (device_types s) then s\<lparr>device_types := device_types s @ [51]\<rparr> else s)
      in if diagnostics \<and> 52 \<notin> set (device_types s) then s\<lparr>device_types := device_types s @ [52]\<rparr> else s)"

datatype ColorMode = NoColor | Cct | Xy | Rgb

record Rgbwaf =
  pending_levels :: "u8 list"
  pending_control :: u8
  rw_levels :: "u8 list"
  rw_control :: u8

definition rgbwaf_at_power_up :: Rgbwaf where
  "rgbwaf_at_power_up = \<lparr>pending_levels = replicate 6 0, pending_control = 0xFF,
     rw_levels = replicate 6 0, rw_control = 0x3F\<rparr>"

record ColourSetting =
  colour_type :: u8
  cs_x :: u16
  cs_y :: u16
  cs_tc :: u16
  cs_levels :: "u8 list"
  cs_control :: u8

definition colour_mask :: ColourSetting where
  "colour_mask = \<lparr>colour_type = 0xFF, cs_x = 0xFFFF, cs_y = 0xFFFF, cs_tc = 0xFFFF,
     cs_levels = replicate 6 0xFF, cs_control = 0xFF\<rparr>"

definition factory_colour :: "GearSpec \<Rightarrow> ColourSetting" where
  "factory_colour s = colour_mask\<lparr>colour_type :=
     (if code Color \<notin> set (device_types s) then 0xFF
      else if xy_capable s then 0x10
      else if tc_capable s then 0x20
      else 0x80)\<rparr>"

record LevelSetting =
  ls_level :: u8
  ls_colour :: ColourSetting

definition level_setting_factory :: "u8 \<Rightarrow> GearSpec \<Rightarrow> LevelSetting" where
  "level_setting_factory l s = \<lparr>ls_level = l, ls_colour = factory_colour s\<rparr>"

primrec colour_type_byte :: "ColorMode \<Rightarrow> u8" where
  "colour_type_byte NoColor = 0xFF" | "colour_type_byte Xy = 0x10"
| "colour_type_byte Cct = 0x20" | "colour_type_byte Rgb = 0x80"

record FaultInjection =
  drop_answer_permille :: u16
  forced_status :: u8
  failure_status :: u8
  memory_write_unstored :: bool
  memory_write_holds_dtr0 :: bool

definition no_faults :: FaultInjection where
  "no_faults = \<lparr>drop_answer_permille = 0, forced_status = 0, failure_status = 0,
     memory_write_unstored = False, memory_write_holds_dtr0 = False\<rparr>"

record Heard =
  heard_executes :: bool
  completed_pair :: bool
  heard_split :: bool

record PendingRandom =
  pr_address :: u32
  ready_at_ms :: u64

record Switching =
  thresholds :: "u8 list"
  error_hold_off :: u8
  switch_status :: u8

record ProfileBanks =
  bank0 :: "u8 list"
  bank1 :: "u8 list"
  pb_luminaire :: "LuminaireBank option"

record Gear =
  spec :: GearSpec
  enabled :: bool
  level :: u8
  last_active_level :: u8
  min_level :: u8
  max_level :: u8
  power_on :: LevelSetting
  system_failure :: LevelSetting
  fade_time :: u8
  fade_rate :: u8
  extended_fade_time :: u8
  groups :: u16
  scenes :: "u8 list"
  lamp_failure :: bool
  lamp_starting :: bool
  faults :: FaultInjection
  reset_state :: bool
  power_cycle_seen :: bool
  initialise :: bool
  withdrawn :: bool
  identifying :: bool
  switching :: Switching
  dimming_curve :: u8
  write_enabled :: bool
  device_type_walk :: "nat option"
  limit_error :: bool
  pending_repeat :: "u16 option"
  pending_random :: "PendingRandom option"
  executes_now :: bool
  color_mode :: ColorMode
  pending_mode :: ColorMode
  pending_x :: u16
  pending_y :: u16
  pending_ct :: u16
  rgbwaf :: Rgbwaf
  color_x :: u16
  color_y :: u16
  color_ct :: u16
  tc_out_of_range :: bool
  tc_coolest_limit :: u16
  tc_warmest_limit :: u16
  scene_colours :: "ColourSetting list"
  report :: ColourSetting
  gear_features :: u8
  banks :: ProfileBanks
  metering :: "MeteringBanks option"

section \<open>Memory banks of a gear\<close>

definition build_bank0 :: "GearSpec \<Rightarrow> u8 list" where
  "build_bank0 s =
     (let serial = 0x5EED0000 + ucast (random_address s);
          gtin_value = 0x400000000000 OR ucast (random_address s);
          head = [if bus_unit_extension s then 0x1C else 0x1A, 0, 1];
          middle = drop 2 (be_bytes 8 gtin_value) @ [1, 4] @ be_bytes 8 serial;
          tail = [2, 0, 0x08, 0x08, 0, 0, 1, 0];
          ext = (if bus_unit_extension s then [0, 1] else [0, 0])
      in head @ middle @ tail @ ext)"

definition build_bank1 :: "GearSpec \<Rightarrow> u8 list" where
  "build_bank1 s =
     (let oem_gtin = 0x0EE000000000 OR ucast (random_address s);
          oem_id = push_bit 8 (ucast (random_address s))
      in [0x10, 0, 0x55] @ drop 2 (be_bytes 8 oem_gtin) @ be_bytes 8 oem_id)"

definition build_luminaire :: "GearSpec \<Rightarrow> LuminaireBank option" where
  "build_luminaire s =
     map_option (\<lambda>f. luminaire_bank_new (random_address s) f (tc_capable s)) (luminaire_format s)"

definition build_metering :: "GearSpec \<Rightarrow> MeteringBanks option" where
  "build_metering s =
     (if energy_reporting s \<or> diagnostics_reporting s
      then Some (metering_banks_new (random_address s) (energy_reporting s) (diagnostics_reporting s))
      else None)"

definition profile_banks_build :: "GearSpec \<Rightarrow> ProfileBanks" where
  "profile_banks_build s = \<lparr>bank0 = build_bank0 s, bank1 = build_bank1 s, pb_luminaire = build_luminaire s\<rparr>"

definition octet_at :: "u8 list \<Rightarrow> u8 \<Rightarrow> u8 option" where
  "octet_at bs offset = (if unat offset < length bs then Some (bs ! unat offset) else None)"

definition identity_location :: "Gear \<Rightarrow> u8 \<Rightarrow> u8 option" where
  "identity_location g offset =
     (if offset > bank0 (banks g) ! 0 then None
      else if offset = 0x01 then None
      else case octet_at (bank0 (banks g)) offset of
             None \<Rightarrow> None
           | Some r \<Rightarrow> if unat offset \<noteq> 0x02 then Some r
                       else Some (case metering g of Some m \<Rightarrow> last_accessible_bank m r | None \<Rightarrow> r))"

definition profile_location :: "Gear \<Rightarrow> u8 \<Rightarrow> u8 option" where
  "profile_location g offset =
     (if unat offset = 0x00 then
        Some (case pb_luminaire (banks g) of Some l \<Rightarrow> last_accessible l | None \<Rightarrow> 0x10)
      else case pb_luminaire (banks g) of
             Some l \<Rightarrow> if offset \<ge> 0x11 then lum_location l offset else octet_at (bank1 (banks g)) offset
           | None \<Rightarrow> octet_at (bank1 (banks g)) offset)"

definition store_profile :: "u8 \<Rightarrow> u8 \<Rightarrow> Gear \<Rightarrow> Gear" where
  "store_profile offset v g =
     (let into_bank1 = g\<lparr>banks := (banks g)\<lparr>bank1 := (bank1 (banks g))[unat offset := v]\<rparr>\<rparr> in
      case pb_luminaire (banks g) of
        Some l \<Rightarrow> if offset \<ge> 0x11
                  then g\<lparr>banks := (banks g)\<lparr>pb_luminaire := Some (lum_store offset v l)\<rparr>\<rparr>
                  else into_bank1
      | None \<Rightarrow> into_bank1)"

definition profile_writable :: "Gear \<Rightarrow> u8 \<Rightarrow> bool" where
  "profile_writable g offset =
     (let last_offset = (case profile_location g 0 of Some l \<Rightarrow> l | None \<Rightarrow> 0);
          unlocked = (bank1 (banks g) ! 2 = 0x55)
      in 0x02 \<le> offset \<and> offset \<le> last_offset \<and> (offset = 0x02 \<or> unlocked))"

definition write_memory_location :: "u8 \<Rightarrow> u8 \<Rightarrow> u8 \<Rightarrow> Gear \<Rightarrow> u8 option \<times> Gear" where
  "write_memory_location bank offset v g =
     (if bank \<noteq> 1 \<or> \<not> profile_writable g offset then (None, g)
      else (Some v, if memory_write_unstored (faults g) then g else store_profile offset v g))"

definition lacks_indicator_byte :: "Gear \<Rightarrow> u8 \<Rightarrow> u8 \<Rightarrow> bool" where
  "lacks_indicator_byte g bank offset \<longleftrightarrow>
     indicator_byte_unimplemented (spec g) \<and> bank \<noteq> 0 \<and> offset = 0x01"

definition memory_location :: "Gear \<Rightarrow> u8 \<Rightarrow> u8 \<Rightarrow> u8 option" where
  "memory_location g bank offset =
     (if lacks_indicator_byte g bank offset then None
      else if bank = 0 then identity_location g offset
      else if bank = 1 then profile_location g offset
      else case metering g of Some m \<Rightarrow> metering_location m bank offset | None \<Rightarrow> None)"

definition implements_bank :: "Gear \<Rightarrow> u8 \<Rightarrow> bool" where
  "implements_bank g bank \<longleftrightarrow> bank = 0 \<or> bank = 1 \<or>
     (case metering g of Some m \<Rightarrow> metering_implements_bank m bank | None \<Rightarrow> False)"

definition advances_dtr0_past :: "Gear \<Rightarrow> u8 \<Rightarrow> u8 \<Rightarrow> bool" where
  "advances_dtr0_past g bank offset \<longleftrightarrow>
     implements_bank g bank \<and>
     (\<not> holds_dtr0_on_unimplemented (spec g) \<or> memory_location g bank offset \<noteq> None)"

section \<open>Construction and power cycle\<close>

definition switching_factory :: "u8 \<Rightarrow> Switching" where
  "switching_factory features =
     \<lparr>thresholds = map threshold_factory [UpSwitchOn, UpSwitchOff, DownSwitchOn, DownSwitchOff],
      error_hold_off = 0,
      switch_status = (if features AND 0x40 \<noteq> 0 then 0x80 else 0)\<rparr>"

definition gear_new :: "GearSpec \<Rightarrow> Gear" where
  "gear_new s =
     \<lparr>spec = s, enabled = True, level = 0, last_active_level = 254, min_level = phm s, max_level = 254,
      power_on = level_setting_factory 254 s, system_failure = level_setting_factory 254 s,
      fade_time = 0, fade_rate = 7, extended_fade_time = 0, groups = 0, scenes = replicate 16 0xFF,
      lamp_failure = False, lamp_starting = False, faults = no_faults, reset_state = True,
      power_cycle_seen = True, initialise = False, withdrawn = False, identifying = False,
      switching = switching_factory (switching_features s), dimming_curve = 0, write_enabled = False,
      device_type_walk = None, limit_error = False, pending_repeat = None, pending_random = None,
      executes_now = False, color_mode = NoColor, pending_mode = NoColor,
      pending_x = 0, pending_y = 0, pending_ct = 0, rgbwaf = rgbwaf_at_power_up,
      color_x = 0, color_y = 0, color_ct = 0, tc_out_of_range = False,
      tc_coolest_limit = tc_coolest_mirek s, tc_warmest_limit = tc_warmest_mirek s,
      scene_colours = replicate 16 colour_mask, report = colour_mask, gear_features = 0x01,
      banks = profile_banks_build s, metering = build_metering s\<rparr>"

definition power_cycle :: "Gear \<Rightarrow> Gear" where
  "power_cycle g =
     (let g = (if ls_level (power_on g) \<noteq> 0xFF then g\<lparr>level := ls_level (power_on g)\<rparr> else g)
      in g\<lparr>last_active_level := max_level g, power_cycle_seen := True, limit_error := False,
           initialise := False, withdrawn := False, identifying := False, write_enabled := False,
           pending_repeat := None, pending_random := None, rgbwaf := rgbwaf_at_power_up,
           pending_mode := NoColor, report := colour_mask, gear_features := 0x01\<rparr>)"

definition set_metering :: "bool \<Rightarrow> bool \<Rightarrow> Gear \<Rightarrow> Gear" where
  "set_metering energy diagnostics g =
     (let s = (spec g)\<lparr>energy_reporting := energy, diagnostics_reporting := diagnostics,
            device_types := filter (\<lambda>t. t \<noteq> 51 \<and> t \<noteq> 52) (device_types (spec g))\<rparr>;
          s = (if energy then s\<lparr>device_types := device_types s @ [51]\<rparr> else s);
          s = (if diagnostics then s\<lparr>device_types := device_types s @ [52]\<rparr> else s)
      in g\<lparr>spec := s, metering := build_metering s\<rparr>)"

definition set_luminaire_format :: "LuminaireFormat option \<Rightarrow> Gear \<Rightarrow> Gear" where
  "set_luminaire_format f g =
     (let s = (spec g)\<lparr>luminaire_format := f, device_types := filter (\<lambda>t. t \<noteq> 50) (device_types (spec g))\<rparr>;
          s = (if f \<noteq> None then s\<lparr>device_types := device_types s @ [50]\<rparr> else s)
      in g\<lparr>spec := s, banks := profile_banks_build s\<rparr>)"

definition set_bus_unit_extension :: "bool \<Rightarrow> Gear \<Rightarrow> Gear" where
  "set_bus_unit_extension on g =
     (let s = (spec g)\<lparr>bus_unit_extension := on\<rparr>
      in g\<lparr>spec := s, banks := (banks g)\<lparr>bank0 := build_bank0 s\<rparr>\<rparr>)"

section \<open>Addressing and hearing\<close>

definition gear_matches :: "Gear \<Rightarrow> DaliAddress \<Rightarrow> bool" where
  "gear_matches g address \<longleftrightarrow> enabled g \<and>
     (case address of
        Short s \<Rightarrow> short_address (spec g) = Some s
      | Group gr \<Rightarrow> groups g AND push_bit (unat gr) 1 \<noteq> 0
      | Broadcast \<Rightarrow> True
      | BroadcastUnaddressed \<Rightarrow> short_address (spec g) = None)"

definition is_dt8 :: "Gear \<Rightarrow> bool" where
  "is_dt8 g \<longleftrightarrow> code Color \<in> set (device_types (spec g))"

definition is_dt6 :: "Gear \<Rightarrow> bool" where
  "is_dt6 g \<longleftrightarrow> code Led \<in> set (device_types (spec g))"

definition is_dt7 :: "Gear \<Rightarrow> bool" where
  "is_dt7 g \<longleftrightarrow> code Switching \<in> set (device_types (spec g))"

definition gear_holds :: "Gear \<Rightarrow> u16 \<Rightarrow> bool" where
  "gear_holds g frame \<longleftrightarrow> pending_repeat g = Some frame"

definition gear_hear :: "u16 \<Rightarrow> bool \<Rightarrow> Gear \<Rightarrow> Heard \<times> Gear" where
  "gear_hear frame repeats g =
     (if pending_repeat g = Some frame
      then (\<lparr>heard_executes = True, completed_pair = True, heard_split = False\<rparr>, g\<lparr>pending_repeat := None\<rparr>)
      else (\<lparr>heard_executes = \<not> repeats, completed_pair = False, heard_split = pending_repeat g \<noteq> None\<rparr>,
            g\<lparr>pending_repeat := (if repeats then Some frame else None)\<rparr>))"

definition cancel_device_type_walk :: "Gear \<Rightarrow> Gear" where
  "cancel_device_type_walk g = g\<lparr>device_type_walk := None\<rparr>"

definition hear_elsewhere :: "Gear \<Rightarrow> bool \<times> Gear" where
  "hear_elsewhere g = (pending_repeat g \<noteq> None, g\<lparr>device_type_walk := None, pending_repeat := None\<rparr>)"

section \<open>Colour\<close>

definition automatic_activation :: "Gear \<Rightarrow> bool" where
  "automatic_activation g = gear_features_automatic_activation (gear_features g)"

definition effective_coolest :: "Gear \<Rightarrow> u16" where
  "effective_coolest g = (if tc_coolest_limit g = 0xFFFF then tc_coolest_mirek (spec g) else tc_coolest_limit g)"

definition effective_warmest :: "Gear \<Rightarrow> u16" where
  "effective_warmest g = (if tc_warmest_limit g = 0xFFFF then tc_warmest_mirek (spec g) else tc_warmest_limit g)"

definition commit_pending_rgbwaf :: "Gear \<Rightarrow> Gear" where
  "commit_pending_rgbwaf g =
     (let w = rgbwaf g;
          w = (if pending_control w \<noteq> 0xFF then w\<lparr>rw_control := pending_control w\<rparr> else w)
      in g\<lparr>color_mode := Rgb, rgbwaf := w\<lparr>rw_levels := pending_levels w\<rparr>\<rparr>)"

definition unlink_all_channels :: "Gear \<Rightarrow> Gear" where
  "unlink_all_channels g = g\<lparr>rgbwaf := (rgbwaf g)\<lparr>rw_control := rw_control (rgbwaf g) AND NOT 0x3F\<rparr>\<rparr>"

definition commit_pending_cct :: "Gear \<Rightarrow> Gear" where
  "commit_pending_cct g =
     (let clamped = clamp (pending_ct g) (effective_coolest g) (effective_warmest g)
      in g\<lparr>color_mode := Cct, tc_out_of_range := (clamped \<noteq> pending_ct g), color_ct := clamped\<rparr>)"

definition activate_pending_color :: "Gear \<Rightarrow> Gear" where
  "activate_pending_color g =
     (let g = (case pending_mode g of
          NoColor \<Rightarrow> g
        | Xy \<Rightarrow> unlink_all_channels (g\<lparr>color_mode := Xy, color_x := pending_x g, color_y := pending_y g\<rparr>)
        | Cct \<Rightarrow> unlink_all_channels (commit_pending_cct g)
        | Rgb \<Rightarrow> commit_pending_rgbwaf g)
      in g\<lparr>pending_mode := NoColor, rgbwaf := (rgbwaf g)\<lparr>pending_control := 0xFF\<rparr>\<rparr>)"

definition arc_power_activation :: "Gear \<Rightarrow> Gear" where
  "arc_power_activation g = (if automatic_activation g then activate_pending_color g else g)"

definition tc_step :: "bool \<Rightarrow> Gear \<Rightarrow> Gear" where
  "tc_step warmer g =
     (if color_mode g \<noteq> Cct then g
      else g\<lparr>color_ct := (if warmer then min (saturating_add (color_ct g) 1) (effective_warmest g)
                          else max (saturating_sub (color_ct g) 1) (effective_coolest g)),
             tc_out_of_range := False\<rparr>)"

definition xy_step :: "bool \<Rightarrow> bool \<Rightarrow> Gear \<Rightarrow> Gear" where
  "xy_step y_axis up g =
     (if color_mode g \<noteq> Xy then g
      else let stepped = (\<lambda>v. if up then min (saturating_add v 256) 0xFFFE else saturating_sub v 256)
           in if y_axis then g\<lparr>color_y := stepped (color_y g)\<rparr> else g\<lparr>color_x := stepped (color_x g)\<rparr>)"

definition set_rendered_limit :: "bool \<Rightarrow> u16 \<Rightarrow> Gear \<Rightarrow> Gear" where
  "set_rendered_limit warmest v g =
     (if warmest then g\<lparr>tc_warmest_limit := v\<rparr> else g\<lparr>tc_coolest_limit := v\<rparr>)"

definition store_rendered_tc_limit :: "bool \<Rightarrow> u16 \<Rightarrow> Gear \<Rightarrow> Gear" where
  "store_rendered_tc_limit warmest v g =
     (if v = 0xFFFF then set_rendered_limit warmest 0xFFFF g
      else let clamped = clamp v (tc_coolest_mirek (spec g)) (tc_warmest_mirek (spec g));
               g = set_rendered_limit warmest clamped g;
               g = (if warmest \<and> clamped < effective_coolest g then g\<lparr>tc_coolest_limit := clamped\<rparr> else g)
           in if \<not> warmest \<and> clamped > effective_warmest g then g\<lparr>tc_warmest_limit := clamped\<rparr> else g)"

definition bound_rendered_limit :: "u16 \<Rightarrow> u16 \<Rightarrow> bool \<Rightarrow> Gear \<Rightarrow> Gear" where
  "bound_rendered_limit lo hi warm g =
     (let effective = (if warm then effective_warmest g else effective_coolest g);
          bounded = clamp effective lo hi
      in if bounded \<noteq> effective then set_rendered_limit warm bounded g else g)"

definition store_physical_tc_limit :: "bool \<Rightarrow> u16 \<Rightarrow> Gear \<Rightarrow> Gear" where
  "store_physical_tc_limit warmest v g =
     (if v = 0xFFFF then g
      else let g = (if warmest
                    then g\<lparr>spec := (spec g)\<lparr>tc_warmest_mirek := max v (tc_coolest_mirek (spec g))\<rparr>\<rparr>
                    else g\<lparr>spec := (spec g)\<lparr>tc_coolest_mirek := min v (tc_warmest_mirek (spec g))\<rparr>\<rparr>);
               lo = tc_coolest_mirek (spec g);
               hi = tc_warmest_mirek (spec g)
           in bound_rendered_limit lo hi True (bound_rendered_limit lo hi False g))"

definition store_tc_limit :: "u16 \<Rightarrow> u8 \<Rightarrow> Gear \<Rightarrow> Gear" where
  "store_tc_limit v selector g =
     (if selector > 3 then g
      else let g = (if selector = 0 then store_rendered_tc_limit False v g
                    else if selector = 1 then store_rendered_tc_limit True v g
                    else if selector = 2 then store_physical_tc_limit False v g
                    else store_physical_tc_limit True v g)
           in if color_mode g = Cct then
                let snapped = clamp (color_ct g) (effective_coolest g) (effective_warmest g)
                in if snapped \<noteq> color_ct g then g\<lparr>color_ct := snapped, tc_out_of_range := True\<rparr> else g
              else g)"

definition load_report_from_actual :: "Gear \<Rightarrow> Gear" where
  "load_report_from_actual g = g\<lparr>report :=
     (case color_mode g of
        NoColor \<Rightarrow> colour_mask
      | Xy \<Rightarrow> colour_mask\<lparr>colour_type := 0x10, cs_x := color_x g, cs_y := color_y g\<rparr>
      | Cct \<Rightarrow> colour_mask\<lparr>colour_type := 0x20, cs_tc := color_ct g\<rparr>
      | Rgb \<Rightarrow> colour_mask\<lparr>colour_type := 0x80, cs_levels := rw_levels (rgbwaf g),
                 cs_control := rw_control (rgbwaf g)\<rparr>)\<rparr>"

definition scene_colour :: "Gear \<Rightarrow> u8 \<Rightarrow> ColourSetting" where
  "scene_colour g scene =
     (if unat scene < length (scene_colours g) then scene_colours g ! unat scene else colour_mask)"

definition load_report_from_scene :: "u8 \<Rightarrow> Gear \<Rightarrow> Gear" where
  "load_report_from_scene scene g = g\<lparr>report := scene_colour g scene\<rparr>"

definition load_report_from_level_colour :: "StandardCommand \<Rightarrow> Gear \<Rightarrow> Gear" where
  "load_report_from_level_colour command g =
     (case command of
        QueryPowerOnLevel \<Rightarrow> g\<lparr>report := ls_colour (power_on g)\<rparr>
      | QuerySystemFailureLevel \<Rightarrow> g\<lparr>report := ls_colour (system_failure g)\<rparr>
      | _ \<Rightarrow> g)"

definition load_temporaries_from :: "ColourSetting \<Rightarrow> Gear \<Rightarrow> Gear" where
  "load_temporaries_from s g =
     (let unlinked = (rgbwaf g)\<lparr>pending_control := 0xFF\<rparr> in
      if colour_type s = 0x10 then
        g\<lparr>pending_mode := Xy, pending_x := cs_x s, pending_y := cs_y s, rgbwaf := unlinked\<rparr>
      else if colour_type s = 0x20 then
        g\<lparr>pending_mode := Cct, pending_ct := cs_tc s, rgbwaf := unlinked\<rparr>
      else if colour_type s = 0x80 then
        g\<lparr>pending_mode := Rgb,
          rgbwaf := (rgbwaf g)\<lparr>pending_levels := cs_levels s, pending_control := cs_control s\<rparr>\<rparr>
      else g\<lparr>pending_mode := NoColor, rgbwaf := unlinked\<rparr>)"

definition copy_report_to_temporary :: "Gear \<Rightarrow> Gear" where
  "copy_report_to_temporary g = load_temporaries_from (report g) g"

definition take_staged_colour :: "Gear \<Rightarrow> ColourSetting option \<times> Gear" where
  "take_staged_colour g =
     (let taken = g\<lparr>pending_mode := NoColor, rgbwaf := (rgbwaf g)\<lparr>pending_control := 0xFF\<rparr>\<rparr> in
      case pending_mode g of
        NoColor \<Rightarrow> (None, g)
      | Xy \<Rightarrow> (Some (colour_mask\<lparr>colour_type := 0x10, cs_x := pending_x g, cs_y := pending_y g\<rparr>), taken)
      | Cct \<Rightarrow> (Some (colour_mask\<lparr>colour_type := 0x20, cs_tc := pending_ct g\<rparr>), taken)
      | Rgb \<Rightarrow> (Some (colour_mask\<lparr>colour_type := 0x80, cs_levels := pending_levels (rgbwaf g),
                   cs_control := pending_control (rgbwaf g)\<rparr>), taken))"

definition store_scene_colour :: "u8 \<Rightarrow> Gear \<Rightarrow> Gear" where
  "store_scene_colour scene g =
     (case take_staged_colour g of
        (None, g) \<Rightarrow> g
      | (Some staged, g) \<Rightarrow> g\<lparr>scene_colours := (scene_colours g)[unat scene := staged]\<rparr>)"

definition apply_setting :: "u8 \<Rightarrow> ColourSetting option \<Rightarrow> LevelSetting \<Rightarrow> LevelSetting" where
  "apply_setting l staged s =
     (let s = s\<lparr>ls_level := l\<rparr> in case staged of None \<Rightarrow> s | Some c \<Rightarrow> s\<lparr>ls_colour := c\<rparr>)"

definition store_level_setting :: "StandardCommand \<Rightarrow> u8 \<Rightarrow> Gear \<Rightarrow> Gear" where
  "store_level_setting command l g =
     (case take_staged_colour g of (staged, g) \<Rightarrow>
        (case command of
           SetPowerOnLevel \<Rightarrow> g\<lparr>power_on := apply_setting l staged (power_on g)\<rparr>
         | SetSystemFailureLevel \<Rightarrow> g\<lparr>system_failure := apply_setting l staged (system_failure g)\<rparr>
         | _ \<Rightarrow> g))"

section \<open>Levels\<close>

definition set_level :: "u8 \<Rightarrow> Gear \<Rightarrow> Gear" where
  "set_level l g =
     (let g = g\<lparr>level := (if l = 0 then 0 else clamp l (min_level g) (max_level g))\<rparr>;
          g = g\<lparr>limit_error := (l \<noteq> 0 \<and> level g \<noteq> l)\<rparr>
      in if level g > 0 then g\<lparr>last_active_level := level g\<rparr> else g)"

definition levels_fixed :: "Gear \<Rightarrow> bool" where
  "levels_fixed g \<longleftrightarrow> is_dt7 g \<and> switching_features (spec g) AND 0x08 = 0"

definition min_level_floor :: "Gear \<Rightarrow> u8" where
  "min_level_floor g = (if is_dt7 g then 1 else phm (spec g))"

definition readjust_level_into_bounds :: "Gear \<Rightarrow> Gear" where
  "readjust_level_into_bounds g =
     (if level g = 0 then g
      else let clamped = clamp (level g) (min_level g) (max_level g)
           in if clamped \<noteq> level g
              then g\<lparr>level := clamped, last_active_level := clamped, limit_error := True\<rparr> else g)"

definition set_min_level :: "u8 \<Rightarrow> Gear \<Rightarrow> Gear" where
  "set_min_level dtr0 g =
     (if levels_fixed g then g
      else let lo = min_level_floor g
           in readjust_level_into_bounds (g\<lparr>min_level :=
                (if dtr0 \<le> lo then lo else if dtr0 \<ge> max_level g then max_level g else dtr0)\<rparr>))"

definition set_max_level :: "u8 \<Rightarrow> Gear \<Rightarrow> Gear" where
  "set_max_level dtr0 g =
     readjust_level_into_bounds (g\<lparr>max_level :=
       (if min_level g \<ge> dtr0 then min_level g else if dtr0 = 0xFF then 0xFE else dtr0)\<rparr>)"

definition apply_dapc :: "u8 \<Rightarrow> Gear \<Rightarrow> Gear" where
  "apply_dapc l g =
     (let g = g\<lparr>power_cycle_seen := False\<rparr> in if l \<noteq> 0xFF then set_level l g else g)"

definition failure_bits :: "Gear \<Rightarrow> FailureStatusBits" where
  "failure_bits g = decode_failure_status (failure_status (faults g))"

definition gear_thermal_shut_down :: "Gear \<Rightarrow> bool" where
  "gear_thermal_shut_down g \<longleftrightarrow> is_dt6 g \<and> thermal_shut_down (failure_bits g)"

definition lamp_on :: "Gear \<Rightarrow> bool" where
  "lamp_on g \<longleftrightarrow> level g > 0 \<and> \<not> lamp_starting g \<and> \<not> lamp_failure g \<and> \<not> gear_thermal_shut_down g"

definition lamp_failure_from_207 :: "Gear \<Rightarrow> bool" where
  "lamp_failure_from_207 g \<longleftrightarrow> is_dt6 g \<and>
     (let b = failure_bits g in short_circuit b \<or> open_circuit b \<or> load_decrease b \<or> load_increase b
        \<or> current_protector_active b)"

definition status_byte :: "Gear \<Rightarrow> u8" where
  "status_byte g =
     (let r = forced_status (faults g);
          r = (if lamp_failure g \<or> lamp_failure_from_207 g then r OR 0x02 else r);
          r = (if lamp_on g then r OR 0x04 else r);
          r = (if limit_error g then r OR 0x08 else r);
          r = (if reset_state g then r OR 0x20 else r);
          r = (if power_cycle_seen g then r OR 0x80 else r)
      in if short_address (spec g) = None then r OR 0x40 else r)"

section \<open>Colour values\<close>

definition dt8_colour_status :: "Gear \<Rightarrow> u8" where
  "dt8_colour_status g =
     (let active = (case color_mode g of NoColor \<Rightarrow> 0 | Xy \<Rightarrow> 0x10 | Cct \<Rightarrow> 0x20 | Rgb \<Rightarrow> 0x80)
      in if tc_out_of_range g \<and> color_mode g = Cct then active OR 0x02 else active)"

definition active_or_mask :: "Gear \<Rightarrow> ColorMode \<Rightarrow> u16 \<Rightarrow> u16" where
  "active_or_mask g mode v = (if color_mode g = mode then v else 0xFFFF)"

definition staged_or_mask :: "Gear \<Rightarrow> ColorMode \<Rightarrow> u16 \<Rightarrow> u16" where
  "staged_or_mask g mode v = (if pending_mode g = mode then v else 0xFFFF)"

definition report_or_mask :: "Gear \<Rightarrow> u8 \<Rightarrow> u16 \<Rightarrow> u16" where
  "report_or_mask g t v = (if colour_type (report g) = t then v else 0xFFFF)"

definition staged_channel_level :: "Gear \<Rightarrow> u8 \<Rightarrow> u16" where
  "staged_channel_level g channel =
     (if channel \<ge> rgbwaf_channels (spec g) then 0xFF else ucast (pending_levels (rgbwaf g) ! unat channel))"

definition report_channel_level :: "Gear \<Rightarrow> u8 \<Rightarrow> u16" where
  "report_channel_level g channel =
     (if channel \<ge> rgbwaf_channels (spec g) then 0xFF else ucast (cs_levels (report g) ! unat channel))"

definition channel_dim_level :: "Gear \<Rightarrow> u8 \<Rightarrow> u16 option" where
  "channel_dim_level g value_id =
     (let channel = unat (value_id - 9) in
      if channel \<ge> unat (rgbwaf_channels (spec g)) then Some 0xFF
      else Some (ucast (rw_levels (rgbwaf g) ! channel)))"

definition active_colour_value :: "Gear \<Rightarrow> u8 \<Rightarrow> u16 option" where
  "active_colour_value g v =
     (let xy = xy_capable (spec g); tc = tc_capable (spec g); rgb = rgb_capable (spec g) in
      if v = 0 \<and> xy then Some (active_or_mask g Xy (color_x g))
      else if v = 1 \<and> xy then Some (active_or_mask g Xy (color_y g))
      else if v = 2 \<and> tc then Some (active_or_mask g Cct (color_ct g))
      else if 9 \<le> v \<and> v \<le> 14 \<and> rgb then
        (if color_mode g = Rgb then channel_dim_level g v else Some 0xFF)
      else if v = 15 \<and> rgb then Some (if color_mode g = Rgb then ucast (rw_control (rgbwaf g)) else 0xFF)
      else None)"

definition primary_and_limit_value :: "Gear \<Rightarrow> u8 \<Rightarrow> u16 option" where
  "primary_and_limit_value g v =
     (let tc = tc_capable (spec g) in
      if 64 \<le> v \<and> v \<le> 81 then Some 0xFFFF
      else if v = 82 then Some 0
      else if v = 128 \<and> tc then Some (tc_coolest_limit g)
      else if v = 129 \<and> tc then Some (tc_coolest_mirek (spec g))
      else if v = 130 \<and> tc then Some (tc_warmest_limit g)
      else if v = 131 \<and> tc then Some (tc_warmest_mirek (spec g))
      else None)"

definition temporary_colour_value :: "Gear \<Rightarrow> u8 \<Rightarrow> u16 option" where
  "temporary_colour_value g v =
     (let xy = xy_capable (spec g); tc = tc_capable (spec g); rgb = rgb_capable (spec g) in
      if v = 192 \<and> xy then Some (staged_or_mask g Xy (pending_x g))
      else if v = 193 \<and> xy then Some (staged_or_mask g Xy (pending_y g))
      else if v = 194 \<and> tc then Some (staged_or_mask g Cct (pending_ct g))
      else if 201 \<le> v \<and> v \<le> 206 \<and> rgb then
        Some (if pending_mode g = Rgb then staged_channel_level g (v - 201) else 0xFF)
      else if v = 207 \<and> rgb then
        Some (if pending_mode g = Rgb then ucast (pending_control (rgbwaf g)) else 0xFF)
      else if v = 208 then Some (ucast (colour_type_byte (pending_mode g)))
      else None)"

definition report_colour_value :: "Gear \<Rightarrow> u8 \<Rightarrow> u16 option" where
  "report_colour_value g v =
     (let xy = xy_capable (spec g); tc = tc_capable (spec g); rgb = rgb_capable (spec g) in
      if v = 224 \<and> xy then Some (report_or_mask g 0x10 (cs_x (report g)))
      else if v = 225 \<and> xy then Some (report_or_mask g 0x10 (cs_y (report g)))
      else if v = 226 \<and> tc then Some (report_or_mask g 0x20 (cs_tc (report g)))
      else if 233 \<le> v \<and> v \<le> 238 \<and> rgb then
        Some (if colour_type (report g) = 0x80 then report_channel_level g (v - 233) else 0xFF)
      else if v = 239 \<and> rgb then
        Some (if colour_type (report g) = 0x80 then ucast (cs_control (report g)) else 0xFF)
      else if v = 240 then Some (ucast (colour_type (report g)))
      else None)"

definition color_value :: "Gear \<Rightarrow> u8 \<Rightarrow> u16 option" where
  "color_value g v =
     (if v \<le> 15 then active_colour_value g v
      else if 64 \<le> v \<and> v \<le> 131 then primary_and_limit_value g v
      else if 192 \<le> v \<and> v \<le> 208 then temporary_colour_value g v
      else if 224 \<le> v \<and> v \<le> 240 then report_colour_value g v
      else None)"

definition count_ones :: "u8 \<Rightarrow> nat" where
  "count_ones w = length (filter (bit w) [0..<8])"

definition actual_level_answer :: "Gear \<Rightarrow> u8" where
  "actual_level_answer g =
     (let thermal = failure_bits g in
      if is_dt6 g \<and> (thermal_shut_down thermal \<or> thermal_overload thermal) then 0xFF
      else if color_mode g \<noteq> Rgb then level g
      else let linked = count_ones (rw_control (rgbwaf g) AND 0x3F);
               normalised = (rw_control (rgbwaf g) AND 0xC0 = 0x80)
           in if linked = 1 \<or> normalised then level g else 0xFF)"

definition rgbwaf_control_byte :: "Gear \<Rightarrow> u8 option" where
  "rgbwaf_control_byte g = (if rgbwaf_channels (spec g) > 0 then Some (rw_control (rgbwaf g)) else None)"

definition dt8_features :: "Gear \<Rightarrow> u8" where
  "dt8_features g =
     (let f = (if xy_capable (spec g) then 0x01 else 0);
          f = (if tc_capable (spec g) then f OR 0x02 else f)
      in f OR push_bit 5 (rgbwaf_channels (spec g) AND 0x07))"

section \<open>Standard writes\<close>

definition apply_identify_state :: "StandardCommand \<Rightarrow> Gear \<Rightarrow> Gear" where
  "apply_identify_state command g = g\<lparr>identifying :=
     (case command of IdentifyDevice \<Rightarrow> True | RecallMinLevel \<Rightarrow> identifying g
      | RecallMaxLevel \<Rightarrow> identifying g | _ \<Rightarrow> False)\<rparr>"

definition is_arc_power_change :: "StandardCommand \<Rightarrow> bool" where
  "is_arc_power_change command = (case command of DirectArcPower _ \<Rightarrow> True | Off \<Rightarrow> True
     | RecallMaxLevel \<Rightarrow> True | RecallMinLevel \<Rightarrow> True | GoToLastActiveLevel \<Rightarrow> True
     | Up \<Rightarrow> True | Down \<Rightarrow> True | StepUp \<Rightarrow> True | StepDown \<Rightarrow> True
     | StepDownAndOff \<Rightarrow> True | OnAndStepUp \<Rightarrow> True | _ \<Rightarrow> False)"

definition clears_power_cycle_seen :: "StandardCommand \<Rightarrow> bool" where
  "clears_power_cycle_seen command \<longleftrightarrow> is_arc_power_change command \<or>
     (case command of GoToScene _ \<Rightarrow> True | _ \<Rightarrow> False)"

definition level_up :: "u8 \<Rightarrow> Gear \<Rightarrow> Gear" where
  "level_up delta g = (if level g > 0 then set_level (saturating_add (level g) delta) g else g)"

definition level_down :: "u8 \<Rightarrow> Gear \<Rightarrow> Gear" where
  "level_down delta g =
     (if level g > 0 then set_level (max (saturating_sub (level g) delta) (min_level g)) g else g)"

definition step_down_and_off :: "Gear \<Rightarrow> Gear" where
  "step_down_and_off g =
     (if level g \<le> min_level g then set_level 0 g else set_level (saturating_sub (level g) 1) g)"

definition on_and_step_up :: "Gear \<Rightarrow> Gear" where
  "on_and_step_up g =
     (if level g = 0 then set_level (min_level g) g else set_level (saturating_add (level g) 1) g)"

definition recall_scene :: "u8 \<Rightarrow> Gear \<Rightarrow> Gear" where
  "recall_scene scene g =
     (let colour = scene_colour g scene;
          g = (if colour_type colour \<noteq> 0xFF then
                 (let g = load_temporaries_from colour g
                  in if automatic_activation g then activate_pending_color g else g)
               else g)
      in case octet_at (scenes g) scene of
           Some l \<Rightarrow> if l \<noteq> 0xFF then set_level l g else g
         | None \<Rightarrow> g)"

definition apply_level_write :: "StandardCommand \<Rightarrow> Gear \<Rightarrow> Gear" where
  "apply_level_write command g =
     (let g = (if clears_power_cycle_seen command then g\<lparr>power_cycle_seen := False\<rparr> else g);
          g = (if is_arc_power_change command then arc_power_activation g else g)
      in case command of
           DirectArcPower l \<Rightarrow> apply_dapc l g
         | Off \<Rightarrow> set_level 0 g
         | RecallMaxLevel \<Rightarrow> set_level (max_level g) g
         | RecallMinLevel \<Rightarrow> set_level (min_level g) g
         | GoToLastActiveLevel \<Rightarrow> set_level (last_active_level g) g
         | Up \<Rightarrow> level_up 8 g
         | Down \<Rightarrow> level_down 8 g
         | StepUp \<Rightarrow> level_up 1 g
         | StepDown \<Rightarrow> level_down 1 g
         | StepDownAndOff \<Rightarrow> step_down_and_off g
         | OnAndStepUp \<Rightarrow> on_and_step_up g
         | GoToScene scene \<Rightarrow> recall_scene scene g
         | _ \<Rightarrow> g)"

definition set_scene_slot :: "u8 \<Rightarrow> u8 \<Rightarrow> Gear \<Rightarrow> Gear" where
  "set_scene_slot scene l g = g\<lparr>scenes := (scenes g)[unat scene := l]\<rparr>"

definition set_group_bit :: "u8 \<Rightarrow> bool \<Rightarrow> Gear \<Rightarrow> Gear" where
  "set_group_bit gr member g =
     (if gr < 16 then
        let b = push_bit (unat gr) 1
        in g\<lparr>groups := (if member then groups g OR b else groups g AND NOT b)\<rparr>
      else g)"

definition reset_gear :: "Gear \<Rightarrow> Gear" where
  "reset_gear g =
     (let n = gear_new (spec g)
      in n\<lparr>enabled := enabled g, faults := faults g, executes_now := executes_now g,
           power_cycle_seen := False, color_mode := color_mode g, color_x := color_x g,
           color_y := color_y g, color_ct := color_ct g, tc_out_of_range := tc_out_of_range g,
           rgbwaf := (rgbwaf n)\<lparr>rw_levels := rw_levels (rgbwaf g), rw_control := rw_control (rgbwaf g)\<rparr>,
           switching := (switching n)\<lparr>switch_status := switch_status (switching g)\<rparr>\<rparr>)"

definition apply_config_write :: "StandardCommand \<Rightarrow> u8 \<Rightarrow> Gear \<Rightarrow> Gear" where
  "apply_config_write command dtr0 g =
     (let settled = (\<lambda>g. g\<lparr>reset_state := False\<rparr>) in
      case command of
        SetMaxLevel \<Rightarrow> settled (set_max_level dtr0 g)
      | SetMinLevel \<Rightarrow> settled (set_min_level dtr0 g)
      | SetPowerOnLevel \<Rightarrow> settled (store_level_setting command dtr0 g)
      | SetSystemFailureLevel \<Rightarrow> settled (store_level_setting command dtr0 g)
      | SetFadeTime \<Rightarrow> settled (g\<lparr>fade_time := dtr0\<rparr>)
      | SetFadeRate \<Rightarrow> settled (g\<lparr>fade_rate := dtr0\<rparr>)
      | SetExtendedFadeTime \<Rightarrow> settled (g\<lparr>extended_fade_time := (if dtr0 > 0x4F then 0 else dtr0)\<rparr>)
      | SetScene scene \<Rightarrow> settled (store_scene_colour scene (set_scene_slot scene dtr0 g))
      | RemoveScene scene \<Rightarrow>
          settled (let g = set_scene_slot scene 0xFF g
                   in g\<lparr>scene_colours := (scene_colours g)[unat scene := colour_mask]\<rparr>)
      | AddToGroup gr \<Rightarrow> settled (set_group_bit gr True g)
      | RemoveFromGroup gr \<Rightarrow> settled (set_group_bit gr False g)
      | Reset \<Rightarrow> reset_gear g
      | _ \<Rightarrow> g)"

definition apply_standard_write :: "StandardCommand \<Rightarrow> u8 \<Rightarrow> Gear \<Rightarrow> Gear" where
  "apply_standard_write command dtr0 g =
     (let g = g\<lparr>device_type_walk := None\<rparr>;
          g = (if command = EnableWriteMemory then g\<lparr>write_enabled := True\<rparr> else g)
      in apply_config_write command dtr0 (apply_level_write command (apply_identify_state command g)))"

section \<open>Queries\<close>

definition answer_if :: "bool \<Rightarrow> u8 \<Rightarrow> TransferOutcome" where
  "answer_if condition v = (if condition then Answer v else NoAnswer)"

definition is_manufacturer_specific_mode :: "u8 \<Rightarrow> bool" where
  "is_manufacturer_specific_mode mode \<longleftrightarrow> mode \<ge> 0x80"

definition level_query_reply :: "Gear \<Rightarrow> StandardCommand \<Rightarrow> TransferOutcome option" where
  "level_query_reply g command =
     (case command of
        QueryStatus \<Rightarrow> Some (Answer (status_byte g))
      | QueryActualLevel \<Rightarrow> Some (Answer (actual_level_answer g))
      | QueryMaxLevel \<Rightarrow> Some (Answer (max_level g))
      | QueryMinLevel \<Rightarrow> Some (Answer (min_level g))
      | QueryPowerOnLevel \<Rightarrow> Some (Answer (ls_level (power_on g)))
      | QuerySystemFailureLevel \<Rightarrow> Some (Answer (ls_level (system_failure g)))
      | QueryPhysicalMinimum \<Rightarrow> Some (Answer (phm (spec g)))
      | QueryFadeTimeFadeRate \<Rightarrow> Some (Answer (push_bit 4 (fade_time g) OR (fade_rate g AND 0x0F)))
      | QueryExtendedFadeTime \<Rightarrow> Some (Answer (extended_fade_time g))
      | QueryControlGearPresent \<Rightarrow> Some (Answer 0xFF)
      | QueryLampFailure \<Rightarrow> Some (answer_if (lamp_failure g) 0xFF)
      | QueryLampPowerOn \<Rightarrow> Some (answer_if (lamp_on g) 0xFF)
      | QueryLimitError \<Rightarrow> Some (answer_if (limit_error g) 0xFF)
      | QueryPowerFailure \<Rightarrow> Some (answer_if (power_cycle_seen g) 0xFF)
      | StandardCommand.QueryOperatingMode \<Rightarrow> Some (Answer 0x00)
      | QueryResetState \<Rightarrow> Some (answer_if (reset_state g) 0xFF)
      | QueryControlGearFailure \<Rightarrow> Some (answer_if (status_byte g AND 0x01 \<noteq> 0) 0xFF)
      | QueryManufacturerSpecificMode \<Rightarrow> Some (answer_if (is_manufacturer_specific_mode 0x00) 0xFF)
      | _ \<Rightarrow> None)"

definition device_type_reply :: "Gear \<Rightarrow> TransferOutcome \<times> Gear" where
  "device_type_reply g =
     (case device_types (spec g) of
        [] \<Rightarrow> (Answer 254, g\<lparr>device_type_walk := None\<rparr>)
      | [t] \<Rightarrow> (Answer t, g\<lparr>device_type_walk := None\<rparr>)
      | _ \<Rightarrow> (Answer 255, g\<lparr>device_type_walk := Some 0\<rparr>))"

definition next_device_type_reply :: "Gear \<Rightarrow> TransferOutcome \<times> Gear" where
  "next_device_type_reply g =
     (case device_type_walk g of
        None \<Rightarrow> (NoAnswer, g)
      | Some cursor \<Rightarrow>
          if cursor < length (device_types (spec g))
          then (Answer (device_types (spec g) ! cursor), g\<lparr>device_type_walk := Some (cursor + 1)\<rparr>)
          else (Answer 254, g))"

definition identity_query_reply :: "StandardCommand \<Rightarrow> Gear \<Rightarrow> (TransferOutcome option) \<times> Gear" where
  "identity_query_reply command g =
     (case command of
        QueryDeviceType \<Rightarrow> (case device_type_reply g of (r, g) \<Rightarrow> (Some r, g))
      | QueryNextDeviceType \<Rightarrow> (case next_device_type_reply g of (r, g) \<Rightarrow> (Some r, g))
      | QueryGroups0To7 \<Rightarrow> (Some (Answer (ucast (groups g))), g)
      | QueryGroups8To15 \<Rightarrow> (Some (Answer (ucast (drop_bit 8 (groups g)))), g)
      | QuerySceneLevel scene \<Rightarrow>
          (Some (Answer (case octet_at (scenes g) scene of Some l \<Rightarrow> l | None \<Rightarrow> 0xFF)), g)
      | QueryRandomAddressH \<Rightarrow> (Some (Answer (ucast (drop_bit 16 (random_address (spec g))))), g)
      | QueryRandomAddressM \<Rightarrow> (Some (Answer (ucast (drop_bit 8 (random_address (spec g))))), g)
      | QueryRandomAddressL \<Rightarrow> (Some (Answer (ucast (random_address (spec g)))), g)
      | QueryVersionNumber \<Rightarrow> (Some (Answer 0x08), g)
      | QueryLightSourceType \<Rightarrow> (Some (Answer 6), g)
      | QueryMissingShortAddress \<Rightarrow> (Some (answer_if (short_address (spec g) = None) 0xFF), g)
      | _ \<Rightarrow> (None, g))"

definition load_report_for_query :: "StandardCommand \<Rightarrow> Gear \<Rightarrow> Gear" where
  "load_report_for_query command g =
     (case command of
        QueryActualLevel \<Rightarrow> load_report_from_actual g
      | QuerySceneLevel scene \<Rightarrow> load_report_from_scene scene g
      | QueryPowerOnLevel \<Rightarrow> load_report_from_level_colour command g
      | QuerySystemFailureLevel \<Rightarrow> load_report_from_level_colour command g
      | _ \<Rightarrow> g)"

definition gear_query_reply :: "StandardCommand \<Rightarrow> Gear \<Rightarrow> TransferOutcome \<times> Gear" where
  "gear_query_reply command g =
     (let g = (if command \<noteq> QueryDeviceType \<and> command \<noteq> QueryNextDeviceType
               then g\<lparr>device_type_walk := None\<rparr> else g);
          g = (if is_dt8 g then load_report_for_query command g else g)
      in case level_query_reply g command of
           Some outcome \<Rightarrow> (outcome, g)
         | None \<Rightarrow> (case identity_query_reply command g of
                      (Some outcome, g) \<Rightarrow> (outcome, g)
                    | (None, g) \<Rightarrow> (NoAnswer, g)))"

section \<open>Switching (device type 7)\<close>

definition switching_store :: "u8 \<Rightarrow> Dt7Command \<Rightarrow> u8 \<Rightarrow> Switching \<Rightarrow> Switching" where
  "switching_store features command dtr0 s =
     (case command of
        StoreDtrAsThreshold t \<Rightarrow>
          if features AND 0x08 \<noteq> 0
          then s\<lparr>thresholds := (thresholds s)[unat (threshold_index t) := within_range t dtr0]\<rparr> else s
      | StoreDtrAsErrorHoldOffTime \<Rightarrow>
          if features AND 0x10 \<noteq> 0 then s\<lparr>error_hold_off := dtr0\<rparr> else s
      | _ \<Rightarrow> s)"

definition dt7_answer :: "Gear \<Rightarrow> Dt7Command \<Rightarrow> u8 option" where
  "dt7_answer g command =
     (case command of
        Dt7Command.QueryFeatures \<Rightarrow> Some (switching_features (spec g))
      | QuerySwitchStatus \<Rightarrow> Some (switch_status (switching g))
      | QueryThreshold t \<Rightarrow> Some (thresholds (switching g) ! unat (threshold_index t))
      | QueryErrorHoldOffTime \<Rightarrow> Some (error_hold_off (switching g))
      | Dt7Command.QueryGearType \<Rightarrow> Some (switching_gear_type (spec g))
      | Dt7Command.QueryReferenceMeasurementFailed \<Rightarrow>
          (if switch_status (switching g) AND 0x80 \<noteq> 0 then Some 0xFF else None)
      | Dt7Command.QueryExtendedVersionNumber \<Rightarrow> Some 1
      | _ \<Rightarrow> None)"

end
