(* ===== verification/Fleet.thy ===== *)
theory Fleet
  imports Gear
begin

text \<open>
  The simulated line (\<open>dali2rust-gear-model/src/fleet.rs\<close>, \<open>rng.rs\<close>): a
  fleet of gear sharing the bus registers, and \<open>exchange\<close>, which lets every gear
  hear one forward frame, executes it, and merges the answers. Statistics are 32-bit
  counters.
\<close>

section \<open>Random numbers\<close>

type_synonym Rng = u32

definition rng_new :: "u32 \<Rightarrow> Rng" where
  "rng_new seed = (if seed = 0 then 0x9E3779B9 else seed)"

definition xorshift :: "u32 \<Rightarrow> u32" where
  "xorshift x =
     (let x = x XOR push_bit 13 x;
          x = x XOR drop_bit 17 x
      in x XOR push_bit 5 x)"

definition next_u32 :: "Rng \<Rightarrow> u32 \<times> Rng" where
  "next_u32 r = (let x = xorshift r in (x, x))"

definition next_24 :: "Rng \<Rightarrow> u32 \<times> Rng" where
  "next_24 r = (case next_u32 r of (x, r) \<Rightarrow> (x AND 0x00FFFFFF, r))"

definition chance_permille :: "u16 \<Rightarrow> Rng \<Rightarrow> bool \<times> Rng" where
  "chance_permille permille r =
     (if permille = 0 then (False, r)
      else case next_u32 r of (x, r) \<Rightarrow> (ucast permille > x mod 1000, r))"

text \<open>
  Two consecutive draws are never both \<open>0xFFFFFF\<close>, the value a random address must
  not take; checked on the 256 states that yield it.
\<close>

lemma no_two_masks_high:
  "xorshift (push_bit 24 (ucast h) OR 0x00FFFFFF) AND 0x00FFFFFF \<noteq> (0x00FFFFFF :: u32)" for h :: u8
  by (rule all_octets) code_simp

lemma mask_state:
  assumes "(x :: u32) AND 0x00FFFFFF = 0x00FFFFFF"
  shows "x = push_bit 24 (ucast (ucast (drop_bit 24 x) :: u8)) OR 0x00FFFFFF"
proof -
  have m: "(0x00FFFFFF :: u32) = mask 24"
    by (simp add: mask_eq_exp_minus_1)
  have low: "bit x n" if "n < 24" for n
    using arg_cong [OF assms, of "\<lambda>w. bit w n"] that
    unfolding m by (simp add: bit_simps)
  show ?thesis
    unfolding m by (rule bit_word_eqI) (auto simp: bit_simps low not_less)
qed

lemma no_two_masks:
  "xorshift r AND 0x00FFFFFF = 0x00FFFFFF \<Longrightarrow> xorshift (xorshift r) AND 0x00FFFFFF \<noteq> 0x00FFFFFF"
  using no_two_masks_high mask_state by metis

lemma next_24_fst: "fst (next_24 r) = xorshift r AND 0x00FFFFFF" "snd (next_24 r) = xorshift r"
  by (simp_all add: next_24_def next_u32_def Let_def)

lemma above_max_is_mask:
  assumes "\<not> w AND 0x00FFFFFF \<le> (0x00FFFFFE :: u32)"
  shows "w AND 0x00FFFFFF = 0x00FFFFFF"
proof -
  have "w AND 0x00FFFFFF \<le> 0x00FFFFFF"
    by (rule word_and_le1)
  then show ?thesis
    using assms by (simp add: word_le_nat_alt word_unat_eq_iff)
qed

lemma redraw_succeeds:
  assumes "next_24 r = (candidate, r')" "\<not> candidate \<le> 0x00FFFFFE"
  shows "fst (next_24 r') \<le> 0x00FFFFFE"
proof -
  have c: "candidate = xorshift r AND 0x00FFFFFF" "r' = xorshift r"
    using assms(1) by (auto simp: next_24_def next_u32_def Let_def)
  then have "xorshift r AND 0x00FFFFFF = 0x00FFFFFF"
    using assms(2) above_max_is_mask by blast
  then show ?thesis
    using no_two_masks [of r] above_max_is_mask [of "xorshift r'"] by (auto simp: next_24_fst c)
qed

function draw_random_address :: "Rng \<Rightarrow> u32 \<times> Rng" where
  "draw_random_address r =
     (case next_24 r of (candidate, r') \<Rightarrow>
        if candidate \<le> 0x00FFFFFE then (candidate, r') else draw_random_address r')"
  by auto

termination
  by (relation "measure (\<lambda>r. if fst (next_24 r) \<le> 0x00FFFFFE then 0 else 1)")
    (auto dest: redraw_succeeds [OF sym] arg_cong [where f = fst])

declare draw_random_address.simps [simp del]

lemma draw_random_address_twice:
  "draw_random_address r =
     (if fst (next_24 r) \<le> 0x00FFFFFE then next_24 r else next_24 (snd (next_24 r)))"
proof (cases "next_24 r")
  case (Pair candidate r')
  then show ?thesis
    using redraw_succeeds [of r candidate r'] draw_random_address.simps [of r] draw_random_address.simps [of r']
    by (auto split: prod.splits)
qed

section \<open>State of the line\<close>

record BusRegisters =
  dtr0 :: u8
  dtr1 :: u8
  dtr2 :: u8
  search_address :: u32
  enabled_device_type :: "(u8 \<times> u64) option"

definition regs_default :: BusRegisters where
  "regs_default = \<lparr>dtr0 = 0, dtr1 = 0, dtr2 = 0, search_address = 0, enabled_device_type = None\<rparr>"

record FleetStats =
  reserved_conflicts :: u32
  refused_programs :: u32
  dropped_answers :: u32
  enable_device_type_consumed_by_interloper :: u32
  send_twice_split_by_interloper :: u32
  send_twice_pairs_executed :: u32
  dt8_gear_features_reserved_bits :: u32

definition stats_default :: FleetStats where
  "stats_default = \<lparr>reserved_conflicts = 0, refused_programs = 0, dropped_answers = 0,
     enable_device_type_consumed_by_interloper = 0, send_twice_split_by_interloper = 0,
     send_twice_pairs_executed = 0, dt8_gear_features_reserved_bits = 0\<rparr>"

record GearFleet =
  gears :: "Gear list"
  regs :: BusRegisters
  rng :: Rng
  reserved :: u64
  stats :: FleetStats
  answers :: "u8 list"
  frame_seq :: u64
  now_ms :: u64

definition is_reserved :: "u64 \<Rightarrow> u8 option \<Rightarrow> bool" where
  "is_reserved res short_addr =
     (case short_addr of Some a \<Rightarrow> a < 64 \<and> res AND push_bit (unat a) 1 \<noteq> 0 | None \<Rightarrow> False)"

definition fleet_new :: "GearSpec list \<Rightarrow> u64 \<Rightarrow> u32 \<Rightarrow> GearFleet" where
  "fleet_new specs res rng_seed =
     \<lparr>gears = map (\<lambda>s. gear_new (if is_reserved res (short_address s) then s\<lparr>short_address := None\<rparr> else s)) specs,
      regs = regs_default, rng = rng_new rng_seed, reserved = res,
      stats = stats_default\<lparr>reserved_conflicts :=
        sum_list (map (\<lambda>s. if is_reserved res (short_address s) then 1 else 0) specs)\<rparr>,
      answers = [], frame_seq = 0, now_ms = 0\<rparr>"

text \<open>A loop over the gear that satisfy a filter.\<close>

definition for_gears :: "(Gear \<Rightarrow> bool) \<Rightarrow> (Gear \<Rightarrow> Gear) \<Rightarrow> GearFleet \<Rightarrow> GearFleet" where
  "for_gears sel f fl = fl\<lparr>gears := map (\<lambda>g. if sel g then f g else g) (gears fl)\<rparr>"

definition fleet_power_cycle :: "GearFleet \<Rightarrow> GearFleet" where
  "fleet_power_cycle fl = for_gears (\<lambda>_. True) power_cycle (fl\<lparr>regs := regs_default\<rparr>)"

definition settle_random :: "u64 \<Rightarrow> Gear \<Rightarrow> Gear" where
  "settle_random now g =
     (case pending_random g of
        Some p \<Rightarrow> if now \<ge> ready_at_ms p
                  then g\<lparr>spec := (spec g)\<lparr>random_address := pr_address p\<rparr>, pending_random := None\<rparr> else g
      | None \<Rightarrow> g)"

definition advance_to_ms :: "u64 \<Rightarrow> GearFleet \<Rightarrow> GearFleet" where
  "advance_to_ms t fl =
     (let fl = fl\<lparr>now_ms := max (now_ms fl) t\<rparr> in for_gears (\<lambda>_. True) (settle_random (now_ms fl)) fl)"

section \<open>Answers\<close>

fun merge_answers :: "u8 list \<Rightarrow> TransferOutcome" where
  "merge_answers [] = NoAnswer"
| "merge_answers [only] = Answer only"
| "merge_answers _ = CorruptedInWindow"

definition publish :: "u8 list \<Rightarrow> GearFleet \<Rightarrow> TransferOutcome \<times> GearFleet" where
  "publish buf fl = (merge_answers buf, fl\<lparr>answers := buf\<rparr>)"

definition publish_none :: "GearFleet \<Rightarrow> TransferOutcome \<times> GearFleet" where
  "publish_none fl = publish [] fl"

section \<open>Classification of frames\<close>

definition encode_short_reply :: "u8 \<Rightarrow> u8" where
  "encode_short_reply s = push_bit 1 (s AND 0x3F) OR 0x01"

definition decode_short_reply :: "u8 \<Rightarrow> u8" where
  "decode_short_reply encoded = drop_bit 1 encoded AND 0x3F"

datatype Audience = Every | Addressed DaliAddress

definition stops_identification :: "SpecialCommand \<Rightarrow> bool" where
  "stops_identification special =
     (case special of Initialise _ \<Rightarrow> False | Ping \<Rightarrow> False | Compare \<Rightarrow> False | VerifyShortAddress _ \<Rightarrow> False
      | QueryShortAddress \<Rightarrow> False | PhysicalSelection \<Rightarrow> False | _ \<Rightarrow> True)"

definition keeps_write_enabled :: "DaliCommand option \<Rightarrow> bool" where
  "keeps_write_enabled decoded =
     (case decoded of
        Some (Special s) \<Rightarrow> (case s of WriteMemoryLocation _ \<Rightarrow> True | WriteMemoryLocationNoReply _ \<Rightarrow> True
          | Dtr0 _ \<Rightarrow> True | Dtr1 _ \<Rightarrow> True | Dtr2 _ \<Rightarrow> True | _ \<Rightarrow> False)
      | Some (Standard _ c) \<Rightarrow> c = QueryContentDtr0 \<or> c = QueryContentDtr1 \<or> c = QueryContentDtr2
      | _ \<Rightarrow> False)"

definition is_walk_query :: "DaliCommand option \<Rightarrow> bool" where
  "is_walk_query decoded =
     (case decoded of Some (Standard _ c) \<Rightarrow> c = QueryDeviceType \<or> c = QueryNextDeviceType | _ \<Rightarrow> False)"

definition audience_of :: "DaliCommand option \<Rightarrow> Audience option" where
  "audience_of decoded =
     (case decoded of
        None \<Rightarrow> None
      | Some (Special s) \<Rightarrow> if s = Ping then None else Some Every
      | Some (Standard a _) \<Rightarrow> Some (Addressed a)
      | Some (Extended a _) \<Rightarrow> Some (Addressed a))"

definition extended_under :: "u8 \<Rightarrow> u8 \<Rightarrow> ExtendedCommand option" where
  "extended_under device_type opcode =
     (case device_type_from_u8 device_type of
        Some Color \<Rightarrow> map_option Dt8 (dt8_from_opcode opcode)
      | Some Led \<Rightarrow> map_option Dt6 (dt6_from_opcode opcode)
      | Some Switching \<Rightarrow> map_option Dt7 (dt7_from_opcode opcode)
      | _ \<Rightarrow> None)"

definition requires_repeat_under :: "DaliCommand option \<Rightarrow> u8 \<Rightarrow> u8 \<Rightarrow> u8 option \<Rightarrow> bool" where
  "requires_repeat_under decoded wire_address opcode device_type =
     (let ext = (if wire_address AND 0x01 \<noteq> 0
                 then (case device_type of Some t \<Rightarrow> extended_under t opcode | None \<Rightarrow> None) else None)
      in case ext of
           Some command \<Rightarrow> extended_requires_repeat command
         | None \<Rightarrow> (case decoded of Some c \<Rightarrow> requires_repeat c | None \<Rightarrow> False))"

definition is_dt8_opcode :: "u8 \<Rightarrow> bool" where
  "is_dt8_opcode opcode \<longleftrightarrow> dt8_from_opcode opcode \<noteq> None"

definition is_dt6_opcode :: "u8 \<Rightarrow> bool" where
  "is_dt6_opcode opcode \<longleftrightarrow> dt6_from_opcode opcode \<noteq> None"

definition is_dt8_query_opcode :: "u8 \<Rightarrow> bool" where
  "is_dt8_query_opcode opcode = (case dt8_from_opcode opcode of Some c \<Rightarrow> dt8_is_query c | None \<Rightarrow> False)"

definition armed_device_type :: "GearFleet \<Rightarrow> u8 option" where
  "armed_device_type fl = map_option fst (enabled_device_type (regs fl))"

definition fresh_device_type :: "GearFleet \<Rightarrow> u8 option" where
  "fresh_device_type fl =
     (case enabled_device_type (regs fl) of
        Some (t, armed_seq) \<Rightarrow> if armed_seq + 1 = frame_seq fl then Some t else None
      | None \<Rightarrow> None)"

definition take_enabled_device_type :: "GearFleet \<Rightarrow> u8 option \<times> GearFleet" where
  "take_enabled_device_type fl = (fresh_device_type fl, fl\<lparr>regs := (regs fl)\<lparr>enabled_device_type := None\<rparr>\<rparr>)"

definition decode_frame :: "u16 \<Rightarrow> DaliCommand option" where
  "decode_frame frame =
     (case dali_command_from_wire (ucast (drop_bit 8 frame)) (ucast frame) 0 of Inl _ \<Rightarrow> None | Inr c \<Rightarrow> Some c)"

definition expects_backward :: "GearFleet \<Rightarrow> u16 \<Rightarrow> bool" where
  "expects_backward fl frame =
     (let wire_address = ucast (drop_bit 8 frame) :: u8; opcode = ucast frame :: u8;
          other = (if wire_address AND 0x01 = 0 then False
            else opcode = 0xC5
              \<or> (armed_device_type fl = Some (code Color) \<and> (is_dt8_query_opcode opcode \<or> opcode = 0xFF))
              \<or> (armed_device_type fl = Some (code Led) \<and>
                  (case dt6_from_opcode opcode of Some c \<Rightarrow> md_expects_backward (dt6_metadata c) | None \<Rightarrow> False))
              \<or> (armed_device_type fl = Some (code Switching) \<and>
                  (case dt7_from_opcode opcode of Some c \<Rightarrow> md_expects_backward (dt7_metadata c) | None \<Rightarrow> False)))
      in case decode_frame frame of
           Some (Special special) \<Rightarrow> special_expects_backward special
         | Some (Standard _ command) \<Rightarrow> standard_is_query command
         | _ \<Rightarrow> other)"

section \<open>Hearing a frame\<close>

definition hears :: "Audience option \<Rightarrow> Gear \<Rightarrow> bool" where
  "hears audience g =
     (case audience of Some Every \<Rightarrow> enabled g | Some (Addressed a) \<Rightarrow> gear_matches g a | None \<Rightarrow> False)"

definition hear_gear :: "u16 \<Rightarrow> DaliCommand option \<Rightarrow> bool \<Rightarrow> Gear \<Rightarrow> Gear \<times> u32 \<times> u32" where
  "hear_gear frame decoded repeats g =
     (if hears (audience_of decoded) g then
        (case gear_hear frame repeats g of (h, g) \<Rightarrow>
          (let g = g\<lparr>executes_now := heard_executes h\<rparr>;
               g = (if is_walk_query decoded then g else cancel_device_type_walk g)
           in (g, if heard_split h then 1 else 0, if completed_pair h then 1 else 0)))
      else (case hear_elsewhere (g\<lparr>executes_now := False\<rparr>) of (split, g) \<Rightarrow> (g, if split then 1 else 0, 0)))"

definition fleet_hear :: "u16 \<Rightarrow> DaliCommand option \<Rightarrow> bool \<Rightarrow> GearFleet \<Rightarrow> GearFleet" where
  "fleet_hear frame decoded repeats fl =
     (let heard = map (hear_gear frame decoded repeats) (gears fl)
      in fl\<lparr>gears := map fst heard,
            stats := (stats fl)\<lparr>
              send_twice_split_by_interloper := send_twice_split_by_interloper (stats fl) + sum_list (map (fst \<circ> snd) heard),
              send_twice_pairs_executed := send_twice_pairs_executed (stats fl) + sum_list (map (snd \<circ> snd) heard)\<rparr>\<rparr>)"

definition carry_prelude_over_held_half :: "u16 \<Rightarrow> u8 option \<Rightarrow> GearFleet \<Rightarrow> GearFleet" where
  "carry_prelude_over_held_half frame armed fl =
     (case armed of
        None \<Rightarrow> fl
      | Some t \<Rightarrow> if list_ex (\<lambda>g. gear_holds g frame) (gears fl)
                  then fl\<lparr>regs := (regs fl)\<lparr>enabled_device_type := Some (t, frame_seq fl)\<rparr>\<rparr> else fl)"

section \<open>Special commands\<close>

definition on_dapc :: "DaliAddress \<Rightarrow> u8 \<Rightarrow> GearFleet \<Rightarrow> TransferOutcome \<times> GearFleet" where
  "on_dapc address l fl =
     publish_none (for_gears (\<lambda>g. gear_matches g address \<and> executes_now g)
       (\<lambda>g. apply_dapc l (arc_power_activation (g\<lparr>identifying := False\<rparr>))) fl)"

definition on_memory_write :: "SpecialCommand \<Rightarrow> GearFleet \<Rightarrow> (TransferOutcome \<times> GearFleet) option" where
  "on_memory_write special fl =
     (let go = (\<lambda>v replies.
          let bank = dtr1 (regs fl); offset = dtr0 (regs fl);
              ws = filter write_enabled (gears fl);
              advances = list_ex (\<lambda>g. implements_bank g bank \<and> \<not> memory_write_holds_dtr0 (faults g)) ws;
              buf = List.map_filter (\<lambda>g. fst (write_memory_location bank offset v g)) ws;
              fl = for_gears write_enabled (\<lambda>g. snd (write_memory_location bank offset v g)) fl;
              fl = (if advances \<and> offset < 0xFF then fl\<lparr>regs := (regs fl)\<lparr>dtr0 := offset + 1\<rparr>\<rparr> else fl)
          in Some (publish (if replies then buf else []) fl))
      in case special of
           WriteMemoryLocation v \<Rightarrow> go v True
         | WriteMemoryLocationNoReply v \<Rightarrow> go v False
         | _ \<Rightarrow> None)"

definition set_search_byte :: "nat \<Rightarrow> u8 \<Rightarrow> GearFleet \<Rightarrow> GearFleet" where
  "set_search_byte shift v fl =
     fl\<lparr>regs := (regs fl)\<lparr>search_address :=
       (search_address (regs fl) AND NOT (push_bit shift 0xFF)) OR push_bit shift (ucast v)\<rparr>\<rparr>"

definition terminate_initialise :: "GearFleet \<Rightarrow> GearFleet" where
  "terminate_initialise fl = for_gears (\<lambda>_. True) (\<lambda>g. g\<lparr>initialise := False, withdrawn := False\<rparr>) fl"

definition selected_by :: "u8 \<Rightarrow> Gear \<Rightarrow> bool" where
  "selected_by scope g =
     (if scope = 0x00 then True
      else if scope = 0xFF then short_address (spec g) = None
      else short_address (spec g) = Some (decode_short_reply scope))"

definition enter_initialise :: "u8 \<Rightarrow> GearFleet \<Rightarrow> GearFleet" where
  "enter_initialise scope fl =
     for_gears (\<lambda>g. enabled g \<and> executes_now g)
       (\<lambda>g. if selected_by scope g then g\<lparr>initialise := True, withdrawn := False\<rparr> else g) fl"

text \<open>The loop of \<open>randomise\<close>, drawing for each participating gear in turn.\<close>

fun randomise_gears :: "u64 \<Rightarrow> Rng \<Rightarrow> Gear list \<Rightarrow> Gear list \<times> Rng" where
  "randomise_gears ready r [] = ([], r)"
| "randomise_gears ready r (g # gs) =
     (if initialise g \<and> executes_now g then
        (case draw_random_address r of (a, r) \<Rightarrow>
          (case randomise_gears ready r gs of (gs, r) \<Rightarrow>
            (g\<lparr>pending_random := Some \<lparr>pr_address = a, ready_at_ms = ready\<rparr>\<rparr> # gs, r)))
      else (case randomise_gears ready r gs of (gs, r) \<Rightarrow> (g # gs, r)))"

definition randomise :: "GearFleet \<Rightarrow> GearFleet" where
  "randomise fl =
     (case randomise_gears (saturating_add (now_ms fl) 100) (rng fl) (gears fl) of
        (gs, r) \<Rightarrow> fl\<lparr>gears := gs, rng := r\<rparr>)"

text \<open>The gear that answer COMPARE, and the gear a PROGRAM SHORT ADDRESS reaches.\<close>

definition compares :: "u32 \<Rightarrow> Gear \<Rightarrow> bool" where
  "compares search g \<longleftrightarrow> enabled g \<and> initialise g \<and> \<not> withdrawn g \<and> random_address (spec g) \<le> search"

definition on_compare :: "GearFleet \<Rightarrow> TransferOutcome \<times> GearFleet" where
  "on_compare fl = publish (map (\<lambda>_. 0xFF) (filter (compares (search_address (regs fl))) (gears fl))) fl"

definition on_withdraw :: "GearFleet \<Rightarrow> GearFleet" where
  "on_withdraw fl =
     for_gears (\<lambda>g. initialise g \<and> random_address (spec g) = search_address (regs fl))
       (\<lambda>g. g\<lparr>withdrawn := True\<rparr>) fl"

definition program_short :: "u8 \<Rightarrow> GearFleet \<Rightarrow> GearFleet" where
  "program_short encoded fl =
     (let s = decode_short_reply encoded in
      if is_reserved (reserved fl) (Some s)
      then fl\<lparr>stats := (stats fl)\<lparr>refused_programs := refused_programs (stats fl) + 1\<rparr>\<rparr>
      else for_gears (\<lambda>g. initialise g \<and> \<not> withdrawn g \<and> random_address (spec g) = search_address (regs fl))
             (\<lambda>g. g\<lparr>spec := (spec g)\<lparr>short_address := Some s\<rparr>\<rparr>) fl)"

definition verify_short :: "u8 \<Rightarrow> GearFleet \<Rightarrow> TransferOutcome \<times> GearFleet" where
  "verify_short encoded fl =
     publish (map (\<lambda>_. 0xFF) (filter (\<lambda>g. enabled g \<and> initialise g \<and>
       short_address (spec g) = Some (decode_short_reply encoded)) (gears fl))) fl"

definition query_selected_short :: "GearFleet \<Rightarrow> TransferOutcome \<times> GearFleet" where
  "query_selected_short fl =
     publish (map encode_short_reply (List.map_filter (\<lambda>g. short_address (spec g))
       (filter (\<lambda>g. enabled g \<and> initialise g \<and> \<not> withdrawn g \<and>
          random_address (spec g) = search_address (regs fl)) (gears fl)))) fl"

definition on_special :: "SpecialCommand \<Rightarrow> GearFleet \<Rightarrow> TransferOutcome \<times> GearFleet" where
  "on_special special fl =
     (case on_memory_write special fl of Some r \<Rightarrow> r | None \<Rightarrow>
       let fl = (if stops_identification special
                 then for_gears executes_now (\<lambda>g. g\<lparr>identifying := False\<rparr>) fl else fl)
       in case special of
            Dtr0 v \<Rightarrow> publish_none (fl\<lparr>regs := (regs fl)\<lparr>dtr0 := v\<rparr>\<rparr>)
          | Dtr1 v \<Rightarrow> publish_none (fl\<lparr>regs := (regs fl)\<lparr>dtr1 := v\<rparr>\<rparr>)
          | Dtr2 v \<Rightarrow> publish_none (fl\<lparr>regs := (regs fl)\<lparr>dtr2 := v\<rparr>\<rparr>)
          | EnableDeviceType t \<Rightarrow>
              publish_none (fl\<lparr>regs := (regs fl)\<lparr>enabled_device_type := Some (t, frame_seq fl)\<rparr>\<rparr>)
          | SearchAddrH v \<Rightarrow> publish_none (set_search_byte 16 v fl)
          | SearchAddrM v \<Rightarrow> publish_none (set_search_byte 8 v fl)
          | SearchAddrL v \<Rightarrow> publish_none (set_search_byte 0 v fl)
          | Terminate \<Rightarrow> publish_none (terminate_initialise fl)
          | Initialise scope \<Rightarrow> publish_none (enter_initialise scope fl)
          | Randomise \<Rightarrow> publish_none (randomise fl)
          | Compare \<Rightarrow> on_compare fl
          | Withdraw \<Rightarrow> publish_none (on_withdraw fl)
          | ProgramShortAddress encoded \<Rightarrow> publish_none (program_short encoded fl)
          | VerifyShortAddress encoded \<Rightarrow> verify_short encoded fl
          | QueryShortAddress \<Rightarrow> query_selected_short fl
          | _ \<Rightarrow> publish_none fl)"

section \<open>Memory reads and application-extended commands\<close>

definition on_read_memory_location :: "DaliAddress \<Rightarrow> GearFleet \<Rightarrow> TransferOutcome \<times> GearFleet" where
  "on_read_memory_location address fl =
     (let bank = dtr1 (regs fl); offset = dtr0 (regs fl);
          ms = filter (\<lambda>g. gear_matches g address) (gears fl);
          buf = List.map_filter (\<lambda>g. memory_location g bank offset) ms;
          advances = list_ex (\<lambda>g. advances_dtr0_past g bank offset) ms;
          fl = (if advances \<and> offset < 0xFF then fl\<lparr>regs := (regs fl)\<lparr>dtr0 := offset + 1\<rparr>\<rparr> else fl)
      in publish buf fl)"

definition store_gear_features :: "u8 \<Rightarrow> Gear \<Rightarrow> Gear" where
  "store_gear_features d g =
     g\<lparr>gear_features := (gear_features g AND NOT 0x01) OR (d AND 0x01)\<rparr>"

definition apply_dt8_write :: "u8 \<Rightarrow> u8 \<Rightarrow> u8 \<Rightarrow> u8 \<Rightarrow> Gear \<Rightarrow> Gear" where
  "apply_dt8_write opcode d0 d1 d2 g =
     (let w16 = push_bit 8 (ucast d1) OR ucast d0 :: u16;
          staged = (\<lambda>ls. (rgbwaf g)\<lparr>pending_levels := ls\<rparr>)
      in case dt8_from_opcode opcode of
           Some SetTemporaryXCoordinate \<Rightarrow> g\<lparr>pending_x := w16, pending_mode := Xy\<rparr>
         | Some SetTemporaryYCoordinate \<Rightarrow> g\<lparr>pending_y := w16, pending_mode := Xy\<rparr>
         | Some SetTemporaryColourTemperature \<Rightarrow> g\<lparr>pending_ct := w16, pending_mode := Cct\<rparr>
         | Some SetTemporaryRgbDimLevel \<Rightarrow>
             g\<lparr>rgbwaf := staged ([d0, d1, d2] @ drop 3 (pending_levels (rgbwaf g))), pending_mode := Rgb\<rparr>
         | Some SetTemporaryWafDimLevel \<Rightarrow>
             g\<lparr>rgbwaf := staged (take 3 (pending_levels (rgbwaf g)) @ [d0, d1, d2]), pending_mode := Rgb\<rparr>
         | Some SetTemporaryRgbwafControl \<Rightarrow>
             g\<lparr>rgbwaf := (rgbwaf g)\<lparr>pending_control := d0\<rparr>, pending_mode := Rgb\<rparr>
         | Some Activate \<Rightarrow> activate_pending_color g
         | Some XCoordinateStepUp \<Rightarrow> xy_step False True g
         | Some XCoordinateStepDown \<Rightarrow> xy_step False False g
         | Some YCoordinateStepUp \<Rightarrow> xy_step True True g
         | Some YCoordinateStepDown \<Rightarrow> xy_step True False g
         | Some ColourTemperatureStepCooler \<Rightarrow> tc_step False g
         | Some ColourTemperatureStepWarmer \<Rightarrow> tc_step True g
         | Some CopyReportToTemporary \<Rightarrow> copy_report_to_temporary g
         | Some StoreColourTemperatureTcLimit \<Rightarrow> store_tc_limit w16 d2 g
         | Some StoreGearFeaturesStatus \<Rightarrow> store_gear_features d0 g
         | _ \<Rightarrow> g)"

definition constant_reply :: "DaliAddress \<Rightarrow> u8 \<Rightarrow> (Gear \<Rightarrow> bool) \<Rightarrow> GearFleet \<Rightarrow> TransferOutcome \<times> GearFleet" where
  "constant_reply address v eligible fl =
     publish (map (\<lambda>_. v) (filter (\<lambda>g. gear_matches g address \<and> eligible g) (gears fl))) fl"

definition dt8_color_value_reply :: "DaliAddress \<Rightarrow> u8 \<Rightarrow> GearFleet \<Rightarrow> TransferOutcome \<times> GearFleet" where
  "dt8_color_value_reply address value_id fl =
     (let values = List.map_filter (\<lambda>g. color_value g value_id)
            (filter (\<lambda>g. gear_matches g address \<and> is_dt8 g) (gears fl));
          wide = colour_value_is_wide value_id;
          buf = map (\<lambda>v. if wide then ucast (drop_bit 8 v) else ucast v) values;
          fl = (case values of
              [] \<Rightarrow> fl
            | v # _ \<Rightarrow> if list_all (\<lambda>u. (ucast u :: u8) = ucast v) values
                       then fl\<lparr>regs := (regs fl)\<lparr>dtr0 := ucast v\<rparr>\<rparr> else fl)
      in publish buf fl)"

definition on_dt8_query :: "DaliAddress \<Rightarrow> u8 \<Rightarrow> GearFleet \<Rightarrow> TransferOutcome \<times> GearFleet" where
  "on_dt8_query address opcode fl =
     (let addressed = filter (\<lambda>g. gear_matches g address \<and> is_dt8 g) (gears fl) in
      if opcode = dt8_opcode QueryColourValue then dt8_color_value_reply address (dtr0 (regs fl)) fl
      else if opcode = 0xFF then constant_reply address 2 is_dt8 fl
      else if opcode = dt8_opcode QueryRgbwafControl then
        publish (List.map_filter rgbwaf_control_byte addressed) fl
      else if opcode = dt8_opcode QueryColourStatus then publish (map dt8_colour_status addressed) fl
      else if opcode = dt8_opcode QueryColourTypeFeatures then publish (map dt8_features addressed) fl
      else if opcode = dt8_opcode QueryGearFeaturesStatus then publish (map gear_features addressed) fl
      else publish_none fl)"

definition on_dt8 :: "DaliAddress \<Rightarrow> u8 \<Rightarrow> bool \<Rightarrow> GearFleet \<Rightarrow> TransferOutcome \<times> GearFleet" where
  "on_dt8 address opcode expects fl =
     (if expects then on_dt8_query address opcode fl
      else let d0 = dtr0 (regs fl); d1 = dtr1 (regs fl); d2 = dtr2 (regs fl);
               sel = (\<lambda>g. gear_matches g address \<and> is_dt8 g \<and> executes_now g);
               illegal = (opcode = dt8_opcode StoreGearFeaturesStatus \<and> d0 AND 0xFE \<noteq> 0);
               stores = (if illegal then word_of_nat (length (filter sel (gears fl))) else 0);
               fl = for_gears sel (apply_dt8_write opcode d0 d1 d2) fl
           in publish_none (fl\<lparr>stats := (stats fl)\<lparr>dt8_gear_features_reserved_bits :=
                dt8_gear_features_reserved_bits (stats fl) + stores\<rparr>\<rparr>))"

definition on_extended_dt8 :: "DaliAddress \<Rightarrow> u8 \<Rightarrow> bool \<Rightarrow> u8 option \<Rightarrow> GearFleet \<Rightarrow> TransferOutcome \<times> GearFleet" where
  "on_extended_dt8 address opcode expects armed fl =
     (case armed of
        Some t \<Rightarrow> if t = code Color then on_dt8 address opcode expects fl else publish_none fl
      | None \<Rightarrow> publish_none (fl\<lparr>stats := (stats fl)\<lparr>enable_device_type_consumed_by_interloper :=
            enable_device_type_consumed_by_interloper (stats fl) + 1\<rparr>\<rparr>))"

definition dt6_failure_bit :: "Dt6Command \<Rightarrow> (Gear \<Rightarrow> bool) option" where
  "dt6_failure_bit c =
     (case c of
        QueryShortCircuit \<Rightarrow> Some (\<lambda>g. short_circuit (failure_bits g))
      | QueryOpenCircuit \<Rightarrow> Some (\<lambda>g. open_circuit (failure_bits g))
      | QueryLoadDecrease \<Rightarrow> Some (\<lambda>g. load_decrease (failure_bits g))
      | QueryLoadIncrease \<Rightarrow> Some (\<lambda>g. load_increase (failure_bits g))
      | QueryCurrentProtectorActive \<Rightarrow> Some (\<lambda>g. current_protector_active (failure_bits g))
      | QueryThermalShutdown \<Rightarrow> Some (\<lambda>g. thermal_shut_down (failure_bits g))
      | QueryThermalOverload \<Rightarrow> Some (\<lambda>g. thermal_overload (failure_bits g))
      | Dt6Command.QueryReferenceMeasurementFailed \<Rightarrow> Some (\<lambda>g. reference_measurement_failed (failure_bits g))
      | Dt6Command.QueryReferenceRunning \<Rightarrow> Some (\<lambda>g. False)
      | QueryCurrentProtectorEnabled \<Rightarrow> Some (\<lambda>g. False)
      | _ \<Rightarrow> None)"

definition dt6_failure_query :: "DaliAddress \<Rightarrow> u8 \<Rightarrow> GearFleet \<Rightarrow> (TransferOutcome \<times> GearFleet) option" where
  "dt6_failure_query address opcode fl =
     (let addressed = filter (\<lambda>g. gear_matches g address \<and> is_dt6 g) (gears fl) in
      if opcode = dt6_opcode Dt6Command.QueryFeatures then Some (constant_reply address 0x7F is_dt6 fl)
      else if opcode = dt6_opcode QueryFailureStatus then
        Some (publish (map (\<lambda>g. failure_status (faults g)) addressed) fl)
      else case dt6_from_opcode opcode of
             None \<Rightarrow> None
           | Some c \<Rightarrow> (case dt6_failure_bit c of
                          None \<Rightarrow> None
                        | Some b \<Rightarrow> Some (publish (map (\<lambda>_. 0xFF) (filter b addressed)) fl)))"

definition on_extended_dt6 :: "DaliAddress \<Rightarrow> u8 \<Rightarrow> bool \<Rightarrow> GearFleet \<Rightarrow> TransferOutcome \<times> GearFleet" where
  "on_extended_dt6 address opcode expects fl =
     (if expects then
        (if opcode = 0xFF then constant_reply address 1 is_dt6 fl
         else case dt6_failure_query address opcode fl of
                Some r \<Rightarrow> r
              | None \<Rightarrow> if opcode \<noteq> dt6_opcode QueryDimmingCurve then publish_none fl
                        else publish (map dimming_curve
                               (filter (\<lambda>g. gear_matches g address \<and> is_dt6 g) (gears fl))) fl)
      else publish_none
        (if opcode = dt6_opcode SelectDimmingCurve \<and> dtr0 (regs fl) \<le> 1
         then for_gears (\<lambda>g. gear_matches g address \<and> is_dt6 g \<and> executes_now g)
                (\<lambda>g. g\<lparr>dimming_curve := dtr0 (regs fl)\<rparr>) fl
         else fl))"

definition on_extended_dt7 :: "DaliAddress \<Rightarrow> u8 \<Rightarrow> bool \<Rightarrow> GearFleet \<Rightarrow> TransferOutcome \<times> GearFleet" where
  "on_extended_dt7 address opcode expects fl =
     (case dt7_from_opcode opcode of
        None \<Rightarrow> publish_none fl
      | Some command \<Rightarrow>
          if expects then
            publish (List.map_filter (\<lambda>g. dt7_answer g command)
              (filter (\<lambda>g. gear_matches g address \<and> is_dt7 g) (gears fl))) fl
          else publish_none (for_gears (\<lambda>g. gear_matches g address \<and> is_dt7 g \<and> executes_now g)
            (\<lambda>g. g\<lparr>switching := switching_store (switching_features (spec g)) command (dtr0 (regs fl)) (switching g)\<rparr>) fl))"

section \<open>Standard commands\<close>

datatype ShortAddressWrite = Applied | Refused | Ignored

definition set_short_from_dtr0 :: "u8 \<Rightarrow> u64 \<Rightarrow> Gear \<Rightarrow> ShortAddressWrite \<times> Gear" where
  "set_short_from_dtr0 d res g =
     (if d = 0xFF then (Applied, g\<lparr>spec := (spec g)\<lparr>short_address := None\<rparr>\<rparr>)
      else if d AND 0x81 \<noteq> 0x01 then (Ignored, g)
      else let s = decode_short_reply d in
           if is_reserved res (Some s) then (Refused, g)
           else (Applied, g\<lparr>spec := (spec g)\<lparr>short_address := Some s\<rparr>\<rparr>))"

definition answer_of :: "TransferOutcome \<Rightarrow> Gear \<Rightarrow> Rng \<Rightarrow> u8 option \<times> Rng \<times> u32" where
  "answer_of outcome g r =
     (case outcome of
        Answer v \<Rightarrow> (case chance_permille (drop_answer_permille (faults g)) r of
                       (dropped, r) \<Rightarrow> if dropped then (None, r, 1) else (Some v, r, 0))
      | _ \<Rightarrow> (None, r, 0))"

definition bus_register_query :: "StandardCommand \<Rightarrow> GearFleet \<Rightarrow> u8 option" where
  "bus_register_query command fl =
     (case command of QueryContentDtr0 \<Rightarrow> Some (dtr0 (regs fl)) | QueryContentDtr1 \<Rightarrow> Some (dtr1 (regs fl))
      | QueryContentDtr2 \<Rightarrow> Some (dtr2 (regs fl)) | _ \<Rightarrow> None)"

text \<open>The answers of the addressed gear in bus order, with the number of dropped answers.\<close>

fun query_gears :: "DaliAddress \<Rightarrow> StandardCommand \<Rightarrow> u8 option \<Rightarrow> Gear list \<Rightarrow> Rng \<Rightarrow> u8 list \<times> Gear list \<times> Rng \<times> u32" where
  "query_gears address command shared [] r = ([], [], r, 0)"
| "query_gears address command shared (g # gs) r =
     (if gear_matches g address then
        (case (case shared of Some v \<Rightarrow> (Answer v, g) | None \<Rightarrow> gear_query_reply command g) of (reply, g) \<Rightarrow>
          (case answer_of reply g r of (a, r, d) \<Rightarrow>
            (case query_gears address command shared gs r of (as, gs, r, ds) \<Rightarrow>
              ((case a of Some v \<Rightarrow> v # as | None \<Rightarrow> as), g # gs, r, d + ds))))
      else (case query_gears address command shared gs r of (as, gs, r, ds) \<Rightarrow> (as, g # gs, r, ds)))"

definition standard_query :: "DaliAddress \<Rightarrow> StandardCommand \<Rightarrow> GearFleet \<Rightarrow> (TransferOutcome \<times> GearFleet) option" where
  "standard_query address command fl =
     (if \<not> standard_is_query command then None
      else case query_gears address command (bus_register_query command fl) (gears fl) (rng fl) of
             (as, gs, r, d) \<Rightarrow>
               Some (publish as (fl\<lparr>gears := gs, rng := r,
                 stats := (stats fl)\<lparr>dropped_answers := dropped_answers (stats fl) + d\<rparr>\<rparr>)))"

definition standard_write :: "StandardCommand \<Rightarrow> u8 \<Rightarrow> u64 \<Rightarrow> Gear \<Rightarrow> Gear \<times> u32" where
  "standard_write command d res g =
     (let g = apply_standard_write command d g;
          (g, refused) = (if command = SetShortAddress
             then (case set_short_from_dtr0 d res g of (w, g) \<Rightarrow> (g, if w = Refused then 1 else 0))
             else (g, 0));
          g = (if command = StoreActualLevelInDtr0 \<and> is_dt8 g then load_report_from_actual g else g)
      in (g, refused))"

definition on_standard :: "DaliAddress \<Rightarrow> StandardCommand \<Rightarrow> GearFleet \<Rightarrow> TransferOutcome \<times> GearFleet" where
  "on_standard address command fl =
     (case standard_query address command fl of Some r \<Rightarrow> r | None \<Rightarrow>
       let d = dtr0 (regs fl);
           sel = (\<lambda>g. gear_matches g address \<and> executes_now g);
           written = map (\<lambda>g. if sel g then standard_write command d (reserved fl) g else (g, 0)) (gears fl);
           levels = map (\<lambda>g. level (fst (standard_write command d (reserved fl) g))) (filter sel (gears fl));
           fl = fl\<lparr>gears := map fst written,
                   stats := (stats fl)\<lparr>refused_programs := refused_programs (stats fl) + sum_list (map snd written)\<rparr>\<rparr>
       in publish_none (if command = StoreActualLevelInDtr0 \<and> levels \<noteq> []
            then fl\<lparr>regs := (regs fl)\<lparr>dtr0 := List.last levels\<rparr>\<rparr> else fl))"

section \<open>One exchange on the line\<close>

definition exchange :: "u16 \<Rightarrow> bool \<Rightarrow> GearFleet \<Rightarrow> TransferOutcome \<times> GearFleet" where
  "exchange frame expects fl =
     (let fl = fl\<lparr>frame_seq := saturating_add (frame_seq fl) 1\<rparr>;
          wire_address = ucast (drop_bit 8 frame) :: u8;
          opcode = ucast frame :: u8;
          decoded = decode_frame frame;
          repeats = requires_repeat_under decoded wire_address opcode (fresh_device_type fl);
          fl = fleet_hear frame decoded repeats fl;
          fl = (if keeps_write_enabled decoded then fl else for_gears (\<lambda>_. True) (\<lambda>g. g\<lparr>write_enabled := False\<rparr>) fl)
      in case decoded of
           Some (Special special) \<Rightarrow> on_special special fl
         | _ \<Rightarrow>
           (case take_enabled_device_type fl of (armed, fl) \<Rightarrow>
             (let fl = carry_prelude_over_held_half frame armed fl in
              case decode_wire_address wire_address of
                Inl _ \<Rightarrow> publish_none fl
              | Inr address \<Rightarrow>
                  if wire_address AND 0x01 = 0 then on_dapc address opcode fl
                  else if expects \<and> opcode = 0xC5 then on_read_memory_location address fl
                  else if armed = Some (code Led) \<and> is_dt6_opcode opcode then on_extended_dt6 address opcode expects fl
                  else if armed = Some (code Switching) \<and> opcode \<ge> 0xE0 then on_extended_dt7 address opcode expects fl
                  else if is_dt8_opcode opcode \<or> (armed = Some (code Color) \<and> opcode = 0xFF)
                    then on_extended_dt8 address opcode expects armed fl
                  else (case decoded of
                          Some (Standard _ command) \<Rightarrow> on_standard address command fl
                        | _ \<Rightarrow> publish_none fl))))"

section \<open>Bench fleets\<close>

definition demo_random_address :: "u8 \<Rightarrow> u32" where
  "demo_random_address index = ((ucast index + 1) * 0x00214365) AND 0x00FFFFFF"

definition demo_specs :: "GearSpec list" where
  "demo_specs =
     map (\<lambda>s. spec_dt6 (Some s) (demo_random_address s)) [0, 1, 2, 3] @
     [spec_dt8 (Some 4) (demo_random_address 4) (True, False, False) (153, 370),
      spec_dt8 (Some 5) (demo_random_address 5) (False, True, True) (160, 400),
      spec_dt6 None (demo_random_address 6),
      (spec_dt8 (Some 7) (demo_random_address 7) (False, True, True) (160, 400))\<lparr>rgbwaf_channels := 6\<rparr>,
      with_metering True True (spec_dt8 (Some 8) (demo_random_address 8) (True, False, False) (153, 370)),
      (spec_dt8 (Some 9) (demo_random_address 9) (True, False, False) (153, 370))\<lparr>luminaire_format := Some V3,
         bus_unit_extension := True\<rparr>]"

definition demo_bus :: GearFleet where
  "demo_bus =
     (let fl = fleet_new demo_specs 0 0x00C0FFEE
      in fl\<lparr>gears := map (\<lambda>g. if short_address (spec g) = Some 8
              then g\<lparr>metering := map_option (implement_loadside 0 False) (metering g)\<rparr> else g) (gears fl)\<rparr>)"

end
