(* ===== verification/Controller.thy ===== *)
theory Controller
  imports Session Gear
begin

text \<open>
  The wire controller (\<open>dali2rust-dali-runtime/src/runtime/controller.rs\<close> with
  \<open>controller/retry.rs\<close>, \<open>transaction.rs\<close>, \<open>unit.rs\<close>): frames with settling
  times, bounded retries, send-twice pairs, transactions and units.

  The transport (\<open>DaliTransport\<close>), the monotonic clock and the arrival tickets of the
  wire gate are supplied by the caller of the controller; they are the fields of \<open>Wire\<close>,
  functions on a world \<open>'w\<close> that the transfers and sleeps change. A wire hold is a
  predicate on that world. The sniffer tap and the log lines only observe and are left out, as
  are the counters of \<open>DaliWireCounters\<close> that the controller never writes. A
  \<open>debug_assert\<close> is not an effect here: the definitions are the release build's.
\<close>

section \<open>The world a controller drives\<close>

record 'w Wire =
  clock_ms :: "'w \<Rightarrow> u64"
  sleep_us :: "nat \<Rightarrow> 'w \<Rightarrow> 'w"
  xfer16 :: "u16 \<Rightarrow> bool \<Rightarrow> u32 \<Rightarrow> 'w \<Rightarrow> TransferOutcome option \<times> 'w"
  xfer24 :: "u8 list \<Rightarrow> bool \<Rightarrow> u32 \<Rightarrow> 'w \<Rightarrow> TransferOutcome option \<times> 'w"
  foreign_activity :: "'w \<Rightarrow> u32"
  tx_settle_ticks :: "'w \<Rightarrow> u16 option"
  frame24_supported :: "'w \<Rightarrow> bool"
  arrival_tickets :: "'w \<Rightarrow> u32 list"

datatype YieldGranularity = YieldFrame | YieldStep | YieldNever

record WireLease =
  granularity :: YieldGranularity
  tickets :: "u32 list"
  watched :: nat

primrec granularity_rank :: "YieldGranularity \<Rightarrow> nat" where
  "granularity_rank YieldFrame = 0" | "granularity_rank YieldStep = 1" | "granularity_rank YieldNever = 2"

definition no_finer_than :: "YieldGranularity \<Rightarrow> WireLease \<Rightarrow> WireLease" where
  "no_finer_than g l =
     l\<lparr>granularity := (if granularity_rank (granularity l) < granularity_rank g then g else granularity l)\<rparr>"

definition wire_lease_new :: "'w Wire \<Rightarrow> nat \<Rightarrow> YieldGranularity \<Rightarrow> 'w \<Rightarrow> WireLease" where
  "wire_lease_new io priority g w =
     \<lparr>granularity = g, tickets = arrival_tickets io w, watched = min priority 2\<rparr>"

definition should_yield :: "'w Wire \<Rightarrow> WireLease \<Rightarrow> 'w \<Rightarrow> bool" where
  "should_yield io l w \<longleftrightarrow> take (watched l) (arrival_tickets io w) \<noteq> take (watched l) (tickets l)"

section \<open>State\<close>

datatype WireFrame = Forward16 ForwardFrame | Forward24 "u8 list"

record ExchangeObservation =
  obs_outcome :: TransferOutcome
  contended :: bool

record TransactionState =
  depth :: u16
  first_frame_sent :: bool
  exempt :: bool
  first_frame_at_ms :: u64
  last_frame_at_ms :: u64

definition tx_default :: TransactionState where
  "tx_default = \<lparr>depth = 0, first_frame_sent = False, exempt = False, first_frame_at_ms = 0, last_frame_at_ms = 0\<rparr>"

record UnitAttempt =
  broken_by :: "FrameError option"
  started :: bool

definition unit_default :: UnitAttempt where
  "unit_default = \<lparr>broken_by = None, started = False\<rparr>"

record WireCounters =
  transactions_started :: u32
  transactions_completed :: u32
  transactions_by_class :: "u32 list"
  transaction_reopened :: u32
  transaction_should_exceedances :: u32
  transaction_budget_exceeded :: u32
  transaction_leaks :: u32
  frames_sent_by_priority :: "u32 list"
  p1_window_late :: u32
  bus_releases :: u32
  bus_acquire_timeout :: u32
  collisions :: u32
  foreign_in_window :: u32
  corrupted_in_window :: u32
  exchange_retries :: u32
  retry_exhausted :: u32
  readback_groups_corrected :: u32
  readback_colour_features_corrected :: u32
  readback_extended_fade_corrected :: u32
  program_repairs :: u32
  send_twice_over_transmitter_max :: u32
  send_twice_split :: u32

definition counters_default :: WireCounters where
  "counters_default = \<lparr>transactions_started = 0, transactions_completed = 0,
     transactions_by_class = replicate 4 0, transaction_reopened = 0, transaction_should_exceedances = 0,
     transaction_budget_exceeded = 0, transaction_leaks = 0, frames_sent_by_priority = replicate 5 0,
     p1_window_late = 0, bus_releases = 0, bus_acquire_timeout = 0, collisions = 0, foreign_in_window = 0,
     corrupted_in_window = 0, exchange_retries = 0, retry_exhausted = 0, readback_groups_corrected = 0,
     readback_colour_features_corrected = 0, readback_extended_fade_corrected = 0, program_repairs = 0,
     send_twice_over_transmitter_max = 0, send_twice_split = 0\<rparr>"

record 'w DaliController =
  world :: 'w
  session :: DaliSession
  retry_policy :: RetryPolicy
  retry_seed :: u64
  lease :: "WireLease option"
  hold :: "('w \<Rightarrow> HoldCause option) option"
  at_step_boundary :: bool
  step_depth :: u8
  transport_honours_settle :: bool
  wire_class :: TransactionPriority
  tx :: TransactionState
  unit_state :: "UnitAttempt option"
  last_release_ms :: u64
  busy_since_release :: bool
  wire_counters :: WireCounters

definition with_retry_policy :: "'w Wire \<Rightarrow> bool \<Rightarrow> RetryPolicy \<Rightarrow> 'w \<Rightarrow> 'w DaliController" where
  "with_retry_policy io honours policy w =
     \<lparr>world = w, session = session_new, retry_policy = policy, retry_seed = max (clock_ms io w) 1,
      lease = None, hold = None, at_step_boundary = False, step_depth = 0,
      transport_honours_settle = honours, wire_class = TxConfiguration, tx = tx_default, unit_state = None,
      last_release_ms = clock_ms io w, busy_since_release = False, wire_counters = counters_default\<rparr>"

definition controller_new :: "'w Wire \<Rightarrow> bool \<Rightarrow> 'w \<Rightarrow> 'w DaliController" where
  "controller_new io honours = with_retry_policy io honours retry_policy_default"

definition counted :: "(WireCounters \<Rightarrow> WireCounters) \<Rightarrow> 'w DaliController \<Rightarrow> 'w DaliController" where
  "counted f c = c\<lparr>wire_counters := f (wire_counters c)\<rparr>"

definition now_of :: "'w Wire \<Rightarrow> 'w DaliController \<Rightarrow> u64" where
  "now_of io c = clock_ms io (world c)"

definition sleep :: "'w Wire \<Rightarrow> nat \<Rightarrow> 'w DaliController \<Rightarrow> 'w DaliController" where
  "sleep io us c = c\<lparr>world := sleep_us io us (world c)\<rparr>"

section \<open>Units and transactions\<close>

definition attempts_here :: "'w DaliController \<Rightarrow> u8 \<Rightarrow> u8" where
  "attempts_here c attempts = (if unit_state c \<noteq> None then 1 else attempts)"

definition unit_broken_by :: "'w DaliController \<Rightarrow> FrameError option" where
  "unit_broken_by c = (case unit_state c of Some u \<Rightarrow> broken_by u | None \<Rightarrow> None)"

definition note_unit_started :: "'w DaliController \<Rightarrow> 'w DaliController" where
  "note_unit_started c = c\<lparr>unit_state := map_option (\<lambda>u. u\<lparr>started := True\<rparr>) (unit_state c)\<rparr>"

definition break_unit :: "FrameError \<Rightarrow> 'w DaliController \<Rightarrow> 'w DaliController" where
  "break_unit e c = c\<lparr>unit_state := map_option
     (\<lambda>u. u\<lparr>broken_by := (case broken_by u of None \<Rightarrow> Some e | Some f \<Rightarrow> Some f)\<rparr>) (unit_state c)\<rparr>"

definition inside_started :: "'w DaliController \<Rightarrow> bool" where
  "inside_started c \<longleftrightarrow> depth (tx c) > 0 \<and> first_frame_sent (tx c)"

definition next_frame_priority :: "'w DaliController \<Rightarrow> DaliPriority" where
  "next_frame_priority c = (if inside_started c then Transaction else first_frame (wire_class c))"

definition next_retry_jitter :: "'w DaliController \<Rightarrow> u64 \<times> 'w DaliController" where
  "next_retry_jitter c =
     (let s = retry_seed c;
          s = s XOR push_bit 13 s;
          s = s XOR drop_bit 7 s;
          s = s XOR push_bit 17 s;
          s = (if s = 0 then 1 else s)
      in (s, c\<lparr>retry_seed := s\<rparr>))"

definition div_ceil :: "'a::len word \<Rightarrow> 'a word \<Rightarrow> 'a word" where
  "div_ceil a b = a div b + (if a mod b > 0 then 1 else 0)"

definition random_settle_within :: "DaliPriority \<Rightarrow> 'w DaliController \<Rightarrow> u32 \<times> 'w DaliController" where
  "random_settle_within p c =
     (let lead = 3;
          lo = div_ceil (min_settle_us p) 104 + 3;
          hi = max_settle_us p div 104;
          span = saturating_add (saturating_sub hi lo) 1
      in case next_retry_jitter c of (j, c) \<Rightarrow>
           (saturating_sub (lo + ucast (j mod ucast span)) lead * 104, c))"

definition release_due :: "'w Wire \<Rightarrow> 'w DaliController \<Rightarrow> bool" where
  "release_due io c \<longleftrightarrow> busy_since_release c \<and> \<not> inside_started c
     \<and> saturating_sub (now_of io c) (last_release_ms c) \<ge> 400"

definition next_settle :: "'w Wire \<Rightarrow> 'w DaliController \<Rightarrow> (DaliPriority \<times> u32) \<times> 'w DaliController" where
  "next_settle io c =
     (let p = next_frame_priority c in
      if \<not> release_due io c then (case random_settle_within p c of (s, c) \<Rightarrow> ((p, s), c))
      else ((PeriodicQuery, 22000),
            counted (\<lambda>k. k\<lparr>bus_releases := bus_releases k + 1\<rparr>)
              (c\<lparr>last_release_ms := now_of io c, busy_since_release := False\<rparr>)))"

definition held_by :: "'w DaliController \<Rightarrow> HoldCause option" where
  "held_by c =
     (if inside_started c \<or> (step_depth c > 0 \<and> \<not> at_step_boundary c) then None
      else case hold c of None \<Rightarrow> None | Some held \<Rightarrow> held (world c))"

definition must_yield :: "'w Wire \<Rightarrow> 'w DaliController \<Rightarrow> bool" where
  "must_yield io c =
     (if inside_started c then False
      else case lease c of
             None \<Rightarrow> False
           | Some l \<Rightarrow> (case granularity l of
                 YieldNever \<Rightarrow> False
               | YieldStep \<Rightarrow> at_step_boundary c \<and> should_yield io l (world c)
               | YieldFrame \<Rightarrow> should_yield io l (world c)))"

definition yield_pending :: "'w Wire \<Rightarrow> 'w DaliController \<Rightarrow> bool" where
  "yield_pending io c =
     (case lease c of None \<Rightarrow> False
      | Some l \<Rightarrow> granularity l \<noteq> YieldNever \<and> should_yield io l (world c))"

definition close_outermost :: "'w DaliController \<Rightarrow> 'w DaliController" where
  "close_outermost c =
     (if \<not> first_frame_sent (tx c) then c\<lparr>tx := tx_default\<rparr>
      else let wire_ms = saturating_sub (last_frame_at_ms (tx c)) (first_frame_at_ms (tx c));
               c = counted (\<lambda>k. k\<lparr>transactions_completed := transactions_completed k + 1\<rparr>) c;
               c = (if wire_ms > 400 then
                      (if exempt (tx c)
                       then counted (\<lambda>k. k\<lparr>transaction_should_exceedances := transaction_should_exceedances k + 1\<rparr>) c
                       else counted (\<lambda>k. k\<lparr>transaction_budget_exceeded := transaction_budget_exceeded k + 1\<rparr>) c)
                    else c)
           in c\<lparr>tx := tx_default\<rparr>)"

definition tx_open :: "bool \<Rightarrow> 'w DaliController \<Rightarrow> 'w DaliController" where
  "tx_open ex c =
     (let c = (if depth (tx c) = 0 then c\<lparr>tx := tx_default\<lparr>exempt := ex\<rparr>\<rparr> else c)
      in c\<lparr>tx := (tx c)\<lparr>depth := saturating_add (depth (tx c)) 1\<rparr>\<rparr>)"

definition tx_close :: "'w DaliController \<Rightarrow> 'w DaliController" where
  "tx_close c =
     (let c = c\<lparr>tx := (tx c)\<lparr>depth := saturating_sub (depth (tx c)) 1\<rparr>\<rparr>
      in if depth (tx c) = 0 then close_outermost c else c)"

definition run_transaction :: "bool \<Rightarrow> ('w DaliController \<Rightarrow> 'r \<times> 'w DaliController) \<Rightarrow> 'w DaliController \<Rightarrow> 'r \<times> 'w DaliController" where
  "run_transaction ex run c = (case run (tx_open ex c) of (r, c) \<Rightarrow> (r, tx_close c))"

definition close_transaction_for_yield :: "'w DaliController \<Rightarrow> 'w DaliController" where
  "close_transaction_for_yield c =
     (let d = close_outermost c in d\<lparr>tx := (tx d)\<lparr>depth := depth (tx c), exempt := exempt (tx c)\<rparr>\<rparr>)"

definition note_unit_reopened :: "'w DaliController \<Rightarrow> 'w DaliController" where
  "note_unit_reopened c =
     (if inside_started c then counted (\<lambda>k. k\<lparr>transaction_reopened := transaction_reopened k + 1\<rparr>) c else c)"

definition credit_natural_release :: "'w Wire \<Rightarrow> 'w DaliController \<Rightarrow> 'w DaliController" where
  "credit_natural_release io c =
     (if min_wait_before_next (session c) 22000 (now_of io c) = 0
      then c\<lparr>last_release_ms := now_of io c, busy_since_release := False\<rparr> else c)"

definition note_settle_window :: "'w Wire \<Rightarrow> DaliPriority \<Rightarrow> 'w DaliController \<Rightarrow> 'w DaliController" where
  "note_settle_window io p c =
     (if p \<noteq> Transaction then c
      else case tx_settle_ticks io (world c) of
             None \<Rightarrow> c
           | Some t \<Rightarrow> if ucast t * 104 > max_settle_us Transaction
                       then counted (\<lambda>k. k\<lparr>p1_window_late := p1_window_late k + 1\<rparr>) c else c)"

section \<open>One frame\<close>

definition session_wait :: "'w Wire \<Rightarrow> u32 \<Rightarrow> 'w DaliController \<Rightarrow> 'w DaliController" where
  "session_wait io settle_us c =
     (if transport_honours_settle c then c
      else let wait = min_wait_before_next (session c) settle_us (now_of io c)
           in if wait \<noteq> 0 then sleep io (unat wait) c else c)"

definition perform_exchange :: "'w Wire \<Rightarrow> WireFrame \<Rightarrow> bool \<Rightarrow> u32 \<Rightarrow> ('w DaliController, FrameError, ExchangeObservation) act" where
  "perform_exchange io frame expects settle_us c =
     (let before = foreign_activity io (world c);
          sent = (case frame of
              Forward16 f \<Rightarrow> xfer16 io (raw f) expects settle_us (world c)
            | Forward24 bytes \<Rightarrow> xfer24 io bytes expects settle_us (world c))
      in case sent of
           (None, w) \<Rightarrow> (Err TransportError, c\<lparr>world := w\<rparr>)
         | (Some outcome, w) \<Rightarrow>
             (Ok \<lparr>obs_outcome = outcome, contended = (foreign_activity io w \<noteq> before)\<rparr>, c\<lparr>world := w\<rparr>))"

definition note_outcome_counter :: "TransferOutcome \<Rightarrow> 'w DaliController \<Rightarrow> 'w DaliController" where
  "note_outcome_counter outcome c =
     (case outcome of
        TransferOutcome.BusBusy \<Rightarrow> counted (\<lambda>k. k\<lparr>bus_acquire_timeout := bus_acquire_timeout k + 1\<rparr>) c
      | TransferOutcome.Collision \<Rightarrow> counted (\<lambda>k. k\<lparr>collisions := collisions k + 1\<rparr>) c
      | ForeignInWindow \<Rightarrow> counted (\<lambda>k. k\<lparr>foreign_in_window := foreign_in_window k + 1\<rparr>) c
      | CorruptedInWindow \<Rightarrow> counted (\<lambda>k. k\<lparr>corrupted_in_window := corrupted_in_window k + 1\<rparr>) c
      | _ \<Rightarrow> c)"

definition note_frame_sent :: "nat \<Rightarrow> WireCounters \<Rightarrow> WireCounters" where
  "note_frame_sent p k =
     (if 1 \<le> p \<and> p - 1 < length (frames_sent_by_priority k)
      then k\<lparr>frames_sent_by_priority := (frames_sent_by_priority k)[p - 1 := frames_sent_by_priority k ! (p - 1) + 1]\<rparr>
      else k)"

definition note_transaction_started :: "u8 \<Rightarrow> WireCounters \<Rightarrow> WireCounters" where
  "note_transaction_started class k =
     (let k = k\<lparr>transactions_started := transactions_started k + 1\<rparr>; i = unat class - 2 in
      if 2 \<le> unat class \<and> i < length (transactions_by_class k)
      then k\<lparr>transactions_by_class := (transactions_by_class k)[i := transactions_by_class k ! i + 1]\<rparr> else k)"

definition note_frame_transmitted :: "'w Wire \<Rightarrow> TransferOutcome \<Rightarrow> DaliPriority \<Rightarrow> 'w DaliController \<Rightarrow> 'w DaliController" where
  "note_frame_transmitted io outcome p c =
     (let c = note_outcome_counter outcome c in
      if outcome = TransferOutcome.BusBusy \<or> outcome = TransferOutcome.Collision then c
      else let c = c\<lparr>session := record_transmission (now_of io c) (session c)\<rparr>;
               c = note_unit_started c;
               c = c\<lparr>busy_since_release := True\<rparr>;
               c = counted (note_frame_sent (priority_rank p)) c;
               c = note_settle_window io p c;
               now = now_of io c;
               c = c\<lparr>tx := (tx c)\<lparr>last_frame_at_ms := now\<rparr>\<rparr>
           in if depth (tx c) > 0 \<and> \<not> first_frame_sent (tx c)
              then counted (note_transaction_started (transaction_rank (wire_class c)))
                     (c\<lparr>tx := (tx c)\<lparr>first_frame_sent := True, first_frame_at_ms := now\<rparr>\<rparr>)
              else c)"

section \<open>Retries\<close>

definition unit_retryable :: "FrameError \<Rightarrow> bool" where
  "unit_retryable e \<longleftrightarrow> e = FrameError.Collision \<or> e = FrameError.BusBusy"

definition has_retry_remaining :: "u8 \<Rightarrow> u8 \<Rightarrow> bool" where
  "has_retry_remaining attempt attempts \<longleftrightarrow> saturating_add attempt 1 < attempts"

definition retry_delay_for :: "'w DaliController \<Rightarrow> FrameError \<Rightarrow> u8 \<Rightarrow> u64 \<Rightarrow> u64" where
  "retry_delay_for c e retry_index jitter =
     (if e = FrameError.Collision then 0 else backoff_delay (retry_policy c) retry_index jitter)"

definition retry_or_fail :: "'w Wire \<Rightarrow> u8 \<Rightarrow> u8 \<Rightarrow> FrameError \<Rightarrow> ('w DaliController, FrameError, TransferOutcome option) act" where
  "retry_or_fail io attempt attempts e c =
     (if \<not> has_retry_remaining attempt attempts then (Err e, break_unit e c)
      else case next_retry_jitter (counted (\<lambda>k. k\<lparr>exchange_retries := exchange_retries k + 1\<rparr>) c) of
             (j, c) \<Rightarrow>
               (let delay = retry_delay_for c e attempt j
                in (Ok None, if delay \<noteq> 0 then sleep io (unat delay * 1000) c else c)))"

definition should_retry_contended_query_no_answer :: "'w DaliController \<Rightarrow> ExchangeObservation \<Rightarrow> bool \<Rightarrow> bool" where
  "should_retry_contended_query_no_answer c ex expects \<longleftrightarrow>
     expects \<and> obs_outcome ex = TransferOutcome.NoAnswer \<and> contended ex \<and> query_contention_retry (retry_policy c)"

definition retry_query_no_answer :: "'w Wire \<Rightarrow> u8 \<Rightarrow> u8 \<Rightarrow> ('w DaliController, FrameError, TransferOutcome option) act" where
  "retry_query_no_answer io attempt attempts = retry_or_fail io attempt attempts FrameError.Collision"

definition resolve_exchange_outcome :: "'w Wire \<Rightarrow> ExchangeObservation \<Rightarrow> bool \<Rightarrow> u8 \<Rightarrow> u8 \<Rightarrow> WireFrame \<Rightarrow> ('w DaliController, FrameError, TransferOutcome option) act" where
  "resolve_exchange_outcome io ex expects attempt attempts frame c =
     (if should_retry_contended_query_no_answer c ex expects
      then retry_query_no_answer io attempt attempts c
      else case obs_outcome ex of
             TransferOutcome.Answer v \<Rightarrow> (Ok (Some (TransferOutcome.Answer v)), c)
           | TransferOutcome.NoAnswer \<Rightarrow> (Ok (Some TransferOutcome.NoAnswer), c)
           | TransferOutcome.Collision \<Rightarrow> retry_or_fail io attempt attempts FrameError.Collision c
           | TransferOutcome.BusBusy \<Rightarrow> retry_or_fail io attempt attempts FrameError.BusBusy c
           | ForeignInWindow \<Rightarrow>
               (case frame of Forward24 _ \<Rightarrow> (Ok (Some ForeignInWindow), c)
                | Forward16 _ \<Rightarrow> if expects then retry_or_fail io attempt attempts FrameError.Collision c
                                 else (Ok (Some TransferOutcome.NoAnswer), c))
           | CorruptedInWindow \<Rightarrow>
               (case frame of Forward24 _ \<Rightarrow> (Ok (Some CorruptedInWindow), c)
                | Forward16 _ \<Rightarrow> (Ok (Some (if expects then CorruptedInWindow else TransferOutcome.NoAnswer)), c)))"

text \<open>
  The attempt loop of \<open>exchange_with_attempts\<close>: \<open>attempt\<close> is the loop
  variable, the last argument the iterations left.
\<close>

fun exchange_attempts :: "'w Wire \<Rightarrow> WireFrame \<Rightarrow> bool \<Rightarrow> u8 \<Rightarrow> bool \<Rightarrow> u8 \<Rightarrow> nat \<Rightarrow> ('w DaliController, FrameError, ExchangeObservation) act" where
  "exchange_attempts io frame expects attempts cont attempt 0 c =
     (Err TransportError, counted (\<lambda>k. k\<lparr>retry_exhausted := retry_exhausted k + 1\<rparr>) c)"
| "exchange_attempts io frame expects attempts cont attempt (Suc n) c =
     (case held_by c of Some cause \<Rightarrow> (Err (Held cause), c) | None \<Rightarrow>
      if must_yield io c then (Err Preempted, c)
      else let c = c\<lparr>at_step_boundary := False\<rparr>;
               c = credit_natural_release io c
           in case next_settle io c of ((p, settle_us), c) \<Rightarrow>
             (case perform_exchange io frame expects settle_us (session_wait io settle_us c) of
                (Inl e, c) \<Rightarrow> (Err e, c)
              | (Inr ex, c) \<Rightarrow>
                  (let cont = (cont \<or> contended ex);
                       c = note_frame_transmitted io (obs_outcome ex) p c
                   in case resolve_exchange_outcome io ex expects attempt attempts frame c of
                        (Inl e, c) \<Rightarrow> (Err e, c)
                      | (Inr (Some outcome), c) \<Rightarrow> (Ok \<lparr>obs_outcome = outcome, contended = cont\<rparr>, c)
                      | (Inr None, c) \<Rightarrow> exchange_attempts io frame expects attempts cont (attempt + 1) n c)))"

definition exchange_with_attempts :: "'w Wire \<Rightarrow> WireFrame \<Rightarrow> bool \<Rightarrow> u8 \<Rightarrow> ('w DaliController, FrameError, ExchangeObservation) act" where
  "exchange_with_attempts io frame expects attempts c =
     (case unit_broken_by c of Some e \<Rightarrow> (Err e, c)
      | None \<Rightarrow> exchange_attempts io frame expects attempts False 0 (unat attempts) c)"

definition response_from_outcome :: "TransferOutcome \<Rightarrow> DaliResponse" where
  "response_from_outcome outcome =
     (case outcome of TransferOutcome.Answer b \<Rightarrow> DaliResponse.Answer b | TransferOutcome.NoAnswer \<Rightarrow> DaliResponse.NoAnswer
      | CorruptedInWindow \<Rightarrow> Violation | _ \<Rightarrow> DaliResponse.NoAnswer)"

definition exchange_once :: "'w Wire \<Rightarrow> ForwardFrame \<Rightarrow> bool \<Rightarrow> ('w DaliController, FrameError, DaliResponse \<times> bool) act" where
  "exchange_once io frame expects =
     andThen (exchange_with_attempts io (Forward16 frame) expects 1)
       (\<lambda>obs. pass (response_from_outcome (obs_outcome obs), contended obs))"

section \<open>Units: prelude, frame, repeat\<close>

definition judge_send_twice_interval :: "'w Wire \<Rightarrow> ('w DaliController, FrameError, unit) act" where
  "judge_send_twice_interval io c =
     (case tx_settle_ticks io (world c) of
        None \<Rightarrow> (Ok (), c)
      | Some t \<Rightarrow>
          (let interval_us = ucast t * 104 :: u32 in
           if interval_us \<ge> 94000
           then (Err FrameError.BusBusy, counted (\<lambda>k. k\<lparr>send_twice_split := send_twice_split k + 1\<rparr>) c)
           else (Ok (), if interval_us \<ge> 75000
                        then counted (\<lambda>k. k\<lparr>send_twice_over_transmitter_max := send_twice_over_transmitter_max k + 1\<rparr>) c
                        else c)))"

definition try_unit_once :: "'w Wire \<Rightarrow> ForwardFrame option \<Rightarrow> ForwardFrame \<Rightarrow> bool \<Rightarrow> bool \<Rightarrow> ('w DaliController, FrameError, DaliResponse \<times> bool) act" where
  "try_unit_once io enable frame expects repeats =
     andThen (case enable of Some e \<Rightarrow> andThen (exchange_once io e False) (\<lambda>r. pass (snd r)) | None \<Rightarrow> pass False)
       (\<lambda>cont. andThen (exchange_once io frame expects)
         (\<lambda>(backward, observed).
            if repeats then
              andThen (exchange_once io frame expects)
                (\<lambda>(again, observed2). andThen (judge_send_twice_interval io)
                  (\<lambda>_. pass (again, cont \<or> observed \<or> observed2)))
            else pass (backward, cont \<or> observed)))"

fun unit_attempts :: "'w Wire \<Rightarrow> ('w DaliController, FrameError, 'r) act \<Rightarrow> u8 \<Rightarrow> u8 \<Rightarrow> nat \<Rightarrow> ('w DaliController, FrameError, 'r) act" where
  "unit_attempts io once attempts attempt 0 c = (Err TransportError, c)"
| "unit_attempts io once attempts attempt (Suc n) c =
     (case once c of
        (Inr r, c) \<Rightarrow> (Ok r, c)
      | (Inl e, c) \<Rightarrow>
          if \<not> unit_retryable e then (Err e, c)
          else case retry_or_fail io attempt attempts e c of
                 (Inl f, c) \<Rightarrow> (Err f, c)
               | (Inr _, c) \<Rightarrow> unit_attempts io once attempts (attempt + 1) n (note_unit_reopened c))"

definition send_unit :: "'w Wire \<Rightarrow> ForwardFrame option \<Rightarrow> ForwardFrame \<Rightarrow> bool \<Rightarrow> bool \<Rightarrow> ('w DaliController, FrameError, DaliResponse \<times> bool) act" where
  "send_unit io enable frame expects repeats c =
     (let attempts = attempts_here c (effective_max_attempts (retry_policy c))
      in unit_attempts io (try_unit_once io enable frame expects repeats) attempts 0 (unat attempts) c)"

definition try_pair24_once :: "'w Wire \<Rightarrow> u8 list \<Rightarrow> ('w DaliController, FrameError, unit) act" where
  "try_pair24_once io frame =
     andThen (exchange_with_attempts io (Forward24 frame) False 1)
       (\<lambda>_. andThen (exchange_with_attempts io (Forward24 frame) False 1) (\<lambda>_. judge_send_twice_interval io))"

definition send_unit24_twice :: "'w Wire \<Rightarrow> u8 list \<Rightarrow> ('w DaliController, FrameError, unit) act" where
  "send_unit24_twice io frame c =
     (let attempts = attempts_here c (effective_max_attempts (retry_policy c))
      in unit_attempts io (try_pair24_once io frame) attempts 0 (unat attempts) c)"

definition response_if_expected :: "DaliResponse \<Rightarrow> bool \<Rightarrow> DaliResponse" where
  "response_if_expected r expects = (if expects then r else DaliResponse.NoAnswer)"

definition send_command_observed :: "'w Wire \<Rightarrow> DaliCommand \<Rightarrow> ('w DaliController, FrameError, DaliResponse \<times> bool) act" where
  "send_command_observed io cmd =
     (let frame = to_forward_frame cmd;
          expects = is_query cmd;
          enable = (case cmd of
              Extended _ command \<Rightarrow> Some (special_forward_frame (EnableDeviceType (enable_device_type command)))
            | _ \<Rightarrow> None)
      in andThen (run_transaction False (send_unit io enable frame expects (requires_repeat cmd)))
           (\<lambda>(response, cont). pass (response_if_expected response expects, cont)))"

definition send_raw_observed :: "'w Wire \<Rightarrow> ForwardFrame \<Rightarrow> bool \<Rightarrow> ('w DaliController, FrameError, DaliResponse \<times> bool) act" where
  "send_raw_observed io frame expects c =
     andThen (exchange_with_attempts io (Forward16 frame) expects
         (attempts_here c (effective_max_attempts (retry_policy c))))
       (\<lambda>obs. pass (response_from_outcome (obs_outcome obs), contended obs)) c"

definition send_raw_pair :: "'w Wire \<Rightarrow> ForwardFrame \<Rightarrow> bool \<Rightarrow> ('w DaliController, FrameError, DaliResponse \<times> bool) act" where
  "send_raw_pair io frame expects = run_transaction False (send_unit io None frame expects True)"

definition send_raw_enabled_query :: "'w Wire \<Rightarrow> ForwardFrame \<Rightarrow> ForwardFrame \<Rightarrow> ('w DaliController, FrameError, DaliResponse \<times> bool) act" where
  "send_raw_enabled_query io enable frame = run_transaction False (send_unit io (Some enable) frame True False)"

section \<open>24-bit frames\<close>

datatype Frame24Fault = Unsupported | Contended | Preempted24 | Held24 HoldCause

primrec fault24_from_error :: "FrameError \<Rightarrow> Frame24Fault" where
  "fault24_from_error Preempted = Preempted24"
| "fault24_from_error (Held cause) = Held24 cause"
| "fault24_from_error FrameError.Collision = Contended"
| "fault24_from_error FrameError.BusBusy = Contended"
| "fault24_from_error TransportError = Contended"
| "fault24_from_error BackwardTimeout = Contended"
| "fault24_from_error BackwardNack = Contended"

definition response24_from_outcome :: "TransferOutcome \<Rightarrow> Frame24Fault + DaliResponse" where
  "response24_from_outcome outcome =
     (case outcome of TransferOutcome.Collision \<Rightarrow> Err Contended | TransferOutcome.BusBusy \<Rightarrow> Err Contended
      | ForeignInWindow \<Rightarrow> Err Contended | terminal \<Rightarrow> Ok (response_from_outcome terminal))"

definition perform_exchange24 :: "'w Wire \<Rightarrow> u8 list \<Rightarrow> bool \<Rightarrow> u8 \<Rightarrow> ('w DaliController, Frame24Fault, DaliResponse) act" where
  "perform_exchange24 io frame expects attempts c =
     (if \<not> frame24_supported io (world c) then (Err Unsupported, c)
      else andThen (mapErr fault24_from_error (exchange_with_attempts io (Forward24 frame) expects attempts))
             (\<lambda>obs c. (response24_from_outcome (obs_outcome obs), c)) c)"

definition send_frame24 :: "'w Wire \<Rightarrow> u8 list \<Rightarrow> bool \<Rightarrow> ('w DaliController, Frame24Fault, DaliResponse) act" where
  "send_frame24 io frame expects c =
     perform_exchange24 io frame expects (attempts_here c (effective_max_attempts (retry_policy c))) c"

definition send_frame24_once :: "'w Wire \<Rightarrow> u8 list \<Rightarrow> bool \<Rightarrow> ('w DaliController, Frame24Fault, DaliResponse) act" where
  "send_frame24_once io frame expects = perform_exchange24 io frame expects 1"

definition send_frame24_twice :: "'w Wire \<Rightarrow> u8 list \<Rightarrow> ('w DaliController, Frame24Fault, unit) act" where
  "send_frame24_twice io frame c =
     (if \<not> frame24_supported io (world c) then (Err Unsupported, c)
      else mapErr fault24_from_error (run_transaction False (send_unit24_twice io frame)) c)"

section \<open>Steps and leases\<close>

definition step_boundary :: "'w Wire \<Rightarrow> 'w DaliController \<Rightarrow> 'w DaliController" where
  "step_boundary io c =
     (let c = c\<lparr>at_step_boundary := True\<rparr>
      in if inside_started c \<and> yield_pending io c then close_transaction_for_yield c else c)"

definition step_open :: "'w Wire \<Rightarrow> 'w DaliController \<Rightarrow> 'w DaliController" where
  "step_open io c =
     (let c = step_boundary io (c\<lparr>lease := map_option (no_finer_than YieldStep) (lease c)\<rparr>)
      in c\<lparr>step_depth := saturating_add (step_depth c) 1\<rparr>)"

definition step_close :: "'w DaliController \<Rightarrow> 'w DaliController \<Rightarrow> 'w DaliController" where
  "step_close outer c = c\<lparr>step_depth := saturating_sub (step_depth c) 1, lease := lease outer\<rparr>"

definition with_wire_lease :: "WireLease \<Rightarrow> ('w DaliController \<Rightarrow> 'r \<times> 'w DaliController) \<Rightarrow> 'w DaliController \<Rightarrow> 'r \<times> 'w DaliController" where
  "with_wire_lease l run c =
     (case run (c\<lparr>lease := Some l, at_step_boundary := False\<rparr>) of
        (r, d) \<Rightarrow> (r, d\<lparr>lease := lease c, at_step_boundary := at_step_boundary c\<rparr>))"

definition with_wire_hold :: "('w \<Rightarrow> HoldCause option) \<Rightarrow> ('w DaliController \<Rightarrow> 'r \<times> 'w DaliController) \<Rightarrow> 'w DaliController \<Rightarrow> 'r \<times> 'w DaliController" where
  "with_wire_hold h run c = (case run (c\<lparr>hold := Some h\<rparr>) of (r, d) \<Rightarrow> (r, d\<lparr>hold := hold c\<rparr>))"

definition with_wire_class :: "TransactionPriority option \<Rightarrow> ('w DaliController \<Rightarrow> 'r \<times> 'w DaliController) \<Rightarrow> 'w DaliController \<Rightarrow> 'r \<times> 'w DaliController" where
  "with_wire_class class run c =
     (case run (case class of Some k \<Rightarrow> c\<lparr>wire_class := k\<rparr> | None \<Rightarrow> c) of
        (r, d) \<Rightarrow>
          (let d = (case class of Some _ \<Rightarrow> d\<lparr>wire_class := wire_class c\<rparr> | None \<Rightarrow> d)
           in (r, if depth (tx d) > 0
                  then (counted (\<lambda>k. k\<lparr>transaction_leaks := transaction_leaks k + 1\<rparr>) d)\<lparr>tx := tx_default, unit_state := None\<rparr>
                  else d)))"

datatype ReadbackWorkaround = GroupsCorrected | ColourFeaturesCorrected | ExtendedFadeCorrected | ProgramRepair

definition note_workaround :: "ReadbackWorkaround \<Rightarrow> 'w DaliController \<Rightarrow> 'w DaliController" where
  "note_workaround wk = counted (case wk of
     GroupsCorrected \<Rightarrow> (\<lambda>k. k\<lparr>readback_groups_corrected := readback_groups_corrected k + 1\<rparr>)
   | ColourFeaturesCorrected \<Rightarrow> (\<lambda>k. k\<lparr>readback_colour_features_corrected := readback_colour_features_corrected k + 1\<rparr>)
   | ExtendedFadeCorrected \<Rightarrow> (\<lambda>k. k\<lparr>readback_extended_fade_corrected := readback_extended_fade_corrected k + 1\<rparr>)
   | ProgramRepair \<Rightarrow> (\<lambda>k. k\<lparr>program_repairs := program_repairs k + 1\<rparr>))"

definition reruns_after :: "'w Wire \<Rightarrow> UnitAttempt \<Rightarrow> u8 \<Rightarrow> u8 \<Rightarrow> 'w DaliController \<Rightarrow> bool \<times> 'w DaliController" where
  "reruns_after io finished attempt attempts c =
     (case broken_by finished of
        None \<Rightarrow> (False, c)
      | Some e \<Rightarrow> (case retry_or_fail io attempt attempts e c of
            (Inl _, c) \<Rightarrow> (False, c)
          | (Inr _, c) \<Rightarrow> (True, if started finished
              then counted (\<lambda>k. k\<lparr>transaction_reopened := transaction_reopened k + 1\<rparr>) c else c)))"

text \<open>
  \<open>run_unit\<close> takes an \<open>FnMut\<close>: what the closure captures is the state
  \<open>'s\<close> that a rerun finds as the failed run left it. A rerun needs
  \<open>has_retry_remaining\<close>, so \<open>effective_max_attempts\<close> iterations are enough.
\<close>

fun unit_reruns :: "'w Wire \<Rightarrow> bool \<Rightarrow> ('s \<Rightarrow> 'w DaliController \<Rightarrow> ('r \<times> 's) \<times> 'w DaliController) \<Rightarrow> u8 \<Rightarrow> u8 \<Rightarrow> nat \<Rightarrow> 's \<Rightarrow> 'w DaliController \<Rightarrow> ('r \<times> 's) \<times> 'w DaliController" where
  "unit_reruns io ex run attempts attempt n s c =
     (case run_transaction ex (run s) (c\<lparr>unit_state := Some unit_default\<rparr>) of
        ((r, s), c) \<Rightarrow>
          (let finished = (case unit_state c of Some u \<Rightarrow> u | None \<Rightarrow> unit_default)
           in case reruns_after io finished attempt attempts (c\<lparr>unit_state := None\<rparr>) of
                (again, c) \<Rightarrow>
                  if \<not> again then ((r, s), c)
                  else case n of 0 \<Rightarrow> ((r, s), c)
                       | Suc m \<Rightarrow> unit_reruns io ex run attempts (attempt + 1) m s c))"

definition run_unit :: "'w Wire \<Rightarrow> bool \<Rightarrow> ('s \<Rightarrow> 'w DaliController \<Rightarrow> ('r \<times> 's) \<times> 'w DaliController) \<Rightarrow> 's \<Rightarrow> 'w DaliController \<Rightarrow> ('r \<times> 's) \<times> 'w DaliController" where
  "run_unit io ex run s c =
     (if unit_state c \<noteq> None then run_transaction ex (run s) c
      else let attempts = effective_max_attempts (retry_policy c)
           in unit_reruns io ex run attempts 0 (unat attempts) s c)"

end
