(* ===== verification/Executor.thy ===== *)
theory Executor
  imports Controller
begin

text \<open>
  The vocabulary of the semantic executors
  (\<open>dali2rust-dali-runtime/src/runtime/executor/helpers.rs\<close>, \<open>majority.rs\<close> and
  \<open>config.rs\<close>): semantic errors, the send helpers, majority votes over repeated reads and
  the verify-and-repair loop. The executors take any \<open>DaliApplicationController\<close>; here they
  run on the controller of theory \<open>Controller\<close>, over an arbitrary wire \<open>io\<close>.
\<close>

section \<open>Errors\<close>

datatype SemanticDaliError = Conflict string | OperationFailed string

primrec message :: "SemanticDaliError \<Rightarrow> string" where
  "message (Conflict m) = m" | "message (OperationFailed m) = m"

definition is_bus_contended :: "SemanticDaliError \<Rightarrow> bool" where
  "is_bus_contended e \<longleftrightarrow> e = OperationFailed ''bus_contended''"

definition is_preempted :: "SemanticDaliError \<Rightarrow> bool" where
  "is_preempted e \<longleftrightarrow> e = OperationFailed ''preempted''"

definition is_held :: "SemanticDaliError \<Rightarrow> bool" where
  "is_held e \<longleftrightarrow> list_ex (\<lambda>cause. e = Conflict (hold_message cause)) [Passive, Quiescent]"

definition held_as_preempted :: "SemanticDaliError \<Rightarrow> SemanticDaliError" where
  "held_as_preempted e = (if is_held e then OperationFailed ''preempted'' else e)"

definition is_device_absent :: "SemanticDaliError \<Rightarrow> bool" where
  "is_device_absent e \<longleftrightarrow> e = OperationFailed ''device_absent''"

text \<open>The derived \<open>Debug\<close> text of the transport errors, and \<open>str::contains\<close>.\<close>

primrec debug_cause :: "HoldCause \<Rightarrow> string" where
  "debug_cause Passive = ''Passive''" | "debug_cause Quiescent = ''Quiescent''"

primrec debug_error :: "FrameError \<Rightarrow> string" where
  "debug_error BackwardTimeout = ''BackwardTimeout''"
| "debug_error BackwardNack = ''BackwardNack''"
| "debug_error FrameError.Collision = ''Collision''"
| "debug_error FrameError.BusBusy = ''BusBusy''"
| "debug_error TransportError = ''TransportError''"
| "debug_error Preempted = ''Preempted''"
| "debug_error (Held cause) = ''Held('' @ debug_cause cause @ '')''"

fun contains_str :: "string \<Rightarrow> string \<Rightarrow> bool" where
  "contains_str [] pat \<longleftrightarrow> pat = []"
| "contains_str (x # xs) pat \<longleftrightarrow> take (length pat) (x # xs) = pat \<or> contains_str xs pat"

definition held_cause_in :: "string \<Rightarrow> HoldCause option" where
  "held_cause_in rendered =
     List.find (\<lambda>cause. contains_str rendered (''Held('' @ debug_cause cause @ '')'')) [Passive, Quiescent]"

definition map_transport_error :: "FrameError \<Rightarrow> SemanticDaliError" where
  "map_transport_error e =
     (let rendered = debug_error e in
      case held_cause_in rendered of
        Some cause \<Rightarrow> Conflict (hold_message cause)
      | None \<Rightarrow>
          if contains_str rendered ''Preempted'' then OperationFailed ''preempted''
          else if contains_str rendered ''Collision'' \<or> contains_str rendered ''BusBusy''
          then OperationFailed ''bus_contended''
          else OperationFailed ''dali_transport_error'')"

section \<open>Small conversions\<close>

definition dali_short_address :: "u8 \<Rightarrow> SemanticDaliError + DaliAddress" where
  "dali_short_address s = (case short s of Inl _ \<Rightarrow> Err (Conflict ''invalid_short_address'') | Inr a \<Rightarrow> Ok a)"

definition group_address :: "u8 \<Rightarrow> SemanticDaliError + DaliAddress" where
  "group_address g = (case group g of Inl _ \<Rightarrow> Err (Conflict ''invalid_group_id'') | Inr a \<Rightarrow> Ok a)"

definition kelvin_to_mirek :: "u16 \<Rightarrow> u16 option" where
  "kelvin_to_mirek kelvin =
     (if kelvin = 0 then None
      else let mirek = (1000000 + (ucast kelvin :: u32) div 2) div ucast kelvin
           in Some (ucast (min mirek 65535)))"

definition FADE_TIME_MS :: "u32 list" where
  "FADE_TIME_MS = [0, 700, 1000, 1400, 2000, 2800, 4000, 5700, 8000, 11300, 16000, 22600, 32000, 45300, 64000, 90500]"

definition abs_diff :: "'a::len word \<Rightarrow> 'a word \<Rightarrow> 'a word" where
  "abs_diff a b = (if a < b then b - a else a - b)"

definition fade_time_dtr0_from_ms :: "u32 \<Rightarrow> u8" where
  "fade_time_dtr0_from_ms ms =
     (if ms = 0 then 0
      else fst (fold (\<lambda>step (best_step, best_diff).
             let diff = abs_diff ms (FADE_TIME_MS ! step)
             in if diff < best_diff then (word_of_nat step, diff) else (best_step, best_diff))
           [1..<16] (1, - 1)))"

definition fade_time_ms_from_dtr0 :: "u8 \<Rightarrow> u32" where
  "fade_time_ms_from_dtr0 c =
     (if unat c < length FADE_TIME_MS then FADE_TIME_MS ! unat c else FADE_TIME_MS ! 15)"

section \<open>Majority votes\<close>

definition tally_byte :: "u8 \<Rightarrow> u8 list \<Rightarrow> u8 list" where
  "tally_byte v counts = counts[unat v := saturating_add (counts ! unat v) 1]"

fun best_unique_scan :: "u8 list \<Rightarrow> nat \<Rightarrow> (u8 \<times> u8) option \<Rightarrow> bool \<Rightarrow> (u8 \<times> u8) option \<times> bool" where
  "best_unique_scan [] v best tied = (best, tied)"
| "best_unique_scan (count # counts) v best tied =
     (if count = 0 then best_unique_scan counts (v + 1) best tied
      else case best of
             None \<Rightarrow> best_unique_scan counts (v + 1) (Some (word_of_nat v, count)) False
           | Some (_, best_count) \<Rightarrow>
               if count > best_count then best_unique_scan counts (v + 1) (Some (word_of_nat v, count)) False
               else if count = best_count then best_unique_scan counts (v + 1) best True
               else best_unique_scan counts (v + 1) best tied)"

definition best_unique_byte :: "u8 list \<Rightarrow> (u8 \<times> u8) option" where
  "best_unique_byte counts =
     (case best_unique_scan counts 0 None False of
        (Some (v, count), tied) \<Rightarrow> if count \<ge> 2 \<and> \<not> tied then Some (v, count) else None
      | _ \<Rightarrow> None)"

definition unique_majority_byte :: "u8 list \<Rightarrow> u8 option" where
  "unique_majority_byte counts = map_option fst (best_unique_byte counts)"

definition majority_byte_from_u32_samples :: "u32 list \<Rightarrow> nat \<Rightarrow> u8 option" where
  "majority_byte_from_u32_samples samples shift =
     unique_majority_byte
       (fold (\<lambda>sample. tally_byte (ucast (drop_bit shift sample AND 0xFF))) samples (replicate 256 0))"

definition majority_optional_byte :: "u8 option list \<Rightarrow> u8 option option" where
  "majority_optional_byte samples =
     (let (counts, none_count) = fold (\<lambda>s (counts, none_count).
            case s of Some v \<Rightarrow> (tally_byte v counts, none_count) | None \<Rightarrow> (counts, saturating_add none_count 1))
          samples (replicate 256 0, 0);
          best_byte_count = fold max counts 0;
          silent = (if none_count \<ge> 2 \<and> none_count > best_byte_count then Some None else None)
      in case best_unique_byte counts of
           Some (v, count) \<Rightarrow>
             if count > none_count then Some (Some v)
             else if count = none_count \<and> none_count \<ge> 2 then None
             else if none_count < 2 then Some (Some v)
             else silent
         | None \<Rightarrow> silent)"

fun bump :: "'t \<Rightarrow> ('t \<times> u8) list \<Rightarrow> ('t \<times> u8) list" where
  "bump v [] = [(v, 1)]"
| "bump v ((seen, n) # rest) = (if seen = v then (seen, saturating_add n 1) # rest else (seen, n) # bump v rest)"

definition majority_optional :: "'t option list \<Rightarrow> 't option option" where
  "majority_optional samples =
     (let (tally, none_count) = fold (\<lambda>s (tally, none_count).
            case s of Some v \<Rightarrow> (bump v tally, none_count) | None \<Rightarrow> (tally, saturating_add none_count 1))
          samples ([], 0 :: u8);
          best_count = fold (\<lambda>p. max (snd p)) tally 0;
          tied = (length (filter (\<lambda>p. snd p = best_count) tally) > 1);
          winner = (if best_count \<ge> 2 \<and> \<not> tied then List.find (\<lambda>p. snd p = best_count) tally else None);
          silent = (if none_count \<ge> 2 \<and> none_count > best_count then Some None else None)
      in case winner of
           Some (v, count) \<Rightarrow>
             if count > none_count then Some (Some v)
             else if count = none_count \<and> none_count \<ge> 2 then None
             else if none_count < 2 then Some (Some v)
             else silent
         | None \<Rightarrow> silent)"

section \<open>Confirmed reads\<close>

record ContentConfirmPolicy =
  confirm_enabled :: bool
  max_samples :: u8

definition effective_max_samples :: "ContentConfirmPolicy \<Rightarrow> u8" where
  "effective_max_samples p = (if max_samples p < 2 then 2 else max_samples p)"

definition content_confirm_default :: ContentConfirmPolicy where
  "content_confirm_default = \<lparr>confirm_enabled = True, max_samples = 5\<rparr>"

fun confirm_samples :: "('c, SemanticDaliError, 't option \<times> bool) act \<Rightarrow> nat \<Rightarrow> 't option list \<Rightarrow> ('c, SemanticDaliError, 't option) act" where
  "confirm_samples read_once 0 samples c = (Ok None, c)"
| "confirm_samples read_once (Suc n) samples c =
     (case read_once c of
        (Inl e, c) \<Rightarrow> (Err e, c)
      | (Inr (v, _), c) \<Rightarrow>
          (let samples = samples @ [v] in
           case majority_optional samples of
             Some confirmed \<Rightarrow> (Ok confirmed, c)
           | None \<Rightarrow> confirm_samples read_once n samples c))"

definition confirm_observed_query :: "ContentConfirmPolicy \<Rightarrow> ('c, SemanticDaliError, 't option \<times> bool) act \<Rightarrow> ('c, SemanticDaliError, 't option) act" where
  "confirm_observed_query policy read_once =
     andThen read_once (\<lambda>(first, cont).
       if \<not> confirm_enabled policy \<or> \<not> cont then pass first
       else confirm_samples read_once (unat (effective_max_samples policy) - 1) [first])"

section \<open>Send helpers\<close>

definition send_command :: "'w Wire \<Rightarrow> DaliCommand \<Rightarrow> ('w DaliController, FrameError, DaliResponse) act" where
  "send_command io cmd = andThen (send_command_observed io cmd) (\<lambda>(response, _). pass response)"

definition send_raw :: "'w Wire \<Rightarrow> ForwardFrame \<Rightarrow> bool \<Rightarrow> ('w DaliController, FrameError, DaliResponse) act" where
  "send_raw io frame expects = andThen (send_raw_observed io frame expects) (\<lambda>(response, _). pass response)"

definition send_standard :: "'w Wire \<Rightarrow> DaliAddress \<Rightarrow> StandardCommand \<Rightarrow> ('w DaliController, SemanticDaliError, DaliResponse) act" where
  "send_standard io address command = mapErr map_transport_error (send_command io (Standard address command))"

definition send_standard_response :: "'w Wire \<Rightarrow> DaliAddress \<Rightarrow> StandardCommand \<Rightarrow> ('w DaliController, SemanticDaliError, DaliResponse) act" where
  "send_standard_response io = send_standard io"

definition observed_value :: "DaliResponse \<times> bool \<Rightarrow> u8 option \<times> bool" where
  "observed_value r = (response_value (fst r), snd r \<or> fst r = Violation)"

definition send_standard_query_observed :: "'w Wire \<Rightarrow> DaliAddress \<Rightarrow> StandardCommand \<Rightarrow> ('w DaliController, SemanticDaliError, u8 option \<times> bool) act" where
  "send_standard_query_observed io address command =
     andThen (mapErr map_transport_error (send_command_observed io (Standard address command)))
       (\<lambda>r. pass (observed_value r))"

definition send_standard_query :: "'w Wire \<Rightarrow> DaliAddress \<Rightarrow> StandardCommand \<Rightarrow> ('w DaliController, SemanticDaliError, u8 option) act" where
  "send_standard_query io address command =
     andThen (send_standard io address command) (\<lambda>r. pass (response_value r))"

definition send_standard_query_stable :: "'w Wire \<Rightarrow> ContentConfirmPolicy \<Rightarrow> DaliAddress \<Rightarrow> StandardCommand \<Rightarrow> ('w DaliController, SemanticDaliError, u8 option) act" where
  "send_standard_query_stable io policy address command =
     confirm_observed_query policy (send_standard_query_observed io address command)"

definition send_standard_query_once :: "'w Wire \<Rightarrow> DaliAddress \<Rightarrow> StandardCommand \<Rightarrow> ('w DaliController, SemanticDaliError, u8 option) act" where
  "send_standard_query_once io address command =
     andThen (mapErr map_transport_error (exchange_once io (to_forward_frame (Standard address command)) True))
       (\<lambda>(backward, _). pass (response_value backward))"

text \<open>The silence breaker is the number of mandatory queries in a row that went unheard.\<close>

definition breaker_observe :: "bool \<Rightarrow> u8 \<Rightarrow> (SemanticDaliError + unit) \<times> u8" where
  "breaker_observe heard consecutive =
     (if heard then (Ok (), 0)
      else let consecutive = saturating_add consecutive 1
           in (if consecutive \<ge> 3 then Err (OperationFailed ''device_absent'') else Ok (), consecutive))"

definition send_mandatory_query :: "'w Wire \<Rightarrow> DaliAddress \<Rightarrow> StandardCommand \<Rightarrow> (u8 \<times> 'w DaliController, SemanticDaliError, u8 option) act" where
  "send_mandatory_query io address command =
     (\<lambda>(breaker, c). case send_standard_query_observed io address command c of
        (Inl e, c) \<Rightarrow> (Err e, breaker, c)
      | (Inr (v, cont), c) \<Rightarrow> (case breaker_observe (v \<noteq> None \<or> cont) breaker of
            (Inl e, breaker) \<Rightarrow> (Err e, breaker, c)
          | (Inr _, breaker) \<Rightarrow> (Ok v, breaker, c)))"

definition send_mandatory_query_stable :: "'w Wire \<Rightarrow> ContentConfirmPolicy \<Rightarrow> DaliAddress \<Rightarrow> StandardCommand \<Rightarrow> (u8 \<times> 'w DaliController, SemanticDaliError, u8 option) act" where
  "send_mandatory_query_stable io policy address command =
     (\<lambda>(breaker, c).
        let read = (\<lambda>(saw, c). case send_standard_query_observed io address command c of
              (Inl e, c) \<Rightarrow> (Err e, saw, c)
            | (Inr (v, cont), c) \<Rightarrow> (Ok (v, cont), saw \<or> v \<noteq> None \<or> cont, c))
        in case confirm_observed_query policy read (False, c) of
             (Inl e, _, c) \<Rightarrow> (Err e, breaker, c)
           | (Inr v, saw, c) \<Rightarrow> (case breaker_observe (saw \<or> v \<noteq> None) breaker of
                 (Inl e, breaker) \<Rightarrow> (Err e, breaker, c)
               | (Inr _, breaker) \<Rightarrow> (Ok v, breaker, c)))"

definition send_extended_command :: "'w Wire \<Rightarrow> DaliAddress \<Rightarrow> ExtendedCommand \<Rightarrow> ('w DaliController, SemanticDaliError, DaliResponse) act" where
  "send_extended_command io address command = mapErr map_transport_error (send_command io (Extended address command))"

definition send_extended_query_observed :: "'w Wire \<Rightarrow> DaliAddress \<Rightarrow> ExtendedCommand \<Rightarrow> ('w DaliController, SemanticDaliError, u8 option \<times> bool) act" where
  "send_extended_query_observed io address command =
     andThen (mapErr map_transport_error (send_command_observed io (Extended address command)))
       (\<lambda>r. pass (observed_value r))"

definition send_extended_query_stable :: "'w Wire \<Rightarrow> ContentConfirmPolicy \<Rightarrow> DaliAddress \<Rightarrow> ExtendedCommand \<Rightarrow> ('w DaliController, SemanticDaliError, u8 option) act" where
  "send_extended_query_stable io policy address command =
     confirm_observed_query policy (send_extended_query_observed io address command)"

definition send_special_response :: "'w Wire \<Rightarrow> SpecialCommand \<Rightarrow> ('w DaliController, SemanticDaliError, DaliResponse) act" where
  "send_special_response io command = mapErr map_transport_error (send_command io (Special command))"

definition send_special :: "'w Wire \<Rightarrow> SpecialCommand \<Rightarrow> ('w DaliController, SemanticDaliError, unit) act" where
  "send_special io command =
     andThen (mapErr map_transport_error (send_command io (Special command))) (\<lambda>_. pass ())"

definition send_special_query :: "'w Wire \<Rightarrow> SpecialCommand \<Rightarrow> ('w DaliController, SemanticDaliError, u8 option) act" where
  "send_special_query io command = andThen (send_special_response io command) (\<lambda>r. pass (response_value r))"

text \<open>A unit whose closure captures nothing it writes.\<close>

definition unit_of :: "'w Wire \<Rightarrow> ('w DaliController, 'e, 'r) act \<Rightarrow> ('w DaliController, 'e, 'r) act" where
  "unit_of io run c =
     (case run_unit io False (\<lambda>_ c. case run c of (r, c) \<Rightarrow> ((r, ()), c)) () c of ((r, _), c) \<Rightarrow> (r, c))"

definition send_dtr0_backed_standard :: "'w Wire \<Rightarrow> DaliAddress \<Rightarrow> u8 \<Rightarrow> StandardCommand \<Rightarrow> ('w DaliController, SemanticDaliError, unit) act" where
  "send_dtr0_backed_standard io address dtr0 command =
     unit_of io (andThen (send_special io (Dtr0 dtr0))
       (\<lambda>_. andThen (send_standard io address command) (\<lambda>_. pass ())))"

definition raw_query_frame :: "DaliAddress \<Rightarrow> u8 \<Rightarrow> ForwardFrame" where
  "raw_query_frame address opcode = forward_new (encode_address_byte address OR 0x01) opcode"

definition send_dt8_raw :: "'w Wire \<Rightarrow> DaliAddress \<Rightarrow> u8 \<Rightarrow> ('w DaliController, SemanticDaliError, unit) act" where
  "send_dt8_raw io address opcode =
     (if dt8_opcode_requires_repeat opcode then
        (case dt8_from_opcode opcode of
           None \<Rightarrow> fail (Conflict ''dt8_configuration_unmodelled'')
         | Some command \<Rightarrow> andThen (send_extended_command io address (ExtendedCommand.Dt8 command)) (\<lambda>_. pass ()))
      else unit_of io (andThen (send_special io (EnableDeviceType 8))
        (\<lambda>_. andThen (mapErr map_transport_error (send_raw io (raw_query_frame address opcode) False)) (\<lambda>_. pass ()))))"

datatype ArmedCommand = Sent | Unproved DaliResponse

definition send_dtr0_backed_extended :: "'w Wire \<Rightarrow> DaliAddress \<Rightarrow> u8 \<Rightarrow> ExtendedCommand \<Rightarrow> ('w DaliController, SemanticDaliError, ArmedCommand) act" where
  "send_dtr0_backed_extended io address dtr0 command =
     unit_of io (andThen (send_special io (Dtr0 dtr0))
       (\<lambda>_. andThen (send_standard_response io address QueryContentDtr0)
         (\<lambda>echo. if echo \<noteq> DaliResponse.Answer dtr0 then pass (Unproved echo)
                 else andThen (send_extended_command io address command) (\<lambda>_. pass Sent))))"

definition send_dt8_raw_query_observed :: "'w Wire \<Rightarrow> DaliAddress \<Rightarrow> u8 \<Rightarrow> ('w DaliController, SemanticDaliError, u8 option \<times> bool) act" where
  "send_dt8_raw_query_observed io address opcode =
     andThen (mapErr map_transport_error (send_raw_enabled_query io
         (to_forward_frame (Special (EnableDeviceType 8))) (raw_query_frame address opcode)))
       (\<lambda>(response, cont). pass (response_value response, cont))"

definition send_dt8_raw_query :: "'w Wire \<Rightarrow> DaliAddress \<Rightarrow> u8 \<Rightarrow> ('w DaliController, SemanticDaliError, u8 option) act" where
  "send_dt8_raw_query io address opcode =
     andThen (send_dt8_raw_query_observed io address opcode) (\<lambda>r. pass (fst r))"

definition send_dt8_raw_query_stable :: "'w Wire \<Rightarrow> ContentConfirmPolicy \<Rightarrow> DaliAddress \<Rightarrow> u8 \<Rightarrow> ('w DaliController, SemanticDaliError, u8 option) act" where
  "send_dt8_raw_query_stable io policy address opcode =
     confirm_observed_query policy (send_dt8_raw_query_observed io address opcode)"

definition send_raw_query_once_response :: "'w Wire \<Rightarrow> DaliAddress \<Rightarrow> u8 \<Rightarrow> ('w DaliController, SemanticDaliError, DaliResponse \<times> bool) act" where
  "send_raw_query_once_response io address opcode =
     mapErr map_transport_error (exchange_once io (raw_query_frame address opcode) True)"

section \<open>Program, verify, repair\<close>

definition unanswered_unless_held :: "SemanticDaliError + 'v option \<Rightarrow> SemanticDaliError + 'v option" where
  "unanswered_unless_held r =
     (case r of Inl e \<Rightarrow> if is_held e then Err e else Ok None | Inr v \<Rightarrow> Ok v)"

fun repair_loop :: "('w DaliController, SemanticDaliError, 'v option) act \<Rightarrow> ('v option \<Rightarrow> bool) \<Rightarrow> nat \<Rightarrow> 'v option \<Rightarrow> 'v option \<Rightarrow> ('w DaliController, SemanticDaliError, 'v option) act" where
  "repair_loop drive converged 0 latest readback c = (Ok readback, c)"
| "repair_loop drive converged (Suc n) latest readback c =
     (if converged readback then (Ok readback, c)
      else let c = (if latest \<noteq> None then note_workaround ProgramRepair c else c)
           in case drive c of (r, c) \<Rightarrow>
                (case unanswered_unless_held r of
                   Inl e \<Rightarrow> (Err e, c)
                 | Inr latest \<Rightarrow> repair_loop drive converged n latest
                     (case latest of Some v \<Rightarrow> Some v | None \<Rightarrow> readback) c))"

definition program_with_verify_repair :: "('w DaliController, SemanticDaliError, 'v option) act \<Rightarrow> ('v option \<Rightarrow> bool) \<Rightarrow> ('w DaliController, SemanticDaliError, 'v option) act" where
  "program_with_verify_repair drive converged =
     andThen drive (\<lambda>latest. repair_loop drive converged 2 latest latest)"

end
