(* ===== verification/Discovery.thy ===== *)
theory Discovery
  imports Executor
begin

text \<open>
  Discovery of control gear
  (\<open>dali2rust-dali-runtime/src/runtime/executor/discovery.rs\<close>, with the device-type set of
  \<open>dali2rust-contracts/src/msg/kinds.rs\<close>): presence scan, reading and verifying the
  24-bit random addresses, and the device-type walk. A \<open>BTreeSet\<close> is its sorted list; the
  \<open>on_device\<close> callback is the list of devices it was called with.
\<close>

section \<open>Types of the contracts crate\<close>

datatype MsgDeviceType =
  DtUnknown | Dt0Fluorescent | Dt1Emergency | Dt2Discharge | Dt3LowVoltageHalogen | Dt4Incandescent
  | Dt5Dc | Dt6Led | Dt7Switching | Dt8Color | DtOther

datatype MsgColorMode = CmNone | CmBrightness | CmCct | CmXy | CmRgb | CmRgbwaf | CmUnknown

type_synonym DeviceTypeSet = u64

definition dts_contains :: "DeviceTypeSet \<Rightarrow> u8 \<Rightarrow> bool" where
  "dts_contains s t \<longleftrightarrow> t \<le> 63 \<and> drop_bit (unat t) s AND 1 = 1"

definition dts_insert :: "u8 \<Rightarrow> DeviceTypeSet \<Rightarrow> bool \<times> DeviceTypeSet" where
  "dts_insert t s = (if t > 63 then (False, s) else (True, s OR push_bit (unat t) 1))"

section \<open>Results\<close>

record DiscoveredDevice =
  dd_short_address :: u8
  dd_random_address :: "u32 option"
  dd_device_type :: MsgDeviceType
  dd_color_mode :: MsgColorMode
  dt8_xy_capable :: bool
  dt8_tc_capable :: bool
  dt8_rgb_capable :: bool
  dt8_rgbwaf_capable :: bool
  type_enum_degraded :: bool
  supported_device_types :: "DeviceTypeSet option"

record Dt8Capabilities =
  caps_xy_capable :: bool
  caps_tc_capable :: bool
  caps_rgb_capable :: bool
  caps_rgbwaf_capable :: bool

record Dt8Status =
  dt8_supported :: bool
  capabilities :: "Dt8Capabilities option"
  status_color_mode :: MsgColorMode

definition dt8_status_default :: Dt8Status where
  "dt8_status_default = \<lparr>dt8_supported = False, capabilities = None, status_color_mode = CmNone\<rparr>"

datatype Dt8ProbePolicy = DiscoveryScan | ExplicitRead

record SupportedDeviceTypesQuery =
  answered :: bool
  supported :: "u8 list"
  enum_degraded :: bool

definition sdt_default :: SupportedDeviceTypesQuery where
  "sdt_default = \<lparr>answered = False, supported = [], enum_degraded = False\<rparr>"

record ProbedIdentity =
  detected :: bool
  probed_device_type :: MsgDeviceType
  probed_color_mode :: MsgColorMode
  dt8_status :: Dt8Status
  probed_degraded :: bool
  probed_types :: "DeviceTypeSet option"

definition probed_default :: ProbedIdentity where
  "probed_default = \<lparr>detected = False, probed_device_type = DtUnknown, probed_color_mode = CmNone,
     dt8_status = dt8_status_default, probed_degraded = False, probed_types = None\<rparr>"

datatype VerifyPairOutcome = Verified | Skipped SemanticDaliError

record PairReport =
  pairs :: "(u8 \<times> u32) list"
  pair_error :: "SemanticDaliError option"

record DiscoveryScanSummary =
  described :: u16
  scan_error :: "SemanticDaliError option"

section \<open>Search address\<close>

definition set_search_address :: "'w Wire \<Rightarrow> u32 \<Rightarrow> ('w DaliController, SemanticDaliError, unit) act" where
  "set_search_address io a =
     andThen (send_special io (SearchAddrH (ucast (drop_bit 16 a AND 0xFF))))
       (\<lambda>_. andThen (send_special io (SearchAddrM (ucast (drop_bit 8 a AND 0xFF))))
         (\<lambda>_. send_special io (SearchAddrL (ucast (a AND 0xFF)))))"

section \<open>Device-type walk\<close>

definition btree_insert :: "u8 \<Rightarrow> u8 list \<Rightarrow> bool \<times> u8 list" where
  "btree_insert v s = (if v \<in> set s then (False, s) else (True, insort v s))"

datatype MaskWalk = WalkComplete "u8 list" | WalkBroken bool

fun walk_steps :: "'w Wire \<Rightarrow> DaliAddress \<Rightarrow> nat \<Rightarrow> u8 list \<Rightarrow> ('w DaliController, SemanticDaliError, MaskWalk) act" where
  "walk_steps io address 0 s c = (Ok (WalkBroken False), c)"
| "walk_steps io address (Suc n) s c =
     (case send_standard_query_once io address QueryNextDeviceType c of
        (Inl e, c) \<Rightarrow>
          (if is_preempted e then (Err e, c)
           else if e = OperationFailed ''bus_contended'' then (Ok (WalkBroken True), c)
           else (Err e, c))
      | (Inr None, c) \<Rightarrow> (Ok (WalkBroken False), c)
      | (Inr (Some v), c) \<Rightarrow>
          if v = 254 then (Ok (WalkComplete s), c)
          else if v = 255 then (Ok (WalkBroken False), c)
          else (case btree_insert v s of (fresh, s) \<Rightarrow>
                  if \<not> fresh then (Ok (WalkBroken True), c)
                  else if length s > 16 then (Ok (WalkBroken False), c)
                  else walk_steps io address n s c))"

definition walk_mask_sequence :: "'w Wire \<Rightarrow> DaliAddress \<Rightarrow> ('w DaliController, SemanticDaliError, MaskWalk) act" where
  "walk_mask_sequence io address = walk_steps io address 17 []"

datatype EnumerationOutcome = EnumDone SupportedDeviceTypesQuery | EnumBroken bool

definition enumerate_device_types :: "'w Wire \<Rightarrow> DaliAddress \<Rightarrow> ContentConfirmPolicy \<Rightarrow> ('w DaliController, SemanticDaliError, EnumerationOutcome) act" where
  "enumerate_device_types io address policy =
     andThen (send_standard_query_stable io policy address QueryDeviceType) (\<lambda>first.
       case first of
         None \<Rightarrow> pass (EnumDone sdt_default)
       | Some v \<Rightarrow>
           if v = 254 then pass (EnumDone (sdt_default\<lparr>answered := True\<rparr>))
           else if v \<noteq> 255 then pass (EnumDone (sdt_default\<lparr>answered := True, supported := [v]\<rparr>))
           else andThen (walk_mask_sequence io address) (\<lambda>walk. case walk of
                  WalkComplete s \<Rightarrow> pass (EnumDone (sdt_default\<lparr>answered := True, supported := s\<rparr>))
                | WalkBroken cont \<Rightarrow> pass (EnumBroken cont)))"

fun enum_runs :: "'w Wire \<Rightarrow> DaliAddress \<Rightarrow> ContentConfirmPolicy \<Rightarrow> nat \<Rightarrow> bool \<Rightarrow> ('w DaliController, SemanticDaliError, SupportedDeviceTypesQuery) act" where
  "enum_runs io address policy 0 cont c =
     (Err (OperationFailed (if cont then ''bus_contended'' else ''device_type_walk_incomplete'')), c)"
| "enum_runs io address policy (Suc n) cont c =
     (case enumerate_device_types io address policy c of
        (Inl e, c) \<Rightarrow> (Err e, c)
      | (Inr (EnumDone s), c) \<Rightarrow> (Ok s, c)
      | (Inr (EnumBroken k), c) \<Rightarrow> enum_runs io address policy n (cont \<or> k) c)"

definition query_supported_device_types_with_policy :: "'w Wire \<Rightarrow> DaliAddress \<Rightarrow> ContentConfirmPolicy \<Rightarrow> ('w DaliController, SemanticDaliError, SupportedDeviceTypesQuery) act" where
  "query_supported_device_types_with_policy io address policy =
     run_transaction True (enum_runs io address policy 2 False)"

definition query_types_with_scan_degrade :: "'w Wire \<Rightarrow> DaliAddress \<Rightarrow> Dt8ProbePolicy \<Rightarrow> ContentConfirmPolicy \<Rightarrow> ('w DaliController, SemanticDaliError, SupportedDeviceTypesQuery) act" where
  "query_types_with_scan_degrade io address probe policy c =
     (case query_supported_device_types_with_policy io address policy c of
        (Inr s, c) \<Rightarrow> (Ok s, c)
      | (Inl e, c) \<Rightarrow>
          if probe = DiscoveryScan \<and> e = OperationFailed ''device_type_walk_incomplete''
          then (Ok \<lparr>answered = True, supported = [], enum_degraded = True\<rparr>, c)
          else (Err e, c))"

fun declare_all :: "u8 list \<Rightarrow> DeviceTypeSet \<Rightarrow> DeviceTypeSet option" where
  "declare_all [] s = Some s"
| "declare_all (t # ts) s = (case dts_insert t s of (fits, s) \<Rightarrow> if fits then declare_all ts s else None)"

definition declared_device_types :: "SupportedDeviceTypesQuery \<Rightarrow> DeviceTypeSet option" where
  "declared_device_types q = (if \<not> answered q \<or> enum_degraded q then None else declare_all (supported q) 0)"

definition declared_device_types_from_single_answer :: "u8 option \<Rightarrow> DeviceTypeSet option" where
  "declared_device_types_from_single_answer answer =
     (case answer of None \<Rightarrow> None
      | Some a \<Rightarrow> if a = 255 then None
                 else if a = 254 then Some 0
                 else (case dts_insert a 0 of (fits, s) \<Rightarrow> if fits then Some s else None))"

definition read_declared_device_types :: "'w Wire \<Rightarrow> DaliAddress \<Rightarrow> ContentConfirmPolicy \<Rightarrow> ('w DaliController, SemanticDaliError, DeviceTypeSet option) act" where
  "read_declared_device_types io address policy =
     andThen (query_supported_device_types_with_policy io address policy) (\<lambda>q. pass (declared_device_types q))"

definition classify_supported_device_types :: "u8 list \<Rightarrow> MsgDeviceType" where
  "classify_supported_device_types ts =
     (if 8 \<in> set ts then Dt8Color else if 6 \<in> set ts then Dt6Led else DtUnknown)"

section \<open>Colour capabilities\<close>

definition query_colour_type_features :: "'w Wire \<Rightarrow> DaliAddress \<Rightarrow> ContentConfirmPolicy \<Rightarrow> ('w DaliController, SemanticDaliError, u8 option) act" where
  "query_colour_type_features io address policy = send_dt8_raw_query_stable io policy address 249"

definition reread_colour_type_features :: "'w Wire \<Rightarrow> DaliAddress \<Rightarrow> ContentConfirmPolicy \<Rightarrow> u8 option \<Rightarrow> ('w DaliController, SemanticDaliError, u8 option) act" where
  "reread_colour_type_features io address policy first =
     andThen (query_colour_type_features io address policy) (\<lambda>reread c.
       (Ok (case reread of Some f \<Rightarrow> Some f | None \<Rightarrow> first),
        if first = Some 0 \<and> (case reread of Some f \<Rightarrow> f \<noteq> 0 | None \<Rightarrow> False)
        then note_workaround ColourFeaturesCorrected c else c))"

definition capabilities_of :: "u8 \<Rightarrow> Dt8Capabilities" where
  "capabilities_of features =
     (let channels = drop_bit 5 (features AND 0xE0) in
      \<lparr>caps_xy_capable = (features AND 0x01 \<noteq> 0), caps_tc_capable = (features AND 0x02 \<noteq> 0),
       caps_rgb_capable = (channels > 0), caps_rgbwaf_capable = (channels > 3)\<rparr>)"

definition query_dt8_capabilities :: "'w Wire \<Rightarrow> DaliAddress \<Rightarrow> ContentConfirmPolicy \<Rightarrow> ('w DaliController, SemanticDaliError, Dt8Capabilities option) act" where
  "query_dt8_capabilities io address policy =
     andThen (query_colour_type_features io address policy) (\<lambda>first.
       andThen (if first = None \<or> first = Some 0 then reread_colour_type_features io address policy first else pass first)
         (\<lambda>features. pass (map_option capabilities_of features)))"

definition color_mode_from_status :: "u8 \<Rightarrow> MsgColorMode" where
  "color_mode_from_status status =
     (case active_colour_type status of
        Some XyCoordinate \<Rightarrow> CmXy | Some ColorTemperature \<Rightarrow> CmCct
      | Some ColorType.Rgbwaf \<Rightarrow> CmRgb | _ \<Rightarrow> CmUnknown)"

definition query_dt8_color_mode_response :: "'w Wire \<Rightarrow> DaliAddress \<Rightarrow> ContentConfirmPolicy \<Rightarrow> ('w DaliController, SemanticDaliError, MsgColorMode option) act" where
  "query_dt8_color_mode_response io address policy =
     andThen (send_dt8_raw_query_stable io policy address 248) (\<lambda>s. pass (map_option color_mode_from_status s))"

definition infer_dt8_discovered_color_mode :: "Dt8Capabilities option \<Rightarrow> MsgColorMode \<Rightarrow> MsgColorMode" where
  "infer_dt8_discovered_color_mode caps active =
     (if active \<noteq> CmUnknown then active
      else case caps of
             None \<Rightarrow> CmUnknown
           | Some k \<Rightarrow>
               if caps_xy_capable k \<and> \<not> caps_tc_capable k \<and> \<not> caps_rgb_capable k then CmXy
               else if \<not> caps_xy_capable k \<and> caps_tc_capable k \<and> \<not> caps_rgb_capable k then CmCct
               else if \<not> caps_xy_capable k \<and> \<not> caps_tc_capable k \<and> caps_rgb_capable k then CmRgb
               else CmUnknown)"

definition query_dt8_status :: "'w Wire \<Rightarrow> DaliAddress \<Rightarrow> bool \<Rightarrow> u8 list \<Rightarrow> ContentConfirmPolicy \<Rightarrow> ('w DaliController, SemanticDaliError, Dt8Status) act" where
  "query_dt8_status io address allow_fallback ts policy =
     (let advertised = 8 \<in> set ts in
      if \<not> advertised \<and> \<not> allow_fallback then pass dt8_status_default
      else andThen (query_dt8_capabilities io address policy) (\<lambda>caps.
        andThen (query_dt8_color_mode_response io address policy) (\<lambda>mode.
          if \<not> (advertised \<or> caps \<noteq> None \<or> mode \<noteq> None) then pass dt8_status_default
          else pass \<lparr>dt8_supported = True, capabilities = caps,
                 status_color_mode = infer_dt8_discovered_color_mode caps
                   (case mode of Some m \<Rightarrow> m | None \<Rightarrow> CmUnknown)\<rparr>)))"

definition fold_dt8_probe_into_identity :: "MsgDeviceType \<Rightarrow> Dt8Status \<Rightarrow> DeviceTypeSet option \<Rightarrow> MsgDeviceType \<times> MsgColorMode \<times> DeviceTypeSet option" where
  "fold_dt8_probe_into_identity t st declared =
     (if t = Dt8Color then (t, status_color_mode st, declared)
      else if \<not> dt8_supported st then (t, CmBrightness, declared)
      else (Dt8Color, status_color_mode st, map_option (\<lambda>s. snd (dts_insert 8 s)) declared))"

definition probe_device_identity_with_policy :: "'w Wire \<Rightarrow> DaliAddress \<Rightarrow> Dt8ProbePolicy \<Rightarrow> ContentConfirmPolicy \<Rightarrow> ('w DaliController, SemanticDaliError, ProbedIdentity) act" where
  "probe_device_identity_with_policy io address probe policy =
     andThen (query_types_with_scan_degrade io address probe policy) (\<lambda>q.
       let t = classify_supported_device_types (supported q);
           allow_fallback = (t = DtUnknown);
           should_probe = (case probe of
               DiscoveryScan \<Rightarrow> t = Dt8Color \<or> (allow_fallback \<and> answered q)
             | ExplicitRead \<Rightarrow> t = Dt8Color \<or> allow_fallback)
       in andThen (if should_probe then query_dt8_status io address allow_fallback (supported q) policy
                   else pass dt8_status_default) (\<lambda>st.
            if \<not> answered q \<and> \<not> dt8_supported st then pass probed_default
            else case fold_dt8_probe_into_identity t st (declared_device_types q) of
                   (t, mode, declared) \<Rightarrow>
                     pass \<lparr>detected = True, probed_device_type = t, probed_color_mode = mode, dt8_status = st,
                           probed_degraded = enum_degraded q, probed_types = declared\<rparr>))"

definition probe_device_identity :: "'w Wire \<Rightarrow> DaliAddress \<Rightarrow> Dt8ProbePolicy \<Rightarrow> ('w DaliController, SemanticDaliError, ProbedIdentity) act" where
  "probe_device_identity io address probe =
     probe_device_identity_with_policy io address probe \<lparr>confirm_enabled = False, max_samples = 2\<rparr>"

definition detect_device :: "'w Wire \<Rightarrow> u8 \<Rightarrow> ('w DaliController, SemanticDaliError, DiscoveredDevice option) act" where
  "detect_device io s =
     (case dali_short_address s of
        Inl e \<Rightarrow> fail e
      | Inr address \<Rightarrow> andThen (probe_device_identity io address DiscoveryScan) (\<lambda>i.
          if \<not> detected i then pass None
          else let cap = (\<lambda>f. case capabilities (dt8_status i) of Some k \<Rightarrow> f k | None \<Rightarrow> False)
               in pass (Some \<lparr>dd_short_address = s, dd_random_address = None, dd_device_type = probed_device_type i,
                    dd_color_mode = probed_color_mode i, dt8_xy_capable = cap caps_xy_capable,
                    dt8_tc_capable = cap caps_tc_capable, dt8_rgb_capable = cap caps_rgb_capable,
                    dt8_rgbwaf_capable = cap caps_rgbwaf_capable, type_enum_degraded = probed_degraded i,
                    supported_device_types = probed_types i\<rparr>)))"

section \<open>Random addresses\<close>

definition pack_random_address :: "u8 \<Rightarrow> u8 \<Rightarrow> u8 \<Rightarrow> u32" where
  "pack_random_address high middle low = push_bit 16 (ucast high) OR push_bit 8 (ucast middle) OR ucast low"

definition majority_random_address :: "u32 list \<Rightarrow> u32 option" where
  "majority_random_address samples =
     (case majority_byte_from_u32_samples samples 16 of None \<Rightarrow> None | Some h \<Rightarrow>
      case majority_byte_from_u32_samples samples 8 of None \<Rightarrow> None | Some m \<Rightarrow>
      case majority_byte_from_u32_samples samples 0 of None \<Rightarrow> None | Some l \<Rightarrow> Some (pack_random_address h m l))"

definition RANDOM_ADDRESS_NO_ANSWER :: "string list" where
  "RANDOM_ADDRESS_NO_ANSWER =
     [''query_random_address_h_no_answer'', ''query_random_address_m_no_answer'', ''query_random_address_l_no_answer'']"

definition is_random_address_no_answer :: "SemanticDaliError \<Rightarrow> bool" where
  "is_random_address_no_answer e =
     (case e of OperationFailed name \<Rightarrow> name \<in> set RANDOM_ADDRESS_NO_ANSWER | Conflict _ \<Rightarrow> False)"

definition read_random_address_byte :: "'w Wire \<Rightarrow> DaliAddress \<Rightarrow> StandardCommand \<Rightarrow> string \<Rightarrow> ('w DaliController, SemanticDaliError, u8) act" where
  "read_random_address_byte io address command unanswered =
     andThen (send_standard_response io address command) (\<lambda>r. case r of
        DaliResponse.Answer v \<Rightarrow> pass v
      | Violation \<Rightarrow> fail (OperationFailed ''read_contended'')
      | DaliResponse.NoAnswer \<Rightarrow> fail (OperationFailed unanswered))"

definition read_random_address_once :: "'w Wire \<Rightarrow> u8 \<Rightarrow> ('w DaliController, SemanticDaliError, u32) act" where
  "read_random_address_once io s =
     (case dali_short_address s of
        Inl e \<Rightarrow> fail e
      | Inr address \<Rightarrow> run_transaction False (
          andThen (read_random_address_byte io address QueryRandomAddressH ''query_random_address_h_no_answer'') (\<lambda>high.
          andThen (read_random_address_byte io address QueryRandomAddressM ''query_random_address_m_no_answer'') (\<lambda>middle.
          andThen (read_random_address_byte io address QueryRandomAddressL ''query_random_address_l_no_answer'') (\<lambda>low.
            pass (pack_random_address high middle low))))))"

fun random_address_samples :: "'w Wire \<Rightarrow> u8 \<Rightarrow> nat \<Rightarrow> u32 list \<Rightarrow> SemanticDaliError option \<Rightarrow> ('w DaliController, SemanticDaliError, u32) act" where
  "random_address_samples io s 0 samples unanswered c =
     (case unanswered of
        Some e \<Rightarrow> (Err (if samples = [] then e else OperationFailed ''query_random_address_unstable''), c)
      | None \<Rightarrow> (Err (OperationFailed ''query_random_address_unstable''), c))"
| "random_address_samples io s (Suc n) samples unanswered c =
     (case read_random_address_once io s c of
        (Inr sample, c) \<Rightarrow>
          (let samples = samples @ [sample] in
           case majority_random_address samples of
             Some a \<Rightarrow> (Ok a, c)
           | None \<Rightarrow> random_address_samples io s n samples unanswered c)
      | (Inl e, c) \<Rightarrow>
          if is_random_address_no_answer e
          then random_address_samples io s n samples (case unanswered of None \<Rightarrow> Some e | Some f \<Rightarrow> Some f) c
          else (Err e, c))"

definition read_random_address_stable :: "'w Wire \<Rightarrow> u8 \<Rightarrow> ('w DaliController, SemanticDaliError, u32) act" where
  "read_random_address_stable io s = random_address_samples io s 5 [] None"

section \<open>Scan of the known short addresses\<close>

definition record_discovery_skip :: "SemanticDaliError \<Rightarrow> SemanticDaliError option \<Rightarrow> SemanticDaliError option" where
  "record_discovery_skip e first_error = (if first_error = None \<or> is_held e then Some e else first_error)"

fun present_shorts :: "'w Wire \<Rightarrow> nat list \<Rightarrow> u8 list \<Rightarrow> ('w DaliController, SemanticDaliError, u8 list) act" where
  "present_shorts io [] shorts c = (Ok shorts, c)"
| "present_shorts io (s # rest) shorts c =
     (case dali_short_address (word_of_nat s) of
        Inl e \<Rightarrow> (Err e, c)
      | Inr address \<Rightarrow> (case send_standard_response io address QueryControlGearPresent c of
            (Inl e, c) \<Rightarrow> (Err e, c)
          | (Inr r, c) \<Rightarrow> present_shorts io rest (if is_yes r then shorts @ [word_of_nat s] else shorts) c))"

definition query_present_control_gear :: "'w Wire \<Rightarrow> ('w DaliController, SemanticDaliError, u8 list) act" where
  "query_present_control_gear io = present_shorts io [0..<64] []"

fun read_random_addresses_from :: "'w Wire \<Rightarrow> u8 list \<Rightarrow> PairReport \<Rightarrow> 'w DaliController \<Rightarrow> PairReport \<times> 'w DaliController" where
  "read_random_addresses_from io [] rep c = (rep, c)"
| "read_random_addresses_from io (s # rest) rep c =
     (case read_random_address_stable io s c of
        (Inr a, c) \<Rightarrow> read_random_addresses_from io rest (rep\<lparr>pairs := pairs rep @ [(s, a)]\<rparr>) c
      | (Inl e, c) \<Rightarrow> read_random_addresses_from io rest
          (rep\<lparr>pair_error := record_discovery_skip e (pair_error rep)\<rparr>) c)"

definition read_random_addresses :: "'w Wire \<Rightarrow> u8 list \<Rightarrow> ('w DaliController, SemanticDaliError, PairReport) act" where
  "read_random_addresses io shorts c =
     (case read_random_addresses_from io shorts \<lparr>pairs = [], pair_error = None\<rparr> c of (r, c) \<Rightarrow> (Ok r, c))"

definition begin_verify_session :: "'w Wire \<Rightarrow> ('w DaliController, SemanticDaliError, unit) act" where
  "begin_verify_session io =
     run_transaction True (andThen (send_special io Terminate) (\<lambda>_. send_special io (Initialise 0x00)))"

definition end_verify_session :: "'w Wire \<Rightarrow> ('w DaliController, SemanticDaliError, unit) act" where
  "end_verify_session io = run_transaction True (\<lambda>c.
     send_special io Terminate (snd (send_special_query io Compare (snd (set_search_address io 0x00FFFFFF c)))))"

definition verify_short_random_pair_unit :: "'w Wire \<Rightarrow> u8 \<Rightarrow> u32 \<Rightarrow> ('w DaliController, SemanticDaliError, VerifyPairOutcome) act" where
  "verify_short_random_pair_unit io s a =
     andThen (set_search_address io a) (\<lambda>_.
       let expected = push_bit 1 s OR 0x01 in
       andThen (send_special_response io SpecialCommand.QueryShortAddress) (\<lambda>r. case r of
          Violation \<Rightarrow> pass (Skipped (OperationFailed ''query_short_address_multiple''))
        | DaliResponse.NoAnswer \<Rightarrow> pass (Skipped (OperationFailed ''query_short_address_no_answer''))
        | DaliResponse.Answer reply \<Rightarrow>
            if reply \<noteq> expected then pass (Skipped (OperationFailed ''query_short_address_mismatch''))
            else andThen (send_special io Withdraw) (\<lambda>_. pass Verified)))"

definition verify_short_random_pair_once :: "'w Wire \<Rightarrow> u8 \<Rightarrow> u32 \<Rightarrow> ('w DaliController, SemanticDaliError, VerifyPairOutcome) act" where
  "verify_short_random_pair_once io s a = run_transaction True (verify_short_random_pair_unit io s a)"

fun verify_pair_attempts :: "'w Wire \<Rightarrow> u8 \<Rightarrow> u32 \<Rightarrow> bool \<Rightarrow> nat \<Rightarrow> SemanticDaliError option \<Rightarrow> 'w DaliController \<Rightarrow> VerifyPairOutcome \<times> 'w DaliController" where
  "verify_pair_attempts io s a first 0 last_skip c =
     (Skipped (case last_skip of Some e \<Rightarrow> e | None \<Rightarrow> OperationFailed ''bus_contended''), c)"
| "verify_pair_attempts io s a first (Suc n) last_skip c =
     (case (if first then (Ok a, c) else read_random_address_stable io s c) of
        (Inl e, c) \<Rightarrow> verify_pair_attempts io s a False n (Some e) c
      | (Inr candidate, c) \<Rightarrow> (case verify_short_random_pair_once io s candidate c of
            (Inr Verified, c) \<Rightarrow> (Verified, c)
          | (Inr (Skipped e), c) \<Rightarrow> verify_pair_attempts io s a False n (Some e) c
          | (Inl e, c) \<Rightarrow> verify_pair_attempts io s a False n (Some e) c))"

definition verify_short_random_pair :: "'w Wire \<Rightarrow> u8 \<Rightarrow> u32 \<Rightarrow> u8 \<Rightarrow> ('w DaliController, SemanticDaliError, VerifyPairOutcome) act" where
  "verify_short_random_pair io s a retries c =
     (case verify_pair_attempts io s a True (unat (saturating_add retries 1)) None c of (r, c) \<Rightarrow> (Ok r, c))"

fun verify_short_random_pairs_body :: "'w Wire \<Rightarrow> (u8 \<times> u32) list \<Rightarrow> u8 \<Rightarrow> PairReport \<Rightarrow> ('w DaliController, SemanticDaliError, PairReport) act" where
  "verify_short_random_pairs_body io [] retries rep c = (Ok rep, c)"
| "verify_short_random_pairs_body io ((s, a) # rest) retries rep c =
     (case verify_short_random_pair io s a retries c of
        (Inl e, c) \<Rightarrow> (Err e, c)
      | (Inr Verified, c) \<Rightarrow>
          verify_short_random_pairs_body io rest retries (rep\<lparr>pairs := pairs rep @ [(s, a)]\<rparr>) c
      | (Inr (Skipped e), c) \<Rightarrow>
          verify_short_random_pairs_body io rest retries
            (rep\<lparr>pair_error := record_discovery_skip e (pair_error rep)\<rparr>) c)"

definition verify_short_random_pairs :: "'w Wire \<Rightarrow> (u8 \<times> u32) list \<Rightarrow> u8 \<Rightarrow> ('w DaliController, SemanticDaliError, PairReport) act" where
  "verify_short_random_pairs io ps retries =
     andThen (begin_verify_session io) (\<lambda>_ c.
       case verify_short_random_pairs_body io ps retries \<lparr>pairs = [], pair_error = None\<rparr> c of (result, c) \<Rightarrow>
         (case end_verify_session io c of (cleanup, c) \<Rightarrow>
            ((case result of Inl e \<Rightarrow> Err e
              | Inr rep \<Rightarrow> (case cleanup of Inl e \<Rightarrow> Err e | Inr _ \<Rightarrow> Ok rep)), c)))"

definition describe_verified_pair :: "'w Wire \<Rightarrow> u8 \<Rightarrow> u32 \<Rightarrow> ('w DaliController, SemanticDaliError, DiscoveredDevice) act" where
  "describe_verified_pair io s a =
     andThen (detect_device io s) (\<lambda>d. pass ((case d of Some found \<Rightarrow> found
       | None \<Rightarrow> \<lparr>dd_short_address = s, dd_random_address = Some a, dd_device_type = DtUnknown, dd_color_mode = CmUnknown,
           dt8_xy_capable = False, dt8_tc_capable = False, dt8_rgb_capable = False, dt8_rgbwaf_capable = False,
           type_enum_degraded = False, supported_device_types = None\<rparr>)\<lparr>dd_random_address := Some a\<rparr>))"

fun describe_verified_pairs :: "'w Wire \<Rightarrow> (u8 \<times> u32) list \<Rightarrow> DiscoveryScanSummary \<Rightarrow> DiscoveredDevice list \<Rightarrow> 'w DaliController \<Rightarrow> (DiscoveryScanSummary \<times> DiscoveredDevice list) \<times> 'w DaliController" where
  "describe_verified_pairs io [] summary seen c = ((summary, seen), c)"
| "describe_verified_pairs io ((s, a) # rest) summary seen c =
     (case describe_verified_pair io s a c of
        (Inr found, c) \<Rightarrow> describe_verified_pairs io rest
          (summary\<lparr>described := saturating_add (described summary) 1\<rparr>) (seen @ [found]) c
      | (Inl e, c) \<Rightarrow> describe_verified_pairs io rest
          (summary\<lparr>scan_error := record_discovery_skip e (scan_error summary)\<rparr>) seen c)"

definition discover_known_control_gear_with_retry_budget :: "'w Wire \<Rightarrow> u8 \<Rightarrow> ('w DaliController, SemanticDaliError, DiscoveryScanSummary \<times> DiscoveredDevice list) act" where
  "discover_known_control_gear_with_retry_budget io retries =
     andThen (query_present_control_gear io) (\<lambda>shorts.
     andThen (read_random_addresses io shorts) (\<lambda>read_report.
     andThen (verify_short_random_pairs io (pairs read_report) retries) (\<lambda>verified c.
       case describe_verified_pairs io (pairs verified)
              \<lparr>described = 0, scan_error = (case pair_error read_report of Some e \<Rightarrow> Some e | None \<Rightarrow> pair_error verified)\<rparr>
              [] c of (r, c) \<Rightarrow> (Ok r, c))))"

end
