(* ===== verification/Commissioning.thy ===== *)
theory Commissioning
  imports Discovery
begin

text \<open>
  Commissioning of unaddressed gear
  (\<open>dali2rust-dali-runtime/src/runtime/executor/commissioning.rs\<close>) and the loops that
  drive it (\<open>dali_worker/discovery.rs\<close>): the binary search over random addresses, the choice
  of a free short address, programming, verification and withdrawal, address changes and the
  single-step interface. The published progress events are the list of devices found.
\<close>

section \<open>Search\<close>

definition compare_yes :: "'w Wire \<Rightarrow> ('w DaliController, SemanticDaliError, bool) act" where
  "compare_yes io = andThen (send_special_response io Compare) (\<lambda>r. pass (is_yes r))"

definition probe_search_address :: "'w Wire \<Rightarrow> u32 \<Rightarrow> ('w DaliController, SemanticDaliError, bool) act" where
  "probe_search_address io a = run_transaction True (andThen (set_search_address io a) (\<lambda>_. compare_yes io))"

definition any_unaddressed_gear :: "'w Wire \<Rightarrow> ('w DaliController, SemanticDaliError, bool) act" where
  "any_unaddressed_gear io =
     andThen (send_standard_response io Broadcast QueryMissingShortAddress) (\<lambda>r. pass (is_yes r))"

text \<open>The bisection loop, over the probe it calls.\<close>

function (sequential) bisect :: "(u32 \<Rightarrow> ('c, 'e, bool) act) \<Rightarrow> u32 \<Rightarrow> u32 \<Rightarrow> ('c, 'e, u32) act" where
  "bisect probe low high c =
     (if low < high then
        (let mid = low + (high - low) div 2 in
         case probe mid c of
           (Inl e, c) \<Rightarrow> (Err e, c)
         | (Inr True, c) \<Rightarrow> bisect probe low mid c
         | (Inr False, c) \<Rightarrow> bisect probe (mid + 1) high c)
      else (Ok low, c))"
  by pat_completeness auto

lemma bisect_mid:
  fixes low high :: u32
  assumes "low < high"
  shows "unat (low + (high - low) div 2) = unat low + (unat high - unat low) div 2"
    and "unat (low + (high - low) div 2 + 1) = unat low + (unat high - unat low) div 2 + 1"
proof -
  have lt: "unat low < unat high" "unat high < 2 ^ 32"
    using assms unsigned_less [of high, where 'a = nat] by (simp_all add: word_less_nat_alt)
  have half: "unat ((high - low) div 2) = (unat high - unat low) div 2"
    using lt by (simp add: unat_div unat_sub word_le_nat_alt)
  show mid: "unat (low + (high - low) div 2) = unat low + (unat high - unat low) div 2"
    using lt by (simp only: unat_word_ariths(1) half) (rule mod_less, simp)
  show "unat (low + (high - low) div 2 + 1) = unat low + (unat high - unat low) div 2 + 1"
    using lt by (subst unat_word_ariths(1)) (simp add: mid)
qed

termination bisect
  by (relation "measure (\<lambda>(p, low, high, c). unat high - unat low)")
    (auto simp: bisect_mid word_less_nat_alt)

declare bisect.simps [simp del]

definition find_lowest_random_address :: "'w Wire \<Rightarrow> ('w DaliController, SemanticDaliError, u32 option) act" where
  "find_lowest_random_address io =
     andThen (probe_search_address io 0x00FFFFFF) (\<lambda>present.
       if \<not> present then
         andThen (any_unaddressed_gear io) (\<lambda>missed.
           if missed then fail (OperationFailed ''unaddressed_gear_not_reached'') else pass None)
       else andThen (bisect (probe_search_address io) 0 0x00FFFFFF) (\<lambda>low.
         andThen (probe_search_address io low) (\<lambda>confirmed.
           if \<not> confirmed then fail (OperationFailed ''random_search_inconsistent'') else pass (Some low))))"

section \<open>A free short address\<close>

definition used_mask :: "u8 list \<Rightarrow> u64" where
  "used_mask used = fold (\<lambda>s m. if s \<le> 63 then m OR push_bit (unat s) 1 else m) used 0"

fun free_short_scan :: "'w Wire \<Rightarrow> u64 \<Rightarrow> nat list \<Rightarrow> ('w DaliController, SemanticDaliError, u8 option) act" where
  "free_short_scan io used [] c = (Ok None, c)"
| "free_short_scan io used (s # rest) c =
     (if used AND push_bit s 1 \<noteq> 0 then free_short_scan io used rest c
      else case send_standard_response io (Short (word_of_nat s)) QueryControlGearPresent c of
             (Inl e, c) \<Rightarrow> (Err e, c)
           | (Inr r, c) \<Rightarrow>
               if \<not> is_yes r then (Ok (Some (word_of_nat s)), c) else free_short_scan io used rest c)"

definition next_free_short_address :: "'w Wire \<Rightarrow> u8 list \<Rightarrow> ('w DaliController, SemanticDaliError, u8 option) act" where
  "next_free_short_address io used = free_short_scan io (used_mask used) [0..<64]"

definition encode_program_short_address :: "u8 \<Rightarrow> u8" where
  "encode_program_short_address s = push_bit 1 (s AND 0x3F) OR 0x01"

section \<open>Programming one gear\<close>

datatype AttemptFailure = SearchRepeatable SemanticDaliError | GearWithdrawn SemanticDaliError

primrec attempt_error :: "AttemptFailure \<Rightarrow> SemanticDaliError" where
  "attempt_error (SearchRepeatable e) = e" | "attempt_error (GearWithdrawn e) = e"

definition program_found_gear :: "'w Wire \<Rightarrow> u32 \<Rightarrow> u8 \<Rightarrow> ('w DaliController, SemanticDaliError, unit) act" where
  "program_found_gear io a s =
     andThen (set_search_address io a) (\<lambda>_.
       let encoded = encode_program_short_address s in
       andThen (send_special io (ProgramShortAddress encoded)) (\<lambda>_.
       andThen (send_special_response io (VerifyShortAddress encoded)) (\<lambda>r.
         if \<not> is_yes r then fail (OperationFailed ''verify_short_address_failed'')
         else send_special io Withdraw)))"

fun detect_attempts :: "'w Wire \<Rightarrow> u8 \<Rightarrow> nat \<Rightarrow> SemanticDaliError \<Rightarrow> ('w DaliController, SemanticDaliError, DiscoveredDevice) act" where
  "detect_attempts io s 0 last_error c = (Err last_error, c)"
| "detect_attempts io s (Suc n) last_error c =
     (case detect_device io s c of
        (Inr (Some d), c) \<Rightarrow> (Ok d, c)
      | (Inr None, c) \<Rightarrow> detect_attempts io s n last_error c
      | (Inl e, c) \<Rightarrow> if is_held e then (Err e, c) else detect_attempts io s n e c)"

definition detect_programmed_device :: "'w Wire \<Rightarrow> u8 \<Rightarrow> u8 \<Rightarrow> ('w DaliController, SemanticDaliError, DiscoveredDevice) act" where
  "detect_programmed_device io s retries =
     detect_attempts io s (unat (saturating_add retries 1)) (OperationFailed ''programmed_device_not_present'')"

definition commission_next_unaddressed_once :: "'w Wire \<Rightarrow> u8 list \<Rightarrow> u8 \<Rightarrow> ('w DaliController, AttemptFailure, DiscoveredDevice option) act" where
  "commission_next_unaddressed_once io used retries =
     andThen (mapErr SearchRepeatable (find_lowest_random_address io)) (\<lambda>found. case found of
        None \<Rightarrow> pass None
      | Some a \<Rightarrow> andThen (mapErr SearchRepeatable (next_free_short_address io used)) (\<lambda>free. case free of
          None \<Rightarrow> fail (GearWithdrawn (Conflict ''no_free_short_address''))
        | Some s \<Rightarrow>
            andThen (mapErr SearchRepeatable (run_transaction True (program_found_gear io a s))) (\<lambda>_.
            andThen (mapErr GearWithdrawn (detect_programmed_device io s retries)) (\<lambda>d. pass (Some d)))))"

definition commission_next_unaddressed :: "'w Wire \<Rightarrow> u8 list \<Rightarrow> ('w DaliController, SemanticDaliError, DiscoveredDevice option) act" where
  "commission_next_unaddressed io used = mapErr attempt_error (commission_next_unaddressed_once io used 0)"

fun commission_attempts :: "'w Wire \<Rightarrow> u8 list \<Rightarrow> u8 \<Rightarrow> nat \<Rightarrow> ('w DaliController, SemanticDaliError, DiscoveredDevice option) act" where
  "commission_attempts io used retries 0 c = (Err (OperationFailed ''bus_contended''), c)"
| "commission_attempts io used retries (Suc n) c =
     (case commission_next_unaddressed_once io used retries c of
        (Inr r, c) \<Rightarrow> (Ok r, c)
      | (Inl (GearWithdrawn e), c) \<Rightarrow> (Err e, c)
      | (Inl (SearchRepeatable e), c) \<Rightarrow>
          if is_held e then (Err e, c)
          else if n > 0 then commission_attempts io used retries n c
          else (Err (OperationFailed ''bus_contended''), c))"

definition commission_next_unaddressed_with_retry_budget :: "'w Wire \<Rightarrow> u8 list \<Rightarrow> u8 \<Rightarrow> ('w DaliController, SemanticDaliError, DiscoveredDevice option) act" where
  "commission_next_unaddressed_with_retry_budget io used retries =
     commission_attempts io used retries (unat (saturating_add retries 1))"

section \<open>The session\<close>

definition begin_unaddressed_commissioning :: "'w Wire \<Rightarrow> ('w DaliController, SemanticDaliError, unit) act" where
  "begin_unaddressed_commissioning io =
     andThen (run_transaction True (andThen (send_special io (Initialise 0xFF)) (\<lambda>_. send_special io Randomise)))
       (\<lambda>_ c. (Ok (), sleep io (100 * 1000) c))"

definition terminate_unaddressed_commissioning :: "'w Wire \<Rightarrow> ('w DaliController, SemanticDaliError, unit) act" where
  "terminate_unaddressed_commissioning io = send_special io Terminate"

section \<open>The drain loop\<close>

lemma u8_small: "n < 256 \<Longrightarrow> unat (word_of_nat n :: u8) = n"
  by (simp add: unat_of_nat)

lemma bit_used_mask: "bit (used_mask used) n \<longleftrightarrow> n < 64 \<and> word_of_nat n \<in> set used"
proof -
  have "bit (fold (\<lambda>s m. if s \<le> 63 then m OR push_bit (unat s) 1 else m) used (m :: u64)) n
      \<longleftrightarrow> bit m n \<or> n < 64 \<and> word_of_nat n \<in> set used" for m
  proof (induction used arbitrary: m)
    case (Cons s used)
    have small: "s \<le> 63 \<longleftrightarrow> unat s < 64"
      by (auto simp: word_le_nat_alt)
    have same: "n < 64 \<Longrightarrow> word_of_nat n = s \<longleftrightarrow> n = unat s"
      using u8_small [of n] by auto
    show ?case
      unfolding fold_Cons comp_def Cons.IH
      using small same by (auto simp: bit_simps)
  qed simp
  then show ?thesis
    by (simp add: used_mask_def)
qed

lemma free_short_scan_fresh:
  assumes "free_short_scan io (used_mask used) ns c = (Ok (Some s), c')" "\<forall>n\<in>set ns. n < 64"
  shows "s \<notin> set used \<and> unat s \<in> set ns"
  using assms
proof (induction ns arbitrary: c)
  case (Cons n ns)
  then show ?case
    by (auto simp: and_exp_eq_0_iff_not_bit bit_used_mask u8_small split: if_split_asm prod.split_asm sum.split_asm)
qed simp

lemma next_free_short_address_fresh:
  assumes "next_free_short_address io used c = (Ok (Some s), c')"
  shows "s \<notin> set used" "unat s < 64"
  using free_short_scan_fresh [of io used "[0..<64]" c s c'] assms
  by (auto simp: next_free_short_address_def)

lemma detect_device_short: "detect_device io s c = (Ok (Some d), c') \<Longrightarrow> dd_short_address d = s"
  by (auto simp: detect_device_def andThen_def Let_def split: sum.split_asm prod.split_asm if_split_asm)

lemma detect_attempts_short: "detect_attempts io s n e c = (Ok d, c') \<Longrightarrow> dd_short_address d = s"
  by (induction n arbitrary: e c)
    (auto split: sum.split_asm prod.split_asm option.split_asm if_split_asm dest: detect_device_short)

lemma commission_once_fresh:
  assumes "commission_next_unaddressed_once io used retries c = (Ok (Some d), c')"
  shows "dd_short_address d \<notin> set used \<and> unat (dd_short_address d) < 64"
  using assms next_free_short_address_fresh detect_attempts_short
  by (fastforce simp: commission_next_unaddressed_once_def detect_programmed_device_def andThen_def mapErr_def
      split: sum.split_asm prod.split_asm option.split_asm)

lemma commission_attempts_fresh:
  assumes "commission_attempts io used retries n c = (Ok (Some d), c')"
  shows "dd_short_address d \<notin> set used \<and> unat (dd_short_address d) < 64"
  using assms
  by (induction n arbitrary: c)
    (auto split: sum.split_asm prod.split_asm AttemptFailure.split_asm if_split_asm dest: commission_once_fresh)

text \<open>Every round takes one of the sixty-four short addresses out of play.\<close>

lemma used_measure:
  assumes "s \<notin> set used" "unat s < 64"
  shows "card ({s. unat s < 64} - set (used @ [s])) < card ({s :: u8. unat s < 64} - set used)"
  using assms by (intro psubset_card_mono) auto

function commission_unaddressed_drain :: "'w Wire \<Rightarrow> u8 \<Rightarrow> u8 list \<Rightarrow> DiscoveredDevice list \<Rightarrow> 'w DaliController \<Rightarrow> ((SemanticDaliError + unit) \<times> u8 list \<times> DiscoveredDevice list) \<times> 'w DaliController" where
  "commission_unaddressed_drain io retries used progress c =
     (case commission_next_unaddressed_with_retry_budget io used retries c of
        (Inr (Some found), c) \<Rightarrow>
          commission_unaddressed_drain io retries (used @ [dd_short_address found]) (progress @ [found]) c
      | (Inr None, c) \<Rightarrow> ((Ok (), used, progress), c)
      | (Inl e, c) \<Rightarrow> ((Err e, used, progress), c))"
  by pat_completeness auto
termination
  by (relation "measure (\<lambda>(io, retries, used, progress, c). card ({s. unat s < 64} - set used))")
    (auto simp: commission_next_unaddressed_with_retry_budget_def simp del: set_append
      intro!: used_measure dest!: commission_attempts_fresh [OF sym])

declare commission_unaddressed_drain.simps [simp del]

definition commission_unaddressed_once :: "'w Wire \<Rightarrow> u8 \<Rightarrow> u8 list \<Rightarrow> DiscoveredDevice list \<Rightarrow> 'w DaliController \<Rightarrow> ((SemanticDaliError + unit) \<times> u8 list \<times> DiscoveredDevice list) \<times> 'w DaliController" where
  "commission_unaddressed_once io retries used progress c =
     (case begin_unaddressed_commissioning io c of
        (Inl e, c) \<Rightarrow> ((Err e, used, progress), c)
      | (Inr _, c) \<Rightarrow> (case commission_unaddressed_drain io retries used progress c of ((result, used, progress), c) \<Rightarrow>
          (case terminate_unaddressed_commissioning io c of (cleanup, c) \<Rightarrow>
            (((case result of Inl e \<Rightarrow> Err e | Inr _ \<Rightarrow> cleanup), used, progress), c))))"

fun commission_loop :: "'w Wire \<Rightarrow> u8 \<Rightarrow> nat \<Rightarrow> u8 list \<Rightarrow> DiscoveredDevice list \<Rightarrow> 'w DaliController \<Rightarrow> ((SemanticDaliError + unit) \<times> u8 list \<times> DiscoveredDevice list) \<times> 'w DaliController" where
  "commission_loop io retries 0 used progress c = ((Err (OperationFailed ''bus_contended''), used, progress), c)"
| "commission_loop io retries (Suc n) used progress c =
     (case commission_unaddressed_once io retries used progress c of
        ((Inr u, used, progress), c) \<Rightarrow> ((Ok u, used, progress), c)
      | ((Inl e, used, progress), c) \<Rightarrow>
          if is_bus_contended e \<and> n > 0 then commission_loop io retries n used progress c
          else ((Err e, used, progress), c))"

definition commission_unaddressed_loop :: "'w Wire \<Rightarrow> u8 \<Rightarrow> u8 list \<Rightarrow> 'w DaliController \<Rightarrow> ((SemanticDaliError + unit) \<times> u8 list \<times> DiscoveredDevice list) \<times> 'w DaliController" where
  "commission_unaddressed_loop io retries used = commission_loop io retries (unat (saturating_add retries 1)) used []"

section \<open>Scans\<close>

fun discover_refresh_known :: "'w Wire \<Rightarrow> u8 list \<Rightarrow> DiscoveredDevice list \<Rightarrow> 'w DaliController \<Rightarrow> ((SemanticDaliError + unit) \<times> DiscoveredDevice list) \<times> 'w DaliController" where
  "discover_refresh_known io [] progress c = ((Ok (), progress), c)"
| "discover_refresh_known io (s # rest) progress c =
     (case detect_device io s c of
        (Inl e, c) \<Rightarrow> ((Err e, progress), c)
      | (Inr None, c) \<Rightarrow> discover_refresh_known io rest progress c
      | (Inr (Some found), c) \<Rightarrow> discover_refresh_known io rest (progress @ [found]) c)"

definition confirmed_mask :: "DiscoveredDevice list \<Rightarrow> u64" where
  "confirmed_mask ds = fold (\<lambda>d m. m OR push_bit (unat (dd_short_address d AND 0x3F)) 1) ds 0"

text \<open>\<open>discover_scan_all\<close> yields the mask of the reconciled event on success.\<close>

fun scan_attempts :: "'w Wire \<Rightarrow> u8 \<Rightarrow> nat \<Rightarrow> DiscoveredDevice list \<Rightarrow> 'w DaliController \<Rightarrow> ((SemanticDaliError + u64) \<times> DiscoveredDevice list) \<times> 'w DaliController" where
  "scan_attempts io retries 0 progress c = ((Err (OperationFailed ''bus_contended''), progress), c)"
| "scan_attempts io retries (Suc n) progress c =
     (case discover_known_control_gear_with_retry_budget io retries c of
        (Inl e, c) \<Rightarrow> ((Err e, progress), c)
      | (Inr (summary, found), c) \<Rightarrow>
          (case scan_error summary of
             None \<Rightarrow> ((Ok (confirmed_mask found), progress @ found), c)
           | Some e \<Rightarrow>
               if is_bus_contended e \<and> \<not> described summary > 0 \<and> n > 0
               then scan_attempts io retries n (progress @ found) c
               else ((Err e, progress @ found), c)))"

definition discover_scan_all :: "'w Wire \<Rightarrow> u8 \<Rightarrow> 'w DaliController \<Rightarrow> ((SemanticDaliError + u64) \<times> DiscoveredDevice list) \<times> 'w DaliController" where
  "discover_scan_all io retries = scan_attempts io retries (unat (saturating_add retries 1)) []"

section \<open>Changing addresses\<close>

definition identify_device :: "'w Wire \<Rightarrow> u8 \<Rightarrow> ('w DaliController, SemanticDaliError, unit) act" where
  "identify_device io s =
     (case short s of
        Inl _ \<Rightarrow> fail (OperationFailed ''identify: short address out of range'')
      | Inr address \<Rightarrow> andThen (send_standard io address IdentifyDevice) (\<lambda>_. pass ()))"

datatype AddressMove = MoveSent | MoveMaybeSent SemanticDaliError | MoveUnproved

text \<open>\<open>arm_and_move\<close> sets the captured flag \<open>pair_tried\<close> before the send-twice pair.\<close>

definition arm_and_move :: "'w Wire \<Rightarrow> DaliAddress \<Rightarrow> u8 \<Rightarrow> bool \<Rightarrow> 'w DaliController \<Rightarrow> ((SemanticDaliError + bool) \<times> bool) \<times> 'w DaliController" where
  "arm_and_move io current encoded pair_tried c =
     (case andThen (send_special io (Dtr0 encoded)) (\<lambda>_. send_standard_query io current QueryContentDtr0) c of
        (Inl e, c) \<Rightarrow> ((Err e, pair_tried), c)
      | (Inr echo, c) \<Rightarrow>
          if echo \<noteq> Some encoded then ((Ok False, pair_tried), c)
          else (case send_standard io current SetShortAddress c of
                  (Inl e, c) \<Rightarrow> ((Err e, True), c)
                | (Inr _, c) \<Rightarrow> ((Ok True, True), c)))"

fun arm_attempts :: "'w Wire \<Rightarrow> DaliAddress \<Rightarrow> u8 \<Rightarrow> nat \<Rightarrow> bool \<Rightarrow> ('w DaliController, SemanticDaliError, AddressMove) act" where
  "arm_attempts io current encoded 0 pair_tried c =
     (Ok (if pair_tried then MoveMaybeSent (OperationFailed ''address_arm_unconfirmed'') else MoveUnproved), c)"
| "arm_attempts io current encoded (Suc n) pair_tried c =
     (case run_unit io True (arm_and_move io current encoded) pair_tried c of
        ((Inr True, pair_tried), c) \<Rightarrow> (Ok MoveSent, c)
      | ((Inr False, pair_tried), c) \<Rightarrow> arm_attempts io current encoded n pair_tried c
      | ((Inl e, pair_tried), c) \<Rightarrow> if pair_tried then (Ok (MoveMaybeSent e), c) else (Err e, c))"

definition set_short_address_proved :: "'w Wire \<Rightarrow> DaliAddress \<Rightarrow> u8 \<Rightarrow> ('w DaliController, SemanticDaliError, AddressMove) act" where
  "set_short_address_proved io current encoded = arm_attempts io current encoded 3 False"

definition answers_at :: "'w Wire \<Rightarrow> u8 \<Rightarrow> ('w DaliController, SemanticDaliError, bool) act" where
  "answers_at io s =
     (case short s of
        Inl _ \<Rightarrow> fail (OperationFailed ''address_change: target out of range'')
      | Inr dest \<Rightarrow> andThen (send_standard_query io dest QueryStatus) (\<lambda>v. pass (v \<noteq> None)))"

definition change_short_address :: "'w Wire \<Rightarrow> u8 \<Rightarrow> u8 \<Rightarrow> bool \<Rightarrow> ('w DaliController, SemanticDaliError, unit) act" where
  "change_short_address io s new_s verify =
     (if s = new_s then fail (OperationFailed ''address_change_same_address'')
      else case short s of
        Inl _ \<Rightarrow> fail (OperationFailed ''address_change: source out of range'')
      | Inr current \<Rightarrow>
          if new_s > 63 then fail (OperationFailed ''address_change: target out of range'')
          else andThen (set_short_address_proved io current (encode_program_short_address new_s)) (\<lambda>m. case m of
             MoveSent \<Rightarrow>
               if verify then andThen (answers_at io new_s)
                 (\<lambda>there. if \<not> there then fail (OperationFailed ''verify_failed'') else pass ())
               else pass ()
           | MoveMaybeSent e \<Rightarrow> andThen (answers_at io new_s) (\<lambda>there. if there then pass () else fail e)
           | MoveUnproved \<Rightarrow> fail (OperationFailed ''address_arm_unconfirmed'')))"

definition replace_device :: "'w Wire \<Rightarrow> u8 \<Rightarrow> u8 \<Rightarrow> ('w DaliController, SemanticDaliError, unit) act" where
  "replace_device io failed_s replacement_s =
     (if failed_s = replacement_s then fail (OperationFailed ''replace: failed and replacement are the same address'')
      else andThen (detect_device io failed_s) (\<lambda>d.
        if d \<noteq> None then fail (OperationFailed ''verify_failed'')
        else change_short_address io replacement_s failed_s True))"

section \<open>Single steps\<close>

datatype CommissioningStep =
  StepInitialise | StepRandomise | StepSearchAddress | StepCompare | StepProgramShortAddress
  | StepVerifyShortAddress | StepQueryShortAddress | StepWithdraw | StepTerminate

datatype InitialiseScope = ScopeAll | ScopeUnaddressed | ScopeShort

record CommissioningStepOutcome =
  backward_frame :: "u8 option"
  backward_violation :: bool

definition step_outcome_default :: CommissioningStepOutcome where
  "step_outcome_default = \<lparr>backward_frame = None, backward_violation = False\<rparr>"

definition initialise_data :: "InitialiseScope \<Rightarrow> u8 option \<Rightarrow> SemanticDaliError + u8" where
  "initialise_data scope s =
     (case scope of
        ScopeAll \<Rightarrow> Ok 0x00
      | ScopeUnaddressed \<Rightarrow> Ok 0xFF
      | ScopeShort \<Rightarrow> (case s of
            Some v \<Rightarrow> if v \<le> 63 then Ok (encode_program_short_address v)
                     else Err (OperationFailed ''initialise scope=short needs a valid short_address'')
          | None \<Rightarrow> Err (OperationFailed ''initialise scope=short needs a valid short_address'')))"

definition require_short :: "u8 option \<Rightarrow> string \<Rightarrow> SemanticDaliError + u8" where
  "require_short s step =
     (let missing = Err (OperationFailed (if step = ''program-short-address''
        then ''program-short-address needs a short_address'' else ''verify-short-address needs a short_address''))
      in case s of Some v \<Rightarrow> if v \<le> 63 then Ok v else missing | None \<Rightarrow> missing)"

definition run_write_step :: "'w Wire \<Rightarrow> CommissioningStep \<Rightarrow> InitialiseScope option \<Rightarrow> u8 option \<Rightarrow> u32 option \<Rightarrow> ('w DaliController, SemanticDaliError, unit) act" where
  "run_write_step io step scope s search =
     (case step of
        StepInitialise \<Rightarrow> (case scope of
            None \<Rightarrow> fail (OperationFailed ''initialise needs a scope'')
          | Some sc \<Rightarrow> (case initialise_data sc s of Inl e \<Rightarrow> fail e | Inr d \<Rightarrow> send_special io (Initialise d)))
      | StepRandomise \<Rightarrow> send_special io Randomise
      | StepSearchAddress \<Rightarrow> (case search of
            None \<Rightarrow> fail (OperationFailed ''search-address needs a search_address'')
          | Some a \<Rightarrow> if a > 0x00FFFFFF then fail (OperationFailed ''search_address does not fit in 24 bits'')
                      else run_transaction True (set_search_address io a))
      | StepProgramShortAddress \<Rightarrow> (case require_short s ''program-short-address'' of
            Inl e \<Rightarrow> fail e | Inr v \<Rightarrow> send_special io (ProgramShortAddress (encode_program_short_address v)))
      | StepWithdraw \<Rightarrow> send_special io Withdraw
      | StepTerminate \<Rightarrow> send_special io Terminate
      | _ \<Rightarrow> fail (OperationFailed ''step expects a reply and must not take the write path''))"

definition run_query_step :: "'w Wire \<Rightarrow> CommissioningStep \<Rightarrow> u8 option \<Rightarrow> ('w DaliController, SemanticDaliError, CommissioningStepOutcome) act" where
  "run_query_step io step s =
     (let ask = (\<lambda>command. andThen (send_special_response io command) (\<lambda>r. pass (case r of
            DaliResponse.Answer b \<Rightarrow> \<lparr>backward_frame = Some b, backward_violation = False\<rparr>
          | Violation \<Rightarrow> \<lparr>backward_frame = None, backward_violation = True\<rparr>
          | DaliResponse.NoAnswer \<Rightarrow> step_outcome_default)))
      in case step of
           StepCompare \<Rightarrow> ask Compare
         | StepVerifyShortAddress \<Rightarrow> (case require_short s ''verify-short-address'' of
               Inl e \<Rightarrow> fail e | Inr v \<Rightarrow> ask (VerifyShortAddress (encode_program_short_address v)))
         | StepQueryShortAddress \<Rightarrow> ask SpecialCommand.QueryShortAddress
         | _ \<Rightarrow> fail (OperationFailed ''step expects no reply and must not take the query path''))"

definition run_commissioning_step :: "'w Wire \<Rightarrow> CommissioningStep \<Rightarrow> InitialiseScope option \<Rightarrow> u8 option \<Rightarrow> u32 option \<Rightarrow> ('w DaliController, SemanticDaliError, CommissioningStepOutcome) act" where
  "run_commissioning_step io step scope s search =
     (if step \<in> {StepCompare, StepVerifyShortAddress, StepQueryShortAddress} then run_query_step io step s
      else andThen (run_write_step io step scope s search) (\<lambda>_. pass step_outcome_default))"

section \<open>Properties of the loops\<close>

lemma drain_extends:
  assumes "commission_unaddressed_drain io retries used progress c = ((result, used', progress'), c')"
  shows "\<exists>ds. used' = used @ map dd_short_address ds \<and> progress' = progress @ ds
    \<and> distinct (map dd_short_address ds) \<and> set (map dd_short_address ds) \<subseteq> {s. s \<notin> set used \<and> unat s < 64}"
  using assms
proof (induction io retries used progress c rule: commission_unaddressed_drain.induct)
  case (1 io retries used progress c)
  show ?case
  proof (cases "\<exists>d c1. commission_next_unaddressed_with_retry_budget io used retries c = (Ok (Some d), c1)")
    case True
    then obtain d c1 where d: "commission_next_unaddressed_with_retry_budget io used retries c = (Ok (Some d), c1)"
      by blast
    then have fresh: "dd_short_address d \<notin> set used" "unat (dd_short_address d) < 64"
      using commission_attempts_fresh by (fastforce simp: commission_next_unaddressed_with_retry_budget_def)+
    have "commission_unaddressed_drain io retries (used @ [dd_short_address d]) (progress @ [d]) c1 = ((result, used', progress'), c')"
      using "1.prems" d by (subst (asm) commission_unaddressed_drain.simps) simp
    from "1.IH" [OF d [symmetric] refl refl this] obtain ds where
      "used' = (used @ [dd_short_address d]) @ map dd_short_address ds" "progress' = (progress @ [d]) @ ds"
      "distinct (map dd_short_address ds)"
      "set (map dd_short_address ds) \<subseteq> {s. s \<notin> set (used @ [dd_short_address d]) \<and> unat s < 64}"
      by blast
    then show ?thesis
      using fresh by (intro exI [of _ "d # ds"]) auto
  next
    case False
    then have "used' = used" "progress' = progress"
      using "1.prems" by (subst (asm) commission_unaddressed_drain.simps; auto split: prod.split_asm sum.split_asm option.split_asm)+
    then show ?thesis
      by (intro exI [of _ "[]"]) simp
  qed
qed

text \<open>
  C17. Whatever the wire answers, a drain only ever adds addresses to the list of used ones: each is a
  short address below 64 that was not used before, no address is added twice, the list of reported
  devices grows by exactly the devices at these addresses, and so at most 64 devices are found.
\<close>

theorem drain_hands_out_fresh_addresses:
  "case commission_unaddressed_drain io retries used progress c of ((result, used', progress'), c') \<Rightarrow>
     \<exists>ds. used' = used @ map dd_short_address ds \<and> progress' = progress @ ds
       \<and> distinct (map dd_short_address ds) \<and> set (map dd_short_address ds) \<subseteq> {s. s \<notin> set used \<and> unat s < 64}
       \<and> length ds \<le> 64"
proof -
  obtain result used' progress' c' where d: "commission_unaddressed_drain io retries used progress c = ((result, used', progress'), c')"
    by (metis prod.exhaust)
  obtain ds where ds: "used' = used @ map dd_short_address ds" "progress' = progress @ ds"
    "distinct (map dd_short_address ds)" "set (map dd_short_address ds) \<subseteq> {s. s \<notin> set used \<and> unat s < 64}"
    using drain_extends [OF d] by blast
  have "unat ` set (map dd_short_address ds) \<subseteq> {..<64}"
    using ds(4) by auto
  then have "card (unat ` set (map dd_short_address ds)) \<le> card {..<64 :: nat}"
    by (intro card_mono) simp_all
  moreover have "card (unat ` set (map dd_short_address ds)) = card (set (map dd_short_address ds))"
    by (rule card_image) (simp add: inj_on_def word_unat_eq_iff)
  moreover have "card (set (map dd_short_address ds)) = length ds"
    using distinct_card [OF ds(3)] by simp
  ultimately show ?thesis
    using ds by (auto simp: d)
qed

section \<open>The number of probes\<close>

text \<open>A probe that counts its calls.\<close>

definition counting :: "(u32 \<Rightarrow> ('c, 'e, bool) act) \<Rightarrow> u32 \<Rightarrow> (nat \<times> 'c, 'e, bool) act" where
  "counting probe a = (\<lambda>(n, c). case probe a c of (r, c) \<Rightarrow> (r, Suc n, c))"

lemma bisect_probes:
  assumes "bisect (counting probe) low high (n, c) = (r, n', c')" "unat high - unat low < 2 ^ k"
  shows "n' \<le> n + k"
  using assms
proof (induction k arbitrary: low high n c)
  case 0
  then have "\<not> low < high"
    by (simp add: word_less_nat_alt)
  then show ?case
    using "0.prems"(1) by (simp add: bisect.simps)
next
  case (Suc k)
  show ?case
  proof (cases "low < high")
    case False
    then show ?thesis
      using Suc.prems(1) by (simp add: bisect.simps)
  next
    case True
    define mid where "mid = low + (high - low) div 2"
    have nat: "unat mid = unat low + (unat high - unat low) div 2" "unat (mid + 1) = unat mid + 1"
      using bisect_mid [OF True] by (simp_all add: mid_def)
    have half: "unat mid - unat low < 2 ^ k" "unat high - unat (mid + 1) < 2 ^ k"
      using nat Suc.prems(2) True by (simp_all add: word_less_nat_alt)
    obtain r1 c1 where p: "probe mid c = (r1, c1)"
      by (cases "probe mid c")
    have "bisect (counting probe) low high (n, c) =
        (case r1 of Inl e \<Rightarrow> (Err e, Suc n, c1) | Inr True \<Rightarrow> bisect (counting probe) low mid (Suc n, c1)
         | Inr False \<Rightarrow> bisect (counting probe) (mid + 1) high (Suc n, c1))"
      using True by (subst bisect.simps) (auto simp: counting_def p mid_def [symmetric] Let_def split: sum.split bool.split)
    then show ?thesis
      using Suc.prems(1) Suc.IH [of low mid "Suc n" c1] Suc.IH [of "mid + 1" high "Suc n" c1] half
      by (auto split: sum.split_asm bool.split_asm)
  qed
qed

text \<open>
  C18. The bisection of the 24-bit random-address range asks at most twenty-four probes, whatever they answer.
\<close>

theorem bisect_probe_bound: "fst (snd (bisect (counting probe) 0 0x00FFFFFF (0, c))) \<le> 24"
proof -
  obtain r n c' where b: "bisect (counting probe) 0 0x00FFFFFF (0, c) = (r, n, c')"
    by (metis prod.exhaust)
  show ?thesis
    using bisect_probes [OF b, of 24] by (simp add: b)
qed

end
