(* ===== verification/Manchester.thy ===== *)
theory Manchester
  imports Prelude
begin

text \<open>
  The line code: \<open>halfbits.rs\<close>, \<open>manchester.rs\<close> and \<open>frame_length.rs\<close> of \<open>dali2rust-dali-phy\<close>, and
  \<open>codec.rs\<close> and \<open>rx_decode.rs\<close> of \<open>dali2rust-dali-codec\<close>. A frame is encoded as pairs of half-bits;
  a capture of the line is a list of sample bytes, four samples to a half-bit, that a phase search decodes.
  Signed integers of the sources are words read with \<open>sint\<close>.
\<close>

type_synonym i8 = "8 word"
type_synonym i16 = "16 word"

text \<open>\<open>checked_shl\<close> and \<open>checked_shr\<close> of \<open>core\<close>.\<close>

definition checked_shl :: "'a::len word \<Rightarrow> nat \<Rightarrow> 'a word option" where
  "checked_shl w n = (if n < LENGTH('a) then Some (push_bit n w) else None)"

definition checked_shr :: "'a::len word \<Rightarrow> nat \<Rightarrow> 'a word option" where
  "checked_shr w n = (if n < LENGTH('a) then Some (drop_bit n w) else None)"

definition unwrap_or :: "'a option \<Rightarrow> 'a \<Rightarrow> 'a" where
  "unwrap_or v d = (case v of None \<Rightarrow> d | Some x \<Rightarrow> x)"

definition list_get :: "'a list \<Rightarrow> nat \<Rightarrow> 'a option" where
  "list_get xs i = (if i < length xs then Some (xs ! i) else None)"

section \<open>Half-bits\<close>

record HalfBitBuffer =
  hb_data :: "u8 list"
  hb_length :: u8

definition push_pair :: "u8 \<Rightarrow> HalfBitBuffer \<Rightarrow> HalfBitBuffer" where
  "push_pair pair buf =
     (let len = hb_length buf;
          pos = unat (drop_bit 3 len);
          shift = 6 - (len AND 7);
          buf = (if pos < length (hb_data buf)
                 then buf\<lparr>hb_data := (hb_data buf)[pos := hb_data buf ! pos OR unwrap_or (checked_shl pair (unat shift)) 0]\<rparr>
                 else buf)
      in buf\<lparr>hb_length := saturating_add len 2\<rparr>)"

fun encode_bits :: "u32 \<Rightarrow> nat \<Rightarrow> HalfBitBuffer \<Rightarrow> HalfBitBuffer" where
  "encode_bits data 0 out = out"
| "encode_bits data (Suc remaining) out =
     (let one = (unwrap_or (checked_shr data remaining) 0 AND 1 \<noteq> 0)
      in encode_bits data remaining (push_pair (if one then 0b10 else 0b01) out))"

definition halfbits_encode :: "u32 \<Rightarrow> u8 \<Rightarrow> HalfBitBuffer" where
  "halfbits_encode data bit_count =
     (let out = push_pair 0b10 \<lparr>hb_data = replicate 9 0, hb_length = 0\<rparr>;
          out = encode_bits data (unat bit_count) out
      in push_pair 0b00 (push_pair 0b00 out))"

definition MAX_DATA_HALF_BITS :: u8 where "MAX_DATA_HALF_BITS = 72"

definition encode_forward16_raw :: "u16 \<Rightarrow> HalfBitBuffer" where
  "encode_forward16_raw frame = halfbits_encode (ucast frame) 16"

definition encode_forward24_raw :: "u8 \<Rightarrow> u8 \<Rightarrow> u8 \<Rightarrow> HalfBitBuffer" where
  "encode_forward24_raw addr opcode data =
     (let raw = push_bit 16 (ucast addr) OR push_bit 8 (ucast opcode) OR ucast data
      in halfbits_encode raw 24)"

text \<open>Simultaneous answers: the dominant half-bits of all of them.\<close>

definition merge_into :: "HalfBitBuffer \<Rightarrow> HalfBitBuffer \<Rightarrow> HalfBitBuffer" where
  "merge_into other merged = merged\<lparr>hb_data := map2 (OR) (hb_data merged) (hb_data other)\<rparr>"

definition merge_dominant :: "u8 list \<Rightarrow> u8 \<Rightarrow> HalfBitBuffer option" where
  "merge_dominant bytes bit_count =
     (case bytes of [] \<Rightarrow> None
      | first # rest \<Rightarrow>
          Some (fold (\<lambda>byte merged. merge_into (halfbits_encode (ucast byte) bit_count) merged) rest
                  (halfbits_encode (ucast first) bit_count)))"

section \<open>Frame lengths\<close>

datatype FrameLengthClass = BackwardLength | ForwardLength

definition frame_length_class :: "u16 \<Rightarrow> FrameLengthClass" where
  "frame_length_class sample_count = (if sample_count \<ge> 19 then ForwardLength else BackwardLength)"

definition is_forward24_length :: "u16 \<Rightarrow> bool" where
  "is_forward24_length sample_count \<longleftrightarrow> sample_count \<ge> 23"

type_synonym BitLengths = u32

definition bit_lengths_of :: "u8 list \<Rightarrow> BitLengths" where
  "bit_lengths_of lengths = fold (\<lambda>first bits.
     case checked_shl 1 (unat first) of Some b \<Rightarrow> bits OR b | None \<Rightarrow> bits) lengths 0"

definition bit_lengths_contains :: "BitLengths \<Rightarrow> u8 \<Rightarrow> bool" where
  "bit_lengths_contains lengths len =
     (case checked_shl 1 (unat len) of Some b \<Rightarrow> lengths AND b \<noteq> 0 | None \<Rightarrow> False)"

section \<open>Sample windows\<close>

datatype PeekStop = PeekNone | PeekIdle | PeekHeld

record PhaseDecode =
  pd_bit_len :: u8
  pd_phase_ticks :: i8
  pd_score :: u16
  pd_data :: "u8 list"

definition phase_failed :: "i8 \<Rightarrow> PhaseDecode" where
  "phase_failed phase_ticks = \<lparr>pd_bit_len = 0, pd_phase_ticks = phase_ticks, pd_score = 0, pd_data = replicate 8 0\<rparr>"

record SampleWindow =
  win_bytes :: "u8 list"
  win_len :: u16
  win_bits :: u16

definition of_capture :: "u8 list \<Rightarrow> u16 \<Rightarrow> SampleWindow" where
  "of_capture samples sample_count =
     (let n = (if unat sample_count < 64 then unat sample_count else 64)
      in \<lparr>win_bytes = take n samples @ [0xFF] @ replicate (66 - n - 1) 0,
          win_len = word_of_nat (n + 1), win_bits = saturating_mul (word_of_nat n) 8\<rparr>)"

definition window_byte :: "SampleWindow \<Rightarrow> u16 \<Rightarrow> u8 option" where
  "window_byte w pos = (if pos \<ge> win_len w then None else list_get (win_bytes w) (unat pos))"

definition sample_bit :: "SampleWindow \<Rightarrow> i16 \<Rightarrow> u8" where
  "sample_bit w bitpos =
     (if sint bitpos < 0 then drop_bit 7 (unwrap_or (window_byte w 0) 0xFF)
      else if bitpos \<ge> win_bits w then 1
      else drop_bit 7 (push_bit (unat (bitpos AND 7)) (unwrap_or (window_byte w (drop_bit 3 bitpos)) 0xFF)))"

definition peek8 :: "SampleWindow \<Rightarrow> u16 \<Rightarrow> i8 \<Rightarrow> u8 \<times> PeekStop" where
  "peek8 w bitpos phase_ticks =
     (let shifted = bitpos + scast phase_ticks;
          sample =
            (if sint shifted \<ge> 0 then
               (let pos = drop_bit 3 shifted; shift = unat (shifted AND 7) in
                case (window_byte w pos, window_byte w (saturating_add pos 1)) of
                  (None, _) \<Rightarrow> 0xFF
                | (Some first, Some nxt) \<Rightarrow>
                    ucast ((push_bit shift (ucast first) :: u16) OR drop_bit (8 - shift) (ucast nxt))
                | (Some first, None) \<Rightarrow> ucast (push_bit shift (ucast first) :: u16))
             else fold (\<lambda>off sample. push_bit 1 sample OR sample_bit w (shifted + word_of_nat off)) [0..<8] 0)
      in (sample, if sample = 0xFF then PeekIdle else if sample = 0x00 then PeekHeld else PeekNone))"

definition bit_weight :: "u8 \<Rightarrow> nat \<Rightarrow> i16 \<Rightarrow> i16" where
  "bit_weight sample b weight =
     (let is_set = (case checked_shr sample b of Some shifted \<Rightarrow> shifted AND 1 \<noteq> 0 | None \<Rightarrow> False)
      in if is_set then weight else - weight)"

definition sample_weight :: "u8 \<Rightarrow> u8" where
  "sample_weight sample =
     (let first = bit_weight sample 7 1 + bit_weight sample 6 2 + bit_weight sample 5 2 + bit_weight sample 4 1;
          second = bit_weight sample 3 1 + bit_weight sample 2 2 + bit_weight sample 1 2 + bit_weight sample 0 1;
          w = (first - second) * 2
      in if sint w < 0 then ucast (- w + 1) else ucast w)"

definition weighted_peek_around :: "SampleWindow \<Rightarrow> u16 \<Rightarrow> i8 \<Rightarrow> u8 \<times> u16 \<times> PeekStop" where
  "weighted_peek_around w bitpos phase_ticks =
     (let centre = fst (peek8 w bitpos phase_ticks);
          weightmax = sample_weight centre; pmax = 8;
          early = sample_weight (fst (peek8 w (bitpos - 1) phase_ticks));
          (weightmax, pmax) = (if weightmax < early then (early, 7) else (weightmax, pmax));
          (late, stop) = peek8 w (saturating_add bitpos 1) phase_ticks;
          late = sample_weight late;
          (weightmax, pmax) = (if weightmax < late then (late, 9) else (weightmax, pmax))
      in (weightmax, pmax, stop))"

definition push_decoded_bit :: "u8 \<Rightarrow> u8 \<Rightarrow> u8 list \<Rightarrow> u8 list" where
  "push_decoded_bit bit_len weightmax data =
     (if bit_len = 0 then data
      else let index = bit_len - 1; pos = unat (drop_bit 3 index) in
        if pos < length data then
          (let byte = (if index AND 7 = 0 then 0 else data ! pos)
           in data[pos := push_bit 1 byte OR (weightmax AND 1)])
        else data)"

lemma weighted_peek_advance: "weighted_peek_around w p ph = (v, pmax, stop) \<Longrightarrow> 7 \<le> unat pmax"
  by (auto simp: weighted_peek_around_def Let_def split: if_split_asm prod.split_asm)

lemma decode_advance:
  assumes "saturating_add p 1 < (b :: u16)" "7 \<le> unat q"
  shows "65535 - unat (saturating_add p q) < 65535 - unat p"
proof -
  have "unat (saturating_add p 1) < unat b"
    using assms(1) by (simp add: word_less_nat_alt)
  moreover have "unat b < 65536"
    using unsigned_less [of b] by simp
  ultimately have "unat p < 65535"
    by (simp add: unat_saturating_add)
  with assms(2) show ?thesis
    by (simp add: unat_saturating_add)
qed

text \<open>The loop of \<open>decode_phase\<close>; \<open>None\<close> is its early return on a held line.\<close>

function decode_loop :: "SampleWindow \<Rightarrow> u8 \<Rightarrow> i8 \<Rightarrow> u16 \<Rightarrow> PhaseDecode \<Rightarrow> PhaseDecode option" where
  "decode_loop w max_out_bits phase_ticks bitpos out =
     (if saturating_add bitpos 1 < win_bits w \<and> pd_bit_len out \<le> max_out_bits then
        (case weighted_peek_around w bitpos phase_ticks of (weightmax, pmax, stop) \<Rightarrow>
           (case stop of PeekIdle \<Rightarrow> Some out | PeekHeld \<Rightarrow> None
            | PeekNone \<Rightarrow> decode_loop w max_out_bits phase_ticks (saturating_add bitpos pmax)
                (out\<lparr>pd_score := saturating_add (pd_score out) (ucast weightmax),
                     pd_data := push_decoded_bit (pd_bit_len out) weightmax (pd_data out),
                     pd_bit_len := saturating_add (pd_bit_len out) 1\<rparr>)))
      else Some out)"
  by auto
termination
proof (relation "measure (\<lambda>(w, m, ph, p, out). 65535 - unat p)", simp, clarsimp)
  fix w :: SampleWindow and p :: u16 and ph :: i8 and v pmax
  assume g: "saturating_add p 1 < win_bits w" and x: "(v, pmax, PeekNone) = weighted_peek_around w p ph"
  have "7 \<le> unat pmax"
    using weighted_peek_advance [OF x [symmetric]] .
  with decode_advance [OF g] show "65535 - unat (saturating_add p pmax) < 65535 - unat p" .
qed

declare decode_loop.simps [simp del]

definition decode_phase :: "SampleWindow \<Rightarrow> u8 \<Rightarrow> i8 \<Rightarrow> PhaseDecode" where
  "decode_phase w max_out_bits phase_ticks =
     (case decode_loop w max_out_bits phase_ticks 1 (phase_failed phase_ticks) of
        None \<Rightarrow> phase_failed phase_ticks
      | Some out \<Rightarrow> if pd_bit_len out > 1 then out\<lparr>pd_bit_len := saturating_sub (pd_bit_len out) 1\<rparr> else out)"

section \<open>The phase search\<close>

definition scan_phase :: "u8 \<Rightarrow> i8" where
  "scan_phase index = (let off = (index AND 3) - 2 in if sint off \<ge> 0 then off + 1 else off)"

definition unsigned_abs :: "i8 \<Rightarrow> u8" where
  "unsigned_abs p = (if sint p < 0 then - p else p)"

definition is_better_decode :: "PhaseDecode \<Rightarrow> PhaseDecode \<Rightarrow> BitLengths \<Rightarrow> bool" where
  "is_better_decode candidate current preferred =
     (let candidate_preferred = bit_lengths_contains preferred (pd_bit_len candidate) in
      if candidate_preferred \<noteq> bit_lengths_contains preferred (pd_bit_len current) then candidate_preferred
      else if pd_score candidate \<noteq> pd_score current then pd_score candidate > pd_score current
      else let candidate_abs = unsigned_abs (pd_phase_ticks candidate); current_abs = unsigned_abs (pd_phase_ticks current) in
        if candidate_abs \<noteq> current_abs then candidate_abs < current_abs
        else pd_phase_ticks candidate = 0 \<and> pd_phase_ticks current \<noteq> 0)"

definition accepted :: "PhaseDecode option \<Rightarrow> PhaseDecode option" where
  "accepted found = (case found of Some decode \<Rightarrow> if pd_bit_len decode \<ge> 3 then Some decode else None | None \<Rightarrow> None)"

datatype IsrDecode = NotDecoded | Decoded "PhaseDecode option"

datatype PhaseSearch = Searching | Done "PhaseDecode option"

record BestPhaseSearch =
  ps_preferred :: BitLengths
  ps_step :: u8
  ps_best :: "PhaseDecode option"

definition phase_search_new :: "BitLengths \<Rightarrow> BestPhaseSearch" where
  "phase_search_new preferred = \<lparr>ps_preferred = preferred, ps_step = 0, ps_best = None\<rparr>"

definition phase_search_step :: "SampleWindow \<Rightarrow> BestPhaseSearch \<Rightarrow> PhaseSearch \<times> BestPhaseSearch" where
  "phase_search_step w s =
     (if ps_step s = 0 then
        (let s = s\<lparr>ps_step := 1\<rparr>; first = decode_phase w 32 0 in
         if bit_lengths_contains (ps_preferred s) (pd_bit_len first) then (Done (accepted (Some first)), s)
         else (Searching, s))
      else if ps_step s > 4 then (Done (accepted (ps_best s)), s)
      else
        (let phase = scan_phase (ps_step s - 1);
             candidate = decode_phase w 32 phase;
             s = s\<lparr>ps_step := saturating_add (ps_step s) 1\<rparr>;
             s = (if pd_bit_len candidate \<noteq> 0
                    \<and> (case ps_best s of Some current \<Rightarrow> is_better_decode candidate current (ps_preferred s) | None \<Rightarrow> True)
                  then s\<lparr>ps_best := Some candidate\<rparr> else s)
         in if ps_step s > 4 then (Done (accepted (ps_best s)), s) else (Searching, s)))"

text \<open>The loop of \<open>run\<close>: \<open>None\<close> when it does not end.\<close>

partial_function (option) phase_search_run :: "SampleWindow \<Rightarrow> BestPhaseSearch \<Rightarrow> PhaseDecode option option" where
  [code]: "phase_search_run w s =
     (case phase_search_step w s of (Done found, s') \<Rightarrow> Some found | (Searching, s') \<Rightarrow> phase_search_run w s')"

section \<open>Captures\<close>

record RxCompletedEvent =
  ev_samples :: "u8 list"
  ev_sample_count :: u16
  ev_pre_idle_ticks :: u8
  ev_rx_epoch :: u8
  ev_rx_tick :: u32
  ev_max_sample_gap_us :: u32
  ev_timing_degraded :: bool
  ev_sniff_seq :: u32
  ev_isr_decode :: IsrDecode

definition rx_completed_new :: RxCompletedEvent where
  "rx_completed_new = \<lparr>ev_samples = replicate 64 0, ev_sample_count = 0, ev_pre_idle_ticks = 0, ev_rx_epoch = 0,
     ev_rx_tick = 0, ev_max_sample_gap_us = 0, ev_timing_degraded = False, ev_sniff_seq = 0, ev_isr_decode = NotDecoded\<rparr>"

datatype SniffedFrame = SniffedForward16 u16 | SniffedBackward8 u8 | SniffedForward24 u8 u8 u8
  | UnsupportedLength u8 | DecodeFailed

record SniffedDecode =
  sd_frame :: SniffedFrame
  sd_phase_ticks :: i8
  sd_score :: u16

definition try_decode :: "RxCompletedEvent \<Rightarrow> BitLengths \<Rightarrow> PhaseDecode option option" where
  "try_decode ev preferred =
     phase_search_run (of_capture (ev_samples ev) (ev_sample_count ev)) (phase_search_new preferred)"

definition decode_backward_byte :: "RxCompletedEvent \<Rightarrow> u8 option option" where
  "decode_backward_byte ev =
     (case try_decode ev (bit_lengths_of [8]) of
        None \<Rightarrow> None
      | Some None \<Rightarrow> Some None
      | Some (Some result) \<Rightarrow> Some (if pd_bit_len result = 8 then Some (pd_data result ! 0) else None))"

definition sniffed_from_decoded :: "u8 \<Rightarrow> u8 list \<Rightarrow> SniffedFrame" where
  "sniffed_from_decoded dlen out =
     (if dlen = 8 then SniffedBackward8 (out ! 0)
      else if dlen = 16 then SniffedForward16 (push_bit 8 (ucast (out ! 0)) OR ucast (out ! 1))
      else if dlen = 24 then SniffedForward24 (out ! 0) (out ! 1) (out ! 2)
      else UnsupportedLength dlen)"

definition decode_sniffed_with_phase :: "RxCompletedEvent \<Rightarrow> SniffedDecode option" where
  "decode_sniffed_with_phase ev =
     (case (case ev_isr_decode ev of Decoded found \<Rightarrow> Some found | NotDecoded \<Rightarrow> try_decode ev (bit_lengths_of [8, 16, 24])) of
        None \<Rightarrow> None
      | Some None \<Rightarrow> Some \<lparr>sd_frame = DecodeFailed, sd_phase_ticks = 0, sd_score = 0\<rparr>
      | Some (Some result) \<Rightarrow>
          Some \<lparr>sd_frame = sniffed_from_decoded (pd_bit_len result) (pd_data result),
            sd_phase_ticks = pd_phase_ticks result, sd_score = pd_score result\<rparr>)"

definition decode_sniffed :: "RxCompletedEvent \<Rightarrow> SniffedFrame option" where
  "decode_sniffed ev = map_option sd_frame (decode_sniffed_with_phase ev)"

definition dominant_run :: "u8 list \<Rightarrow> u16 \<times> u16" where
  "dominant_run samples =
     fold (\<lambda>byte st. fold (\<lambda>shift (best, run).
         if drop_bit shift byte AND 1 = 0
         then (let run = saturating_add run 1 in (if run > best then run else best, run))
         else (best, 0)) (rev [0..<8]) st) samples (0, 0)"

definition longest_dominant_run_ticks :: "RxCompletedEvent \<Rightarrow> u16" where
  "longest_dominant_run_ticks ev = fst (dominant_run (take (min (unat (ev_sample_count ev)) 64) (ev_samples ev)))"

definition is_line_held :: "RxCompletedEvent \<Rightarrow> bool" where
  "is_line_held ev \<longleftrightarrow> longest_dominant_run_ticks ev \<ge> 24"

end
