(* ===== verification/Overlap.thy ===== *)
theory Overlap
  imports Manchester Fleet
begin

text \<open>
  Overlapping answers: several gear answer one frame, a little apart, and the transport decodes what the
  line shows (\<open>dali2rust-dali-codec/src/overlap.rs\<close>, and \<open>merged_on_the_wire\<close> of
  \<open>dali2rust-adapters/src/dali/transport/sim.rs\<close>). The decoder may read one clean byte or a violation;
  the line is never dominant long enough to be taken for a power-down. Times are nanoseconds: the \<open>u64\<close>
  values of the sources stay below \<open>2 ^ 27\<close> and are natural numbers here.
\<close>

section \<open>The line under overlapping answers\<close>

record OverlappingAnswer =
  oa_value :: u8
  oa_start_ns :: nat

definition HALF_BIT_NS :: nat where "HALF_BIT_NS = 416667"
definition TICK_NS :: nat where "TICK_NS = 104000"

definition half_bit_is_dominant :: "u8 \<Rightarrow> nat \<Rightarrow> bool" where
  "half_bit_is_dominant v hb =
     (let b = hb div 2; first_half = (hb mod 2 = 0); one = (b = 0 \<or> drop_bit (8 - b) v AND 1 = 1)
      in one = first_half)"

definition answer_is_dominant :: "OverlappingAnswer \<Rightarrow> nat \<Rightarrow> bool" where
  "answer_is_dominant a at =
     (if at < oa_start_ns a then False
      else let hb = (at - oa_start_ns a) div HALF_BIT_NS in hb < 18 \<and> half_bit_is_dominant (oa_value a) hb)"

definition line_is_dominant :: "OverlappingAnswer list \<Rightarrow> nat \<Rightarrow> bool" where
  "line_is_dominant as at = list_ex (\<lambda>a. answer_is_dominant a at) as"

definition last_dominant_ns :: "OverlappingAnswer list \<Rightarrow> nat" where
  "last_dominant_ns as = fold max (map (\<lambda>a. oa_start_ns a + 18 * HALF_BIT_NS) as) 0"

function first_dominant_from :: "OverlappingAnswer list \<Rightarrow> nat \<Rightarrow> nat \<Rightarrow> nat option" where
  "first_dominant_from as phase k =
     (if phase + k * TICK_NS \<le> last_dominant_ns as
      then if line_is_dominant as (phase + k * TICK_NS) then Some k else first_dominant_from as phase (k + 1)
      else None)"
  by auto
termination
  by (relation "measure (\<lambda>(as, phase, k). last_dominant_ns as + 1 - (phase + k * TICK_NS))") (simp_all add: TICK_NS_def)

declare first_dominant_from.simps [simp del]

definition first_dominant_tick :: "OverlappingAnswer list \<Rightarrow> nat \<Rightarrow> nat option" where
  "first_dominant_tick as phase = first_dominant_from as phase 0"

definition set_recessive :: "nat \<Rightarrow> RxCompletedEvent \<Rightarrow> RxCompletedEvent" where
  "set_recessive t ev =
     (let byte = t div 8; shift = 8 - 1 - t mod 8 in
      if byte < length (ev_samples ev)
      then ev\<lparr>ev_samples := (ev_samples ev)[byte := ev_samples ev ! byte OR push_bit shift 1]\<rparr> else ev)"

text \<open>The recording loop: it ends with the buffer or after sixteen recessive ticks.\<close>

function record_ticks :: "OverlappingAnswer list \<Rightarrow> nat \<Rightarrow> nat \<Rightarrow> nat \<Rightarrow> nat \<Rightarrow> RxCompletedEvent \<Rightarrow> nat \<times> RxCompletedEvent" where
  "record_ticks as phase first recorded recessive_run ev =
     (if recorded < 64 * 8 \<and> recessive_run < 16 then
        (let at = phase + (first + recorded) * TICK_NS in
         if line_is_dominant as at then record_ticks as phase first (recorded + 1) 0 ev
         else record_ticks as phase first (recorded + 1) (recessive_run + 1) (set_recessive recorded ev))
      else (recorded, ev))"
  by auto
termination
  by (relation "measure (\<lambda>(as, phase, first, recorded, run, ev). 512 - recorded)") auto

declare record_ticks.simps [simp del]

definition overlapping_backward_capture :: "OverlappingAnswer list \<Rightarrow> nat \<Rightarrow> RxCompletedEvent" where
  "overlapping_backward_capture as phase =
     (let ev = rx_completed_new\<lparr>ev_pre_idle_ticks := 70\<rparr> in
      case first_dominant_tick as phase of
        None \<Rightarrow> ev
      | Some first \<Rightarrow>
          (case record_ticks as phase first 0 0 ev of (recorded, ev) \<Rightarrow>
             ev\<lparr>ev_sample_count := word_of_nat ((recorded + 7) div 8)\<rparr>))"

section \<open>The outcome of an exchange\<close>

definition held_capture_outcome :: "u16 \<Rightarrow> TransferOutcome" where
  "held_capture_outcome dominant_run_ticks =
     (if dominant_run_ticks \<ge> 433 then TransferOutcome.BusBusy else CorruptedInWindow)"

definition answer_offset_ns :: "Rng \<Rightarrow> nat \<times> Rng" where
  "answer_offset_ns r = (case next_u32 r of (x, r) \<Rightarrow> (unat (x mod 1000000), r))"

fun offset_answers :: "u8 list \<Rightarrow> Rng \<Rightarrow> OverlappingAnswer list \<times> Rng" where
  "offset_answers [] r = ([], r)"
| "offset_answers (v # vs) r =
     (case answer_offset_ns r of (start, r) \<Rightarrow>
        case offset_answers vs r of (as, r) \<Rightarrow> (\<lparr>oa_value = v, oa_start_ns = start\<rparr> # as, r))"

text \<open>A capture always decodes (\<open>search_ends\<close> in theory \<open>Line_Code\<close>); the outer option is the phase search.\<close>

definition merged_on_the_wire :: "u8 list \<Rightarrow> TransferOutcome \<Rightarrow> Rng \<Rightarrow> TransferOutcome \<times> Rng" where
  "merged_on_the_wire values oc r =
     (if oc \<noteq> CorruptedInWindow \<or> length values < 2 then (oc, r)
      else
        (case offset_answers (tl values) r of (as, r) \<Rightarrow>
         case next_u32 r of (x, r) \<Rightarrow>
           (let as = \<lparr>oa_value = hd values, oa_start_ns = 0\<rparr> # as;
                ev = overlapping_backward_capture as (unat (x mod 104000))
            in (case decode_backward_byte ev of
                  Some (Some v) \<Rightarrow> TransferOutcome.Answer v
                | _ \<Rightarrow> held_capture_outcome (longest_dominant_run_ticks ev), r))))"

section \<open>What is read of overlapping answers\<close>

lemma recorded_bound:
  assumes "\<And>i. D \<le> i \<Longrightarrow> \<not> line_is_dominant as (phase + (first + i) * TICK_NS)" "run \<le> 16" "recorded \<le> D + run"
  shows "fst (record_ticks as phase first recorded run ev) \<le> D + 16"
  using assms(2,3)
proof (induction "512 - recorded" arbitrary: recorded run ev rule: less_induct)
  case less
  show ?case
  proof (cases "recorded < 512 \<and> run < 16")
    case go: True
    then have shorter: "512 - (recorded + 1) < 512 - recorded"
      by linarith
    show ?thesis
    proof (cases "line_is_dominant as (phase + (first + recorded) * TICK_NS)")
      case True
      then have "recorded < D"
        using assms(1) [of recorded] by (meson not_less)
      then have "fst (record_ticks as phase first (recorded + 1) 0 ev) \<le> D + 16"
        by (intro less.hyps shorter) simp_all
      with go True show ?thesis
        by (subst record_ticks.simps) simp
    next
      case False
      have "fst (record_ticks as phase first (recorded + 1) (run + 1) (set_recessive recorded ev)) \<le> D + 16"
        using go less.prems by (intro less.hyps shorter) simp_all
      with go False show ?thesis
        by (subst record_ticks.simps) simp
    qed
  next
    case False
    with less.prems show ?thesis
      by (subst record_ticks.simps) auto
  qed
qed

lemma dominant_ends:
  assumes "\<forall>a\<in>set as. oa_start_ns a \<le> 1000000" "82 \<le> i"
  shows "\<not> line_is_dominant as (phase + (first + i) * TICK_NS)"
proof -
  have "\<not> answer_is_dominant a (phase + (first + i) * TICK_NS)" if "a \<in> set as" for a
  proof -
    have "82 * TICK_NS \<le> i * TICK_NS"
      using assms(2) by simp
    then have "8528000 \<le> phase + (first + i) * TICK_NS"
      unfolding add_mult_distrib by (simp add: TICK_NS_def)
    then have "18 * HALF_BIT_NS \<le> phase + (first + i) * TICK_NS - oa_start_ns a"
      using assms(1) that by (auto simp: HALF_BIT_NS_def)
    then have "18 \<le> (phase + (first + i) * TICK_NS - oa_start_ns a) div HALF_BIT_NS"
      by (simp add: less_eq_div_iff_mult_less_eq HALF_BIT_NS_def)
    then show ?thesis
      by (simp add: answer_is_dominant_def Let_def)
  qed
  then show ?thesis
    by (simp add: line_is_dominant_def list_ex_iff)
qed

lemma capture_short:
  assumes "\<forall>a\<in>set as. oa_start_ns a \<le> 1000000"
  shows "unat (ev_sample_count (overlapping_backward_capture as phase)) \<le> 13"
proof (cases "first_dominant_tick as phase")
  case None
  then show ?thesis
    by (simp add: overlapping_backward_capture_def rx_completed_new_def)
next
  case (Some first)
  define ev where "ev = rx_completed_new\<lparr>ev_pre_idle_ticks := 70\<rparr>"
  obtain n e where r: "record_ticks as phase first 0 0 ev = (n, e)"
    by (cases "record_ticks as phase first 0 0 ev")
  have "fst (record_ticks as phase first 0 0 ev) \<le> 82 + 16"
    using dominant_ends [OF assms] by (intro recorded_bound) simp_all
  then have "n \<le> 98"
    by (simp add: r)
  then have "(n + 7) div 8 \<le> 13"
    by simp
  then have "unat (word_of_nat ((n + 7) div 8) :: u16) \<le> 13"
    by (simp add: unat_of_nat)
  with Some r show ?thesis
    by (simp add: overlapping_backward_capture_def ev_def [symmetric])
qed

text \<open>A run of dominant ticks is no longer than what was sampled.\<close>

definition run_step :: "u8 \<Rightarrow> nat \<Rightarrow> u16 \<times> u16 \<Rightarrow> u16 \<times> u16" where
  "run_step byte shift = (\<lambda>(best, run).
     if drop_bit shift byte AND 1 = 0
     then (let run = saturating_add run 1 in (if run > best then run else best, run))
     else (best, 0))"

definition run_within :: "nat \<Rightarrow> u16 \<times> u16 \<Rightarrow> bool" where
  "run_within n p \<longleftrightarrow> unat (fst p) \<le> n \<and> unat (snd p) \<le> n"

lemma run_step_within: "run_within n p \<Longrightarrow> run_within (Suc n) (run_step byte shift p)"
  by (cases p) (auto simp: run_within_def run_step_def Let_def unat_saturating_add)

lemma run_byte_within: "run_within n p \<Longrightarrow> run_within (length shifts + n) (fold (run_step byte) shifts p)"
proof (induction shifts arbitrary: n p)
  case (Cons shift shifts)
  from Cons.IH [OF run_step_within [OF Cons.prems]] show ?case
    by simp
qed simp

lemma dominant_run_step: "dominant_run samples = fold (\<lambda>byte. fold (run_step byte) (rev [0..<8])) samples (0, 0)"
  unfolding dominant_run_def run_step_def by (rule refl)

lemma dominant_run_within: "run_within n p \<Longrightarrow>
  run_within (8 * length samples + n) (fold (\<lambda>byte. fold (run_step byte) (rev [0..<8])) samples p)"
proof (induction samples arbitrary: n p)
  case (Cons byte samples)
  from Cons.IH [OF run_byte_within [OF Cons.prems, of "rev [0..<8]" byte]] show ?case
    by (simp add: ac_simps)
qed simp

lemma longest_run_bound: "unat (longest_dominant_run_ticks ev) \<le> 8 * unat (ev_sample_count ev)"
proof -
  define xs where "xs = take (min (unat (ev_sample_count ev)) 64) (ev_samples ev)"
  have "run_within (8 * length xs + 0) (dominant_run xs)"
    unfolding dominant_run_step by (rule dominant_run_within) (simp add: run_within_def)
  moreover have "length xs \<le> unat (ev_sample_count ev)"
    by (simp add: xs_def)
  ultimately show ?thesis
    unfolding longest_dominant_run_ticks_def xs_def [symmetric] run_within_def by linarith
qed

lemma capture_not_held:
  assumes "\<forall>a\<in>set as. oa_start_ns a \<le> 1000000"
  shows "held_capture_outcome (longest_dominant_run_ticks (overlapping_backward_capture as phase)) = CorruptedInWindow"
proof -
  have "unat (longest_dominant_run_ticks (overlapping_backward_capture as phase)) \<le> 104"
    using longest_run_bound [of "overlapping_backward_capture as phase"] capture_short [OF assms, of phase] by linarith
  then show ?thesis
    by (simp add: held_capture_outcome_def word_le_nat_alt)
qed

lemma offsets_small: "\<forall>a\<in>set (fst (offset_answers vs r)). oa_start_ns a \<le> 1000000"
proof (induction vs arbitrary: r)
  case (Cons v vs)
  have "unat (x mod 1000000) \<le> 1000000" for x :: u32
    by (simp add: unat_mod_distrib less_imp_le)
  then have "\<forall>a\<in>set (fst (offset_answers (v # vs) r)). oa_start_ns a \<le> 1000000"
    using Cons [of "snd (next_u32 r)"] by (simp add: answer_offset_ns_def case_prod_beta)
  then show ?case .
qed simp

text \<open>What the wire makes of an outcome: the same, or for a violation one clean byte.\<close>

definition read_as :: "TransferOutcome \<Rightarrow> TransferOutcome \<Rightarrow> bool" where
  "read_as oc oc' \<longleftrightarrow> oc' = oc \<or> oc = CorruptedInWindow \<and> (\<exists>v. oc' = TransferOutcome.Answer v)"

lemma merged_read_as: "read_as oc (fst (merged_on_the_wire values oc r))"
proof (cases "oc \<noteq> CorruptedInWindow \<or> length values < 2")
  case False
  obtain as r1 where as: "offset_answers (tl values) r = (as, r1)"
    by (cases "offset_answers (tl values) r")
  then have "\<forall>a\<in>set (\<lparr>oa_value = hd values, oa_start_ns = 0\<rparr> # as). oa_start_ns a \<le> 1000000"
    using offsets_small [of "tl values" r] by simp
  note held = capture_not_held [OF this]
  show ?thesis
    using False by (auto simp: merged_on_the_wire_def as held read_as_def Let_def split: prod.split option.split)
qed (simp add: merged_on_the_wire_def read_as_def)

lemma merged_clean: "oc \<noteq> CorruptedInWindow \<Longrightarrow> merged_on_the_wire values oc r = (oc, r)"
  by (simp add: merged_on_the_wire_def)

text \<open>C33. However many gear answer at once and however their answers overlap, the transport reads the
  outcome of the exchange, or for overlapping answers a single byte: it never takes the line for held, since
  the overlap of the longest answers ends before a power-down would be seen.\<close>

theorem overlap_never_held:
  "fst (merged_on_the_wire vs oc r) = oc \<or>
   oc = CorruptedInWindow \<and> (\<exists>v. fst (merged_on_the_wire vs oc r) = TransferOutcome.Answer v)"
  using merged_read_as [of oc vs r] by (auto simp: read_as_def)

end
