(* ===== verification/Fleet_Wire.thy ===== *)
theory Fleet_Wire
  imports Commissioning Fleet Overlap
begin

text \<open>
  The controller on a line of modelled gear: a wire whose transfers are the exchanges of
  \<open>GearFleet\<close>, as \<open>SimDaliTransport::record_and_exchange\<close> in
  \<open>dali2rust-adapters/src/dali/transport/sim.rs\<close> performs them. A transfer takes no time,
  sleeping advances the clock, and several answers at once are read as their overlap decodes.
  Left out are the log of sent frames and the gauges of the wire load, which nothing reads back.
  The 24-bit frames of the source go to input devices, which are not modelled: here the wire has
  none. The other optional \<open>DaliTransport\<close> methods have their trait defaults: no foreign
  activity, no settling of its own.
\<close>

record FleetWorld =
  fleet :: GearFleet
  elapsed_us :: nat
  overlap_rng :: Rng

definition OVERLAP_RNG_SEED :: u32 where "OVERLAP_RNG_SEED = 0x01245EED"

definition world_new :: "GearFleet \<Rightarrow> FleetWorld" where
  "world_new fl = \<lparr>fleet = fl, elapsed_us = 0, overlap_rng = rng_new OVERLAP_RNG_SEED\<rparr>"

definition fleet_clock :: "FleetWorld \<Rightarrow> u64" where
  "fleet_clock w = word_of_nat (min (elapsed_us w div 1000) (2 ^ 64 - 1))"

definition deliver :: "u16 \<Rightarrow> bool \<Rightarrow> FleetWorld \<Rightarrow> TransferOutcome \<times> FleetWorld" where
  "deliver frame expects w =
     (case exchange frame expects (advance_to_ms (fleet_clock w) (fleet w)) of (oc, fl) \<Rightarrow>
        case merged_on_the_wire (answers fl) oc (overlap_rng w) of (oc, r) \<Rightarrow>
          (oc, w\<lparr>fleet := fl, overlap_rng := r\<rparr>))"

definition fleet_io :: "FleetWorld Wire" where
  "fleet_io =
     \<lparr>clock_ms = fleet_clock,
      sleep_us = (\<lambda>us w. w\<lparr>elapsed_us := elapsed_us w + us\<rparr>),
      xfer16 = (\<lambda>frame expects settle w. case deliver frame expects w of (oc, w) \<Rightarrow> (Some oc, w)),
      xfer24 = (\<lambda>frame expects settle w. (None, w)),
      foreign_activity = (\<lambda>w. 0),
      tx_settle_ticks = (\<lambda>w. None),
      frame24_supported = (\<lambda>w. False),
      arrival_tickets = (\<lambda>w. [0, 0])\<rparr>"

section \<open>A controller nobody interrupts\<close>

definition quiet :: "'w DaliController \<Rightarrow> bool" where
  "quiet c \<longleftrightarrow> hold c = None \<and> lease c = None \<and> unit_broken_by c = None"

named_theorems quiet_simps \<open>the controller's bookkeeping leaves the world and its quiet alone\<close>

lemma quiet_counted [quiet_simps]: "quiet (counted f c) = quiet c" "world (counted f c) = world c"
  by (simp_all add: quiet_def counted_def unit_broken_by_def)

lemma quiet_credit [quiet_simps]:
  "quiet (credit_natural_release io c) = quiet c" "world (credit_natural_release io c) = world c"
  by (simp_all add: credit_natural_release_def quiet_def unit_broken_by_def)

lemma quiet_jitter [quiet_simps]:
  "quiet (snd (next_retry_jitter c)) = quiet c" "world (snd (next_retry_jitter c)) = world c"
  by (simp_all add: next_retry_jitter_def Let_def quiet_def unit_broken_by_def)

lemma quiet_settle [quiet_simps]:
  "quiet (snd (next_settle io c)) = quiet c" "world (snd (next_settle io c)) = world c"
  by (simp_all add: next_settle_def random_settle_within_def Let_def case_prod_beta quiet_simps)
    (simp_all add: quiet_def unit_broken_by_def)

lemma quiet_wait [quiet_simps]:
  "quiet (session_wait io us c) = quiet c"
  by (simp add: session_wait_def Let_def sleep_def quiet_def unit_broken_by_def)

lemma quiet_note_frame [quiet_simps]:
  "quiet (note_frame_transmitted io oc p c) = quiet c" "world (note_frame_transmitted io oc p c) = world c"
  by (auto simp: note_frame_transmitted_def note_outcome_counter_def note_settle_window_def note_unit_started_def
      counted_def Let_def quiet_def unit_broken_by_def split: TransferOutcome.splits option.splits)

lemma quiet_tx [quiet_simps]:
  "quiet (tx_open ex c) = quiet c" "world (tx_open ex c) = world c"
  "quiet (tx_close c) = quiet c" "world (tx_close c) = world c"
  by (simp_all add: tx_open_def tx_close_def close_outermost_def counted_def Let_def quiet_def unit_broken_by_def)

lemma quiet_boundary [quiet_simps]: "quiet (c\<lparr>at_step_boundary := b\<rparr>) = quiet c"
  by (simp add: quiet_def unit_broken_by_def)

lemma quiet_world [quiet_simps]: "quiet (c\<lparr>world := w\<rparr>) = quiet c"
  by (simp add: quiet_def unit_broken_by_def)

lemma quiet_free: "quiet c \<Longrightarrow> held_by c = None" "quiet c \<Longrightarrow> \<not> must_yield io c"
  by (simp_all add: quiet_def held_by_def must_yield_def)

section \<open>What the line answers\<close>

definition settled :: "TransferOutcome \<Rightarrow> bool" where
  "settled oc \<longleftrightarrow> oc \<noteq> TransferOutcome.Collision \<and> oc \<noteq> TransferOutcome.BusBusy \<and> oc \<noteq> ForeignInWindow"

lemma settled_simps [simp]:
  "settled TransferOutcome.NoAnswer" "settled (TransferOutcome.Answer v)" "settled CorruptedInWindow"
  by (simp_all add: settled_def)

lemma settled_merge [simp]: "settled (merge_answers as)"
  by (cases as rule: merge_answers.cases) simp_all

lemma settled_publish [simp]: "settled (fst (publish as fl))" "settled (fst (publish_none fl))"
  by (simp_all add: publish_def publish_none_def)

lemma settled_special: "settled (fst (on_special s fl))"
  by (cases s)
    (simp_all add: on_special_def on_memory_write_def on_compare_def verify_short_def query_selected_short_def Let_def)

lemma settled_standard: "settled (fst (on_standard a s fl))"
  by (simp add: on_standard_def standard_query_def Let_def case_prod_beta)

lemma settled_dt8: "settled (fst (on_extended_dt8 a opc e armed fl))"
  by (cases armed) (simp_all add: on_extended_dt8_def on_dt8_def on_dt8_query_def dt8_color_value_reply_def
      constant_reply_def Let_def)

lemma settled_dt6_failure: "dt6_failure_query a opc fl = Some r \<Longrightarrow> settled (fst r)"
  by (auto simp: dt6_failure_query_def constant_reply_def Let_def split: option.split_asm if_split_asm)

lemma settled_dt6: "settled (fst (on_extended_dt6 a opc e fl))"
  by (cases "dt6_failure_query a opc fl")
    (simp_all add: on_extended_dt6_def constant_reply_def settled_dt6_failure)

lemma settled_dt7: "settled (fst (on_extended_dt7 a opc e fl))"
  by (cases "dt7_from_opcode opc") (simp_all add: on_extended_dt7_def)

lemma settled_rest: "settled (fst (on_dapc a l fl))" "settled (fst (on_read_memory_location a fl))"
  by (simp_all add: on_dapc_def on_read_memory_location_def Let_def)

lemmas settled_handlers = settled_special settled_standard settled_dt6 settled_dt7 settled_dt8 settled_rest

lemma settled_exchange: "settled (fst (exchange f e fl))"
proof (cases "decode_frame f")
  case None
  then show ?thesis
    by (simp add: exchange_def Let_def case_prod_beta settled_handlers split: sum.split)
next
  case (Some cmd)
  then show ?thesis
    by (cases cmd) (simp_all add: exchange_def Let_def case_prod_beta settled_handlers split: sum.split)
qed

lemma deliver_exchange:
  assumes "deliver f e w = (oc', w')"
  obtains oc where "exchange f e (advance_to_ms (fleet_clock w) (fleet w)) = (oc, fleet w')" "read_as oc oc'"
    "elapsed_us w' = elapsed_us w"
proof -
  obtain oc fl where fl: "exchange f e (advance_to_ms (fleet_clock w) (fleet w)) = (oc, fl)"
    by (cases "exchange f e (advance_to_ms (fleet_clock w) (fleet w))")
  have "oc' = fst (merged_on_the_wire (answers fl) oc (overlap_rng w))" "fleet w' = fl" "elapsed_us w' = elapsed_us w"
    using assms by (auto simp: deliver_def fl split: prod.split_asm)
  with fl that merged_read_as show thesis
    by blast
qed

lemma read_as_settled: "read_as oc oc' \<Longrightarrow> settled oc \<Longrightarrow> settled oc'"
  by (auto simp: read_as_def)

lemma read_as_yes: "read_as oc oc' \<Longrightarrow> is_yes (response_from_outcome oc') = is_yes (response_from_outcome oc)"
  by (auto simp: read_as_def response_from_outcome_def)

lemma settled_deliver: "settled (fst (deliver f e w))"
proof -
  obtain oc' w' where d: "deliver f e w = (oc', w')"
    by (cases "deliver f e w")
  from deliver_exchange [OF this] obtain oc where
    "exchange f e (advance_to_ms (fleet_clock w) (fleet w)) = (oc, fleet w')" "read_as oc oc'"
    by blast
  with settled_exchange [of f e "advance_to_ms (fleet_clock w) (fleet w)"] show ?thesis
    by (auto simp: d intro: read_as_settled)
qed

section \<open>One frame, one exchange\<close>

definition later :: "nat \<Rightarrow> FleetWorld \<Rightarrow> FleetWorld" where
  "later d w = w\<lparr>elapsed_us := elapsed_us w + d\<rparr>"

lemma session_wait_fleet: "\<exists>d. world (session_wait fleet_io us c) = later d (world c)"
proof (cases "transport_honours_settle c \<or> min_wait_before_next (session c) us (now_of fleet_io c) = 0")
  case True
  then have "world (session_wait fleet_io us c) = later 0 (world c)"
    by (auto simp: session_wait_def later_def Let_def)
  then show ?thesis ..
qed (auto simp: session_wait_def sleep_def later_def fleet_io_def Let_def)

definition heard_outcome :: "bool \<Rightarrow> TransferOutcome \<Rightarrow> TransferOutcome" where
  "heard_outcome expects oc = (if \<not> expects \<and> oc = CorruptedInWindow then TransferOutcome.NoAnswer else oc)"

lemma resolve_settled:
  "settled oc \<Longrightarrow> resolve_exchange_outcome io \<lparr>obs_outcome = oc, contended = False\<rparr> e a n (Forward16 f) c
     = (Ok (Some (heard_outcome e oc)), c)"
  by (cases oc) (simp_all add: resolve_exchange_outcome_def should_retry_contended_query_no_answer_def
      settled_def heard_outcome_def)

lemma exchange_attempts_fleet:
  assumes "quiet c"
  shows "\<exists>d c'. exchange_attempts fleet_io (Forward16 f) e n False a (Suc m) c
        = (Ok \<lparr>obs_outcome = heard_outcome e (fst (deliver (raw f) e (later d (world c)))), contended = False\<rparr>, c')
      \<and> quiet c' \<and> world c' = snd (deliver (raw f) e (later d (world c)))"
proof -
  define c1 where "c1 = credit_natural_release fleet_io (c\<lparr>at_step_boundary := False\<rparr>)"
  obtain p us c2 where c2: "next_settle fleet_io c1 = ((p, us), c2)"
    by (metis prod.exhaust)
  have "quiet c2 = quiet c1" "world c2 = world c1"
    using quiet_settle [of fleet_io c1] by (simp_all add: c2)
  then have q2: "quiet c2" "world c2 = world c"
    using assms by (simp_all add: c1_def quiet_simps)
  define c3 where "c3 = session_wait fleet_io us c2"
  obtain d where d: "world c3 = later d (world c)"
    using session_wait_fleet [of us c2] q2 by (auto simp: c3_def)
  define oc where "oc = fst (deliver (raw f) e (later d (world c)))"
  define c4 where "c4 = c3\<lparr>world := snd (deliver (raw f) e (later d (world c)))\<rparr>"
  have sent: "perform_exchange fleet_io (Forward16 f) e us c3 = (Ok \<lparr>obs_outcome = oc, contended = False\<rparr>, c4)"
    by (simp add: perform_exchange_def fleet_io_def d oc_def c4_def case_prod_beta)
  define c5 where "c5 = note_frame_transmitted fleet_io oc p c4"
  have "exchange_attempts fleet_io (Forward16 f) e n False a (Suc m) c
      = (Ok \<lparr>obs_outcome = heard_outcome e oc, contended = False\<rparr>, c5)"
    using assms settled_deliver [of "raw f" e "later d (world c)"]
    by (simp add: quiet_free Let_def c1_def [symmetric] c2 c3_def [symmetric] sent c5_def [symmetric]
        resolve_settled oc_def [symmetric])
  moreover have "quiet c5" "world c5 = snd (deliver (raw f) e (later d (world c)))"
    using q2 by (simp_all add: c5_def c4_def c3_def quiet_simps)
  ultimately show ?thesis
    by (auto simp: oc_def)
qed

section \<open>One command, its frames\<close>

text \<open>The frame reaches the line some time later, and \<open>r\<close> is what the controller hears.\<close>

definition delivers :: "bool \<Rightarrow> ForwardFrame \<Rightarrow> FleetWorld \<Rightarrow> DaliResponse \<Rightarrow> FleetWorld \<Rightarrow> bool" where
  "delivers e f w r w' \<longleftrightarrow> (\<exists>d. w' = snd (deliver (raw f) e (later d w)) \<and>
     r = response_from_outcome (heard_outcome e (fst (deliver (raw f) e (later d w)))))"

lemma exchange_with_attempts_fleet:
  assumes "quiet c" "0 < unat n"
  shows "\<exists>oc c'. exchange_with_attempts fleet_io (Forward16 f) e n c
        = (Ok \<lparr>obs_outcome = oc, contended = False\<rparr>, c')
      \<and> quiet c' \<and> delivers e f (world c) (response_from_outcome oc) (world c')"
proof -
  obtain m where m: "unat n = Suc m"
    using assms(2) by (cases "unat n") auto
  have "unit_broken_by c = None"
    using assms(1) by (simp add: quiet_def)
  then show ?thesis
    using exchange_attempts_fleet [OF assms(1), of f e n 0 m]
    by (fastforce simp: exchange_with_attempts_def m delivers_def simp del: exchange_attempts.simps)
qed

lemma exchange_once_fleet:
  assumes "quiet c"
  shows "\<exists>r c'. exchange_once fleet_io f e c = (Ok (r, False), c')
      \<and> quiet c' \<and> delivers e f (world c) r (world c')"
  using exchange_with_attempts_fleet [OF assms, of 1 f e] by (auto simp: exchange_once_def andThen_def)

lemma judge_fleet: "judge_send_twice_interval fleet_io c = (Ok (), c)"
  by (simp add: judge_send_twice_interval_def fleet_io_def)

definition sends :: "ForwardFrame option \<Rightarrow> ForwardFrame \<Rightarrow> bool \<Rightarrow> bool \<Rightarrow> FleetWorld \<Rightarrow> DaliResponse \<Rightarrow> FleetWorld \<Rightarrow> bool" where
  "sends enable f e repeats w r w' \<longleftrightarrow>
     (\<exists>w1. (case enable of None \<Rightarrow> w1 = w | Some en \<Rightarrow> \<exists>r0. delivers False en w r0 w1) \<and>
       (if repeats then \<exists>r1 w2. delivers e f w1 r1 w2 \<and> delivers e f w2 r w' else delivers e f w1 r w'))"

lemma try_unit_fleet:
  assumes "quiet c"
  shows "\<exists>r c'. try_unit_once fleet_io enable f e repeats c = (Ok (r, False), c')
      \<and> quiet c' \<and> sends enable f e repeats (world c) r (world c')"
proof -
  obtain c1 where c1: "(case enable of Some en \<Rightarrow> andThen (exchange_once fleet_io en False) (\<lambda>r. pass (snd r)) | None \<Rightarrow> pass False) c
        = (Ok False, c1)" "quiet c1"
      "case enable of None \<Rightarrow> world c1 = world c | Some en \<Rightarrow> \<exists>r0. delivers False en (world c) r0 (world c1)"
    using that assms exchange_once_fleet [OF assms, of "the enable" False]
    by (cases enable) (auto simp: andThen_def, blast)
  obtain r1 c2 where c2: "exchange_once fleet_io f e c1 = (Ok (r1, False), c2)" "quiet c2"
      "delivers e f (world c1) r1 (world c2)"
    using exchange_once_fleet [OF c1(2)] by blast
  obtain r2 c3 where c3: "exchange_once fleet_io f e c2 = (Ok (r2, False), c3)" "quiet c3"
      "delivers e f (world c2) r2 (world c3)"
    using exchange_once_fleet [OF c2(2)] by blast
  show ?thesis
  proof (cases repeats)
    case True
    then have "try_unit_once fleet_io enable f e repeats c = (Ok (r2, False), c3)"
      by (simp add: try_unit_once_def andThen_def c1(1) c2(1) c3(1) judge_fleet)
    then show ?thesis
      using c1 c2 c3 True unfolding sends_def by auto
  next
    case False
    then have "try_unit_once fleet_io enable f e repeats c = (Ok (r1, False), c2)"
      by (simp add: try_unit_once_def andThen_def c1(1) c2(1))
    then show ?thesis
      using c1 c2 False unfolding sends_def by auto
  qed
qed

lemma attempts_here_pos: "0 < unat (attempts_here c (effective_max_attempts p))"
  by (simp add: attempts_here_def effective_max_attempts_def unat_gt_0)

lemma send_unit_fleet:
  assumes "quiet c"
  shows "\<exists>r c'. send_unit fleet_io enable f e repeats c = (Ok (r, False), c')
      \<and> quiet c' \<and> sends enable f e repeats (world c) r (world c')"
proof -
  obtain m where "unat (attempts_here c (effective_max_attempts (retry_policy c))) = Suc m"
    using attempts_here_pos gr0_implies_Suc by blast
  then show ?thesis
    using try_unit_fleet [OF assms, of enable f e repeats] by (auto simp: send_unit_def)
qed

lemma run_transaction_quiet:
  assumes "run (tx_open ex c) = (r, c1)" "quiet c1"
  shows "run_transaction ex run c = (r, tx_close c1)" "quiet (tx_close c1)" "world (tx_close c1) = world c1"
  using assms by (simp_all add: run_transaction_def quiet_simps)

definition enable_frame :: "DaliCommand \<Rightarrow> ForwardFrame option" where
  "enable_frame cmd = (case cmd of
     Extended _ command \<Rightarrow> Some (special_forward_frame (EnableDeviceType (enable_device_type command))) | _ \<Rightarrow> None)"

lemma send_command_observed_fleet:
  assumes "quiet c"
  shows "\<exists>r c'. send_command_observed fleet_io cmd c = (Ok (response_if_expected r (is_query cmd), False), c')
      \<and> quiet c' \<and> sends (enable_frame cmd) (to_forward_frame cmd) (is_query cmd) (requires_repeat cmd) (world c) r (world c')"
proof -
  obtain r c1 where c1: "send_unit fleet_io (enable_frame cmd) (to_forward_frame cmd) (is_query cmd) (requires_repeat cmd)
        (tx_open False c) = (Ok (r, False), c1)" "quiet c1"
      "sends (enable_frame cmd) (to_forward_frame cmd) (is_query cmd) (requires_repeat cmd) (world c) r (world c1)"
    using send_unit_fleet [of "tx_open False c" "enable_frame cmd" "to_forward_frame cmd" "is_query cmd" "requires_repeat cmd"]
      assms by (auto simp: quiet_simps)
  then show ?thesis
    by (auto simp: send_command_observed_def run_transaction_def andThen_def enable_frame_def [symmetric] Let_def
        quiet_simps)
qed

lemma send_command_fleet:
  assumes "quiet c"
  shows "\<exists>r c'. send_command fleet_io cmd c = (Ok (response_if_expected r (is_query cmd)), c')
      \<and> quiet c' \<and> sends (enable_frame cmd) (to_forward_frame cmd) (is_query cmd) (requires_repeat cmd) (world c) r (world c')"
  using send_command_observed_fleet [OF assms, of cmd] by (auto simp: send_command_def andThen_def)

end
