(* ===== verification/Line_View.thy ===== *)
theory Line_View
  imports Fleet_Wire
begin

text \<open>
  What commissioning sees of a line of gear: for every gear its station (takes part, withdrawn,
  pending random address, specification), and the shared search address. The lemmas give the
  effect of each addressing command of the fleet on the stations.
\<close>

record Station =
  st_enabled :: bool
  st_initialise :: bool
  st_withdrawn :: bool
  st_pending :: "PendingRandom option"
  st_drop :: u16
  st_spec :: GearSpec

definition station :: "Gear \<Rightarrow> Station" where
  "station g = \<lparr>st_enabled = enabled g, st_initialise = initialise g, st_withdrawn = withdrawn g,
     st_pending = pending_random g, st_drop = drop_answer_permille (faults g), st_spec = spec g\<rparr>"

definition stations :: "GearFleet \<Rightarrow> Station list" where
  "stations fl = map station (gears fl)"

abbreviation search_of :: "GearFleet \<Rightarrow> u32" where
  "search_of fl \<equiv> search_address (regs fl)"

abbreviation armed_of :: "GearFleet \<Rightarrow> (u8 \<times> u64) option" where
  "armed_of fl \<equiv> enabled_device_type (regs fl)"

section \<open>Frames on the line\<close>

lemma frame_bytes:
  "ucast (drop_bit 8 (raw (forward_new w c))) = w" "ucast (raw (forward_new w c)) = c"
  by (rule bit_word_eqI, force simp: forward_new_def bit_simps dest: bit_imp_le_length)+

lemma frame_of_bytes: "\<exists>w c. f = forward_new w c"
proof (cases f)
  case (ForwardFrame x)
  have "x = push_bit 8 (ucast (ucast (drop_bit 8 x) :: u8)) OR ucast (ucast x :: u8)"
    by (rule bit_word_eqI) (auto simp: bit_simps)
  then show ?thesis
    by (auto simp: ForwardFrame forward_new_def)
qed

lemma decode_frame_canonical:
  assumes "canonical cmd"
  shows "decode_frame (raw (to_forward_frame cmd)) = Some cmd"
proof -
  obtain w c where wc: "to_forward_frame cmd = forward_new w c"
    using frame_of_bytes by blast
  then show ?thesis
    using decode_complete [OF assms wc, of 0] by (simp add: decode_frame_def frame_bytes wc)
qed

section \<open>Hearing leaves the stations alone\<close>

lemma stations_for_gears:
  "(\<And>g. station (f g) = station g) \<Longrightarrow> stations (for_gears sel f fl) = stations fl"
  by (simp add: stations_def for_gears_def)

lemma station_hear: "station (fst (hear_gear frame decoded repeats g)) = station g"
  by (simp add: hear_gear_def gear_hear_def hear_elsewhere_def cancel_device_type_walk_def station_def Let_def)

lemma fleet_hear_view:
  "stations (fleet_hear frame decoded repeats fl) = stations fl"
  "regs (fleet_hear frame decoded repeats fl) = regs fl"
  "reserved (fleet_hear frame decoded repeats fl) = reserved fl"
  "rng (fleet_hear frame decoded repeats fl) = rng fl"
  "now_ms (fleet_hear frame decoded repeats fl) = now_ms fl"
  by (simp_all add: fleet_hear_def stations_def Let_def station_hear comp_def)

lemma for_gears_rest [simp]:
  "regs (for_gears sel f fl) = regs fl" "reserved (for_gears sel f fl) = reserved fl"
  "rng (for_gears sel f fl) = rng fl" "now_ms (for_gears sel f fl) = now_ms fl"
  "frame_seq (for_gears sel f fl) = frame_seq fl"
  by (simp_all add: for_gears_def)

definition prepare :: "u16 \<Rightarrow> DaliCommand option \<Rightarrow> bool \<Rightarrow> GearFleet \<Rightarrow> GearFleet" where
  "prepare frame decoded repeats fl =
     (let fl = fleet_hear frame decoded repeats (fl\<lparr>frame_seq := saturating_add (frame_seq fl) 1\<rparr>)
      in if keeps_write_enabled decoded then fl else for_gears (\<lambda>_. True) (\<lambda>g. g\<lparr>write_enabled := False\<rparr>) fl)"

lemma prepare_view [simp]:
  "stations (prepare frame decoded repeats fl) = stations fl"
  "regs (prepare frame decoded repeats fl) = regs fl"
  "reserved (prepare frame decoded repeats fl) = reserved fl"
  "rng (prepare frame decoded repeats fl) = rng fl"
  "now_ms (prepare frame decoded repeats fl) = now_ms fl"
  by (simp_all add: prepare_def Let_def fleet_hear_view stations_for_gears station_def)
    (simp_all add: stations_def)

lemma exchange_special:
  assumes "armed_of fl = None"
  shows "exchange (raw (special_forward_frame s)) e fl
     = on_special s (prepare (raw (special_forward_frame s)) (Some (Special s)) (special_requires_repeat s) fl)"
proof -
  have "decode_frame (raw (special_forward_frame s)) = Some (Special s)"
    using decode_frame_canonical [of "Special s"] by simp
  then show ?thesis
    using assms by (simp add: exchange_def prepare_def requires_repeat_under_def fresh_device_type_def Let_def)
qed

lemma stations_identifying [simp]:
  "stations (for_gears sel (\<lambda>g. g\<lparr>identifying := b\<rparr>) fl) = stations fl"
  by (simp add: stations_for_gears station_def)

section \<open>The addressing commands on the stations\<close>

definition st_compares :: "u32 \<Rightarrow> Station \<Rightarrow> bool" where
  "st_compares a s \<longleftrightarrow> st_enabled s \<and> st_initialise s \<and> \<not> st_withdrawn s \<and> random_address (st_spec s) \<le> a"

lemma compares_station: "compares a g = st_compares a (station g)"
  by (simp add: compares_def st_compares_def station_def)

lemma length_filter_station: "length (filter (P \<circ> station) gs) = length (filter P (map station gs))"
  by (simp add: filter_map)

lemma publish_view [simp]:
  "stations (snd (publish as fl)) = stations fl" "regs (snd (publish as fl)) = regs fl"
  "reserved (snd (publish as fl)) = reserved fl" "stations (snd (publish_none fl)) = stations fl"
  "regs (snd (publish_none fl)) = regs fl" "reserved (snd (publish_none fl)) = reserved fl"
  "rng (snd (publish_none fl)) = rng fl" "now_ms (snd (publish_none fl)) = now_ms fl"
  "now_ms (snd (publish as fl)) = now_ms fl"
  by (simp_all add: publish_def publish_none_def stations_def)

text \<open>The commands of the addressing phase: what each writes, and who answers it.\<close>

definition st_selected :: "u32 \<Rightarrow> Station \<Rightarrow> bool" where
  "st_selected a s \<longleftrightarrow> st_initialise s \<and> random_address (st_spec s) = a"

definition st_write :: "SpecialCommand \<Rightarrow> u32 \<Rightarrow> Station \<Rightarrow> Station" where
  "st_write cmd a s =
     (case cmd of
        ProgramShortAddress enc \<Rightarrow>
          if st_selected a s \<and> \<not> st_withdrawn s
          then s\<lparr>st_spec := (st_spec s)\<lparr>short_address := Some (decode_short_reply enc)\<rparr>\<rparr> else s
      | Withdraw \<Rightarrow> if st_selected a s then s\<lparr>st_withdrawn := True\<rparr> else s
      | Terminate \<Rightarrow> s\<lparr>st_initialise := False, st_withdrawn := False\<rparr>
      | _ \<Rightarrow> s)"

definition st_answers :: "SpecialCommand \<Rightarrow> u32 \<Rightarrow> Station \<Rightarrow> bool" where
  "st_answers cmd a s =
     (case cmd of
        Compare \<Rightarrow> st_compares a s
      | VerifyShortAddress enc \<Rightarrow>
          st_enabled s \<and> st_initialise s \<and> short_address (st_spec s) = Some (decode_short_reply enc)
      | _ \<Rightarrow> False)"

definition search_byte :: "nat \<Rightarrow> u8 \<Rightarrow> u32 \<Rightarrow> u32" where
  "search_byte shift v a = (a AND NOT (push_bit shift 0xFF)) OR push_bit shift (ucast v)"

definition next_search :: "SpecialCommand \<Rightarrow> u32 \<Rightarrow> u32" where
  "next_search cmd a =
     (case cmd of SearchAddrH v \<Rightarrow> search_byte 16 v a | SearchAddrM v \<Rightarrow> search_byte 8 v a
      | SearchAddrL v \<Rightarrow> search_byte 0 v a | _ \<Rightarrow> a)"

definition addressing :: "SpecialCommand \<Rightarrow> bool" where
  "addressing cmd =
     (case cmd of SearchAddrH _ \<Rightarrow> True | SearchAddrM _ \<Rightarrow> True | SearchAddrL _ \<Rightarrow> True | Compare \<Rightarrow> True
      | ProgramShortAddress _ \<Rightarrow> True | VerifyShortAddress _ \<Rightarrow> True | Withdraw \<Rightarrow> True | Terminate \<Rightarrow> True
      | _ \<Rightarrow> False)"

definition calm :: "GearFleet \<Rightarrow> bool" where
  "calm fl \<longleftrightarrow> armed_of fl = None \<and> search_of fl < 2 ^ 24 \<and> reserved fl = 0 \<and>
     (\<forall>s\<in>set (stations fl). st_pending s = None \<and> st_drop s = 0 \<and> (st_initialise s \<longrightarrow> st_enabled s)
        \<and> random_address (st_spec s) < 2 ^ 24)"

lemma stations_program: "stations (for_gears sel f fl) = map (\<lambda>s. if sel' s then f' s else s) (stations fl)"
  if "\<And>g. sel g = sel' (station g)" "\<And>g. station (f g) = f' (station g)"
  using that by (simp add: stations_def for_gears_def)

lemma on_special_view:
  assumes "addressing cmd" "reserved fl = 0"
  shows "stations (snd (on_special cmd fl)) = map (st_write cmd (search_of fl)) (stations fl)"
    and "search_of (snd (on_special cmd fl)) = next_search cmd (search_of fl)"
    and "armed_of (snd (on_special cmd fl)) = armed_of fl"
    and "reserved (snd (on_special cmd fl)) = reserved fl"
proof -
  have prog: "stations (program_short enc fl') = map (st_write (ProgramShortAddress enc) (search_of fl')) (stations fl')"
    if "reserved fl' = 0" for enc fl'
    using that by (simp add: program_short_def is_reserved_def Let_def stations_def for_gears_def)
      (simp add: st_write_def st_selected_def station_def)
  have withdraw: "stations (on_withdraw fl') = map (st_write Withdraw (search_of fl')) (stations fl')" for fl'
    by (simp add: on_withdraw_def stations_def for_gears_def st_write_def st_selected_def station_def)
  have ended: "stations (terminate_initialise fl') = map (st_write Terminate (search_of fl')) (stations fl')" for fl'
    by (simp add: terminate_initialise_def stations_def for_gears_def st_write_def station_def)
  have keep: "map (st_write cmd a) ss = ss" if "cmd \<noteq> Withdraw" "cmd \<noteq> Terminate" "\<forall>e. cmd \<noteq> ProgramShortAddress e" for a ss
    using that by (intro map_idI) (cases cmd; simp add: st_write_def)
  show "stations (snd (on_special cmd fl)) = map (st_write cmd (search_of fl)) (stations fl)"
    using assms prog withdraw ended keep
    by (cases cmd) (simp_all add: addressing_def on_special_def on_memory_write_def stops_identification_def
        on_compare_def verify_short_def set_search_byte_def stations_def [of "_\<lparr>regs := _\<rparr>"]
        stations_def [symmetric])
  show "search_of (snd (on_special cmd fl)) = next_search cmd (search_of fl)"
       "armed_of (snd (on_special cmd fl)) = armed_of fl"
       "reserved (snd (on_special cmd fl)) = reserved fl"
    using assms
    by (cases cmd; simp add: addressing_def on_special_def on_memory_write_def stops_identification_def next_search_def
        on_compare_def verify_short_def set_search_byte_def search_byte_def terminate_initialise_def on_withdraw_def
        program_short_def Let_def)+
qed

lemma is_yes_merge [simp]:
  "is_yes (response_from_outcome (merge_answers as)) \<longleftrightarrow> as \<noteq> []"
  by (cases as rule: merge_answers.cases) (simp_all add: response_from_outcome_def)

lemma on_special_yes:
  assumes "addressing cmd" "special_expects_backward cmd"
  shows "is_yes (response_from_outcome (fst (on_special cmd fl)))
      \<longleftrightarrow> (\<exists>s\<in>set (stations fl). st_answers cmd (search_of fl) s)"
  using assms
  by (cases cmd) (auto simp: addressing_def special_expects_backward_def on_special_def on_memory_write_def
      stops_identification_def on_compare_def verify_short_def publish_def st_answers_def stations_def
      compares_station filter_empty_conv station_def Bex_def)

lemma advance_calm:
  assumes "calm fl"
  shows "stations (advance_to_ms t fl) = stations fl" "regs (advance_to_ms t fl) = regs fl"
    "reserved (advance_to_ms t fl) = reserved fl"
proof -
  have "settle_random n g = g" if "g \<in> set (gears fl)" for n g
    using assms that by (auto simp: calm_def stations_def station_def settle_random_def)
  then show "stations (advance_to_ms t fl) = stations fl"
    by (simp add: advance_to_ms_def stations_def for_gears_def Let_def cong: map_cong)
qed (simp_all add: advance_to_ms_def Let_def)

lemma search_byte_small:
  assumes "a < 2 ^ 24" "k \<le> 16"
  shows "search_byte k v a < 2 ^ 24"
proof -
  have "n < 24" if "bit a n" for n
    using assms(1) that by (metis bit_take_bit_iff less_mask_eq take_bit_eq_mask)
  then have "take_bit 24 (search_byte k v a) = search_byte k v a"
    using assms(2) by (intro bit_word_eqI) (auto simp: search_byte_def bit_simps)
  moreover have "unat (take_bit 24 (search_byte k v a)) < 2 ^ 24"
    by (simp only: unsigned_take_bit_eq take_bit_nat_less_exp)
  ultimately show ?thesis
    by (simp add: word_less_nat_alt)
qed

lemma calm_special:
  assumes "calm fl" "addressing cmd"
  shows "calm (snd (on_special cmd fl))"
proof -
  have "next_search cmd (search_of fl) < 2 ^ 24"
    using assms by (cases cmd) (simp_all add: next_search_def calm_def search_byte_small [simplified])
  moreover have "\<forall>s\<in>set (stations fl). st_pending (st_write cmd a s) = None \<and> st_drop (st_write cmd a s) = 0
      \<and> (st_initialise (st_write cmd a s) \<longrightarrow> st_enabled (st_write cmd a s))
      \<and> random_address (st_spec (st_write cmd a s)) < 2 ^ 24" for a
    using assms by (cases cmd) (auto simp: st_write_def calm_def)
  ultimately show ?thesis
    using assms on_special_view [of cmd fl] by (simp add: calm_def)
qed

section \<open>Addressing commands through the controller\<close>

text \<open>The line at the current time: gear whose random address is due have taken it.\<close>

definition line_now :: "FleetWorld \<Rightarrow> GearFleet" where
  "line_now w = advance_to_ms (fleet_clock w) (fleet w)"

lemma advance_rest:
  assumes "\<forall>s\<in>set (stations fl). st_pending s = None"
  shows "gears (advance_to_ms t fl) = gears fl" "stations (advance_to_ms t fl) = stations fl"
    "regs (advance_to_ms t fl) = regs fl" "reserved (advance_to_ms t fl) = reserved fl"
proof -
  show "gears (advance_to_ms t fl) = gears fl"
    using assms by (auto simp: advance_to_ms_def for_gears_def settle_random_def Let_def stations_def station_def
        intro!: map_idI split: option.split)
  then show "stations (advance_to_ms t fl) = stations fl"
    by (simp add: stations_def)
qed (simp_all add: advance_to_ms_def Let_def)

lemma settle_settle:
  assumes "t \<le> t'"
  shows "settle_random t' (settle_random t g) = settle_random t' g"
proof (cases "pending_random g")
  case (Some p)
  have "ready_at_ms p \<le> t \<Longrightarrow> ready_at_ms p \<le> t'"
    using assms by (rule order_trans [rotated])
  then show ?thesis
    by (cases "ready_at_ms p \<le> t") (simp_all add: settle_random_def Some)
qed (simp add: settle_random_def)

lemma advance_advance:
  assumes "t \<le> t'"
  shows "advance_to_ms t' (advance_to_ms t fl) = advance_to_ms t' fl"
proof -
  have "max (max n t) t' = max n t'" "max n t \<le> max n t'" for n
    using assms by (simp_all add: max.assoc max_absorb2 max.coboundedI2)
  then show ?thesis
    by (simp add: advance_to_ms_def for_gears_def Let_def comp_def settle_settle)
qed

lemma clock_unat: "unat (fleet_clock w) = min (elapsed_us w div 1000) (2 ^ 64 - 1)"
  unfolding fleet_clock_def by (subst unat_of_nat) (rule mod_less, simp)

lemma clock_later: "fleet_clock w \<le> fleet_clock (later d w)"
proof -
  have "elapsed_us w div 1000 \<le> (elapsed_us w + d) div 1000"
    by (rule div_le_mono) simp
  then show ?thesis
    by (simp add: word_le_nat_alt clock_unat later_def min.coboundedI1)
qed

lemma line_now_later:
  assumes "\<forall>s\<in>set (stations (line_now w)). st_pending s = None"
  shows "gears (line_now (later d w)) = gears (line_now w)" "stations (line_now (later d w)) = stations (line_now w)"
    "regs (line_now (later d w)) = regs (line_now w)" "reserved (line_now (later d w)) = reserved (line_now w)"
proof -
  have "line_now (later d w) = advance_to_ms (fleet_clock (later d w)) (line_now w)"
    using advance_advance [OF clock_later [of w d], of "fleet w"] by (simp add: line_now_def later_def)
  then show "gears (line_now (later d w)) = gears (line_now w)" "stations (line_now (later d w)) = stations (line_now w)"
    "regs (line_now (later d w)) = regs (line_now w)" "reserved (line_now (later d w)) = reserved (line_now w)"
    by (simp_all only: advance_rest [OF assms])
qed

lemma line_now_rest:
  assumes "\<forall>s\<in>set (stations (fleet w)). st_pending s = None"
  shows "gears (line_now w) = gears (fleet w)" "stations (line_now w) = stations (fleet w)"
    "regs (line_now w) = regs (fleet w)" "reserved (line_now w) = reserved (fleet w)"
  by (simp_all only: line_now_def advance_rest [OF assms])

lemma calm_pending: "calm fl \<Longrightarrow> \<forall>s\<in>set (stations fl). st_pending s = None"
  by (simp add: calm_def)

lemma calm_view: "stations fl' = stations fl \<Longrightarrow> regs fl' = regs fl \<Longrightarrow> reserved fl' = reserved fl \<Longrightarrow> calm fl' = calm fl"
  by (simp add: calm_def)

lemmas calm_later = line_now_later [OF calm_pending]
lemmas calm_rest = line_now_rest [OF calm_pending]

abbreviation line :: "FleetWorld DaliController \<Rightarrow> GearFleet" where
  "line c \<equiv> line_now (world c)"

definition attentive :: "FleetWorld DaliController \<Rightarrow> bool" where
  "attentive c \<longleftrightarrow> quiet c \<and> calm (line c)"

lemma attentive_tx [simp]: "attentive (tx_open ex c) = attentive c" "attentive (tx_close c) = attentive c"
  "world (tx_open ex c) = world c" "world (tx_close c) = world c"
  by (simp_all add: attentive_def quiet_simps)

lemma deliver_special:
  assumes "calm (line_now w)" "addressing cmd" "deliver (raw (special_forward_frame cmd)) e w = (oc, w')"
  shows "calm (fleet w')"
    and "stations (fleet w') = map (st_write cmd (search_of (line_now w))) (stations (line_now w))"
    and "search_of (fleet w') = next_search cmd (search_of (line_now w))"
    and "special_expects_backward cmd \<Longrightarrow>
      is_yes (response_from_outcome oc) \<longleftrightarrow> (\<exists>s\<in>set (stations (line_now w)). st_answers cmd (search_of (line_now w)) s)"
proof -
  define fl' where "fl' = prepare (raw (special_forward_frame cmd)) (Some (Special cmd)) (special_requires_repeat cmd) (line_now w)"
  have fl': "calm fl'" "stations fl' = stations (line_now w)" "search_of fl' = search_of (line_now w)" "reserved fl' = 0"
    using assms(1) by (simp_all add: fl'_def calm_def)
  obtain oc0 where oc0: "exchange (raw (special_forward_frame cmd)) e (line_now w) = (oc0, fleet w')" "read_as oc0 oc"
    using assms(3) unfolding line_now_def by (rule deliver_exchange)
  have ex: "exchange (raw (special_forward_frame cmd)) e (line_now w) = on_special cmd fl'"
    unfolding fl'_def using assms(1) by (intro exchange_special) (simp add: calm_def)
  have d: "oc0 = fst (on_special cmd fl')" "fleet w' = snd (on_special cmd fl')"
    using oc0(1) unfolding ex by simp_all
  show "calm (fleet w')"
    using calm_special [OF fl'(1) assms(2)] by (simp add: d)
  show "stations (fleet w') = map (st_write cmd (search_of (line_now w))) (stations (line_now w))"
    "search_of (fleet w') = next_search cmd (search_of (line_now w))"
    using on_special_view [OF assms(2) fl'(4)] fl' by (simp_all add: d)
  show "is_yes (response_from_outcome oc)
        \<longleftrightarrow> (\<exists>s\<in>set (stations (line_now w)). st_answers cmd (search_of (line_now w)) s)"
    if "special_expects_backward cmd"
    using on_special_yes [OF assms(2) that, of fl'] fl' by (simp add: read_as_yes [OF oc0(2)] d)
qed

lemma addressing_single: "addressing cmd \<Longrightarrow> \<not> special_requires_repeat cmd"
  by (cases cmd) (simp_all add: addressing_def special_requires_repeat_def)

lemma delivers_elim:
  assumes "delivers e f w r w'"
  obtains d oc where "deliver (raw f) e (later d w) = (oc, w')" "r = response_from_outcome (heard_outcome e oc)"
  using assms unfolding delivers_def by (metis prod.collapse)

lemma special_step:
  assumes "attentive c" "addressing cmd"
  shows "\<exists>r c'. send_command fleet_io (Special cmd) c = (Ok r, c') \<and> attentive c'
      \<and> stations (line c') = map (st_write cmd (search_of (line c))) (stations (line c))
      \<and> search_of (line c') = next_search cmd (search_of (line c))
      \<and> (special_expects_backward cmd \<longrightarrow>
           is_yes r = (\<exists>s\<in>set (stations (line c)). st_answers cmd (search_of (line c)) s))"
proof -
  have calm: "calm (line_now (world c))" "quiet c"
    using assms(1) by (simp_all add: attentive_def)
  obtain r c' where c': "send_command fleet_io (Special cmd) c
        = (Ok (response_if_expected r (special_expects_backward cmd)), c')" "quiet c'"
      "delivers (special_expects_backward cmd) (special_forward_frame cmd) (world c) r (world c')"
    using send_command_fleet [OF calm(2), of "Special cmd"] addressing_single [OF assms(2)]
    by (auto simp: enable_frame_def sends_def)
  obtain d oc where d: "deliver (raw (special_forward_frame cmd)) (special_expects_backward cmd) (later d (world c)) = (oc, world c')"
      "r = response_from_outcome (heard_outcome (special_expects_backward cmd) oc)"
    using c'(3) by (rule delivers_elim)
  note L = calm_later [OF calm(1), of d]
  have "calm (line_now (later d (world c)))"
    using calm(1) calm_view [OF L(2-4)] by simp
  note D = deliver_special [OF this assms(2) d(1), unfolded L]
  show ?thesis
    using c'(1,2) d(2) D calm_rest [OF D(1)] calm_view [OF calm_rest(2-4) [OF D(1)]]
    by (auto simp: attentive_def response_if_expected_def heard_outcome_def)
qed

end
