(* ===== verification/Random_Search.thy ===== *)
theory Random_Search
  imports Commissioning
begin

text \<open>
  The contract of the random-address search: a line that answers every probe with whether some
  candidate lies at or below the probed address, and is not changed by probing. On such a line
  the bisection of \<open>find_lowest_random_address\<close> ends at the lowest candidate.
\<close>

locale search_line =
  fixes probe :: "u32 \<Rightarrow> ('c, 'e, bool) act"
    and ok :: "'c \<Rightarrow> bool"
    and view :: "'c \<Rightarrow> 'v"
    and candidates :: "'v \<Rightarrow> u32 set"
  assumes probe_answers: "ok c \<Longrightarrow> a < 2 ^ 24 \<Longrightarrow>
      \<exists>c'. probe a c = (Ok (\<exists>r\<in>candidates (view c). r \<le> a), c') \<and> ok c' \<and> view c' = view c"
begin

lemma bisect_lowest:
  assumes "ok c" "m \<in> candidates (view c)" "\<forall>r\<in>candidates (view c). m \<le> r" "low \<le> m" "m \<le> high" "high < 2 ^ 24"
  shows "\<exists>c'. bisect probe low high c = (Ok m, c') \<and> ok c' \<and> view c' = view c"
  using assms
proof (induction "unat high - unat low" arbitrary: low high c rule: less_induct)
  case less
  show ?case
  proof (cases "low < high")
    case False
    then show ?thesis
      using less.prems by (simp add: bisect.simps)
  next
    case True
    define mid where "mid = low + (high - low) div 2"
    have nat: "unat mid = unat low + (unat high - unat low) div 2" "unat (mid + 1) = unat mid + 1"
      using bisect_mid [OF True] by (simp_all add: mid_def)
    have mid: "mid < high" "unat low < unat high"
      using nat True by (simp_all add: word_less_nat_alt)
    then obtain c' where c': "probe mid c = (Ok (\<exists>r\<in>candidates (view c). r \<le> mid), c')" "ok c'" "view c' = view c"
      using probe_answers [OF less.prems(1), of mid] less.prems(6) by (meson order.strict_trans)
    have iff: "(\<exists>r\<in>candidates (view c). r \<le> mid) = (m \<le> mid)"
      using less.prems(2,3) order_trans by blast
    show ?thesis
    proof (cases "m \<le> mid")
      case True
      have "mid < 2 ^ 24"
        using mid(1) less.prems(6) by (rule order.strict_trans)
      moreover have "unat mid - unat low < unat high - unat low"
        using mid nat by linarith
      ultimately have "\<exists>c''. bisect probe low mid c' = (Ok m, c'') \<and> ok c'' \<and> view c'' = view c'"
        using less.prems True c' by (intro less.hyps) simp_all
      then show ?thesis
        using True c' iff \<open>low < high\<close> by (subst bisect.simps) (simp add: mid_def [symmetric])
    next
      case False
      have "mid + 1 \<le> m"
        using False nat by (simp add: word_le_nat_alt)
      moreover have "unat high - unat (mid + 1) < unat high - unat low"
        using mid nat by linarith
      ultimately have "\<exists>c''. bisect probe (mid + 1) high c' = (Ok m, c'') \<and> ok c'' \<and> view c'' = view c'"
        using less.prems c' by (intro less.hyps) simp_all
      then show ?thesis
        using False c' iff \<open>low < high\<close> by (subst bisect.simps) (simp add: mid_def [symmetric])
    qed
  qed
qed

end

end
