(* ===== verification/Line_Queries.thy ===== *)
theory Line_Queries
  imports Line_View Commissioning
begin

text \<open>
  Queries on a line of modelled gear: who answers, and that asking changes no station. The
  device-type walk is followed gear by gear, since its cursor lives in the gear.
\<close>

section \<open>An addressed query reaches the gear it addresses\<close>

lemma decode_selected_address: "address_ok a \<Longrightarrow> decode_wire_address (encode_address_byte a OR 1) = Ok a"
  by (simp add: decode_wire_address_iff selector_bits(3))

lemma dt8_opcode_high: "is_dt8_opcode c \<Longrightarrow> 0xE0 \<le> c"
  using extended_high(2) by (auto simp: is_dt8_opcode_def dt8_opcode_round_trip)

text \<open>The part of \<open>exchange\<close> after the frame has been heard, for a frame that is not special.\<close>

definition act_on :: "u16 \<Rightarrow> DaliCommand option \<Rightarrow> bool \<Rightarrow> GearFleet \<Rightarrow> TransferOutcome \<times> GearFleet" where
  "act_on frame decoded expects fl =
     (let wire_address = ucast (drop_bit 8 frame) :: u8; opcode = ucast frame :: u8 in
      case take_enabled_device_type fl of (armed, fl) \<Rightarrow>
        (let fl = carry_prelude_over_held_half frame armed fl in
         case decode_wire_address wire_address of
           Inl _ \<Rightarrow> publish_none fl
         | Inr address \<Rightarrow>
             if wire_address AND 0x01 = 0 then on_dapc address opcode fl
             else if expects \<and> opcode = 0xC5 then on_read_memory_location address fl
             else if armed = Some (code Led) \<and> is_dt6_opcode opcode then on_extended_dt6 address opcode expects fl
             else if armed = Some (code DeviceType.Switching) \<and> opcode \<ge> 0xE0 then on_extended_dt7 address opcode expects fl
             else if is_dt8_opcode opcode \<or> (armed = Some (code Color) \<and> opcode = 0xFF)
               then on_extended_dt8 address opcode expects armed fl
             else (case decoded of
                     Some (Standard _ command) \<Rightarrow> on_standard address command fl
                   | _ \<Rightarrow> publish_none fl)))"

definition pairs_now :: "u16 \<Rightarrow> GearFleet \<Rightarrow> bool" where
  "pairs_now frame fl =
     requires_repeat_under (decode_frame frame) (ucast (drop_bit 8 frame)) (ucast frame)
       (fresh_device_type (fl\<lparr>frame_seq := saturating_add (frame_seq fl) 1\<rparr>))"

lemma exchange_split:
  "exchange frame e fl =
     (let fl' = prepare frame (decode_frame frame) (pairs_now frame fl) fl in
      case decode_frame frame of Some (Special s) \<Rightarrow> on_special s fl' | _ \<Rightarrow> act_on frame (decode_frame frame) e fl')"
  unfolding exchange_def prepare_def act_on_def pairs_now_def Let_def by (rule refl)

lemma take_unarmed: "armed_of fl = None \<Longrightarrow> take_enabled_device_type fl = (None, fl)"
  by (cases fl; cases "regs fl") (simp add: take_enabled_device_type_def fresh_device_type_def)

lemma exchange_query:
  assumes "armed_of fl = None" "canonical (Standard a q)" "standard_is_query q" "standard_opcode q \<noteq> 0xC5"
  shows "exchange (raw (standard_forward_frame q a)) e fl
     = on_standard a q (prepare (raw (standard_forward_frame q a)) (Some (Standard a q)) False fl)"
proof -
  have "\<forall>l. q \<noteq> DirectArcPower l"
    using assms(3) by (auto simp: standard_is_query_def encoding_defs)
  then have frame: "standard_forward_frame q a = forward_new (encode_address_byte a OR 1) (standard_opcode q)"
    by (rule standard_frame_opcode)
  have dec: "decode_frame (raw (standard_forward_frame q a)) = Some (Standard a q)"
    using decode_frame_canonical [OF assms(2)] by simp
  have a: "decode_wire_address (encode_address_byte a OR 1) = Ok a"
    using assms(2) by (intro decode_selected_address) simp
  have "dali_command_from_wire (encode_address_byte a OR 1) (standard_opcode q) 0 = Ok (Standard a q)"
    by (rule decode_complete [OF assms(2)]) (simp add: frame)
  then have "decode_standard_command (standard_opcode q) = Ok q"
    using a addressed_not_special [OF a] by (simp add: decode_addressed_iff selector_bits)
  then have low: "\<not> is_dt8_opcode (standard_opcode q)"
    using decode_standard_low [of "standard_opcode q"] dt8_opcode_high [of "standard_opcode q"] by auto
  have once: "\<not> pairs_now (raw (standard_forward_frame q a)) fl"
    using assms(1) query_not_repeated [OF assms(3)]
    by (simp add: pairs_now_def dec requires_repeat_under_def fresh_device_type_def)
  have "act_on (raw (standard_forward_frame q a)) (Some (Standard a q)) e fl' = on_standard a q fl'"
    if "armed_of fl' = None" for fl'
    using that assms(4) low a
    by (simp add: act_on_def take_unarmed carry_prelude_over_held_half_def frame frame_bytes selector_bits)
  then show ?thesis
    using assms(1) by (simp add: exchange_split dec once)
qed

section \<open>Answers of the addressed gear\<close>

definition reply_of :: "u8 option \<Rightarrow> StandardCommand \<Rightarrow> Gear \<Rightarrow> TransferOutcome \<times> Gear" where
  "reply_of shared q g = (case shared of Some v \<Rightarrow> (TransferOutcome.Answer v, g) | None \<Rightarrow> gear_query_reply q g)"

definition answer_byte :: "TransferOutcome \<Rightarrow> u8 option" where
  "answer_byte oc = (case oc of TransferOutcome.Answer v \<Rightarrow> Some v | _ \<Rightarrow> None)"

lemma station_report [simp]:
  "station (load_report_from_actual g) = station g" "station (load_report_from_scene i g) = station g"
  "station (load_report_from_level_colour q g) = station g" "station (g\<lparr>device_type_walk := w\<rparr>) = station g"
  by (simp_all add: load_report_from_actual_def load_report_from_scene_def load_report_from_level_colour_def
      station_def Let_def) (cases q; simp)

lemma station_query_reply [simp]: "station (snd (gear_query_reply q g)) = station g"
proof -
  have load: "station (load_report_for_query q g') = station g'" for g'
    by (cases q) (simp_all add: load_report_for_query_def)
  have identity: "station (snd (identity_query_reply q g')) = station g'" for g'
    by (cases q) (auto simp: identity_query_reply_def device_type_reply_def next_device_type_reply_def
        split: list.split option.split)
  define g1 where "g1 = (if q \<noteq> QueryDeviceType \<and> q \<noteq> QueryNextDeviceType then g\<lparr>device_type_walk := None\<rparr> else g)"
  define g2 where "g2 = (if is_dt8 g1 then load_report_for_query q g1 else g1)"
  have "station g2 = station g"
    by (simp add: g2_def g1_def load)
  moreover have "gear_query_reply q g = (case level_query_reply g2 q of Some oc \<Rightarrow> (oc, g2)
      | None \<Rightarrow> (case fst (identity_query_reply q g2) of Some oc \<Rightarrow> oc | None \<Rightarrow> TransferOutcome.NoAnswer,
                 snd (identity_query_reply q g2)))"
    unfolding gear_query_reply_def Let_def g1_def [symmetric] g2_def [symmetric]
    by (simp split: option.split prod.split)
  ultimately show ?thesis
    by (simp add: identity split: option.split)
qed

lemma station_reply [simp]: "station (snd (reply_of shared q g)) = station g"
  by (simp add: reply_of_def split: option.split)

lemma drop_station: "drop_answer_permille (faults g) = st_drop (station g)"
  by (simp add: station_def)

lemma answer_of_calm:
  "st_drop (station g) = 0 \<Longrightarrow> answer_of oc g r = (answer_byte oc, r, 0)"
  by (cases oc) (simp_all add: answer_of_def answer_byte_def chance_permille_def drop_station)

lemma query_gears_calm:
  assumes "\<forall>g\<in>set gs. st_drop (station g) = 0"
  shows "query_gears a q shared gs r =
    (List.map_filter (\<lambda>g. answer_byte (fst (reply_of shared q g))) (filter (\<lambda>g. gear_matches g a) gs),
     map (\<lambda>g. if gear_matches g a then snd (reply_of shared q g) else g) gs, r, 0)"
  using assms
proof (induction gs)
  case (Cons g gs)
  have "answer_of (fst (reply_of shared q g)) (snd (reply_of shared q g)) r = (answer_byte (fst (reply_of shared q g)), r, 0)"
    using Cons.prems by (intro answer_of_calm) simp
  then show ?case
    using Cons by (auto simp: reply_of_def [symmetric] case_prod_beta List.map_filter_simps split: option.split)
qed (simp add: List.map_filter_simps)

definition selected :: "DaliAddress \<Rightarrow> GearFleet \<Rightarrow> Gear list" where
  "selected a fl = filter (\<lambda>g. gear_matches g a) (gears fl)"

text \<open>A query on a calm line: the answers, and the replies' effect on the gear.\<close>

lemma on_standard_query:
  assumes "standard_is_query q" "\<forall>s\<in>set (stations fl). st_drop s = 0"
  shows "fst (on_standard a q fl) = merge_answers
      (List.map_filter (\<lambda>g. answer_byte (fst (reply_of (bus_register_query q fl) q g))) (selected a fl))"
    and "gears (snd (on_standard a q fl)) =
      map (\<lambda>g. if gear_matches g a then snd (reply_of (bus_register_query q fl) q g) else g) (gears fl)"
    and "regs (snd (on_standard a q fl)) = regs fl" "reserved (snd (on_standard a q fl)) = reserved fl"
proof -
  have "query_gears a q (bus_register_query q fl) (gears fl) (rng fl) =
    (List.map_filter (\<lambda>g. answer_byte (fst (reply_of (bus_register_query q fl) q g))) (selected a fl),
     map (\<lambda>g. if gear_matches g a then snd (reply_of (bus_register_query q fl) q g) else g) (gears fl), rng fl, 0)"
    unfolding selected_def using assms(2) by (intro query_gears_calm) (simp add: stations_def)
  then show "fst (on_standard a q fl) = merge_answers
      (List.map_filter (\<lambda>g. answer_byte (fst (reply_of (bus_register_query q fl) q g))) (selected a fl))"
    "gears (snd (on_standard a q fl)) =
      map (\<lambda>g. if gear_matches g a then snd (reply_of (bus_register_query q fl) q g) else g) (gears fl)"
    "regs (snd (on_standard a q fl)) = regs fl" "reserved (snd (on_standard a q fl)) = reserved fl"
    using assms(1) by (simp_all add: on_standard_def standard_query_def publish_def)
qed

section \<open>A query through the controller\<close>

definition st_matches :: "DaliAddress \<Rightarrow> Station \<Rightarrow> bool" where
  "st_matches a s \<longleftrightarrow> st_enabled s \<and>
     (case a of Short n \<Rightarrow> short_address (st_spec s) = Some n | Group _ \<Rightarrow> False | Broadcast \<Rightarrow> True
      | BroadcastUnaddressed \<Rightarrow> short_address (st_spec s) = None)"

definition ungrouped :: "DaliAddress \<Rightarrow> bool" where
  "ungrouped a \<longleftrightarrow> (\<forall>n. a \<noteq> Group n)"

lemma matches_station: "ungrouped a \<Longrightarrow> gear_matches g a = st_matches a (station g)"
  by (cases a) (simp_all add: ungrouped_def gear_matches_def st_matches_def station_def)

text \<open>What a gear keeps of having heard a query addressed to \<open>a\<close>.\<close>

definition heard_query :: "DaliAddress \<Rightarrow> StandardCommand \<Rightarrow> (Gear \<Rightarrow> Gear) \<Rightarrow> bool" where
  "heard_query a q h \<longleftrightarrow> (\<forall>g. station (h g) = station g \<and>
     (gear_matches g a \<longrightarrow> device_type_walk (h g) =
        (if q = QueryDeviceType \<or> q = QueryNextDeviceType then device_type_walk g else None)))"

lemma prepare_gears:
  "\<exists>h. heard_query a q h \<and> gears (prepare frame (Some (Standard a q)) False fl) = map h (gears fl)"
proof -
  define h where "h = (\<lambda>g. (fst (hear_gear frame (Some (Standard a q)) False g))
     \<lparr>write_enabled := keeps_write_enabled (Some (Standard a q)) \<and> write_enabled (fst (hear_gear frame (Some (Standard a q)) False g))\<rparr>)"
  have "gears (prepare frame (Some (Standard a q)) False fl) = map h (gears fl)"
    by (simp add: prepare_def fleet_hear_def for_gears_def h_def Let_def comp_def)
  moreover have "station (h g) = station g" for g
    using station_hear [of frame "Some (Standard a q)" False g] by (simp add: h_def station_def)
  moreover have "gear_matches g a \<Longrightarrow> device_type_walk (h g) =
      (if q = QueryDeviceType \<or> q = QueryNextDeviceType then device_type_walk g else None)" for g
    by (simp add: h_def hear_gear_def hears_def audience_of_def gear_hear_def is_walk_query_def
        cancel_device_type_walk_def Let_def)
  ultimately show ?thesis
    unfolding heard_query_def by blast
qed

lemma selected_map:
  assumes "ungrouped a" "\<And>g. station (f g) = station g" "gears fl' = map f (gears fl)"
  shows "selected a fl' = map f (selected a fl)"
  using assms by (simp add: selected_def filter_map matches_station comp_def)

lemma deliver_query:
  assumes "calm (line_now w)" "ungrouped a" "canonical (Standard a q)" "standard_is_query q" "standard_opcode q \<noteq> 0xC5"
    and w': "deliver (raw (standard_forward_frame q a)) e w = (oc, w')"
  shows "\<exists>h. heard_query a q h \<and> calm (fleet w') \<and> stations (fleet w') = stations (line_now w)
      \<and> regs (fleet w') = regs (line_now w)
      \<and> selected a (fleet w') = map (\<lambda>g. snd (reply_of (bus_register_query q (line_now w)) q (h g))) (selected a (line_now w))
      \<and> read_as (merge_answers (List.map_filter
          (\<lambda>g. answer_byte (fst (reply_of (bus_register_query q (line_now w)) q (h g)))) (selected a (line_now w)))) oc"
proof -
  define fl' where "fl' = prepare (raw (standard_forward_frame q a)) (Some (Standard a q)) False (line_now w)"
  obtain h where h: "heard_query a q h" "gears fl' = map h (gears (line_now w))"
    using prepare_gears [of a q "raw (standard_forward_frame q a)" "line_now w"] by (auto simp: fl'_def)
  have hs: "station (h g) = station g" for g
    using h(1) by (simp add: heard_query_def)
  have "regs fl' = regs (line_now w)"
    by (simp add: fl'_def)
  then have shared: "bus_register_query q fl' = bus_register_query q (line_now w)"
    by (simp only: bus_register_query_def)
  have still: "\<forall>s\<in>set (stations fl'). st_drop s = 0"
    using assms(1) by (simp add: fl'_def calm_def)
  have sel': "selected a fl' = map h (selected a (line_now w))"
    using assms(2) hs h(2) by (rule selected_map)
  have ex: "exchange (raw (standard_forward_frame q a)) e (line_now w) = on_standard a q fl'"
    unfolding fl'_def using assms(1,3-5) by (intro exchange_query) (simp_all add: calm_def)
  obtain oc0 where oc0: "exchange (raw (standard_forward_frame q a)) e (line_now w) = (oc0, fleet w')" "read_as oc0 oc"
    using w' unfolding line_now_def by (rule deliver_exchange)
  then have w: "oc0 = fst (on_standard a q fl')" "fleet w' = snd (on_standard a q fl')"
    by (simp_all add: ex [symmetric])
  note q = on_standard_query [OF assms(4) still, of a, unfolded shared]
  have st: "stations (fleet w') = stations (line_now w)"
    by (simp add: w q stations_def h hs comp_def if_distrib cong: if_cong)
  have "selected a (fleet w') = map (\<lambda>g. snd (reply_of (bus_register_query q (line_now w)) q g)) (selected a fl')"
    by (simp add: selected_def w q filter_map comp_def matches_station [OF assms(2)] if_distrib cong: if_cong)
  then have sel: "selected a (fleet w') = map (\<lambda>g. snd (reply_of (bus_register_query q (line_now w)) q (h g))) (selected a (line_now w))"
    by (simp add: sel')
  have r: "regs (fleet w') = regs (line_now w)" "reserved (fleet w') = reserved (line_now w)"
    by (simp_all only: w q) (simp_all add: fl'_def)
  have c: "calm (fleet w')"
    using assms(1) calm_view [OF st r] by simp
  have "oc0 = merge_answers (List.map_filter
      (\<lambda>g. answer_byte (fst (reply_of (bus_register_query q (line_now w)) q (h g)))) (selected a (line_now w)))"
    by (simp add: w q sel' List.map_filter_def filter_map comp_def)
  then show ?thesis
    using h(1) c st r(1) sel oc0(2) by blast
qed

definition replies :: "DaliAddress \<Rightarrow> StandardCommand \<Rightarrow> (Gear \<Rightarrow> Gear) \<Rightarrow> GearFleet \<Rightarrow> (TransferOutcome \<times> Gear) list" where
  "replies a q h fl = map (\<lambda>g. reply_of (bus_register_query q fl) q (h g)) (selected a fl)"

text \<open>Asking: the response to a query, and the line before and after it.\<close>

definition asked :: "DaliAddress \<Rightarrow> StandardCommand \<Rightarrow> DaliResponse \<Rightarrow> GearFleet \<Rightarrow> GearFleet \<Rightarrow> bool" where
  "asked a q r fl fl' \<longleftrightarrow> calm fl' \<and> stations fl' = stations fl \<and> regs fl' = regs fl \<and>
     (\<exists>h. heard_query a q h \<and> selected a fl' = map snd (replies a q h fl)
        \<and> (\<exists>oc. read_as (merge_answers (List.map_filter (answer_byte \<circ> fst) (replies a q h fl))) oc
             \<and> r = response_from_outcome oc))"

definition askable :: "DaliAddress \<Rightarrow> StandardCommand \<Rightarrow> bool" where
  "askable a q \<longleftrightarrow> ungrouped a \<and> canonical (Standard a q) \<and> standard_is_query q \<and> standard_opcode q \<noteq> 0xC5"

lemma selected_cong: "gears fl' = gears fl \<Longrightarrow> selected a fl' = selected a fl"
  by (simp add: selected_def)

lemma query_delivers:
  assumes "calm (line_now w)" "askable a q" "delivers True (standard_forward_frame q a) w r w'"
  shows "asked a q r (line_now w) (line_now w')"
proof -
  obtain d oc where d: "deliver (raw (standard_forward_frame q a)) True (later d w) = (oc, w')"
      "r = response_from_outcome (heard_outcome True oc)"
    using assms(3) by (rule delivers_elim)
  note L = calm_later [OF assms(1), of d]
  have calm: "calm (line_now (later d w))"
    using assms(1) calm_view [OF L(2-4)] by simp
  have same: "bus_register_query q (line_now (later d w)) = bus_register_query q (line_now w)"
    "selected a (line_now (later d w)) = selected a (line_now w)"
    by (simp_all only: bus_register_query_def L selected_def)
  obtain h where h: "heard_query a q h" "calm (fleet w')" "stations (fleet w') = stations (line_now w)"
      "regs (fleet w') = regs (line_now w)"
      "selected a (fleet w') = map (\<lambda>g. snd (reply_of (bus_register_query q (line_now w)) q (h g))) (selected a (line_now w))"
      "read_as (merge_answers (List.map_filter
          (\<lambda>g. answer_byte (fst (reply_of (bus_register_query q (line_now w)) q (h g)))) (selected a (line_now w)))) oc"
    using deliver_query [OF calm _ _ _ _ d(1)] assms(2) by (auto simp: askable_def same L)
  note R = calm_rest [OF h(2)]
  have "selected a (line_now w') = map snd (replies a q h (line_now w))"
    "read_as (merge_answers (List.map_filter (answer_byte \<circ> fst) (replies a q h (line_now w)))) oc" "r = response_from_outcome oc"
    using h(5,6) d(2) selected_cong [OF R(1)]
    by (simp_all add: replies_def heard_outcome_def comp_def List.map_filter_def filter_map)
  moreover have "calm (line_now w')"
    using h(2) calm_view [OF R(2-4)] by simp
  ultimately show ?thesis
    using h(1,3,4) unfolding asked_def R by blast
qed

lemma query_observed:
  assumes "attentive c" "askable a q"
  shows "\<exists>r c'. send_command_observed fleet_io (Standard a q) c = (Ok (r, False), c') \<and> attentive c'
      \<and> asked a q r (line c) (line c')"
proof -
  have once: "\<not> standard_requires_repeat q" "enable_frame (Standard a q) = None" "standard_is_query q"
    using assms(2) query_not_repeated [of q] by (simp_all add: enable_frame_def askable_def)
  obtain r c' where c': "send_command_observed fleet_io (Standard a q) c = (Ok (r, False), c')" "quiet c'"
      "delivers True (standard_forward_frame q a) (world c) r (world c')"
    using send_command_observed_fleet [of c "Standard a q"] assms(1) once
    by (auto simp: attentive_def sends_def response_if_expected_def)
  have "asked a q r (line c) (line c')"
    using assms c'(3) by (intro query_delivers) (simp_all add: attentive_def)
  then show ?thesis
    using c'(1,2) by (auto simp: attentive_def asked_def)
qed

lemma query_once:
  assumes "attentive c" "askable a q"
  shows "\<exists>r c'. exchange_once fleet_io (standard_forward_frame q a) True c = (Ok (r, False), c') \<and> attentive c'
      \<and> asked a q r (line c) (line c')"
proof -
  obtain r c' where c': "exchange_once fleet_io (standard_forward_frame q a) True c = (Ok (r, False), c')" "quiet c'"
      "delivers True (standard_forward_frame q a) (world c) r (world c')"
    using exchange_once_fleet [of c "standard_forward_frame q a" True] assms(1) by (auto simp: attentive_def)
  have "asked a q r (line c) (line c')"
    using assms c'(3) by (intro query_delivers) (simp_all add: attentive_def)
  then show ?thesis
    using c'(1,2) by (auto simp: attentive_def asked_def)
qed

section \<open>Presence and missing addresses\<close>

lemma asked_yes:
  assumes "asked a q r fl fl'" "ungrouped a" "bus_register_query q fl = None"
    and "\<And>g. answer_byte (fst (gear_query_reply q g)) \<noteq> None \<longleftrightarrow> P (station g)"
  shows "is_yes r \<longleftrightarrow> (\<exists>s\<in>set (stations fl). st_matches a s \<and> P s)"
proof -
  obtain h oc where h: "heard_query a q h"
      "read_as (merge_answers (List.map_filter (answer_byte \<circ> fst) (replies a q h fl))) oc" "r = response_from_outcome oc"
    using assms(1) by (auto simp: asked_def)
  have "is_yes r \<longleftrightarrow> (\<exists>g\<in>set (selected a fl). answer_byte (fst (gear_query_reply q (h g))) \<noteq> None)"
    unfolding h(3) read_as_yes [OF h(2)] by (auto simp: replies_def reply_of_def assms(3) List.map_filter_def filter_empty_conv)
  also have "\<dots> \<longleftrightarrow> (\<exists>g\<in>set (gears fl). st_matches a (station g) \<and> P (station g))"
    unfolding assms(4) using h(1) by (auto simp: heard_query_def selected_def matches_station [OF assms(2)])
  finally show ?thesis
    by (auto simp: stations_def)
qed

lemma askable_basic [simp]:
  "s \<le> 63 \<Longrightarrow> askable (Short s) QueryControlGearPresent" "askable Broadcast QueryMissingShortAddress"
  "s \<le> 63 \<Longrightarrow> askable (Short s) QueryDeviceType" "s \<le> 63 \<Longrightarrow> askable (Short s) QueryNextDeviceType"
  by (simp_all add: askable_def ungrouped_def standard_is_query_def param_ok_def standard_opcode_def
      standard_forward_frame_def encoding_defs)

lemma gear_present_step:
  assumes "attentive c" "s \<le> 63"
  shows "\<exists>r c'. send_standard_response fleet_io (Short s) QueryControlGearPresent c = (Ok r, c') \<and> attentive c'
      \<and> stations (line c') = stations (line c) \<and> regs (line c') = regs (line c)
      \<and> is_yes r = (\<exists>st\<in>set (stations (line c)). st_matches (Short s) st)"
proof -
  obtain r c' where c': "send_command_observed fleet_io (Standard (Short s) QueryControlGearPresent) c = (Ok (r, False), c')"
      "attentive c'" "asked (Short s) QueryControlGearPresent r (line c) (line c')"
    using query_observed [OF assms(1), of "Short s" QueryControlGearPresent] assms(2) by auto
  have "is_yes r \<longleftrightarrow> (\<exists>st\<in>set (stations (line c)). st_matches (Short s) st \<and> True)"
    by (rule asked_yes [OF c'(3)])
      (simp_all add: ungrouped_def bus_register_query_def gear_query_reply_def level_query_reply_def answer_byte_def Let_def)
  then show ?thesis
    using c' by (auto simp: send_standard_response_def send_standard_def send_command_def andThen_def mapErr_def asked_def)
qed

lemma unaddressed_step:
  assumes "attentive c"
  shows "\<exists>c'. any_unaddressed_gear fleet_io c
        = (Ok (\<exists>st\<in>set (stations (line c)). st_enabled st \<and> short_address (st_spec st) = None), c') \<and> attentive c'
      \<and> stations (line c') = stations (line c) \<and> regs (line c') = regs (line c)"
proof -
  obtain r c' where c': "send_command_observed fleet_io (Standard Broadcast QueryMissingShortAddress) c = (Ok (r, False), c')"
      "attentive c'" "asked Broadcast QueryMissingShortAddress r (line c) (line c')"
    using query_observed [OF assms(1), of Broadcast QueryMissingShortAddress] by auto
  have "is_yes r \<longleftrightarrow> (\<exists>st\<in>set (stations (line c)). st_matches Broadcast st \<and> short_address (st_spec st) = None)"
    by (rule asked_yes [OF c'(3)])
      (simp_all add: ungrouped_def bus_register_query_def gear_query_reply_def level_query_reply_def answer_byte_def
        identity_query_reply_def answer_if_def load_report_for_query_def station_def Let_def)
  then show ?thesis
    using c' by (auto simp: any_unaddressed_gear_def send_standard_response_def send_standard_def send_command_def
        andThen_def mapErr_def asked_def st_matches_def)
qed

end
