(* ===== verification/Line_Identity.thy ===== *)
theory Line_Identity
  imports Line_Queries
begin

text \<open>
  Identifying one gear on a line of modelled gear: the device-type walk reads exactly the gear's
  device types, the colour probe changes no station, and detection always ends in a device.
\<close>

section \<open>The device-type walk of one gear\<close>

definition typed :: "u8 list \<Rightarrow> bool" where
  "typed ts \<longleftrightarrow> distinct ts \<and> length ts \<le> 16 \<and> (\<forall>t\<in>set ts. t < 254)"

lemma asked_one:
  assumes "asked a q r fl fl'" "selected a fl = [g]" "bus_register_query q fl = None"
  obtains g' where "station g' = station g"
    "device_type_walk g' = (if q = QueryDeviceType \<or> q = QueryNextDeviceType then device_type_walk g else None)"
    "selected a fl' = [snd (gear_query_reply q g')]" "response_value r = answer_byte (fst (gear_query_reply q g'))"
proof -
  obtain h oc where h: "heard_query a q h" "selected a fl' = map snd (replies a q h fl)"
      "read_as (merge_answers (List.map_filter (answer_byte \<circ> fst) (replies a q h fl))) oc" "r = response_from_outcome oc"
    using assms(1) by (auto simp: asked_def)
  have "gear_matches g a"
    using assms(2) by (auto simp: selected_def filter_eq_Cons_iff)
  then have "station (h g) = station g"
    "device_type_walk (h g) = (if q = QueryDeviceType \<or> q = QueryNextDeviceType then device_type_walk g else None)"
    using h(1) by (simp_all add: heard_query_def)
  moreover have "replies a q h fl = [gear_query_reply q (h g)]"
    by (simp add: replies_def assms(2,3) reply_of_def)
  ultimately show thesis
    using h(2-4) by (intro that [of "h g"])
      (auto simp: List.map_filter_simps response_from_outcome_def read_as_def split: option.split_asm)
qed

lemma walk_replies:
  "gear_query_reply QueryDeviceType g = device_type_reply g"
  "gear_query_reply QueryNextDeviceType g = next_device_type_reply g"
  by (simp_all add: gear_query_reply_def level_query_reply_def identity_query_reply_def load_report_for_query_def
      Let_def split: prod.split)

definition types_of :: "Gear \<Rightarrow> u8 list" where
  "types_of g = device_types (spec g)"

lemma types_station: "station g' = station g \<Longrightarrow> types_of g' = types_of g"
  by (simp add: types_of_def station_def)

lemma first_type_step:
  assumes "attentive c" "s \<le> 63" "selected (Short s) (line c) = [g]"
  shows "\<exists>c' g'. send_standard_query_observed fleet_io (Short s) QueryDeviceType c
        = (Ok (Some (case types_of g of [] \<Rightarrow> 254 | [t] \<Rightarrow> t | _ \<Rightarrow> 255), False), c') \<and> attentive c'
      \<and> stations (line c') = stations (line c) \<and> regs (line c') = regs (line c)
      \<and> selected (Short s) (line c') = [g'] \<and> types_of g' = types_of g
      \<and> (length (types_of g) > 1 \<longrightarrow> device_type_walk g' = Some 0)"
proof -
  obtain r c' where c': "send_command_observed fleet_io (Standard (Short s) QueryDeviceType) c = (Ok (r, False), c')"
      "attentive c'" "asked (Short s) QueryDeviceType r (line c) (line c')"
    using query_observed [OF assms(1), of "Short s" QueryDeviceType] assms(2) by auto
  obtain g' where g': "station g' = station g" "selected (Short s) (line c') = [snd (device_type_reply g')]"
      "response_value r = answer_byte (fst (device_type_reply g'))"
    using asked_one [OF c'(3) assms(3)] by (auto simp: walk_replies bus_register_query_def)
  have r: "r \<noteq> Violation"
    using c'(3) g'
    by (auto simp: device_type_reply_def answer_byte_def response_value_def split: list.splits)
  have v: "response_value r = Some (case types_of g of [] \<Rightarrow> 254 | [t] \<Rightarrow> t | _ \<Rightarrow> 255)"
    using g'(3) types_station [OF g'(1)]
    by (auto simp: device_type_reply_def types_of_def answer_byte_def split: list.splits)
  have "length (types_of g) > 1 \<longrightarrow> device_type_walk (snd (device_type_reply g')) = Some 0"
    using types_station [OF g'(1)] by (auto simp: device_type_reply_def types_of_def split: list.splits)
  moreover have "types_of (snd (device_type_reply g')) = types_of g"
    using types_station [OF g'(1)] by (auto simp: device_type_reply_def types_of_def split: list.splits)
  ultimately show ?thesis
    using c' g'(2) r v
    by (auto simp: send_standard_query_observed_def andThen_def mapErr_def observed_value_def asked_def)
qed

lemma next_type_step:
  assumes "attentive c" "s \<le> 63" "selected (Short s) (line c) = [g]" "device_type_walk g = Some i"
  shows "\<exists>c' g'. send_standard_query_once fleet_io (Short s) QueryNextDeviceType c
        = (Ok (Some (if i < length (types_of g) then types_of g ! i else 254)), c') \<and> attentive c'
      \<and> stations (line c') = stations (line c) \<and> regs (line c') = regs (line c)
      \<and> selected (Short s) (line c') = [g'] \<and> types_of g' = types_of g
      \<and> (i < length (types_of g) \<longrightarrow> device_type_walk g' = Some (Suc i))"
proof -
  obtain r c' where c': "exchange_once fleet_io (standard_forward_frame QueryNextDeviceType (Short s)) True c
        = (Ok (r, False), c')" "attentive c'" "asked (Short s) QueryNextDeviceType r (line c) (line c')"
    using query_once [OF assms(1), of "Short s" QueryNextDeviceType] assms(2) by auto
  obtain g' where g': "station g' = station g" "device_type_walk g' = Some i"
      "selected (Short s) (line c') = [snd (next_device_type_reply g')]"
      "response_value r = answer_byte (fst (next_device_type_reply g'))"
    using asked_one [OF c'(3) assms(3)] assms(4) by (auto simp: walk_replies bus_register_query_def)
  have ts: "device_types (spec g') = types_of g"
    using types_station [OF g'(1)] by (simp add: types_of_def)
  show ?thesis
    using c' g' by (auto simp: send_standard_query_once_def andThen_def mapErr_def asked_def next_device_type_reply_def
        answer_byte_def types_of_def [of "_ :: Gear"] ts)
qed

lemma walk_steps_fleet:
  assumes "attentive c" "s \<le> 63" "selected (Short s) (line c) = [g]" "device_type_walk g = Some i"
    and "typed (types_of g)" "i \<le> length (types_of g)" "length (types_of g) - i < n"
    and "sorted acc" "distinct acc" "set acc = set (take i (types_of g))"
  shows "\<exists>c'. walk_steps fleet_io (Short s) n acc c = (Ok (WalkComplete (sorted_list_of_set (set (types_of g)))), c')
      \<and> attentive c' \<and> stations (line c') = stations (line c) \<and> regs (line c') = regs (line c)"
  using assms
proof (induction n arbitrary: i g acc c)
  case (Suc n)
  obtain c' g' where c': "send_standard_query_once fleet_io (Short s) QueryNextDeviceType c
        = (Ok (Some (if i < length (types_of g) then types_of g ! i else 254)), c')" "attentive c'"
      "stations (line c') = stations (line c)" "regs (line c') = regs (line c)"
      "selected (Short s) (line c') = [g']" "types_of g' = types_of g"
      "i < length (types_of g) \<longrightarrow> device_type_walk g' = Some (Suc i)"
    using next_type_step [OF Suc.prems(1-4)] by blast
  show ?case
  proof (cases "i < length (types_of g)")
    case False
    then have "acc = sorted_list_of_set (set (types_of g))"
      using Suc.prems by (intro sorted_distinct_set_unique) simp_all
    then show ?thesis
      using False c' by simp
  next
    case True
    define v where "v = types_of g ! i"
    have v: "v < 254" "v \<notin> set acc"
      using Suc.prems True nth_mem [OF True]
      by (auto simp: typed_def v_def in_set_conv_nth nth_eq_iff_index_eq)
    have next_acc: "sorted (insort v acc)" "distinct (insort v acc)" "set (insort v acc) = set (take (Suc i) (types_of g))"
      using Suc.prems True v by (auto simp: sorted_insort distinct_insort set_insort_key take_Suc_conv_app_nth v_def)
    have "length (insort v acc) = card (set (take (Suc i) (types_of g)))"
      using next_acc by (metis distinct_card)
    also have "\<dots> \<le> 16"
      using Suc.prems(5) card_length [of "take (Suc i) (types_of g)"] True by (simp add: typed_def)
    finally have len: "\<not> 16 < length (insort v acc)"
      by simp
    have "\<exists>c''. walk_steps fleet_io (Short s) n (insort v acc) c'
          = (Ok (WalkComplete (sorted_list_of_set (set (types_of g')))), c'')
        \<and> attentive c'' \<and> stations (line c'') = stations (line c') \<and> regs (line c'') = regs (line c')"
      using Suc.prems True c' next_acc by (intro Suc.IH [where i = "Suc i"]) simp_all
    then show ?thesis
      using c' True v len by (auto simp: btree_insert_def v_def [symmetric])
  qed
qed simp

lemma enumerate_fleet:
  assumes "attentive c" "s \<le> 63" "selected (Short s) (line c) = [g]" "typed (types_of g)" "\<not> confirm_enabled policy"
  shows "\<exists>c'. enumerate_device_types fleet_io (Short s) policy c
        = (Ok (EnumDone \<lparr>answered = True, supported = sorted_list_of_set (set (types_of g)), enum_degraded = False\<rparr>), c')
      \<and> attentive c' \<and> stations (line c') = stations (line c) \<and> regs (line c') = regs (line c)"
proof -
  obtain c' g' where c': "send_standard_query_observed fleet_io (Short s) QueryDeviceType c
        = (Ok (Some (case types_of g of [] \<Rightarrow> 254 | [t] \<Rightarrow> t | _ \<Rightarrow> 255), False), c')" "attentive c'"
      "stations (line c') = stations (line c)" "regs (line c') = regs (line c)"
      "selected (Short s) (line c') = [g']" "types_of g' = types_of g"
      "length (types_of g) > 1 \<longrightarrow> device_type_walk g' = Some 0"
    using first_type_step [OF assms(1-3)] by blast
  consider "types_of g = []" | t where "types_of g = [t]" | t u ts where "types_of g = t # u # ts"
    by (metis neq_Nil_conv)
  then show ?thesis
  proof cases
    case 3
    have "\<exists>c''. walk_steps fleet_io (Short s) 17 [] c'
          = (Ok (WalkComplete (sorted_list_of_set (set (types_of g')))), c'')
        \<and> attentive c'' \<and> stations (line c'') = stations (line c') \<and> regs (line c'') = regs (line c')"
      using assms c' 3 by (intro walk_steps_fleet [where i = 0]) (simp_all add: typed_def)
    then show ?thesis
      using c' 3 by (auto simp: enumerate_device_types_def send_standard_query_stable_def confirm_observed_query_def
          andThen_def walk_mask_sequence_def sdt_default_def)
  qed (use assms c' in \<open>auto simp: enumerate_device_types_def send_standard_query_stable_def confirm_observed_query_def
          andThen_def sdt_default_def typed_def\<close>)
qed

section \<open>The colour probe\<close>

lemma deliver_enable:
  assumes "calm (line_now w)" "deliver (raw (special_forward_frame (EnableDeviceType t))) e w = (oc, w')"
  shows "stations (fleet w') = stations (line_now w)" "reserved (fleet w') = reserved (line_now w)"
    "\<exists>k. regs (fleet w') = (regs (line_now w))\<lparr>enabled_device_type := Some (t, k)\<rparr>"
proof -
  define fl' where "fl' = prepare (raw (special_forward_frame (EnableDeviceType t))) (Some (Special (EnableDeviceType t)))
    (special_requires_repeat (EnableDeviceType t)) (line_now w)"
  have fl': "stations fl' = stations (line_now w)" "regs fl' = regs (line_now w)" "reserved fl' = reserved (line_now w)"
    by (simp_all add: fl'_def)
  have "armed_of (line_now w) = None"
    using assms(1) by (simp add: calm_def)
  moreover obtain oc0 where "exchange (raw (special_forward_frame (EnableDeviceType t))) e (line_now w) = (oc0, fleet w')"
    using assms(2) unfolding line_now_def by (rule deliver_exchange)
  ultimately have "fleet w' = snd (on_special (EnableDeviceType t) fl')"
    using exchange_special [of "line_now w" "EnableDeviceType t" e] by (metis fl'_def snd_conv)
  moreover have "stations (snd (on_special (EnableDeviceType t) fl')) = stations fl'"
    "reserved (snd (on_special (EnableDeviceType t) fl')) = reserved fl'"
    "\<exists>k. regs (snd (on_special (EnableDeviceType t) fl')) = (regs fl')\<lparr>enabled_device_type := Some (t, k)\<rparr>"
    by (auto simp: on_special_def on_memory_write_def stops_identification_def publish_none_def publish_def Let_def
        stations_for_gears station_def) (auto simp: stations_def for_gears_def station_def)
  ultimately show "stations (fleet w') = stations (line_now w)" "reserved (fleet w') = reserved (line_now w)"
    "\<exists>k. regs (fleet w') = (regs (line_now w))\<lparr>enabled_device_type := Some (t, k)\<rparr>"
    by (simp_all add: fl')
qed

definition colour_probe :: "u8 \<Rightarrow> bool" where
  "colour_probe opcode \<longleftrightarrow> opcode = 248 \<or> opcode = 249"

lemma decode_colour_probe:
  assumes "address_ok a" "colour_probe opcode"
  shows "\<exists>e. decode_frame (raw (raw_query_frame a opcode)) = Some (Extended a e) \<and> \<not> extended_requires_repeat e"
proof -
  note a = decode_selected_address [OF assms(1)]
  have "try_decode_special (encode_address_byte a OR 1) opcode = None"
    using a by (rule addressed_not_special)
  then show ?thesis
    using a assms(2)
    by (auto simp: decode_frame_def raw_query_frame_def frame_bytes dali_command_from_wire_def try_decode_extended_def
        extended_from_opcode_def selector_bits colour_probe_def dt6_from_opcode_def dt8_from_opcode_def
        dt6_metadata_def dt8_metadata_def dt6_opcode_requires_repeat_def dt8_opcode_requires_repeat_def)
qed

lemma prepare_holds_nothing: "\<forall>g\<in>set (gears (prepare frame decoded False fl)). \<not> gear_holds g frame"
  by (auto simp: prepare_def fleet_hear_def hear_gear_def gear_hear_def hear_elsewhere_def cancel_device_type_walk_def
      gear_holds_def for_gears_def Let_def split: if_split_asm)

lemma take_armed:
  assumes "armed_of fl = Some (t, k)"
  shows "\<exists>armed. take_enabled_device_type fl = (armed, fl\<lparr>regs := (regs fl)\<lparr>enabled_device_type := None\<rparr>\<rparr>)
      \<and> (armed = None \<or> armed = Some t)"
  using assms by (simp add: take_enabled_device_type_def fresh_device_type_def)

lemma act_on_colour_probe:
  assumes "address_ok a" "colour_probe opcode" "armed_of fl = Some (8, k)"
    and "\<forall>g\<in>set (gears fl). \<not> gear_holds g (raw (raw_query_frame a opcode))"
    and out: "act_on (raw (raw_query_frame a opcode)) decoded True fl = (oc, fl')"
  shows "gears fl' = gears fl" "regs fl' = (regs fl)\<lparr>enabled_device_type := None\<rparr>" "reserved fl' = reserved fl"
    "oc = merge_answers (answers fl')" "answers fl' \<noteq> [] \<Longrightarrow> \<exists>g\<in>set (gears fl). gear_matches g a \<and> is_dt8 g"
proof -
  define fl1 where "fl1 = fl\<lparr>regs := (regs fl)\<lparr>enabled_device_type := None\<rparr>\<rparr>"
  obtain armed where armed: "take_enabled_device_type fl = (armed, fl1)" "armed = None \<or> armed = Some 8"
    using take_armed [OF assms(3)] by (auto simp: fl1_def)
  have carry: "carry_prelude_over_held_half (raw (raw_query_frame a opcode)) armed fl1 = fl1"
    using assms(4) by (auto simp: carry_prelude_over_held_half_def fl1_def list_ex_iff split: option.split)
  have dt8: "is_dt8_opcode opcode"
    using assms(2) by (auto simp: colour_probe_def is_dt8_opcode_def dt8_from_opcode_def)
  have other: "opcode \<noteq> 0xC5" "armed \<noteq> Some (code Led)" "armed \<noteq> Some (code DeviceType.Switching)"
    using assms(2) armed(2) by (auto simp: colour_probe_def)
  have "act_on (raw (raw_query_frame a opcode)) decoded True fl = on_extended_dt8 a opcode True armed fl1"
    using other armed dt8 decode_selected_address [OF assms(1)] carry
    by (simp add: act_on_def raw_query_frame_def frame_bytes selector_bits)
  then have "(oc, fl') = on_extended_dt8 a opcode True armed fl1"
    using out by simp
  then show "gears fl' = gears fl" "regs fl' = (regs fl)\<lparr>enabled_device_type := None\<rparr>" "reserved fl' = reserved fl"
    "oc = merge_answers (answers fl')" "answers fl' \<noteq> [] \<Longrightarrow> \<exists>g\<in>set (gears fl). gear_matches g a \<and> is_dt8 g"
    using assms(2) armed(2)
    by (auto simp: on_extended_dt8_def on_dt8_def on_dt8_query_def publish_none_def publish_def fl1_def colour_probe_def
        Let_def filter_empty_conv)
qed

lemma deliver_colour_probe:
  assumes "armed_of (fleet w) = Some (8, k)" "\<forall>s\<in>set (stations (fleet w)). st_pending s = None"
    and "address_ok a" "ungrouped a" "colour_probe opcode"
    and w': "deliver (raw (raw_query_frame a opcode)) True w = (oc, w')"
  shows "stations (fleet w') = stations (fleet w)" "reserved (fleet w') = reserved (fleet w)"
    "regs (fleet w') = (regs (fleet w))\<lparr>enabled_device_type := None\<rparr>"
    "is_yes (response_from_outcome oc) \<Longrightarrow>
      \<exists>s\<in>set (stations (fleet w)). st_matches a s \<and> 8 \<in> set (device_types (st_spec s))"
proof -
  define fl where "fl = advance_to_ms (fleet_clock w) (fleet w)"
  have fl: "gears fl = gears (fleet w)" "regs fl = regs (fleet w)" "reserved fl = reserved (fleet w)"
    using advance_rest [OF assms(2)] by (simp_all add: fl_def)
  then have st: "stations fl = stations (fleet w)"
    by (simp add: stations_def)
  obtain e where e: "decode_frame (raw (raw_query_frame a opcode)) = Some (Extended a e)" "\<not> extended_requires_repeat e"
    using decode_colour_probe [OF assms(3,5)] by blast
  have "\<not> pairs_now (raw (raw_query_frame a opcode)) fl"
    using assms(1,5) e by (auto simp: pairs_now_def requires_repeat_under_def fresh_device_type_def fl
        raw_query_frame_def frame_bytes extended_under_def device_type_from_u8_def colour_probe_def dt8_from_opcode_def
        dt8_metadata_def dt8_opcode_requires_repeat_def)
  then have ex: "exchange (raw (raw_query_frame a opcode)) True fl = act_on (raw (raw_query_frame a opcode))
      (Some (Extended a e)) True (prepare (raw (raw_query_frame a opcode)) (Some (Extended a e)) False fl)"
    by (simp add: exchange_split e)
  obtain oc0 where oc0: "exchange (raw (raw_query_frame a opcode)) True fl = (oc0, fleet w')" "read_as oc0 oc"
    using w' unfolding fl_def by (rule deliver_exchange)
  then have act: "act_on (raw (raw_query_frame a opcode))
      (Some (Extended a e)) True (prepare (raw (raw_query_frame a opcode)) (Some (Extended a e)) False fl) = (oc0, fleet w')"
    by (simp add: ex)
  have armed: "armed_of (prepare (raw (raw_query_frame a opcode)) (Some (Extended a e)) False fl) = Some (8, k)"
    using assms(1) by (simp add: fl)
  note A = act_on_colour_probe [OF assms(3,5) armed prepare_holds_nothing act]
  show S: "stations (fleet w') = stations (fleet w)" "reserved (fleet w') = reserved (fleet w)"
    "regs (fleet w') = (regs (fleet w))\<lparr>enabled_device_type := None\<rparr>"
    using A(1-3) by (simp_all add: st fl) (metis prepare_view(1) st stations_def)
  assume "is_yes (response_from_outcome oc)"
  then have "is_yes (response_from_outcome oc0)"
    by (simp add: read_as_yes [OF oc0(2)])
  then obtain g where "g \<in> set (gears (prepare (raw (raw_query_frame a opcode)) (Some (Extended a e)) False fl))"
      "gear_matches g a" "is_dt8 g"
    using A(4,5) by auto
  then have "station g \<in> set (stations (prepare (raw (raw_query_frame a opcode)) (Some (Extended a e)) False fl))"
    "st_matches a (station g)" "8 \<in> set (device_types (st_spec (station g)))"
    using matches_station [OF assms(4)] by (auto simp: stations_def is_dt8_def station_def)
  then show "\<exists>s\<in>set (stations (fleet w)). st_matches a s \<and> 8 \<in> set (device_types (st_spec s))"
    unfolding prepare_view(1) st by blast
qed

definition colour_gear :: "DaliAddress \<Rightarrow> GearFleet \<Rightarrow> bool" where
  "colour_gear a fl \<longleftrightarrow> (\<exists>s\<in>set (stations fl). st_matches a s \<and> 8 \<in> set (device_types (st_spec s)))"

text \<open>Two lines on which addressing and identity queries answer alike.\<close>

definition unmoved :: "FleetWorld DaliController \<Rightarrow> FleetWorld DaliController \<Rightarrow> bool" where
  "unmoved c c' \<longleftrightarrow> attentive c' \<and> stations (line c') = stations (line c) \<and> regs (line c') = regs (line c)"

lemma unmoved_trans [trans]: "unmoved c c' \<Longrightarrow> unmoved c' c'' \<Longrightarrow> unmoved c c''"
  by (simp add: unmoved_def)

lemma unmoved_colour: "unmoved c c' \<Longrightarrow> colour_gear a (line c') = colour_gear a (line c)"
  by (simp add: unmoved_def colour_gear_def)

lemma colour_probe_step:
  assumes "attentive c" "address_ok a" "ungrouped a" "colour_probe opcode"
  shows "\<exists>v c'. send_dt8_raw_query_observed fleet_io a opcode c = (Ok (v, False), c') \<and> unmoved c c'
      \<and> (v \<noteq> None \<longrightarrow> colour_gear a (line c))"
proof -
  have calm: "calm (line c)" "quiet (tx_open False c)"
    using assms(1) by (simp_all add: attentive_def quiet_simps)
  obtain r c1 where c1: "send_unit fleet_io (Some (special_forward_frame (EnableDeviceType 8))) (raw_query_frame a opcode)
        True False (tx_open False c) = (Ok (r, False), c1)" "quiet c1"
      "sends (Some (special_forward_frame (EnableDeviceType 8))) (raw_query_frame a opcode) True False (world c) r (world c1)"
    using send_unit_fleet [OF calm(2), of "Some (special_forward_frame (EnableDeviceType 8))" "raw_query_frame a opcode" True False]
    by auto
  then obtain r0 w where sent: "delivers False (special_forward_frame (EnableDeviceType 8)) (world c) r0 w"
      "delivers True (raw_query_frame a opcode) w r (world c1)"
    by (auto simp: sends_def)
  obtain d oc0 where w0: "deliver (raw (special_forward_frame (EnableDeviceType 8))) False (later d (world c)) = (oc0, w)"
    using sent(1) by (rule delivers_elim)
  obtain d' oc where w: "deliver (raw (raw_query_frame a opcode)) True (later d' w) = (oc, world c1)"
      "r = response_from_outcome (heard_outcome True oc)"
    using sent(2) by (rule delivers_elim)
  note L = calm_later [OF calm(1), of d]
  have "calm (line_now (later d (world c)))"
    using calm(1) calm_view [OF L(2-4)] by simp
  note E = deliver_enable [OF this w0, unfolded L]
  obtain k where k: "regs (fleet w) = (regs (line c))\<lparr>enabled_device_type := Some (8, k)\<rparr>"
    using E(3) by blast
  have same: "fleet (later d' w) = fleet w"
    by (simp add: later_def)
  have "armed_of (fleet (later d' w)) = Some (8, k)" "\<forall>s\<in>set (stations (fleet (later d' w))). st_pending s = None"
    using calm_pending [OF calm(1)] E(1) by (simp_all add: same k)
  note P = deliver_colour_probe [OF this assms(2-4) w(1), unfolded same]
  have view: "stations (fleet (world c1)) = stations (line c)" "regs (fleet (world c1)) = regs (line c)"
    "reserved (fleet (world c1)) = reserved (line c)"
    using calm(1) by (simp_all add: P k E calm_def)
  have calm1: "calm (fleet (world c1))"
    using calm(1) calm_view [OF view] by simp
  note R = calm_rest [OF calm1]
  have "unmoved c (tx_close c1)"
    using c1(2) calm1 calm_view [OF R(2-4)] by (simp add: unmoved_def attentive_def quiet_simps R view)
  moreover have "response_value r \<noteq> None \<longrightarrow> colour_gear a (line c)"
  proof -
    have r: "r = response_from_outcome oc"
      by (simp add: w(2) heard_outcome_def)
    show ?thesis
      using P(4) unfolding r [symmetric] colour_gear_def E(1) by (cases r) simp_all
  qed
  ultimately show ?thesis
    using c1(1) by (auto simp: send_dt8_raw_query_observed_def send_raw_enabled_query_def run_transaction_def andThen_def
        mapErr_def)
qed

section \<open>Reading without moving the line\<close>

definition yields :: "(FleetWorld DaliController, 'e, 'v) act \<Rightarrow> FleetWorld DaliController \<Rightarrow> ('v \<Rightarrow> bool) \<Rightarrow> bool" where
  "yields m c P \<longleftrightarrow> (\<exists>v c'. m c = (Ok v, c') \<and> unmoved c c' \<and> P v)"

lemma yields_pass: "attentive c \<Longrightarrow> P v \<Longrightarrow> yields (pass v) c P"
  by (simp add: yields_def unmoved_def)

lemma yields_andThen:
  assumes "yields m c P" "\<And>v c'. unmoved c c' \<Longrightarrow> P v \<Longrightarrow> yields (k v) c' Q"
  shows "yields (andThen m k) c Q"
proof -
  obtain v c' where v: "m c = (Ok v, c')" "unmoved c c'" "P v"
    using assms(1) by (auto simp: yields_def)
  then obtain u c'' where "k v c' = (Ok u, c'')" "unmoved c' c''" "Q u"
    using assms(2) by (force simp: yields_def)
  then show ?thesis
    using v unmoved_trans by (auto simp: yields_def andThen_def)
qed

lemma yields_mono: "yields m c P \<Longrightarrow> (\<And>v. P v \<Longrightarrow> Q v) \<Longrightarrow> yields m c Q"
  by (auto simp: yields_def)

lemma colour_query:
  assumes "attentive c" "address_ok a" "ungrouped a" "colour_probe opcode" "\<not> confirm_enabled policy"
  shows "yields (send_dt8_raw_query_stable fleet_io policy a opcode) c (\<lambda>v. v \<noteq> None \<longrightarrow> colour_gear a (line c))"
proof -
  have "yields (send_dt8_raw_query_observed fleet_io a opcode) c (\<lambda>v. \<not> snd v \<and> (fst v \<noteq> None \<longrightarrow> colour_gear a (line c)))"
    using colour_probe_step [OF assms(1-4)] by (auto simp: yields_def)
  then show ?thesis
    unfolding send_dt8_raw_query_stable_def confirm_observed_query_def
    by (rule yields_andThen) (auto simp: assms(5) unmoved_def intro: yields_pass)
qed

lemma capabilities_read:
  assumes "attentive c" "address_ok a" "ungrouped a" "\<not> confirm_enabled policy"
  shows "yields (query_dt8_capabilities fleet_io a policy) c (\<lambda>v. v \<noteq> None \<longrightarrow> colour_gear a (line c))"
proof -
  have features: "yields (query_colour_type_features fleet_io a policy) c' (\<lambda>v. v \<noteq> None \<longrightarrow> colour_gear a (line c))"
    if "unmoved c c'" for c'
    unfolding query_colour_type_features_def unmoved_colour [OF that, symmetric]
    using that assms by (intro colour_query) (simp_all add: unmoved_def colour_probe_def)
  have workaround: "attentive (note_workaround f c') = attentive c'" "world (note_workaround f c') = world c'" for f c'
    by (simp_all add: note_workaround_def attentive_def quiet_simps)
  have reread: "yields (reread_colour_type_features fleet_io a policy first) c' (\<lambda>v. v \<noteq> None \<longrightarrow> colour_gear a (line c))"
    if "unmoved c c'" "first \<noteq> None \<longrightarrow> colour_gear a (line c)" for c' first
    unfolding reread_colour_type_features_def
    by (rule yields_andThen [OF features [OF that(1)]])
      (use that(2) in \<open>auto simp: yields_def unmoved_def workaround split: option.splits\<close>)
  show ?thesis
    unfolding query_dt8_capabilities_def
    by (rule yields_andThen [OF features])
      (use assms(1) in \<open>auto simp: unmoved_def intro!: yields_andThen [OF reread] yields_andThen [OF yields_pass] yields_pass\<close>)
qed

section \<open>Detecting a gear\<close>

lemma colour_status_read:
  assumes "attentive c" "address_ok a" "ungrouped a" "\<not> confirm_enabled policy"
  shows "yields (query_dt8_status fleet_io a fallback ts policy) c
      (\<lambda>st. dt8_supported st \<longrightarrow> 8 \<in> set ts \<or> colour_gear a (line c))"
proof -
  have mode: "yields (query_dt8_color_mode_response fleet_io a policy) c' (\<lambda>v. v \<noteq> None \<longrightarrow> colour_gear a (line c))"
    if "unmoved c c'" for c'
    unfolding query_dt8_color_mode_response_def
    by (rule yields_andThen [OF colour_query])
      (use that assms in \<open>auto simp: unmoved_def colour_probe_def unmoved_colour [OF that] intro!: yields_pass\<close>)
  show ?thesis
  proof (cases "8 \<notin> set ts \<and> \<not> fallback")
    case True
    then show ?thesis
      using assms(1) by (auto simp: query_dt8_status_def dt8_status_default_def intro!: yields_pass)
  next
    case False
    then have "query_dt8_status fleet_io a fallback ts policy =
        andThen (query_dt8_capabilities fleet_io a policy) (\<lambda>caps. andThen (query_dt8_color_mode_response fleet_io a policy) (\<lambda>mode.
          pass (if \<not> (8 \<in> set ts \<or> caps \<noteq> None \<or> mode \<noteq> None) then dt8_status_default
            else \<lparr>dt8_supported = True, capabilities = caps, status_color_mode = infer_dt8_discovered_color_mode caps
                   (case mode of Some m \<Rightarrow> m | None \<Rightarrow> CmUnknown)\<rparr>)))"
      by (auto simp: query_dt8_status_def if_distrib [where f = pass] intro!: arg_cong2 [where f = andThen])
    then show ?thesis
      by (simp only:) (rule yields_andThen [OF capabilities_read [OF assms]], rule yields_andThen [OF mode], assumption,
        rule yields_pass, auto simp: dt8_status_default_def unmoved_def split: if_split_asm)
  qed
qed

definition types_known :: "SupportedDeviceTypesQuery \<Rightarrow> u8 list \<Rightarrow> bool" where
  "types_known q ts \<longleftrightarrow> q = \<lparr>answered = True, supported = sorted_list_of_set (set ts), enum_degraded = False\<rparr>"

lemma types_read:
  assumes "attentive c" "s \<le> 63" "selected (Short s) (line c) = [g]" "typed (types_of g)" "\<not> confirm_enabled policy"
  shows "yields (query_types_with_scan_degrade fleet_io (Short s) probe policy) c (\<lambda>q. types_known q (types_of g))"
proof -
  have open_ok: "attentive (tx_open True c)" "selected (Short s) (line (tx_open True c)) = [g]"
    using assms(1,3) by simp_all
  obtain c' where "enumerate_device_types fleet_io (Short s) policy (tx_open True c)
        = (Ok (EnumDone \<lparr>answered = True, supported = sorted_list_of_set (set (types_of g)), enum_degraded = False\<rparr>), c')"
      "attentive c'" "stations (line c') = stations (line c)" "regs (line c') = regs (line c)"
    using enumerate_fleet [OF open_ok(1) assms(2) open_ok(2) assms(4,5)] by auto
  then show ?thesis
    by (simp add: yields_def query_types_with_scan_degrade_def query_supported_device_types_with_policy_def
        run_transaction_def numeral_2_eq_2 types_known_def unmoved_def)
qed

text \<open>The identity a detection reports for a gear with device types \<open>ts\<close>.\<close>

definition reports_identity :: "u8 \<Rightarrow> u8 list \<Rightarrow> DiscoveredDevice \<Rightarrow> bool" where
  "reports_identity s ts d \<longleftrightarrow> dd_short_address d = s \<and> dd_random_address d = None
     \<and> dd_device_type d = classify_supported_device_types ts \<and> \<not> type_enum_degraded d
     \<and> supported_device_types d = declare_all (sorted_list_of_set (set ts)) 0"

lemma identity_read:
  assumes "attentive c" "s \<le> 63" "selected (Short s) (line c) = [g]" "typed (types_of g)" "\<not> confirm_enabled policy"
  shows "yields (probe_device_identity_with_policy fleet_io (Short s) DiscoveryScan policy) c
      (\<lambda>i. detected i \<and> probed_device_type i = classify_supported_device_types (types_of g) \<and> \<not> probed_degraded i
        \<and> probed_types i = declare_all (sorted_list_of_set (set (types_of g))) 0)"
proof -
  have colour: "colour_gear (Short s) (line c) \<longleftrightarrow> 8 \<in> set (types_of g)"
  proof -
    have "{x \<in> set (gears (line c)). gear_matches x (Short s)} = {g}"
      using arg_cong [OF assms(3), of set] by (simp add: selected_def)
    moreover have "colour_gear (Short s) (line c) \<longleftrightarrow>
        (\<exists>x\<in>{x \<in> set (gears (line c)). gear_matches x (Short s)}. 8 \<in> set (types_of x))"
      by (auto simp: colour_gear_def stations_def matches_station ungrouped_def types_of_def station_def)
    ultimately show ?thesis
      by simp
  qed
  have same: "classify_supported_device_types (sorted_list_of_set (set ts)) = classify_supported_device_types ts" for ts
    by (simp add: classify_supported_device_types_def)
  show ?thesis
    unfolding probe_device_identity_with_policy_def
  proof (rule yields_andThen [OF types_read [OF assms]])
    fix q c'
    assume c': "unmoved c c'" and q: "types_known q (types_of g)"
    have att: "attentive c'"
      using c' by (simp add: unmoved_def)
    have st: "yields (if b then query_dt8_status fleet_io (Short s) f (supported q) policy else pass dt8_status_default) c'
        (\<lambda>st. dt8_supported st \<longrightarrow> 8 \<in> set (types_of g))" for b f
      using colour_status_read [OF att, of "Short s" policy f "supported q"] assms(2,5) q att
      by (auto simp: unmoved_colour [OF c'] colour ungrouped_def types_known_def dt8_status_default_def
          intro: yields_mono yields_pass)
    show "yields (let t = classify_supported_device_types (supported q); allow_fallback = (t = DtUnknown);
             should_probe = (case DiscoveryScan of DiscoveryScan \<Rightarrow> t = Dt8Color \<or> (allow_fallback \<and> answered q)
               | ExplicitRead \<Rightarrow> t = Dt8Color \<or> allow_fallback)
         in andThen (if should_probe then query_dt8_status fleet_io (Short s) allow_fallback (supported q) policy
                     else pass dt8_status_default) (\<lambda>st.
              if \<not> answered q \<and> \<not> dt8_supported st then pass probed_default
              else case fold_dt8_probe_into_identity t st (declared_device_types q) of
                     (t, mode, declared) \<Rightarrow>
                       pass \<lparr>detected = True, probed_device_type = t, probed_color_mode = mode, dt8_status = st,
                             probed_degraded = enum_degraded q, probed_types = declared\<rparr>)) c'
      (\<lambda>i. detected i \<and> probed_device_type i = classify_supported_device_types (types_of g) \<and> \<not> probed_degraded i
        \<and> probed_types i = declare_all (sorted_list_of_set (set (types_of g))) 0)"
      unfolding Let_def
      by (rule yields_andThen [OF st])
        (use q in \<open>auto simp: types_known_def same declared_device_types_def fold_dt8_probe_into_identity_def unmoved_def
          classify_supported_device_types_def intro!: yields_pass\<close>)
  qed
qed

lemma detect_device_fleet:
  assumes "attentive c" "s \<le> 63" "selected (Short s) (line c) = [g]" "typed (types_of g)"
  shows "yields (detect_device fleet_io s) c (\<lambda>d. \<exists>e. d = Some e \<and> reports_identity s (types_of g) e)"
proof -
  have "dali_short_address s = Ok (Short s)"
    using assms(2) by (simp add: dali_short_address_def short_def)
  then show ?thesis
    unfolding detect_device_def probe_device_identity_def
    using assms by (auto intro!: yields_andThen [OF identity_read] yields_pass simp: reports_identity_def unmoved_def Let_def)
qed

end
