(* ===== verification/Line_Commissioning.thy ===== *)
theory Line_Commissioning
  imports Line_Identity Random_Search
begin

text \<open>
  Commissioning a line of modelled gear, end to end: from the search bytes to the drain loop that
  gives every participating gear a short address of its own.
\<close>

section \<open>The search address\<close>

lemma send_special_step:
  assumes "attentive c" "addressing cmd"
  shows "\<exists>c'. send_special fleet_io cmd c = (Ok (), c') \<and> attentive c'
      \<and> stations (line c') = map (st_write cmd (search_of (line c))) (stations (line c))
      \<and> search_of (line c') = next_search cmd (search_of (line c))"
  using special_step [OF assms] by (auto simp: send_special_def andThen_def mapErr_def)

lemma send_special_response_step:
  assumes "attentive c" "addressing cmd" "special_expects_backward cmd"
  shows "\<exists>r c'. send_special_response fleet_io cmd c = (Ok r, c') \<and> attentive c'
      \<and> stations (line c') = map (st_write cmd (search_of (line c))) (stations (line c))
      \<and> search_of (line c') = next_search cmd (search_of (line c))
      \<and> is_yes r = (\<exists>s\<in>set (stations (line c)). st_answers cmd (search_of (line c)) s)"
  using special_step [OF assms(1,2)] assms(3) by (auto simp: send_special_response_def andThen_def mapErr_def)

lemma not_bit_above:
  fixes y :: "'a::len word"
  assumes "unat y < 2 ^ k" "k \<le> n"
  shows "\<not> bit y n"
proof -
  have "(2 :: nat) ^ k \<le> 2 ^ n"
    using assms(2) by (rule power_increasing) simp
  then have "unat y < 2 ^ n"
    using assms(1) by (rule order.strict_trans2 [rotated])
  then have "\<not> bit (unat y) n"
    by (simp add: bit_iff_odd)
  then show ?thesis
    using bit_imp_le_length [of y n] by (auto simp: bit_unsigned_iff)
qed

lemma search_bytes:
  fixes a x :: u32
  assumes "a < 2 ^ 24" "x < 2 ^ 24"
  shows "search_byte 0 (ucast (a AND 0xFF)) (search_byte 8 (ucast (drop_bit 8 a AND 0xFF))
      (search_byte 16 (ucast (drop_bit 16 a AND 0xFF)) x)) = a"
proof (rule bit_word_eqI)
  fix n
  have high: "\<not> bit y n" if "y < 2 ^ 24" "24 \<le> n" for y :: u32
    using that by (intro not_bit_above [of y 24]) (simp_all add: word_less_nat_alt)
  have byte: "(0xFF :: u32) = mask 8"
    by (simp add: mask_eq_exp_minus_1)
  assume "n < LENGTH(32)"
  then show "bit (search_byte 0 (ucast (a AND 0xFF)) (search_byte 8 (ucast (drop_bit 8 a AND 0xFF))
      (search_byte 16 (ucast (drop_bit 16 a AND 0xFF)) x))) n = bit a n"
    using high [OF assms(1)] high [OF assms(2)]
    by (cases "24 \<le> n") (auto simp: search_byte_def byte bit_simps)
qed

lemma st_write_idle [simp]:
  "st_write (SearchAddrH v) a = (\<lambda>s. s)" "st_write (SearchAddrM v) a = (\<lambda>s. s)" "st_write (SearchAddrL v) a = (\<lambda>s. s)"
  "st_write Compare a = (\<lambda>s. s)" "st_write (VerifyShortAddress v) a = (\<lambda>s. s)"
  by (simp_all add: st_write_def fun_eq_iff)

lemma set_search_step:
  assumes "attentive c" "a < 2 ^ 24"
  shows "\<exists>c'. set_search_address fleet_io a c = (Ok (), c') \<and> attentive c'
      \<and> stations (line c') = stations (line c) \<and> search_of (line c') = a"
proof -
  have small: "search_of (line c) < 2 ^ 24"
    using assms(1) by (simp add: attentive_def calm_def)
  obtain c1 where c1: "send_special fleet_io (SearchAddrH (ucast (drop_bit 16 a AND 0xFF))) c = (Ok (), c1)" "attentive c1"
      "stations (line c1) = stations (line c)"
      "search_of (line c1) = search_byte 16 (ucast (drop_bit 16 a AND 0xFF)) (search_of (line c))"
    using send_special_step [OF assms(1), of "SearchAddrH (ucast (drop_bit 16 a AND 0xFF))"]
    by (auto simp: addressing_def next_search_def)
  obtain c2 where c2: "send_special fleet_io (SearchAddrM (ucast (drop_bit 8 a AND 0xFF))) c1 = (Ok (), c2)" "attentive c2"
      "stations (line c2) = stations (line c1)"
      "search_of (line c2) = search_byte 8 (ucast (drop_bit 8 a AND 0xFF)) (search_of (line c1))"
    using send_special_step [OF c1(2), of "SearchAddrM (ucast (drop_bit 8 a AND 0xFF))"]
    by (auto simp: addressing_def next_search_def)
  obtain c3 where c3: "send_special fleet_io (SearchAddrL (ucast (a AND 0xFF))) c2 = (Ok (), c3)" "attentive c3"
      "stations (line c3) = stations (line c2)"
      "search_of (line c3) = search_byte 0 (ucast (a AND 0xFF)) (search_of (line c2))"
    using send_special_step [OF c2(2), of "SearchAddrL (ucast (a AND 0xFF))"]
    by (auto simp: addressing_def next_search_def)
  show ?thesis
    using c1 c2 c3 search_bytes [OF assms(2) small]
    by (simp add: set_search_address_def andThen_def)
qed

section \<open>Probing and searching\<close>

definition candidates :: "Station list \<Rightarrow> u32 set" where
  "candidates sts = {random_address (st_spec s) |s. s \<in> set sts \<and> st_enabled s \<and> st_initialise s \<and> \<not> st_withdrawn s}"

lemma probe_step:
  assumes "attentive c" "a < 2 ^ 24"
  shows "\<exists>c'. probe_search_address fleet_io a c = (Ok (\<exists>r\<in>candidates (stations (line c)). r \<le> a), c')
      \<and> attentive c' \<and> stations (line c') = stations (line c)"
proof -
  obtain c1 where c1: "set_search_address fleet_io a (tx_open True c) = (Ok (), c1)" "attentive c1"
      "stations (line c1) = stations (line c)" "search_of (line c1) = a"
    using set_search_step [of "tx_open True c" a] assms by auto
  obtain r c2 where c2: "send_special_response fleet_io Compare c1 = (Ok r, c2)" "attentive c2"
      "stations (line c2) = stations (line c1)"
      "is_yes r = (\<exists>s\<in>set (stations (line c1)). st_compares (search_of (line c1)) s)"
    using send_special_response_step [OF c1(2), of Compare]
    by (auto simp: addressing_def next_search_def st_answers_def special_expects_backward_def)
  have "is_yes r = (\<exists>r\<in>candidates (stations (line c)). r \<le> a)"
    by (auto simp: c2(4) c1 st_compares_def candidates_def)
  then show ?thesis
    using c1 c2 by (simp add: probe_search_address_def compare_yes_def run_transaction_def andThen_def)
qed

interpretation fleet_search: search_line "probe_search_address fleet_io" attentive "\<lambda>c. stations (line c)" candidates
  by unfold_locales (rule probe_step)

lemma candidates_small: "attentive c \<Longrightarrow> r \<in> candidates (stations (line c)) \<Longrightarrow> r < 2 ^ 24"
  by (auto simp: attentive_def calm_def candidates_def)

lemma find_lowest_some:
  assumes "attentive c" "m \<in> candidates (stations (line c))" "\<forall>r\<in>candidates (stations (line c)). m \<le> r"
  shows "\<exists>c'. find_lowest_random_address fleet_io c = (Ok (Some m), c') \<and> attentive c'
      \<and> stations (line c') = stations (line c)"
proof -
  have m: "m < 2 ^ 24" "m \<le> 0x00FFFFFF"
    using candidates_small [OF assms(1,2)] by (simp_all add: word_less_nat_alt word_le_nat_alt)
  have yes: "(\<exists>r\<in>candidates (stations (line c)). r \<le> 0x00FFFFFF) = True"
    "(\<exists>r\<in>candidates (stations (line c)). r \<le> m) = True"
    using assms(2) m by auto
  obtain c1 where c1: "probe_search_address fleet_io 0x00FFFFFF c = (Ok True, c1)" "attentive c1"
      "stations (line c1) = stations (line c)"
    using probe_step [OF assms(1), of "0x00FFFFFF"] yes(1) by auto
  obtain c2 where c2: "bisect (probe_search_address fleet_io) 0 0x00FFFFFF c1 = (Ok m, c2)" "attentive c2"
      "stations (line c2) = stations (line c)"
    using fleet_search.bisect_lowest [of c1 m 0 "0x00FFFFFF"] assms c1 m by auto
  obtain c3 where c3: "probe_search_address fleet_io m c2 = (Ok True, c3)" "attentive c3"
      "stations (line c3) = stations (line c)"
    using probe_step [OF c2(2) m(1)] yes(2) c2(3) by auto
  show ?thesis
    using c1 c2 c3 by (simp add: find_lowest_random_address_def andThen_def)
qed

lemma find_lowest_none:
  assumes "attentive c" "candidates (stations (line c)) = {}"
    and "\<forall>st\<in>set (stations (line c)). \<not> (st_enabled st \<and> short_address (st_spec st) = None)"
  shows "\<exists>c'. find_lowest_random_address fleet_io c = (Ok None, c') \<and> attentive c'
      \<and> stations (line c') = stations (line c)"
proof -
  obtain c1 where c1: "probe_search_address fleet_io 0x00FFFFFF c = (Ok False, c1)" "attentive c1"
      "stations (line c1) = stations (line c)"
    using probe_step [OF assms(1), of "0x00FFFFFF"] assms(2) by auto
  obtain c2 where c2: "any_unaddressed_gear fleet_io c1 = (Ok False, c2)" "attentive c2"
      "stations (line c2) = stations (line c)"
    using unaddressed_step [OF c1(2)] assms(3) c1(3) by auto
  show ?thesis
    using c1 c2 by (simp add: find_lowest_random_address_def andThen_def)
qed

lemma find_lowest_missed:
  assumes "attentive c" "candidates (stations (line c)) = {}"
    and "st \<in> set (stations (line c))" "st_enabled st" "short_address (st_spec st) = None"
  shows "\<exists>c'. find_lowest_random_address fleet_io c = (Err (OperationFailed ''unaddressed_gear_not_reached''), c')
      \<and> attentive c' \<and> stations (line c') = stations (line c)"
proof -
  obtain c1 where c1: "probe_search_address fleet_io 0x00FFFFFF c = (Ok False, c1)" "attentive c1"
      "stations (line c1) = stations (line c)"
    using probe_step [OF assms(1), of "0x00FFFFFF"] assms(2) by auto
  obtain c2 where c2: "any_unaddressed_gear fleet_io c1 = (Ok True, c2)" "attentive c2"
      "stations (line c2) = stations (line c)"
  proof -
    have "(\<exists>st\<in>set (stations (line c)). st_enabled st \<and> short_address (st_spec st) = None) = True"
      using assms(3-5) by blast
    then show thesis
      using that unaddressed_step [OF c1(2)] c1(3) by auto
  qed
  show ?thesis
    using c1 c2 by (simp add: find_lowest_random_address_def andThen_def)
qed

section \<open>Choosing a short address\<close>

definition free_for :: "u8 list \<Rightarrow> Station list \<Rightarrow> u8 \<Rightarrow> bool" where
  "free_for used sts s \<longleftrightarrow> s \<notin> set used \<and> \<not> (\<exists>st\<in>set sts. st_matches (Short s) st)"

definition free_shorts :: "u8 list \<Rightarrow> Station list \<Rightarrow> u8 list" where
  "free_shorts used sts = filter (free_for used sts) (map word_of_nat [0..<64])"

lemma distinct_free_shorts: "distinct (free_shorts used sts)"
proof -
  have "inj_on (word_of_nat :: nat \<Rightarrow> u8) {0..<64}"
    by (rule inj_on_inverseI [of _ unat]) (simp add: u8_small)
  then show ?thesis
    unfolding free_shorts_def by (intro distinct_filter) (simp add: distinct_map)
qed

lemma free_scan_fleet:
  assumes "attentive c" "\<forall>n\<in>set ns. n < 64"
  shows "\<exists>c'. free_short_scan fleet_io (used_mask used) ns c
        = (Ok (List.find (free_for used (stations (line c))) (map word_of_nat ns)), c') \<and> attentive c'
      \<and> stations (line c') = stations (line c)"
  using assms
proof (induction ns arbitrary: c)
  case (Cons n ns)
  have n: "n < 64" "(word_of_nat n :: u8) \<le> 63"
    using Cons.prems(2) by (simp_all add: word_le_nat_alt u8_small)
  show ?case
  proof (cases "word_of_nat n \<in> set used")
    case True
    then show ?thesis
      using Cons n(1) by (auto simp: and_exp_eq_0_iff_not_bit bit_used_mask free_for_def)
  next
    case False
    obtain r c' where c': "send_standard_response fleet_io (Short (word_of_nat n)) QueryControlGearPresent c = (Ok r, c')"
        "attentive c'" "stations (line c') = stations (line c)"
        "is_yes r = (\<exists>st\<in>set (stations (line c)). st_matches (Short (word_of_nat n)) st)"
      using gear_present_step [OF Cons.prems(1) n(2)] by auto
    then show ?thesis
      using Cons.IH [OF c'(2)] Cons.prems(2) False n(1)
      by (auto simp: and_exp_eq_0_iff_not_bit bit_used_mask free_for_def)
  qed
qed simp

lemma find_filter: "List.find P xs = (case filter P xs of [] \<Rightarrow> None | x # _ \<Rightarrow> Some x)"
  by (induction xs) auto

lemma next_free_fleet:
  assumes "attentive c" "free_shorts used (stations (line c)) = s # rest"
  shows "\<exists>c'. next_free_short_address fleet_io used c = (Ok (Some s), c') \<and> attentive c'
      \<and> stations (line c') = stations (line c)"
  using free_scan_fleet [OF assms(1), of "[0..<64]" used] assms(2)
  by (auto simp: next_free_short_address_def find_filter free_shorts_def)

section \<open>Programming the found gear\<close>

definition participant :: "Station \<Rightarrow> bool" where
  "participant st \<longleftrightarrow> st_initialise st \<and> \<not> st_withdrawn st"

abbreviation random_of :: "Station \<Rightarrow> u32" where
  "random_of st \<equiv> random_address (st_spec st)"

definition addressed :: "u8 \<Rightarrow> Station \<Rightarrow> Station" where
  "addressed s st = st\<lparr>st_spec := (st_spec st)\<lparr>short_address := Some s\<rparr>, st_withdrawn := True\<rparr>"

definition programmed :: "u32 \<Rightarrow> u8 \<Rightarrow> Station \<Rightarrow> Station" where
  "programmed a s st = (if participant st \<and> random_of st = a then addressed s st else st)"

lemma short_reply_round_trip: "s \<le> 63 \<Longrightarrow> decode_short_reply (encode_program_short_address s) = s"
proof -
  assume "s \<le> 63"
  then have "s \<in> set (map word_of_nat [0..<64])"
    by (auto simp: word_le_nat_alt image_iff intro!: bexI [of _ "unat s"])
  moreover have "\<forall>s\<in>set (map word_of_nat [0..<64]). decode_short_reply (encode_program_short_address s) = s"
    by code_simp
  ultimately show ?thesis
    by blast
qed

lemma programmed_by_frames:
  "st_write Withdraw a (st_write (ProgramShortAddress e) a st) = programmed a (decode_short_reply e) st"
  by (cases st) (auto simp: st_write_def st_selected_def programmed_def participant_def addressed_def)

lemma program_fleet:
  assumes "attentive c" "a < 2 ^ 24" "s \<le> 63" "st \<in> set (stations (line c))" "participant st" "random_of st = a"
  shows "\<exists>c'. program_found_gear fleet_io a s c = (Ok (), c') \<and> attentive c'
      \<and> stations (line c') = map (programmed a s) (stations (line c))"
proof -
  define e where "e = encode_program_short_address s"
  have e: "decode_short_reply e = s"
    using assms(3) by (simp add: e_def short_reply_round_trip)
  obtain c1 where c1: "set_search_address fleet_io a c = (Ok (), c1)" "attentive c1"
      "stations (line c1) = stations (line c)" "search_of (line c1) = a"
    using set_search_step [OF assms(1,2)] by auto
  obtain c2 where c2: "send_special fleet_io (ProgramShortAddress e) c1 = (Ok (), c2)" "attentive c2"
      "stations (line c2) = map (st_write (ProgramShortAddress e) a) (stations (line c))" "search_of (line c2) = a"
    using send_special_step [OF c1(2), of "ProgramShortAddress e"] c1(3,4) by (auto simp: addressing_def next_search_def)
  obtain r c3 where c3: "send_special_response fleet_io (VerifyShortAddress e) c2 = (Ok r, c3)" "attentive c3"
      "stations (line c3) = stations (line c2)" "search_of (line c3) = a"
      "is_yes r = (\<exists>s\<in>set (stations (line c2)). st_answers (VerifyShortAddress e) a s)"
    using send_special_response_step [OF c2(2), of "VerifyShortAddress e"] c2(4)
    by (auto simp: addressing_def next_search_def special_expects_backward_def)
  have "st_enabled st"
    using assms(1,4,5) by (auto simp: attentive_def calm_def participant_def)
  then have "st_answers (VerifyShortAddress e) a (st_write (ProgramShortAddress e) a st)"
    using assms(5,6) by (simp add: st_answers_def st_write_def st_selected_def participant_def)
  then have yes: "is_yes r"
    using assms(4) by (auto simp: c3(5) c2(3))
  obtain c4 where c4: "send_special fleet_io Withdraw c3 = (Ok (), c4)" "attentive c4"
      "stations (line c4) = map (st_write Withdraw a) (stations (line c3))"
    using send_special_step [OF c3(2), of Withdraw] c3(4) by (auto simp: addressing_def)
  show ?thesis
    using c1 c2 c3 c4 yes
    by (simp add: program_found_gear_def andThen_def Let_def e_def [symmetric] comp_def programmed_by_frames e)
qed

section \<open>One round\<close>

definition ready :: "Station list \<Rightarrow> bool" where
  "ready sts \<longleftrightarrow> distinct (map random_of (filter participant sts)) \<and>
     (\<forall>st\<in>set sts. participant st \<longrightarrow> short_address (st_spec st) = None \<and> typed (device_types (st_spec st))) \<and>
     (\<forall>st\<in>set sts. st_enabled st \<and> short_address (st_spec st) = None \<longrightarrow> participant st)"

lemma readyD:
  assumes "ready sts"
  shows "distinct (map random_of (filter participant sts))"
    and "st \<in> set sts \<Longrightarrow> participant st \<Longrightarrow> short_address (st_spec st) = None"
    and "st \<in> set sts \<Longrightarrow> participant st \<Longrightarrow> typed (device_types (st_spec st))"
    and "st \<in> set sts \<Longrightarrow> st_enabled st \<Longrightarrow> short_address (st_spec st) = None \<Longrightarrow> participant st"
  using assms unfolding ready_def by blast+

lemma filter_unique: "distinct (map f xs) \<Longrightarrow> y \<in> set xs \<Longrightarrow> filter (\<lambda>x. f x = f y) xs = [y]"
proof (induction xs)
  case (Cons x xs)
  then have "f x \<notin> f ` set xs"
    by simp
  then have "filter (\<lambda>z. f z = f x) xs = []"
    by (auto simp: filter_empty_conv image_iff)
  then show ?case
    using Cons by (cases "y = x") auto
qed simp

lemma selected_stations: "ungrouped a \<Longrightarrow> map station (selected a fl) = filter (st_matches a) (stations fl)"
  by (simp add: selected_def stations_def filter_map comp_def matches_station)

lemma candidates_participants:
  "calm fl \<Longrightarrow> candidates (stations fl) = random_of ` set (filter participant (stations fl))"
  by (auto simp: candidates_def participant_def calm_def)

lemma programmed_alone:
  assumes "ready sts" "st \<in> set sts" "participant st" "st_enabled st" "free_for used sts s"
  shows "filter (st_matches (Short s)) (map (programmed (random_of st) s) sts) = [addressed s st]"
proof -
  define hit where "hit = (\<lambda>x. participant x \<and> random_of x = random_of st)"
  have "distinct (map random_of (filter participant sts))"
    using assms(1) unfolding ready_def by (rule conjunct1)
  from filter_unique [OF this, of st] have one: "filter hit sts = [st]"
    using assms(2,3) by (simp add: hit_def)
  have "st_matches (Short s) (programmed (random_of st) s x) \<longleftrightarrow> hit x" if "x \<in> set sts" for x
  proof (cases "hit x")
    case True
    then have "x \<in> set (filter hit sts)"
      using that by simp
    then have "x = st"
      unfolding one by simp
    then show ?thesis
      using assms(3,4) by (simp add: programmed_def addressed_def st_matches_def hit_def)
  next
    case False
    then have "programmed (random_of st) s x = x"
      unfolding hit_def programmed_def by (rule if_not_P)
    then show ?thesis
      using assms(5) that False by (auto simp: free_for_def)
  qed
  then have "filter (st_matches (Short s) \<circ> programmed (random_of st) s) sts = filter hit sts"
    by (intro filter_cong) simp_all
  moreover have "programmed (random_of st) s st = addressed s st"
    using assms(3) by (simp add: programmed_def)
  ultimately show ?thesis
    by (simp add: filter_map one)
qed

lemma free_shorts_head:
  assumes "free_shorts used sts = s # rest"
  shows "free_for used sts s" "s \<le> 63"
proof -
  have "s \<in> set (free_shorts used sts)"
    using assms by simp
  then show "free_for used sts s" "s \<le> 63"
    by (auto simp: free_shorts_def word_le_nat_alt u8_small)
qed

lemma saturating_suc: "\<exists>n. unat (saturating_add (k :: u8) 1) = Suc n"
proof -
  have "saturating_add k 1 \<noteq> 0"
    by (cases "k = 0") (auto simp: saturating_add_def not_less)
  then show ?thesis
    by (intro not0_implies_Suc) (simp add: unat_eq_0)
qed

lemma commission_round:
  assumes "attentive c" "sts = stations (line c)" "ready sts" "st \<in> set sts" "participant st"
    and "\<forall>st'\<in>set sts. participant st' \<longrightarrow> random_of st \<le> random_of st'" "free_shorts used sts = s # rest"
  shows "\<exists>d c'. commission_next_unaddressed_with_retry_budget fleet_io used retries c = (Ok (Some d), c') \<and> attentive c'
      \<and> stations (line c') = map (programmed (random_of st) s) sts \<and> reports_identity s (device_types (st_spec st)) d"
proof -
  have calm: "calm (line c)"
    using assms(1) by (simp add: attentive_def)
  have en: "st_enabled st"
    using calm assms(2,4,5) by (auto simp: calm_def participant_def)
  note s = free_shorts_head [OF assms(7)]
  have cand: "random_of st \<in> candidates (stations (line c))" "\<forall>r\<in>candidates (stations (line c)). random_of st \<le> r"
    using assms(4-6) unfolding candidates_participants [OF calm] assms(2) by auto
  obtain c1 where c1: "find_lowest_random_address fleet_io c = (Ok (Some (random_of st)), c1)" "attentive c1"
      "stations (line c1) = sts"
    using find_lowest_some [OF assms(1) cand] assms(2) by auto
  obtain c2 where c2: "next_free_short_address fleet_io used c1 = (Ok (Some s), c2)" "attentive c2" "stations (line c2) = sts"
    using next_free_fleet [OF c1(2), of used s rest] assms(7) c1(3) by auto
  obtain c3 where c3: "program_found_gear fleet_io (random_of st) s (tx_open True c2) = (Ok (), c3)" "attentive c3"
      "stations (line c3) = map (programmed (random_of st) s) sts"
    using program_fleet [of "tx_open True c2" "random_of st" s st] c2 s assms(4,5)
      candidates_small [OF assms(1) cand(1)] by auto
  have "map station (selected (Short s) (line (tx_close c3))) = [addressed s st]"
    using programmed_alone [OF assms(3-5) en s(1)] by (simp add: selected_stations ungrouped_def c3(3))
  then obtain g where g: "selected (Short s) (line (tx_close c3)) = [g]" "station g = addressed s st"
    by auto
  have types: "types_of g = device_types (st_spec st)"
    using arg_cong [OF g(2), of "\<lambda>x. device_types (st_spec x)"] by (simp add: types_of_def station_def addressed_def)
  have "typed (types_of g)"
    using assms(3-5) unfolding types ready_def by blast
  then have "yields (detect_device fleet_io s) (tx_close c3) (\<lambda>d. \<exists>e. d = Some e \<and> reports_identity s (types_of g) e)"
    using c3(2) s(2) g(1) by (intro detect_device_fleet) simp_all
  then obtain d c4 where c4: "detect_device fleet_io s (tx_close c3) = (Ok (Some d), c4)" "unmoved (tx_close c3) c4"
      "reports_identity s (types_of g) d"
    by (auto simp: yields_def)
  obtain n where n: "unat (saturating_add retries 1) = Suc n"
    using saturating_suc by blast
  have "commission_next_unaddressed_once fleet_io used retries c = (Ok (Some d), c4)"
    by (simp add: commission_next_unaddressed_once_def detect_programmed_device_def run_transaction_def andThen_def
        mapErr_def n c1(1) c2(1) c3(1) c4(1))
  then show ?thesis
    using c3 c4 by (simp add: commission_next_unaddressed_with_retry_budget_def n unmoved_def types)
qed

lemma commission_done:
  assumes "attentive c" "ready (stations (line c))" "filter participant (stations (line c)) = []"
  shows "\<exists>c'. commission_next_unaddressed_with_retry_budget fleet_io used retries c = (Ok None, c') \<and> attentive c'
      \<and> stations (line c') = stations (line c)"
proof -
  have calm: "calm (line c)"
    using assms(1) by (simp add: attentive_def)
  have "candidates (stations (line c)) = {}"
    using assms(3) by (simp add: candidates_participants [OF calm] filter_empty_conv)
  moreover have "\<forall>st\<in>set (stations (line c)). \<not> (st_enabled st \<and> short_address (st_spec st) = None)"
    using assms(2,3) unfolding ready_def filter_empty_conv by blast
  ultimately obtain c1 where c1: "find_lowest_random_address fleet_io c = (Ok None, c1)" "attentive c1"
      "stations (line c1) = stations (line c)"
    using find_lowest_none [OF assms(1)] by auto
  obtain n where n: "unat (saturating_add retries 1) = Suc n"
    using saturating_suc by blast
  show ?thesis
    using c1 by (simp add: commission_next_unaddressed_with_retry_budget_def n commission_next_unaddressed_once_def
        andThen_def mapErr_def)
qed

section \<open>The drain loop\<close>

text \<open>
  The outcome of a whole drain: participants in the order of their random addresses take the free
  short addresses in ascending order.
\<close>

definition assign :: "(u32 \<rightharpoonup> u8) \<Rightarrow> Station \<Rightarrow> Station" where
  "assign f st = (if participant st then (case f (random_of st) of Some s \<Rightarrow> addressed s st | None \<Rightarrow> st) else st)"

definition search_order :: "Station list \<Rightarrow> u32 list" where
  "search_order sts = sorted_list_of_set (random_of ` set (filter participant sts))"

lemma not_participant_addressed [simp]: "\<not> participant (addressed s st)"
  by (simp add: participant_def addressed_def)

lemma participants_programmed:
  "filter participant (map (programmed a s) sts) = filter (\<lambda>x. random_of x \<noteq> a) (filter participant sts)"
proof -
  have "participant (programmed a s x) \<longleftrightarrow> participant x \<and> random_of x \<noteq> a" for x
    by (cases "participant x \<and> random_of x = a") (auto simp: programmed_def)
  moreover have "random_of x \<noteq> a \<Longrightarrow> programmed a s x = x" for x
    by (simp add: programmed_def)
  ultimately show ?thesis
    by (auto simp: filter_map comp_def intro!: map_idI)
qed

lemma ready_programmed:
  assumes "ready sts"
  shows "ready (map (programmed a s) sts)"
proof -
  have "distinct (map random_of (filter (\<lambda>x. random_of x \<noteq> a) (filter participant sts)))"
    using readyD(1) [OF assms] by (rule distinct_map_filter)
  moreover have "short_address (st_spec (programmed a s st)) = None \<and> typed (device_types (st_spec (programmed a s st)))"
    if "st \<in> set sts" "participant (programmed a s st)" for st
  proof -
    have "programmed a s st = st"
      using that(2) by (auto simp: programmed_def split: if_split_asm)
    then show ?thesis
      using readyD(2,3) [OF assms that(1)] that(2) by simp
  qed
  moreover have "participant (programmed a s st)" if "st_enabled (programmed a s st)"
    "short_address (st_spec (programmed a s st)) = None" "st \<in> set sts" for st
  proof (cases "participant st \<and> random_of st = a")
    case True
    then show ?thesis
      using that(2) by (simp add: programmed_def addressed_def)
  next
    case False
    then have "programmed a s st = st"
      unfolding programmed_def by (rule if_not_P)
    then show ?thesis
      using readyD(4) [OF assms that(3)] that(1,2) by simp
  qed
  ultimately show ?thesis
    unfolding ready_def participants_programmed set_map ball_simps by blast
qed

lemma search_order_programmed:
  assumes "search_order sts = m # rs"
  shows "search_order (map (programmed m s) sts) = rs"
proof -
  define A where "A = random_of ` set (filter participant sts)"
  have A: "finite A" "sorted_list_of_set A = m # rs"
    using assms by (simp_all add: A_def search_order_def)
  then have "A \<noteq> {}"
    by auto
  then have "m = Min A" "rs = sorted_list_of_set (A - {m})"
    using sorted_list_of_set_nonempty [OF A(1)] A(2) by auto
  moreover have "random_of ` set (filter (\<lambda>x. random_of x \<noteq> m) (filter participant sts)) = A - {m}"
    by (auto simp: A_def)
  ultimately show ?thesis
    by (simp only: search_order_def participants_programmed)
qed

lemma free_shorts_programmed:
  assumes "ready sts" "st \<in> set sts" "participant st" "st_enabled st" "free_shorts used sts = s # rest"
  shows "free_shorts (used @ [s]) (map (programmed (random_of st) s) sts) = rest"
proof -
  have taken: "(\<exists>x\<in>set sts. st_matches (Short t) (programmed (random_of st) s x)) \<longleftrightarrow> (\<exists>x\<in>set sts. st_matches (Short t) x)"
    if "t \<noteq> s" for t
  proof -
    have "st_matches (Short t) (programmed (random_of st) s x) = st_matches (Short t) x" if "x \<in> set sts" for x
    proof (cases "participant x \<and> random_of x = random_of st")
      case True
      then have "short_address (st_spec x) = None"
        using assms(1) \<open>x \<in> set sts\<close> unfolding ready_def by blast
      then show ?thesis
        using True \<open>t \<noteq> s\<close> by (simp add: programmed_def addressed_def st_matches_def)
    qed (simp only: programmed_def if_False)
    then show ?thesis
      by blast
  qed
  have "free_for (used @ [s]) (map (programmed (random_of st) s) sts) t \<longleftrightarrow> free_for used sts t \<and> t \<noteq> s" for t
    using taken by (cases "t = s") (auto simp: free_for_def)
  then have "free_shorts (used @ [s]) (map (programmed (random_of st) s) sts) = filter (\<lambda>t. t \<noteq> s) (free_shorts used sts)"
    unfolding free_shorts_def filter_filter by (intro filter_cong) simp_all
  moreover have "distinct (free_shorts used sts)"
    by (rule distinct_free_shorts)
  ultimately show ?thesis
    using assms(5) by (auto simp: filter_id_conv)
qed

lemma assign_programmed:
  "assign (map_of (zip rs ss)) (programmed m s st) = assign (map_of (zip (m # rs) (s # ss))) st"
  by (cases "participant st \<and> random_of st = m") (auto simp: assign_def programmed_def)

text \<open>A reported device describes the participant found at the random address \<open>r\<close>.\<close>

definition describes :: "Station list \<Rightarrow> DiscoveredDevice \<Rightarrow> u32 \<Rightarrow> bool" where
  "describes sts d r \<longleftrightarrow> (\<exists>st\<in>set sts. participant st \<and> random_of st = r
     \<and> reports_identity (dd_short_address d) (device_types (st_spec st)) d)"

lemma describes_programmed: "describes (map (programmed a s) sts) d r \<Longrightarrow> describes sts d r"
proof -
  have "participant (programmed a s st) \<Longrightarrow> programmed a s st = st" for st
    by (auto simp: programmed_def split: if_split_asm)
  then show "describes (map (programmed a s) sts) d r \<Longrightarrow> describes sts d r"
    unfolding describes_def set_map bex_simps by metis
qed

lemma drain_fleet:
  assumes "attentive c" "sts = stations (line c)" "ready sts" "search_order sts = rs" "length rs \<le> length (free_shorts used sts)"
  shows "\<exists>ds c'. commission_unaddressed_drain fleet_io retries used progress c
        = ((Ok (), used @ map dd_short_address ds, progress @ ds), c') \<and> attentive c'
      \<and> map dd_short_address ds = take (length rs) (free_shorts used sts)
      \<and> stations (line c') = map (assign (map_of (zip rs (free_shorts used sts)))) sts
      \<and> list_all2 (describes sts) ds rs"
  using assms
proof (induction rs arbitrary: c sts used progress)
  case Nil
  have none: "filter participant sts = []"
    using Nil.prems(4) by (auto simp: search_order_def filter_empty_conv)
  obtain c' where c': "commission_next_unaddressed_with_retry_budget fleet_io used retries c = (Ok None, c')" "attentive c'"
      "stations (line c') = sts"
    using commission_done [OF Nil.prems(1)] Nil.prems(2,3) none by auto
  have "map (assign (map_of (zip [] (free_shorts used sts)))) sts = sts"
    by (rule map_idI) (simp add: assign_def)
  then show ?case
    using c' by (auto simp: commission_unaddressed_drain.simps [of fleet_io retries used progress c] intro!: exI [of _ "[]"])
next
  case (Cons m rs)
  have calm: "calm (line c)"
    using Cons.prems(1) by (simp add: attentive_def)
  have order_set: "set (m # rs) = random_of ` set (filter participant sts)"
    unfolding Cons.prems(4) [symmetric] by (simp add: search_order_def)
  moreover have "sorted (m # rs)"
    unfolding Cons.prems(4) [symmetric] by (simp add: search_order_def)
  moreover have "random_of st' \<in> random_of ` set (filter participant sts)" if "st' \<in> set sts" "participant st'" for st'
    using that by simp
  ultimately have least: "\<forall>st'\<in>set sts. participant st' \<longrightarrow> m \<le> random_of st'"
    by (metis order_refl set_ConsD sorted_simps(2))
  have "m \<in> random_of ` set (filter participant sts)"
    unfolding order_set [symmetric] by simp
  then obtain st where st: "st \<in> set sts" "participant st" "m = random_of st"
    by auto
  have en: "st_enabled st"
    using calm Cons.prems(2) st by (auto simp: calm_def participant_def)
  obtain s rest where free: "free_shorts used sts = s # rest"
    using Cons.prems(5) by (cases "free_shorts used sts") auto
  obtain d c1 where c1: "commission_next_unaddressed_with_retry_budget fleet_io used retries c = (Ok (Some d), c1)" "attentive c1"
      "stations (line c1) = map (programmed m s) sts" "reports_identity s (device_types (st_spec st)) d"
    using commission_round [OF Cons.prems(1-3) st(1,2) _ free] st(3) least by blast
  define sts1 where "sts1 = map (programmed m s) sts"
  have d: "dd_short_address d = s"
    using c1(4) by (simp add: reports_identity_def)
  have rest: "free_shorts (used @ [s]) sts1 = rest"
    using free_shorts_programmed [OF Cons.prems(3) st(1,2) en free] by (simp add: sts1_def st(3))
  have order: "search_order sts1 = rs"
    using search_order_programmed [OF Cons.prems(4)] by (simp add: sts1_def)
  obtain ds c' where c': "commission_unaddressed_drain fleet_io retries (used @ [s]) (progress @ [d]) c1
        = ((Ok (), (used @ [s]) @ map dd_short_address ds, (progress @ [d]) @ ds), c')" "attentive c'"
      "map dd_short_address ds = take (length rs) rest"
      "stations (line c') = map (assign (map_of (zip rs rest))) sts1" "list_all2 (describes sts1) ds rs"
    using Cons.IH [OF c1(2) _ _ order, of "used @ [s]" "progress @ [d]"] c1(3) ready_programmed [OF Cons.prems(3)] Cons.prems(5)
    by (auto simp: sts1_def rest [unfolded sts1_def] free)
  have "commission_unaddressed_drain fleet_io retries used progress c
      = ((Ok (), used @ map dd_short_address (d # ds), progress @ (d # ds)), c')"
    using c'(1) c1(1) d by (simp add: commission_unaddressed_drain.simps [of fleet_io retries used progress c])
  moreover have "map dd_short_address (d # ds) = take (length (m # rs)) (free_shorts used sts)"
    by (simp add: d c'(3) free)
  moreover have "stations (line c') = map (assign (map_of (zip (m # rs) (free_shorts used sts)))) sts"
    by (simp only: c'(4) sts1_def free map_map comp_def assign_programmed)
  moreover have "list_all2 (describes sts) (d # ds) (m # rs)"
    using list_all2_mono [OF c'(5), of "describes sts"] describes_programmed c1(4) st d
    by (auto simp: sts1_def describes_def [of _ d])
  ultimately show ?case
    using c'(2) by blast
qed

end
