(* ===== verification/Line_Session.thy ===== *)
theory Line_Session
  imports Line_Commissioning
begin

text \<open>
  A whole commissioning session on a line of modelled gear: INITIALISE and RANDOMISE as
  send-twice pairs, the wait for the drawn addresses, the drain loop and TERMINATE.
\<close>

section \<open>Hearing half of a pair\<close>

definition half_heard :: "u16 \<Rightarrow> (Gear \<Rightarrow> Gear) \<Rightarrow> bool" where
  "half_heard frame h \<longleftrightarrow> (\<forall>g. station (h g) = station g
     \<and> executes_now (h g) = (enabled g \<and> pending_repeat g = Some frame)
     \<and> pending_repeat (h g) = (if enabled g \<and> pending_repeat g \<noteq> Some frame then Some frame else None))"

lemma prepare_half:
  assumes "special \<noteq> Ping" "\<not> keeps_write_enabled (Some (Special special))"
  shows "\<exists>h. half_heard frame h \<and> gears (prepare frame (Some (Special special)) True fl) = map h (gears fl)"
proof -
  define h where "h = (\<lambda>g. (fst (hear_gear frame (Some (Special special)) True g))\<lparr>write_enabled := False\<rparr>)"
  have "gears (prepare frame (Some (Special special)) True fl) = map h (gears fl)"
    using assms(2) by (simp add: prepare_def fleet_hear_def for_gears_def h_def Let_def comp_def)
  moreover have "station (h g) = station g" for g
    using station_hear [of frame "Some (Special special)" True g] by (simp add: h_def station_def)
  moreover have "executes_now (h g) = (enabled g \<and> pending_repeat g = Some frame)"
    "pending_repeat (h g) = (if enabled g \<and> pending_repeat g \<noteq> Some frame then Some frame else None)" for g
    using assms(1) by (simp_all add: h_def hear_gear_def hears_def audience_of_def gear_hear_def hear_elsewhere_def
        is_walk_query_def cancel_device_type_walk_def Let_def)
  ultimately show ?thesis
    unfolding half_heard_def by blast
qed

section \<open>INITIALISE\<close>

definition st_init :: "Station \<Rightarrow> Station" where
  "st_init s = (if st_enabled s \<and> short_address (st_spec s) = None
     then s\<lparr>st_initialise := True, st_withdrawn := False\<rparr> else s)"

lemma st_init_init [simp]: "st_init (st_init s) = st_init s"
  by (simp add: st_init_def)

abbreviation init_frame :: u16 where
  "init_frame \<equiv> raw (special_forward_frame (Initialise 0xFF))"

definition took_half :: "(Station \<Rightarrow> Station) \<Rightarrow> u16 \<Rightarrow> (Gear \<Rightarrow> Gear) \<Rightarrow> bool" where
  "took_half f frame k \<longleftrightarrow> (\<forall>g. station (k g) = (if enabled g \<and> pending_repeat g = Some frame then f (station g) else station g)
     \<and> pending_repeat (k g) = (if enabled g \<and> pending_repeat g \<noteq> Some frame then Some frame else None))"

lemma initialise_half:
  assumes "armed_of fl = None"
  shows "\<exists>k. took_half st_init init_frame k \<and> gears (snd (exchange init_frame e fl)) = map k (gears fl)"
    and "regs (snd (exchange init_frame e fl)) = regs fl" "reserved (snd (exchange init_frame e fl)) = reserved fl"
    and "rng (snd (exchange init_frame e fl)) = rng fl" "now_ms (snd (exchange init_frame e fl)) = now_ms fl"
proof -
  define fl' where "fl' = prepare init_frame (Some (Special (Initialise 0xFF))) True fl"
  have ex: "exchange init_frame e fl = publish_none (enter_initialise 0xFF fl')"
    using exchange_special [OF assms, of "Initialise 0xFF" e]
    by (simp add: special_requires_repeat_def on_special_def on_memory_write_def stops_identification_def fl'_def)
  obtain h where h: "half_heard init_frame h" "gears fl' = map h (gears fl)"
    using prepare_half [of "Initialise 0xFF" init_frame fl] by (auto simp: keeps_write_enabled_def fl'_def)
  define k where "k = (\<lambda>g. if enabled (h g) \<and> executes_now (h g)
     then (if selected_by 0xFF (h g) then (h g)\<lparr>initialise := True, withdrawn := False\<rparr> else h g) else h g)"
  have "gears (snd (exchange init_frame e fl)) = map k (gears fl)"
    by (simp add: ex publish_none_def publish_def enter_initialise_def for_gears_def h(2) k_def comp_def)
  moreover have "took_half st_init init_frame k"
  proof -
    have "enabled (h g) = enabled g" "spec (h g) = spec g" "station (h g) = station g" for g
      using h(1) by (simp_all add: half_heard_def station_def)
    then show ?thesis
      using h(1) by (auto simp: took_half_def half_heard_def k_def selected_by_def st_init_def station_def)
  qed
  ultimately show "\<exists>k. took_half st_init init_frame k \<and> gears (snd (exchange init_frame e fl)) = map k (gears fl)"
    by blast
  show "regs (snd (exchange init_frame e fl)) = regs fl" "reserved (snd (exchange init_frame e fl)) = reserved fl"
    "rng (snd (exchange init_frame e fl)) = rng fl" "now_ms (snd (exchange init_frame e fl)) = now_ms fl"
    by (simp_all add: ex enter_initialise_def fl'_def)
qed

section \<open>Time on the line\<close>

definition timely :: "FleetWorld \<Rightarrow> bool" where
  "timely w \<longleftrightarrow> now_ms (fleet w) \<le> fleet_clock w"

lemma deliver_elapsed: "deliver frame e w = (oc, w') \<Longrightarrow> elapsed_us w' = elapsed_us w"
  by (elim deliver_exchange)

lemma clock_cong: "elapsed_us w' = elapsed_us w \<Longrightarrow> fleet_clock w' = fleet_clock w"
  by (simp add: fleet_clock_def)

lemma line_now_time: "rng (line_now w) = rng (fleet w)" "now_ms (line_now w) = max (now_ms (fleet w)) (fleet_clock w)"
  by (simp_all add: line_now_def advance_to_ms_def Let_def)

text \<open>One delivered frame on a calm line, as an exchange on the line at the time of delivery.\<close>

lemma delivered_calm:
  assumes "calm (line_now w)" "timely w" "delivers e f w r w'"
  shows "\<exists>fl. fleet w' = snd (exchange (raw f) e fl) \<and> gears fl = gears (line_now w) \<and> regs fl = regs (line_now w)
      \<and> reserved fl = reserved (line_now w) \<and> rng fl = rng (fleet w) \<and> now_ms fl = fleet_clock w'
      \<and> elapsed_us w \<le> elapsed_us w'"
proof -
  obtain d oc where d: "deliver (raw f) e (later d w) = (oc, w')"
    using assms(3) by (rule delivers_elim)
  have w': "fleet w' = snd (exchange (raw f) e (line_now (later d w)))"
    using d unfolding line_now_def by (elim deliver_exchange) simp
  have elapsed: "elapsed_us w' = elapsed_us (later d w)" "elapsed_us w \<le> elapsed_us (later d w)"
    and fleet: "fleet (later d w) = fleet w"
    using deliver_elapsed [OF d] by (simp_all add: later_def)
  have "now_ms (fleet w) \<le> fleet_clock (later d w)"
    using assms(2) clock_later [of w d] unfolding timely_def by (rule order_trans)
  then have "now_ms (line_now (later d w)) = fleet_clock w'"
    unfolding line_now_time fleet clock_cong [OF elapsed(1)] by (rule max_absorb2)
  moreover have "rng (line_now (later d w)) = rng (fleet w)"
    unfolding line_now_time fleet by (rule refl)
  moreover have "elapsed_us w \<le> elapsed_us w'"
    using elapsed by simp
  ultimately show ?thesis
    using w' calm_later [OF assms(1), of d] by blast
qed

definition st_calm :: "Station \<Rightarrow> bool" where
  "st_calm s \<longleftrightarrow> st_pending s = None \<and> st_drop s = 0 \<and> (st_initialise s \<longrightarrow> st_enabled s) \<and> random_address (st_spec s) < 2 ^ 24"

lemma calm_stations:
  "calm fl \<longleftrightarrow> armed_of fl = None \<and> search_of fl < 2 ^ 24 \<and> reserved fl = 0 \<and> (\<forall>s\<in>set (stations fl). st_calm s)"
  unfolding calm_def st_calm_def by (rule refl)

lemma st_calm_init: "st_calm s \<Longrightarrow> st_calm (st_init s)"
  by (simp add: st_calm_def st_init_def)

lemma initialise_delivered:
  assumes "calm (line_now w)" "timely w" "delivers False (special_forward_frame (Initialise 0xFF)) w r w'"
  shows "\<exists>k. took_half st_init init_frame k \<and> gears (line_now w') = map k (gears (line_now w))"
    and "calm (line_now w')" "timely w'" "rng (fleet w') = rng (fleet w)"
proof -
  obtain fl where fl: "fleet w' = snd (exchange init_frame False fl)" "gears fl = gears (line_now w)" "regs fl = regs (line_now w)"
      "reserved fl = reserved (line_now w)" "rng fl = rng (fleet w)" "now_ms fl = fleet_clock w'"
    using delivered_calm [OF assms] by blast
  have armed: "armed_of fl = None"
    using assms(1) by (simp add: fl calm_def)
  note H = initialise_half [OF armed, of False, folded fl(1)]
  obtain k where k: "took_half st_init init_frame k" "gears (fleet w') = map k (gears (line_now w))"
    using H(1) by (auto simp: fl)
  have "st_calm s" if s: "s \<in> set (stations (fleet w'))" for s
  proof -
    obtain g where g: "g \<in> set (gears (line_now w))" "s = station (k g)"
      using s by (auto simp: stations_def k(2))
    then have "st_calm (station g)"
      using assms(1) by (simp add: calm_stations stations_def)
    moreover have "s = station g \<or> s = st_init (station g)"
      using k(1) g(2) by (simp add: took_half_def)
    ultimately show ?thesis
      using st_calm_init by blast
  qed
  then have calm: "calm (fleet w')"
    using assms(1) H(2,3) fl(3,4) unfolding calm_stations by simp
  note R = calm_rest [OF calm]
  show "calm (line_now w')"
    using calm calm_view [OF R(2-4)] by simp
  show "\<exists>k. took_half st_init init_frame k \<and> gears (line_now w') = map k (gears (line_now w))"
    using k by (auto simp: R)
  show "timely w'" "rng (fleet w') = rng (fleet w)"
    using H(4,5) fl(5,6) by (simp_all add: timely_def)
qed

lemma initialise_pair:
  assumes "calm (line_now w)" "timely w" "delivers False (special_forward_frame (Initialise 0xFF)) w r1 w1"
    and "delivers False (special_forward_frame (Initialise 0xFF)) w1 r2 w2"
  shows "calm (line_now w2)" "timely w2" "rng (fleet w2) = rng (fleet w)"
    and "stations (line_now w2) = map st_init (stations (line_now w))"
    and "\<forall>g\<in>set (gears (line_now w2)). pending_repeat g = None \<or> pending_repeat g = Some init_frame"
proof -
  note A = initialise_delivered [OF assms(1-3)]
  note B = initialise_delivered [OF A(2,3) assms(4)]
  show "calm (line_now w2)" "timely w2" "rng (fleet w2) = rng (fleet w)"
    using B(2-4) A(4) by simp_all
  obtain k1 k2 where k: "took_half st_init init_frame k1" "took_half st_init init_frame k2"
      "gears (line_now w2) = map (\<lambda>g. k2 (k1 g)) (gears (line_now w))"
    using A(1) B(1) by auto
  have en: "enabled (k1 g) = enabled g" for g
  proof -
    have "st_enabled (station (k1 g)) = st_enabled (station g)"
      using k(1) by (simp add: took_half_def st_init_def)
    then show ?thesis
      by (simp add: station_def)
  qed
  have disabled: "\<not> enabled g \<Longrightarrow> st_init (station g) = station g" for g
    by (simp add: st_init_def station_def)
  have "station (k2 (k1 g)) = st_init (station g)" for g
    using k(1,2) en [of g] disabled [of g] by (cases "enabled g") (simp_all add: took_half_def)
  then show "stations (line_now w2) = map st_init (stations (line_now w))"
    by (simp add: stations_def k(3))
  show "\<forall>g\<in>set (gears (line_now w2)). pending_repeat g = None \<or> pending_repeat g = Some init_frame"
    using k(2) by (auto simp: k(3) took_half_def)
qed

section \<open>RANDOMISE\<close>

abbreviation rand_frame :: u16 where
  "rand_frame \<equiv> raw (special_forward_frame Randomise)"

lemma frames_differ: "init_frame \<noteq> rand_frame"
  by (simp add: special_forward_frame_def forward_new_def)

text \<open>The stations with a drawn address pending, and the stations once it is taken.\<close>

fun st_pends :: "u64 \<Rightarrow> Rng \<Rightarrow> Station list \<Rightarrow> Station list" where
  "st_pends due r [] = []"
| "st_pends due r (s # ss) =
     (if st_initialise s then
        (case draw_random_address r of (a, r') \<Rightarrow>
          s\<lparr>st_pending := Some \<lparr>pr_address = a, ready_at_ms = due\<rparr>\<rparr> # st_pends due r' ss)
      else s # st_pends due r ss)"

fun drawn :: "Rng \<Rightarrow> Station list \<Rightarrow> Station list" where
  "drawn r [] = []"
| "drawn r (s # ss) =
     (if st_initialise s then
        (case draw_random_address r of (a, r') \<Rightarrow> s\<lparr>st_spec := (st_spec s)\<lparr>random_address := a\<rparr>\<rparr> # drawn r' ss)
      else s # drawn r ss)"

lemma randomise_idle: "\<forall>g\<in>set gs. \<not> executes_now g \<Longrightarrow> randomise_gears due r gs = (gs, r)"
  by (induction gs) simp_all

lemma randomise_pends:
  "\<forall>g\<in>set gs. initialise g \<longrightarrow> executes_now g \<Longrightarrow> map station (fst (randomise_gears due r gs)) = st_pends due r (map station gs)"
proof (induction gs arbitrary: r)
  case (Cons g gs)
  obtain a r' where d: "draw_random_address r = (a, r')"
    by (cases "draw_random_address r")
  have IH: "map station (fst (randomise_gears due q gs)) = st_pends due q (map station gs)" for q
    using Cons by simp
  have st: "st_initialise (station g) = initialise g"
    "station (g\<lparr>pending_random := p\<rparr>) = (station g)\<lparr>st_pending := p\<rparr>" for p
    by (simp_all add: station_def)
  show ?case
    using Cons.prems by (simp add: case_prod_beta d st IH)
qed simp

definition st_settle :: "u64 \<Rightarrow> Station \<Rightarrow> Station" where
  "st_settle t s = (case st_pending s of
     Some p \<Rightarrow> if ready_at_ms p \<le> t then s\<lparr>st_spec := (st_spec s)\<lparr>random_address := pr_address p\<rparr>, st_pending := None\<rparr> else s
   | None \<Rightarrow> s)"

lemma stations_advance: "stations (advance_to_ms t fl) = map (st_settle (max (now_ms fl) t)) (stations fl)"
proof -
  have "station (settle_random n g) = st_settle n (station g)" for n g
    by (cases "pending_random g") (simp_all add: settle_random_def st_settle_def station_def)
  then show ?thesis
    by (simp add: stations_def advance_to_ms_def for_gears_def Let_def comp_def)
qed

lemma pends_settle:
  "due \<le> t \<Longrightarrow> \<forall>s\<in>set ss. st_pending s = None \<Longrightarrow> map (st_settle t) (st_pends due r ss) = drawn r ss"
proof (induction ss arbitrary: r)
  case (Cons s ss)
  then show ?case
    by (cases s) (simp add: st_settle_def split: prod.split)
qed simp

lemma randomise_half:
  assumes "armed_of fl = None"
  shows "\<exists>h. half_heard rand_frame h \<and> gears (snd (exchange rand_frame e fl))
      = fst (randomise_gears (saturating_add (now_ms fl) 100) (rng fl) (map h (gears fl)))"
    and "regs (snd (exchange rand_frame e fl)) = regs fl" "reserved (snd (exchange rand_frame e fl)) = reserved fl"
    and "now_ms (snd (exchange rand_frame e fl)) = now_ms fl"
    and "\<exists>h. half_heard rand_frame h \<and> rng (snd (exchange rand_frame e fl))
      = snd (randomise_gears (saturating_add (now_ms fl) 100) (rng fl) (map h (gears fl)))"
proof -
  define fl' where "fl' = for_gears executes_now (\<lambda>g. g\<lparr>identifying := False\<rparr>)
    (prepare rand_frame (Some (Special Randomise)) True fl)"
  have ex: "exchange rand_frame e fl = publish_none (randomise fl')"
    using exchange_special [OF assms, of Randomise e]
    by (simp add: special_requires_repeat_def on_special_def on_memory_write_def stops_identification_def fl'_def)
  obtain h where h: "half_heard rand_frame h" "gears (prepare rand_frame (Some (Special Randomise)) True fl) = map h (gears fl)"
    using prepare_half [of Randomise rand_frame fl] by (auto simp: keeps_write_enabled_def)
  define k where "k = (\<lambda>g. if executes_now (h g) then (h g)\<lparr>identifying := False\<rparr> else h g)"
  have k: "half_heard rand_frame k"
    using h(1) by (simp add: half_heard_def k_def station_def)
  have fl': "gears fl' = map k (gears fl)" "rng fl' = rng fl" "now_ms fl' = now_ms fl" "regs fl' = regs fl"
    "reserved fl' = reserved fl"
    by (simp_all add: fl'_def for_gears_def h(2) k_def comp_def)
  show "\<exists>h. half_heard rand_frame h \<and> gears (snd (exchange rand_frame e fl))
      = fst (randomise_gears (saturating_add (now_ms fl) 100) (rng fl) (map h (gears fl)))"
    using k by (auto simp: ex publish_none_def publish_def randomise_def fl' split: prod.split)
  show "\<exists>h. half_heard rand_frame h \<and> rng (snd (exchange rand_frame e fl))
      = snd (randomise_gears (saturating_add (now_ms fl) 100) (rng fl) (map h (gears fl)))"
    using k by (auto simp: ex publish_none_def publish_def randomise_def fl' split: prod.split)
  show "regs (snd (exchange rand_frame e fl)) = regs fl" "reserved (snd (exchange rand_frame e fl)) = reserved fl"
    "now_ms (snd (exchange rand_frame e fl)) = now_ms fl"
    by (simp_all add: ex publish_none_def publish_def randomise_def fl' split: prod.split)
qed

lemma due_in_time:
  assumes "100000 \<le> d"
  shows "saturating_add (fleet_clock w) 100 \<le> fleet_clock (later d w)"
proof -
  have "elapsed_us w div 1000 + 100 = (elapsed_us w + 100000) div 1000"
    by simp
  also have "\<dots> \<le> (elapsed_us w + d) div 1000"
    using assms by (intro div_le_mono) simp
  finally have "min (min (elapsed_us w div 1000) (2 ^ 64 - 1) + 100) (2 ^ 64 - 1) \<le> min ((elapsed_us w + d) div 1000) (2 ^ 64 - 1)"
    by linarith
  then show ?thesis
    by (simp add: word_le_nat_alt unat_saturating_add clock_unat later_def)
qed

lemma randomise_first:
  assumes "calm (line_now w)" "timely w" "delivers False (special_forward_frame Randomise) w r w'"
    and "\<forall>g\<in>set (gears (line_now w)). pending_repeat g \<noteq> Some rand_frame"
  shows "calm (line_now w')" "timely w'" "rng (fleet w') = rng (fleet w)" "stations (line_now w') = stations (line_now w)"
    and "regs (line_now w') = regs (line_now w)" "reserved (line_now w') = reserved (line_now w)"
    and "\<forall>g\<in>set (gears (line_now w')). enabled g \<longrightarrow> pending_repeat g = Some rand_frame"
proof -
  obtain fl where fl: "fleet w' = snd (exchange rand_frame False fl)" "gears fl = gears (line_now w)" "regs fl = regs (line_now w)"
      "reserved fl = reserved (line_now w)" "rng fl = rng (fleet w)" "now_ms fl = fleet_clock w'"
    using delivered_calm [OF assms(1-3)] by blast
  have armed: "armed_of fl = None"
    using assms(1) by (simp add: fl calm_def)
  note H = randomise_half [OF armed, of False, folded fl(1)]
  have idle: "randomise_gears due q (map h (gears fl)) = (map h (gears fl), q)" if "half_heard rand_frame h" for due q h
    using that assms(4) by (intro randomise_idle) (simp add: half_heard_def fl(2))
  obtain h where h: "half_heard rand_frame h" "gears (fleet w') = map h (gears (line_now w))"
    using H(1) idle by (auto simp: fl(2))
  have rng: "rng (fleet w') = rng (fleet w)"
    using H(5) idle by (auto simp: fl(5))
  have st: "stations (fleet w') = stations (line_now w)"
    using h by (simp add: stations_def half_heard_def)
  have rest: "regs (fleet w') = regs (line_now w)" "reserved (fleet w') = reserved (line_now w)"
    using H(2,3) fl(3,4) by simp_all
  have calm: "calm (fleet w')"
    using assms(1) calm_view [OF st rest] by simp
  note R = calm_rest [OF calm]
  show "calm (line_now w')"
    using calm calm_view [OF R(2-4)] by simp
  show "timely w'"
    using H(4) fl(6) by (simp add: timely_def)
  show "rng (fleet w') = rng (fleet w)" "stations (line_now w') = stations (line_now w)"
    "regs (line_now w') = regs (line_now w)" "reserved (line_now w') = reserved (line_now w)"
    by (simp_all only: rng R st rest)
  have "enabled (h g) = enabled g" for g
    using h(1) by (simp add: half_heard_def station_def)
  then show "\<forall>g\<in>set (gears (line_now w')). enabled g \<longrightarrow> pending_repeat g = Some rand_frame"
    using h(1) assms(4) by (auto simp: R(1) h(2) half_heard_def)
qed

lemma randomise_second:
  assumes "calm (line_now w)" "timely w" "delivers False (special_forward_frame Randomise) w r w'"
    and "\<forall>g\<in>set (gears (line_now w)). enabled g \<longrightarrow> pending_repeat g = Some rand_frame" "100000 \<le> d"
  shows "stations (line_now (later d w')) = drawn (rng (fleet w)) (stations (line_now w))"
    and "regs (line_now (later d w')) = regs (line_now w)" "reserved (line_now (later d w')) = reserved (line_now w)"
proof -
  obtain fl where fl: "fleet w' = snd (exchange rand_frame False fl)" "gears fl = gears (line_now w)" "regs fl = regs (line_now w)"
      "reserved fl = reserved (line_now w)" "rng fl = rng (fleet w)" "now_ms fl = fleet_clock w'"
    using delivered_calm [OF assms(1-3)] by blast
  have armed: "armed_of fl = None"
    using assms(1) by (simp add: fl calm_def)
  note H = randomise_half [OF armed, of False, folded fl(1)]
  define due where "due = saturating_add (fleet_clock w') 100"
  obtain h where h: "half_heard rand_frame h"
      "gears (fleet w') = fst (randomise_gears due (rng (fleet w)) (map h (gears (line_now w))))"
    using H(1) by (auto simp: fl due_def)
  have hs: "station (h g) = station g" for g
    using h(1) by (simp add: half_heard_def)
  have "\<forall>g\<in>set (map h (gears (line_now w))). initialise g \<longrightarrow> executes_now g"
  proof -
    have "initialise (h g) = initialise g" for g
      using arg_cong [OF hs [of g], of st_initialise] by (simp add: station_def)
    moreover have "initialise g \<longrightarrow> enabled g" if "g \<in> set (gears (line_now w))" for g
      using assms(1) that by (auto simp: calm_def stations_def station_def)
    ultimately show ?thesis
      using h(1) assms(4) by (simp add: half_heard_def)
  qed
  from randomise_pends [OF this] have pends: "stations (fleet w') = st_pends due (rng (fleet w)) (stations (line_now w))"
    by (simp add: stations_def h(2) comp_def hs)
  have "due \<le> max (now_ms (fleet w')) (fleet_clock (later d w'))"
    using due_in_time [OF assms(5), of w'] by (simp add: due_def le_max_iff_disj)
  then show "stations (line_now (later d w')) = drawn (rng (fleet w)) (stations (line_now w))"
    using calm_pending [OF assms(1)]
    by (simp add: line_now_def stations_advance pends pends_settle later_def)
  show "regs (line_now (later d w')) = regs (line_now w)" "reserved (line_now (later d w')) = reserved (line_now w)"
    using H(2,3) fl(3,4) by (simp_all add: line_now_def advance_to_ms_def Let_def later_def)
qed

section \<open>The session\<close>

lemma draw_small: "fst (draw_random_address r) < 2 ^ 24"
proof (induction r rule: draw_random_address.induct)
  case (1 r)
  have "x \<le> 0x00FFFFFE \<Longrightarrow> x < 2 ^ 24" for x :: u32
    by (simp add: word_le_nat_alt word_less_nat_alt)
  then show ?case
    using 1 by (subst draw_random_address.simps) (auto split: prod.split)
qed

text \<open>What a draw keeps: everything but the random address of the gear that take part.\<close>

definition redrawn :: "Station \<Rightarrow> Station \<Rightarrow> bool" where
  "redrawn s s' \<longleftrightarrow> (\<exists>a. s' = (if st_initialise s then s\<lparr>st_spec := (st_spec s)\<lparr>random_address := a\<rparr>\<rparr> else s) \<and> a < 2 ^ 24)"

lemma drawn_redrawn: "list_all2 redrawn ss (drawn r ss)"
proof (induction ss arbitrary: r)
  case (Cons s ss)
  obtain a r' where d: "draw_random_address r = (a, r')"
    by (cases "draw_random_address r")
  have "a < 2 ^ 24"
    using draw_small [of r] by (simp add: d)
  moreover have "redrawn s s" if "\<not> st_initialise s"
    using that by (auto simp: redrawn_def intro!: exI [of _ 0])
  ultimately show ?case
    using Cons [of r] Cons [of r'] by (auto simp: d redrawn_def)
qed simp

lemma redrawn_keeps:
  assumes "redrawn s s'"
  shows "st_enabled s' = st_enabled s" "st_initialise s' = st_initialise s" "st_withdrawn s' = st_withdrawn s"
    "short_address (st_spec s') = short_address (st_spec s)" "device_types (st_spec s') = device_types (st_spec s)"
    "participant s' = participant s" "st_matches b s' = st_matches b s" "st_calm s \<Longrightarrow> st_calm s'"
proof -
  obtain a where "s' = (if st_initialise s then s\<lparr>st_spec := (st_spec s)\<lparr>random_address := a\<rparr>\<rparr> else s)" "a < 2 ^ 24"
    using assms by (auto simp: redrawn_def)
  then show "st_enabled s' = st_enabled s" "st_initialise s' = st_initialise s" "st_withdrawn s' = st_withdrawn s"
    "short_address (st_spec s') = short_address (st_spec s)" "device_types (st_spec s') = device_types (st_spec s)"
    "participant s' = participant s" "st_matches b s' = st_matches b s" "st_calm s \<Longrightarrow> st_calm s'"
    by (cases "st_initialise s"; cases b; simp add: participant_def st_matches_def st_calm_def)+
qed

lemma drawn_calm: "\<forall>s\<in>set ss. st_calm s \<Longrightarrow> \<forall>s\<in>set (drawn r ss). st_calm s"
  using drawn_redrawn [of ss r] redrawn_keeps(8)
  by (metis (no_types, lifting) in_set_conv_nth list_all2_conv_all_nth)

lemma pair_sent:
  assumes "quiet c" "special_requires_repeat special" "\<not> special_expects_backward special"
  shows "\<exists>r1 r2 w c'. send_special fleet_io special c = (Ok (), c') \<and> quiet c'
      \<and> delivers False (special_forward_frame special) (world c) r1 w
      \<and> delivers False (special_forward_frame special) w r2 (world c')"
  using send_command_fleet [OF assms(1), of "Special special"] assms(2,3)
  by (auto simp: send_special_def andThen_def mapErr_def sends_def enable_frame_def) blast

lemma begin_fleet:
  assumes "attentive c" "timely (world c)"
  shows "\<exists>c'. begin_unaddressed_commissioning fleet_io c = (Ok (), c') \<and> attentive c'
      \<and> stations (line c') = drawn (rng (fleet (world c))) (map st_init (stations (line c)))"
proof -
  have calm: "calm (line_now (world c))" "quiet (tx_open True c)"
    using assms(1) by (simp_all add: attentive_def quiet_simps)
  obtain r1 r2 w1 c1 where c1: "send_special fleet_io (Initialise 0xFF) (tx_open True c) = (Ok (), c1)" "quiet c1"
      "delivers False (special_forward_frame (Initialise 0xFF)) (world c) r1 w1"
      "delivers False (special_forward_frame (Initialise 0xFF)) w1 r2 (world c1)"
    using pair_sent [OF calm(2), of "Initialise 0xFF"]
    by (auto simp: special_requires_repeat_def special_expects_backward_def)
  note I = initialise_pair [OF calm(1) assms(2) c1(3,4)]
  obtain r3 r4 w2 c2 where c2: "send_special fleet_io Randomise c1 = (Ok (), c2)" "quiet c2"
      "delivers False (special_forward_frame Randomise) (world c1) r3 w2"
      "delivers False (special_forward_frame Randomise) w2 r4 (world c2)"
    using pair_sent [OF c1(2), of Randomise] by (auto simp: special_requires_repeat_def special_expects_backward_def)
  have fresh: "\<forall>g\<in>set (gears (line_now (world c1))). pending_repeat g \<noteq> Some rand_frame"
    using I(5) frames_differ by fastforce
  note F = randomise_first [OF I(1,2) c2(3) fresh]
  note S = randomise_second [OF F(1,2) c2(4) F(7), of 100000]
  define c3 where "c3 = sleep fleet_io (100 * 1000) (tx_close c2)"
  have w3: "world c3 = later 100000 (world c2)"
    by (simp add: c3_def sleep_def fleet_io_def later_def)
  have "quiet c3"
    using c2(2) by (simp add: c3_def sleep_def quiet_simps)
  moreover have "begin_unaddressed_commissioning fleet_io c = (Ok (), c3)"
    by (simp add: begin_unaddressed_commissioning_def run_transaction_def andThen_def c1(1) c2(1) c3_def)
  moreover have st: "stations (line c3) = drawn (rng (fleet (world c))) (stations (line c1))"
    using S(1) F(3,4) I(3) by (simp add: w3)
  moreover have "calm (line c3)"
  proof -
    have "\<forall>s\<in>set (stations (line c1)). st_calm s"
      using I(1) by (simp add: calm_stations)
    then have "\<forall>s\<in>set (stations (line c3)). st_calm s"
      unfolding st by (rule drawn_calm)
    then show ?thesis
      using I(1) S(2,3) F(5,6) by (simp add: calm_stations w3)
  qed
  ultimately show ?thesis
    using I(4) by (auto simp: attentive_def)
qed


text \<open>The stations after INITIALISE (all unaddressed gear), RANDOMISE and the wait.\<close>

definition recruited :: "Rng \<Rightarrow> Station list \<Rightarrow> Station list" where
  "recruited r sts = drawn r (map st_init sts)"

definition missing :: "Station \<Rightarrow> bool" where
  "missing st \<longleftrightarrow> st_enabled st \<and> short_address (st_spec st) = None"

definition recruit :: "Station \<Rightarrow> Station \<Rightarrow> bool" where
  "recruit s s' \<longleftrightarrow> redrawn (st_init s) s'"

lemma recruited_all2: "list_all2 recruit sts (recruited r sts)"
  using drawn_redrawn [of "map st_init sts" r] by (simp add: recruited_def recruit_def [abs_def] list_all2_map1)

lemma recruit_keeps:
  assumes "recruit s s'"
  shows "st_enabled s' = st_enabled s" "short_address (st_spec s') = short_address (st_spec s)"
    "device_types (st_spec s') = device_types (st_spec s)" "st_matches a s' = st_matches a s"
    "\<not> st_initialise s \<Longrightarrow> participant s' = missing s"
  using redrawn_keeps [OF assms [unfolded recruit_def]]
  by (auto simp: st_init_def participant_def missing_def st_matches_def split: if_split_asm DaliAddress.split)

lemma all2_member:
  assumes "list_all2 R xs ys"
  shows "y \<in> set ys \<Longrightarrow> \<exists>x\<in>set xs. R x y" "x \<in> set xs \<Longrightarrow> \<exists>y\<in>set ys. R x y"
  using assms by (metis in_set_conv_nth list_all2_conv_all_nth)+

lemma ready_recruited:
  assumes "\<forall>st\<in>set sts. \<not> st_initialise st" "\<forall>st\<in>set sts. missing st \<longrightarrow> typed (device_types (st_spec st))"
    and "distinct (map random_of (filter participant (recruited r sts)))"
  shows "ready (recruited r sts)"
proof -
  have "short_address (st_spec s') = None" "typed (device_types (st_spec s'))"
    if s': "s' \<in> set (recruited r sts)" and part: "participant s'" for s'
  proof -
    obtain s where s: "s \<in> set sts" "recruit s s'"
      using all2_member(1) [OF recruited_all2 s'] by blast
    then have "missing s"
      using recruit_keeps(5) [OF s(2)] assms(1) part by simp
    then show "short_address (st_spec s') = None" "typed (device_types (st_spec s'))"
      using assms(2) s(1) recruit_keeps(2,3) [OF s(2)] by (simp_all add: missing_def)
  qed
  moreover have "participant s'"
    if s': "s' \<in> set (recruited r sts)" and miss: "st_enabled s'" "short_address (st_spec s') = None" for s'
  proof -
    obtain s where s: "s \<in> set sts" "recruit s s'"
      using all2_member(1) [OF recruited_all2 s'] by blast
    then show ?thesis
      using recruit_keeps [OF s(2)] assms(1) miss by (simp add: missing_def)
  qed
  ultimately show ?thesis
    unfolding ready_def using assms(3) by blast
qed

lemma free_recruited: "free_shorts used (recruited r sts) = free_shorts used sts"
proof -
  have "(\<exists>s'\<in>set (recruited r sts). st_matches a s') = (\<exists>s\<in>set sts. st_matches a s)" for a
    using all2_member [OF recruited_all2 [of sts r]] recruit_keeps(4) by metis
  then show ?thesis
    unfolding free_shorts_def free_for_def [abs_def] by simp
qed

lemma length_search_order:
  "distinct (map random_of (filter participant sts)) \<Longrightarrow> length (search_order sts) = length (filter participant sts)"
  unfolding search_order_def by (metis distinct_card length_map length_sorted_list_of_set set_map)

lemma session_fleet:
  fixes used
  assumes "attentive c" "timely (world c)" "sts = stations (line c)" "sts1 = recruited (rng (fleet (world c))) sts"
    and "\<forall>st\<in>set sts. \<not> st_initialise st" "\<forall>st\<in>set sts. missing st \<longrightarrow> typed (device_types (st_spec st))"
    and "distinct (map random_of (filter participant sts1))" "length (filter participant sts1) \<le> length (free_shorts used sts)"
  shows "\<exists>ds c'. commission_unaddressed_once fleet_io retries used progress c
        = ((Ok (), used @ map dd_short_address ds, progress @ ds), c') \<and> attentive c'
      \<and> map dd_short_address ds = take (length (filter participant sts1)) (free_shorts used sts)
      \<and> stations (line c') = map (\<lambda>st. st_write Terminate 0 (assign (map_of (zip (search_order sts1) (free_shorts used sts))) st)) sts1
      \<and> list_all2 (describes sts1) ds (search_order sts1)"
proof -
  obtain c1 where c1: "begin_unaddressed_commissioning fleet_io c = (Ok (), c1)" "attentive c1" "stations (line c1) = sts1"
    using begin_fleet [OF assms(1,2)] by (auto simp: assms(3,4) recruited_def)
  have ready: "ready sts1"
    unfolding assms(4) using assms(5-7) by (intro ready_recruited) (simp_all add: assms(4))
  have free: "free_shorts used sts1 = free_shorts used sts"
    by (simp add: assms(4) free_recruited)
  have len: "length (search_order sts1) = length (filter participant sts1)"
    using assms(7) by (rule length_search_order)
  obtain ds c2 where c2: "commission_unaddressed_drain fleet_io retries used progress c1
        = ((Ok (), used @ map dd_short_address ds, progress @ ds), c2)" "attentive c2"
      "map dd_short_address ds = take (length (search_order sts1)) (free_shorts used sts1)"
      "stations (line c2) = map (assign (map_of (zip (search_order sts1) (free_shorts used sts1)))) sts1"
      "list_all2 (describes sts1) ds (search_order sts1)"
    using drain_fleet [OF c1(2) c1(3) [symmetric] ready refl, of used retries progress] assms(8) by (auto simp: free len)
  obtain c3 where c3: "send_special fleet_io Terminate c2 = (Ok (), c3)" "attentive c3"
      "stations (line c3) = map (st_write Terminate (search_of (line c2))) (stations (line c2))"
    using send_special_step [OF c2(2), of Terminate] by (auto simp: addressing_def)
  have "st_write Terminate (search_of (line c2)) = st_write Terminate 0"
    by (simp add: st_write_def fun_eq_iff)
  then have "stations (line c3) = map (\<lambda>st. st_write Terminate 0 (assign (map_of (zip (search_order sts1) (free_shorts used sts))) st)) sts1"
    using c3(3) by (simp add: c2(4) free)
  moreover have "commission_unaddressed_once fleet_io retries used progress c
        = ((Ok (), used @ map dd_short_address ds, progress @ ds), c3)"
    by (simp add: commission_unaddressed_once_def terminate_unaddressed_commissioning_def c1(1) c2(1) c3(1))
  ultimately show ?thesis
    using c3(2) c2(3,5) unfolding len free by blast
qed

section \<open>What the session achieves\<close>

text \<open>The short address a station holds after the session.\<close>

lemma outcome_short:
  assumes "st' = st_write Terminate 0 (assign f st1)"
  shows "st_enabled st' = st_enabled st1" "\<not> st_initialise st'"
    "short_address (st_spec st') = (if participant st1 \<and> f (random_of st1) \<noteq> None then f (random_of st1) else short_address (st_spec st1))"
  unfolding assms by (auto simp: st_write_def assign_def addressed_def split: option.split)

lemma distinct_filter_pairs: "distinct (map f (filter P xs)) \<longleftrightarrow> sorted_wrt (\<lambda>x y. P x \<longrightarrow> P y \<longrightarrow> f x \<noteq> f y) xs"
  by (induction xs) auto

lemma zip_addresses:
  assumes "distinct rs" "distinct ss" "length rs \<le> length ss"
  shows "r \<in> set rs \<Longrightarrow> \<exists>s\<in>set ss. map_of (zip rs ss) r = Some s"
    and "r \<in> set rs \<Longrightarrow> r' \<in> set rs \<Longrightarrow> map_of (zip rs ss) r = map_of (zip rs ss) r' \<Longrightarrow> r = r'"
proof -
  have at: "map_of (zip rs ss) (rs ! i) = Some (ss ! i)" if "i < length rs" for i
  proof -
    have "map_of (zip rs (take (length rs) ss)) (rs ! i) = Some (take (length rs) ss ! i)"
      using assms that by (intro map_of_zip_nth) simp_all
    moreover have "zip rs (take (length rs) ss) = zip rs ss"
      using assms(3) by (intro nth_equalityI) auto
    ultimately show ?thesis
      using that by simp
  qed
  show "\<exists>s\<in>set ss. map_of (zip rs ss) r = Some s" if "r \<in> set rs"
    using that at assms(3) by (metis in_set_conv_nth nth_mem order_less_le_trans)
  show "r = r'" if "r \<in> set rs" "r' \<in> set rs" "map_of (zip rs ss) r = map_of (zip rs ss) r'"
    using that at assms by (metis in_set_conv_nth nth_eq_iff_index_eq option.inject order_less_le_trans)
qed

text \<open>The addresses a session hands out, and the stations it leaves.\<close>

definition plan :: "u8 list \<Rightarrow> Rng \<Rightarrow> Station list \<Rightarrow> u32 \<rightharpoonup> u8" where
  "plan used r sts = map_of (zip (search_order (recruited r sts)) (free_shorts used sts))"

definition outcome :: "u8 list \<Rightarrow> Rng \<Rightarrow> Station list \<Rightarrow> Station list" where
  "outcome used r sts = map (\<lambda>st. st_write Terminate 0 (assign (plan used r sts) st)) (recruited r sts)"

text \<open>Nobody is in the initialisation state yet, the draws differ, and there are free addresses enough.\<close>

definition commissionable :: "u8 list \<Rightarrow> Rng \<Rightarrow> Station list \<Rightarrow> bool" where
  "commissionable used r sts \<longleftrightarrow> (\<forall>st\<in>set sts. \<not> st_initialise st)
     \<and> distinct (map random_of (filter participant (recruited r sts)))
     \<and> length (filter participant (recruited r sts)) \<le> length (free_shorts used sts)"

lemma plan_order:
  assumes "commissionable used r sts"
  shows "distinct (search_order (recruited r sts))" "distinct (free_shorts used sts)"
    and "length (search_order (recruited r sts)) \<le> length (free_shorts used sts)"
    and "set (search_order (recruited r sts)) = random_of ` set (filter participant (recruited r sts))"
proof -
  show "distinct (free_shorts used sts)"
    by (rule distinct_free_shorts)
  show "distinct (search_order (recruited r sts))"
    "set (search_order (recruited r sts)) = random_of ` set (filter participant (recruited r sts))"
    by (simp_all add: search_order_def)
  show "length (search_order (recruited r sts)) \<le> length (free_shorts used sts)"
    using assms length_search_order by (simp add: commissionable_def)
qed

lemma plan_gives:
  assumes "commissionable used r sts" "x \<in> set (recruited r sts)" "participant x"
  obtains s where "s \<in> set (free_shorts used sts)" "plan used r sts (random_of x) = Some s"
proof -
  note P = plan_order [OF assms(1)]
  have "random_of x \<in> set (search_order (recruited r sts))"
    using assms(2,3) by (simp add: P(4))
  then show thesis
    using that zip_addresses(1) [OF P(1-3)] by (auto simp: plan_def)
qed

lemma plan_apart:
  assumes "commissionable used r sts" "x \<in> set (recruited r sts)" "participant x" "y \<in> set (recruited r sts)" "participant y"
    and "plan used r sts (random_of x) = plan used r sts (random_of y)"
  shows "random_of x = random_of y"
proof -
  note P = plan_order [OF assms(1)]
  show ?thesis
    using assms(2-6) by (intro zip_addresses(2) [OF P(1-3)]) (simp_all add: P(4) plan_def)
qed

lemma recruited_participant:
  assumes "commissionable used r sts" "x \<in> set (recruited r sts)"
  shows "participant x \<longleftrightarrow> missing x"
proof -
  obtain y where y: "y \<in> set sts" "recruit y x"
    using all2_member(1) [OF recruited_all2 assms(2)] by blast
  then have "\<not> st_initialise y"
    using assms(1) by (simp add: commissionable_def)
  then show ?thesis
    using recruit_keeps(1,2,5) [OF y(2)] by (simp add: missing_def)
qed

abbreviation after_session :: "u8 list \<Rightarrow> Rng \<Rightarrow> Station list \<Rightarrow> Station \<Rightarrow> Station" where
  "after_session used r sts st \<equiv> st_write Terminate 0 (assign (plan used r sts) st)"

lemma session_short:
  assumes "commissionable used r sts" "x \<in> set (recruited r sts)"
  shows "short_address (st_spec (after_session used r sts x))
      = (if missing x then plan used r sts (random_of x) else short_address (st_spec x))"
proof (cases "missing x")
  case True
  then have "participant x"
    using recruited_participant [OF assms] by simp
  moreover obtain s where "plan used r sts (random_of x) = Some s"
    using plan_gives [OF assms \<open>participant x\<close>] by blast
  ultimately show ?thesis
    using True outcome_short(3) [OF refl, of "plan used r sts" x] by simp
next
  case False
  then show ?thesis
    using recruited_participant [OF assms] outcome_short(3) [OF refl, of "plan used r sts" x] by simp
qed

lemma plan_fresh:
  assumes "commissionable used r sts" "x \<in> set (recruited r sts)" "missing x"
    and "y \<in> set (recruited r sts)" "st_enabled y"
  shows "plan used r sts (random_of x) \<noteq> short_address (st_spec y)"
proof
  assume eq: "plan used r sts (random_of x) = short_address (st_spec y)"
  have "participant x"
    using recruited_participant [OF assms(1,2)] assms(3) by simp
  then obtain s where s: "s \<in> set (free_shorts used sts)" "plan used r sts (random_of x) = Some s"
    using plan_gives [OF assms(1,2)] by blast
  obtain z where z: "z \<in> set sts" "recruit z y"
    using all2_member(1) [OF recruited_all2 assms(4)] by blast
  then have "st_matches (Short s) z"
    using s(2) eq assms(5) recruit_keeps(1,2) [OF z(2)] by (simp add: st_matches_def)
  moreover have "\<not> (\<exists>st\<in>set sts. st_matches (Short s) st)"
    using s(1) by (simp add: free_shorts_def free_for_def)
  ultimately show False
    using z(1) by blast
qed

text \<open>The stations before and after a session, one by one.\<close>

definition kept_address :: "Station \<Rightarrow> Station \<Rightarrow> bool" where
  "kept_address st st' \<longleftrightarrow> st_enabled st' = st_enabled st \<and> \<not> st_initialise st'
     \<and> (short_address (st_spec st) \<noteq> None \<longrightarrow> short_address (st_spec st') = short_address (st_spec st))"

lemma outcome_complete:
  assumes "commissionable used r sts"
  shows "\<forall>st\<in>set (outcome used r sts). st_enabled st \<longrightarrow> short_address (st_spec st) \<noteq> None"
proof
  fix st assume "st \<in> set (outcome used r sts)"
  then obtain x where x: "x \<in> set (recruited r sts)" "st = after_session used r sts x"
    by (auto simp: outcome_def)
  show "st_enabled st \<longrightarrow> short_address (st_spec st) \<noteq> None"
  proof (cases "missing x")
    case True
    then obtain s where "plan used r sts (random_of x) = Some s"
      using plan_gives [OF assms x(1)] recruited_participant [OF assms x(1)] by blast
    then show ?thesis
      using session_short [OF assms x(1)] True by (simp add: x(2))
  next
    case False
    then show ?thesis
      using session_short [OF assms x(1)] outcome_short(1) [OF x(2)] by (auto simp: x(2) missing_def)
  qed
qed

lemma outcome_keeps:
  assumes "commissionable used r sts"
  shows "list_all2 kept_address sts (outcome used r sts)"
proof -
  have "kept_address y (after_session used r sts x)" if "recruit y x" "x \<in> set (recruited r sts)" for x y
    using session_short [OF assms that(2)] outcome_short(1,2) [OF refl, of "plan used r sts" x] recruit_keeps(1,2) [OF that(1)]
    by (simp add: kept_address_def missing_def)
  then show ?thesis
    using recruited_all2 [of sts r] by (simp add: outcome_def list_all2_map2 list_all2_conv_all_nth)
qed

lemma outcome_apart:
  assumes "commissionable used r sts" "x \<in> set (recruited r sts)" "y \<in> set (recruited r sts)" "st_enabled x" "st_enabled y"
    and "participant x \<Longrightarrow> participant y \<Longrightarrow> random_of x \<noteq> random_of y"
    and "\<not> missing x \<Longrightarrow> \<not> missing y \<Longrightarrow> short_address (st_spec x) \<noteq> short_address (st_spec y)"
  shows "short_address (st_spec (after_session used r sts x)) \<noteq> short_address (st_spec (after_session used r sts y))"
proof -
  note short = session_short [OF assms(1,2)] session_short [OF assms(1,3)]
  note part = recruited_participant [OF assms(1,2)] recruited_participant [OF assms(1,3)]
  consider "missing x" "missing y" | "missing x" "\<not> missing y" | "\<not> missing x" "missing y" | "\<not> missing x" "\<not> missing y"
    by blast
  then show ?thesis
  proof cases
    case 1
    then show ?thesis
      using plan_apart [OF assms(1,2) _ assms(3)] assms(6) part by (auto simp: short)
  next
    case 2
    then show ?thesis
      using plan_fresh [OF assms(1,2) _ assms(3,5)] by (simp add: short)
  next
    case 3
    then show ?thesis
      using plan_fresh [OF assms(1,3) _ assms(2,4)] by (simp add: short)
  next
    case 4
    then show ?thesis
      using assms(7) by (simp add: short)
  qed
qed

lemma outcome_distinct:
  assumes "commissionable used r sts"
    and old: "distinct (map (\<lambda>st. short_address (st_spec st)) (filter (\<lambda>st. st_enabled st \<and> \<not> missing st) sts))"
  shows "distinct (map (\<lambda>st. short_address (st_spec st)) (filter st_enabled (outcome used r sts)))"
proof -
  define sts1 where "sts1 = recruited r sts"
  have len: "length sts1 = length sts"
    using list_all2_lengthD [OF recruited_all2 [of sts r]] by (simp add: sts1_def)
  have rec: "recruit (sts ! i) (sts1 ! i)" if "i < length sts1" for i
    using recruited_all2 [of sts r, folded sts1_def] that len by (simp add: list_all2_conv_all_nth)
  have new: "participant (sts1 ! i) \<longrightarrow> participant (sts1 ! j) \<longrightarrow> random_of (sts1 ! i) \<noteq> random_of (sts1 ! j)"
    if "i < j" "j < length sts1" for i j
  proof -
    have "sorted_wrt (\<lambda>x y. participant x \<longrightarrow> participant y \<longrightarrow> random_of x \<noteq> random_of y) sts1"
      using assms(1) unfolding distinct_filter_pairs [symmetric] commissionable_def sts1_def by blast
    then show ?thesis
      using that by (rule sorted_wrt_nth_less)
  qed
  have kept: "short_address (st_spec (sts1 ! i)) \<noteq> short_address (st_spec (sts1 ! j))"
    if ij: "i < j" "j < length sts1" and st: "st_enabled (sts1 ! i)" "st_enabled (sts1 ! j)" "\<not> missing (sts1 ! i)" "\<not> missing (sts1 ! j)" for i j
  proof -
    have rs: "recruit (sts ! i) (sts1 ! i)" "recruit (sts ! j) (sts1 ! j)"
      using ij rec by simp_all
    have "(st_enabled (sts ! i) \<and> \<not> missing (sts ! i)) \<longrightarrow> (st_enabled (sts ! j) \<and> \<not> missing (sts ! j)) \<longrightarrow>
        short_address (st_spec (sts ! i)) \<noteq> short_address (st_spec (sts ! j))"
      using old [unfolded distinct_filter_pairs] ij len by (intro sorted_wrt_nth_less) simp_all
    then show ?thesis
      using st recruit_keeps(1,2) [OF rs(1)] recruit_keeps(1,2) [OF rs(2)] by (simp add: missing_def)
  qed
  have "short_address (st_spec (after_session used r sts (sts1 ! i))) \<noteq> short_address (st_spec (after_session used r sts (sts1 ! j)))"
    if "i < j" "j < length sts1" "st_enabled (sts1 ! i)" "st_enabled (sts1 ! j)" for i j
    using that new [OF that(1,2)] kept [OF that] by (intro outcome_apart [OF assms(1)]) (simp_all add: sts1_def)
  then show ?thesis
    unfolding distinct_filter_pairs sorted_wrt_iff_nth_less outcome_def sts1_def [symmetric]
    using outcome_short(1) [OF refl] by simp
qed

end
