(* ===== verification/Gear_Contract.thy ===== *)
theory Gear_Contract
  imports Fleet
begin

text \<open>
  What every frame keeps true of the gear of \<open>GearFleet\<close>. The locale \<open>gear_contract\<close>
  collects what \<open>fleet.rs\<close> does to a single gear; a property of a gear with these laws
  survives \<open>exchange\<close> and \<open>advance_to_ms\<close>, and with one more law every history of
  the line. The theories of the light level, the colour temperature and the shape of a gear's
  variables interpret it.
\<close>

section \<open>A property of all gear\<close>

definition all_gear :: "(Gear \<Rightarrow> bool) \<Rightarrow> GearFleet \<Rightarrow> bool" where
  "all_gear ok fl = list_all ok (gears fl)"

named_theorems gear_keeps \<open>what leaves a property of every gear alone\<close>

lemma all_gear_regs [gear_keeps]:
  "all_gear ok (fl\<lparr>regs := r\<rparr>) = all_gear ok fl" "all_gear ok (fl\<lparr>stats := s\<rparr>) = all_gear ok fl"
  "all_gear ok (fl\<lparr>frame_seq := n\<rparr>) = all_gear ok fl" "all_gear ok (fl\<lparr>now_ms := t\<rparr>) = all_gear ok fl"
  "all_gear ok (fl\<lparr>answers := as\<rparr>) = all_gear ok fl" "all_gear ok (fl\<lparr>rng := x\<rparr>) = all_gear ok fl"
  "all_gear ok (snd (publish as fl)) = all_gear ok fl" "all_gear ok (snd (publish_none fl)) = all_gear ok fl"
  "all_gear ok (set_search_byte i v fl) = all_gear ok fl"
  by (simp_all add: all_gear_def publish_def publish_none_def set_search_byte_def)

lemma all_gear_for [intro]:
  "all_gear ok fl \<Longrightarrow> (\<And>g. ok g \<Longrightarrow> sel g \<Longrightarrow> ok (f g)) \<Longrightarrow> all_gear ok (for_gears sel f fl)"
  by (auto simp: all_gear_def for_gears_def list_all_iff)

lemma all_gear_map [intro]:
  "all_gear ok fl \<Longrightarrow> (\<And>g. ok g \<Longrightarrow> ok (f g)) \<Longrightarrow> all_gear ok (fl\<lparr>gears := map f (gears fl)\<rparr>)"
  by (auto simp: all_gear_def list_all_iff)

lemma draw_bound: "fst (draw_random_address r) \<le> 0x00FFFFFE"
proof (cases "fst (next_24 r) \<le> 0x00FFFFFE")
  case False
  then show ?thesis
    using redraw_succeeds [of r "fst (next_24 r)" "snd (next_24 r)"] by (simp add: draw_random_address_twice)
qed (simp add: draw_random_address_twice)

lemma decode_short_small: "decode_short_reply v < 64"
  by (rule all_octets [of "\<lambda>v. decode_short_reply v < 64"]) code_simp

section \<open>The contract\<close>

locale gear_contract =
  fixes ok :: "Gear \<Rightarrow> bool"
  assumes executes: "ok (g\<lparr>executes_now := b\<rparr>) = ok g"
    and walk: "ok (g\<lparr>device_type_walk := i\<rparr>) = ok g"
    and held: "ok (g\<lparr>pending_repeat := p\<rparr>) = ok g"
    and write_enable: "ok (g\<lparr>write_enabled := b\<rparr>) = ok g"
    and identify: "ok (g\<lparr>identifying := b\<rparr>) = ok g"
    and initialising: "ok (g\<lparr>initialise := b\<rparr>) = ok g"
    and withdrawing: "ok (g\<lparr>withdrawn := b\<rparr>) = ok g"
    and curve: "ok (g\<lparr>dimming_curve := v\<rparr>) = ok g"
    and drawn: "ok g \<Longrightarrow> a \<le> 0x00FFFFFE \<Longrightarrow>
      ok (g\<lparr>pending_random := Some \<lparr>pr_address = a, ready_at_ms = t\<rparr>\<rparr>)"
    and settles: "ok g \<Longrightarrow> ok (settle_random t g)"
    and readdressed: "ok g \<Longrightarrow> (case s of Some a \<Rightarrow> a < 64 | None \<Rightarrow> True) \<Longrightarrow>
      ok (g\<lparr>spec := (spec g)\<lparr>short_address := s\<rparr>\<rparr>)"
    and dapc: "ok g \<Longrightarrow> ok (apply_dapc l g)"
    and activation: "ok g \<Longrightarrow> ok (arc_power_activation g)"
    and memory: "ok g \<Longrightarrow> ok (snd (write_memory_location bk ofs v g))"
    and written: "ok g \<Longrightarrow> ok (apply_standard_write command d g)"
    and coloured: "ok g \<Longrightarrow> ok (apply_dt8_write opcode d0 d1 d2 g)"
    and switched: "ok g \<Longrightarrow> ok (g\<lparr>switching := switching_store ft command7 d (switching g)\<rparr>)"
    and reported: "ok g \<Longrightarrow> ok (load_report_from_actual g)"
    and queried: "ok g \<Longrightarrow> ok (snd (gear_query_reply command g))"
begin

lemmas bookkeeping = executes walk held write_enable identify initialising withdrawing curve

lemma hear_gear_keeps:
  assumes "ok g"
  shows "ok (fst (hear_gear frame decoded repeats g))"
proof -
  have "ok (snd (gear_hear frame repeats h))" if "ok h" for h
    using that by (simp add: gear_hear_def held)
  moreover have "ok (snd (hear_elsewhere h))" if "ok h" for h
    using that held [of None "h\<lparr>device_type_walk := None\<rparr>"] by (simp add: hear_elsewhere_def walk)
  ultimately show ?thesis
    using assms by (simp add: hear_gear_def Let_def case_prod_beta cancel_device_type_walk_def executes walk)
qed

lemma fleet_hear_keeps:
  assumes "all_gear ok fl"
  shows "all_gear ok (fleet_hear frame decoded repeats fl)"
  using assms by (auto simp: fleet_hear_def Let_def all_gear_def list_all_iff hear_gear_keeps)

lemma advance_keeps:
  assumes "all_gear ok fl"
  shows "all_gear ok (advance_to_ms t fl)"
  using assms by (auto simp: advance_to_ms_def Let_def gear_keeps settles intro!: all_gear_for)

lemma randomise_gears_keep:
  "list_all ok gs \<Longrightarrow> list_all ok (fst (randomise_gears t r gs))"
proof (induction gs arbitrary: r)
  case (Cons g gs)
  then show ?case
    using draw_bound [of r] by (auto simp: case_prod_beta intro!: drawn)
qed simp

lemma query_gears_keep:
  "list_all ok gs \<Longrightarrow> list_all ok (fst (snd (query_gears address command shared gs r)))"
proof (induction gs arbitrary: r)
  case (Cons g gs)
  then show ?case
    using queried [of g command] by (simp add: case_prod_beta split: option.split)
qed simp

lemma on_memory_write_keeps:
  assumes "all_gear ok fl" "on_memory_write special fl = Some r"
  shows "all_gear ok (snd r)"
proof -
  have "all_gear ok (for_gears write_enabled (\<lambda>g. snd (write_memory_location bk i v g)) fl)" for bk i v
    using assms(1) by (auto intro: memory)
  then show ?thesis
    using assms(2) by (cases special) (auto simp: on_memory_write_def Let_def gear_keeps)
qed

lemma special_state_keeps:
  assumes "all_gear ok fl"
  shows "all_gear ok (terminate_initialise fl)" "all_gear ok (enter_initialise scope fl)"
    "all_gear ok (randomise fl)" "all_gear ok (on_withdraw fl)" "all_gear ok (program_short encoded fl)"
proof -
  show "all_gear ok (terminate_initialise fl)" "all_gear ok (on_withdraw fl)"
    using assms by (auto simp: terminate_initialise_def on_withdraw_def bookkeeping intro!: all_gear_for)
  show "all_gear ok (enter_initialise scope fl)"
    using assms by (auto simp: enter_initialise_def bookkeeping intro!: all_gear_for)
  show "all_gear ok (program_short encoded fl)"
    using assms by (auto simp: program_short_def Let_def gear_keeps decode_short_small intro!: all_gear_for readdressed)
  show "all_gear ok (randomise fl)"
    using assms randomise_gears_keep [of "gears fl"]
    by (simp add: randomise_def case_prod_beta all_gear_def)
qed

lemma on_special_keeps:
  assumes "all_gear ok fl"
  shows "all_gear ok (snd (on_special special fl))"
proof (cases "on_memory_write special fl")
  case None
  define fl' where "fl' = (if stops_identification special
      then for_gears executes_now (\<lambda>g. g\<lparr>identifying := False\<rparr>) fl else fl)"
  have "all_gear ok fl'"
    using assms by (auto simp: fl'_def identify)
  then show ?thesis
    using None unfolding on_special_def Let_def fl'_def [symmetric]
    by (cases special) (simp_all add: gear_keeps special_state_keeps on_compare_def verify_short_def query_selected_short_def)
next
  case (Some r)
  then show ?thesis
    using on_memory_write_keeps [OF assms Some] by (simp add: on_special_def)
qed

lemma on_dapc_keeps:
  assumes "all_gear ok fl"
  shows "all_gear ok (snd (on_dapc address l fl))"
  using assms by (auto simp: on_dapc_def gear_keeps identify intro!: all_gear_for dapc activation)

lemma on_read_keeps:
  assumes "all_gear ok fl"
  shows "all_gear ok (snd (on_read_memory_location address fl))"
  using assms by (simp add: on_read_memory_location_def Let_def gear_keeps)

lemma on_dt6_keeps:
  assumes "all_gear ok fl"
  shows "all_gear ok (snd (on_extended_dt6 address opcode expects fl))"
proof -
  have "all_gear ok (snd r)" if "dt6_failure_query address opcode fl = Some r" for r
    using that assms by (auto simp: dt6_failure_query_def constant_reply_def Let_def gear_keeps
        split: if_split_asm option.split_asm)
  then show ?thesis
    using assms by (auto simp: on_extended_dt6_def constant_reply_def gear_keeps curve
        split: option.split intro!: all_gear_for)
qed

lemma on_dt7_keeps:
  assumes "all_gear ok fl"
  shows "all_gear ok (snd (on_extended_dt7 address opcode expects fl))"
  using assms by (cases "dt7_from_opcode opcode")
    (auto simp: on_extended_dt7_def gear_keeps intro!: all_gear_for switched)

lemma on_dt8_keeps:
  assumes "all_gear ok fl"
  shows "all_gear ok (snd (on_extended_dt8 address opcode expects armed fl))"
proof -
  have "all_gear ok (snd (on_dt8_query address opcode fl))"
    using assms by (simp add: on_dt8_query_def dt8_color_value_reply_def constant_reply_def Let_def gear_keeps
        split: list.split)
  moreover have "all_gear ok (for_gears sel (apply_dt8_write opcode d0 d1 d2) fl)" for sel d0 d1 d2
    using assms by (auto intro: coloured)
  ultimately show ?thesis
    using assms by (cases armed) (simp_all add: on_extended_dt8_def on_dt8_def Let_def gear_keeps)
qed

lemma standard_write_keeps:
  assumes "ok g"
  shows "ok (fst (standard_write command d res g))"
proof -
  have w: "ok (apply_standard_write command d g)"
    using assms by (rule written)
  then have "ok (snd (set_short_from_dtr0 d res (apply_standard_write command d g)))"
    by (auto simp: set_short_from_dtr0_def Let_def decode_short_small intro!: readdressed)
  with w show ?thesis
    by (auto simp: standard_write_def Let_def case_prod_beta intro: reported)
qed

lemma on_standard_keeps:
  assumes "all_gear ok fl"
  shows "all_gear ok (snd (on_standard address command fl))"
proof (cases "standard_query address command fl")
  case None
  have "all_gear ok (fl\<lparr>gears := map (fst \<circ> (\<lambda>g. if sel g then standard_write command d (reserved fl) g else (g, 0))) (gears fl)\<rparr>)"
    for sel d
    using assms by (intro all_gear_map) (simp_all add: standard_write_keeps)
  then have "list_all ok (map (fst \<circ> (\<lambda>g. if sel g then standard_write command d (reserved fl) g else (g, 0))) (gears fl))"
    for sel d
    by (simp add: all_gear_def)
  then show ?thesis
    by (simp add: on_standard_def None Let_def gear_keeps) (simp add: all_gear_def)
next
  case (Some r)
  have "list_all ok (fst (snd (query_gears address command (bus_register_query command fl) (gears fl) (rng fl))))"
    using assms by (intro query_gears_keep) (simp add: all_gear_def)
  then have "all_gear ok (snd r)"
    using Some by (auto simp: standard_query_def case_prod_beta gear_keeps all_gear_def publish_def split: if_split_asm)
  then show ?thesis
    by (simp add: on_standard_def Some)
qed

lemmas handlers_keep = on_special_keeps on_dapc_keeps on_read_keeps on_dt6_keeps on_dt7_keeps on_dt8_keeps on_standard_keeps

lemma exchange_keeps:
  assumes "all_gear ok fl"
  shows "all_gear ok (snd (exchange frame expects fl))"
proof -
  define heard where "heard = fleet_hear frame (decode_frame frame)
      (requires_repeat_under (decode_frame frame) (ucast (drop_bit 8 frame)) (ucast frame)
        (fresh_device_type (fl\<lparr>frame_seq := saturating_add (frame_seq fl) 1\<rparr>)))
      (fl\<lparr>frame_seq := saturating_add (frame_seq fl) 1\<rparr>)"
  define h where "h = (if keeps_write_enabled (decode_frame frame) then heard
      else for_gears (\<lambda>_. True) (\<lambda>g. g\<lparr>write_enabled := False\<rparr>) heard)"
  define k where "k = carry_prelude_over_held_half frame (fst (take_enabled_device_type h)) (snd (take_enabled_device_type h))"
  have "all_gear ok heard"
    unfolding heard_def by (rule fleet_hear_keeps) (simp add: gear_keeps assms)
  then have h: "all_gear ok h"
    by (auto simp: h_def write_enable)
  then have k: "all_gear ok k"
    by (simp add: k_def carry_prelude_over_held_half_def take_enabled_device_type_def gear_keeps split: option.split)
  note handled = handlers_keep [OF h] handlers_keep [OF k] h k gear_keeps
  show ?thesis
    unfolding exchange_def Let_def case_prod_beta heard_def [symmetric] h_def [symmetric] k_def [symmetric]
    by (cases "decode_frame frame", use handled in \<open>simp split: sum.split\<close>,
        cases "the (decode_frame frame)") (use handled in \<open>simp_all split: sum.split\<close>)
qed

end

section \<open>Histories of the line\<close>

datatype LineEvent = FrameHeard u16 bool | TimePasses u64 | PowerCut

primrec line_step :: "LineEvent \<Rightarrow> GearFleet \<Rightarrow> GearFleet" where
  "line_step (FrameHeard frame expects) fl = snd (exchange frame expects fl)"
| "line_step (TimePasses t) fl = advance_to_ms t fl"
| "line_step PowerCut fl = fleet_power_cycle fl"

definition line_run :: "LineEvent list \<Rightarrow> GearFleet \<Rightarrow> GearFleet" where
  "line_run = fold line_step"

context gear_contract
begin

lemma line_run_keeps:
  "PowerCut \<notin> set events \<Longrightarrow> all_gear ok fl \<Longrightarrow> all_gear ok (line_run events fl)"
proof (induction events arbitrary: fl)
  case (Cons e events)
  then have "all_gear ok (line_step e fl)"
    by (cases e) (simp_all add: exchange_keeps advance_keeps)
  then show ?case
    using Cons by (simp add: line_run_def)
qed (simp add: line_run_def)

end

text \<open>A property that a power cut keeps too survives every history.\<close>

locale durable_gear_contract = gear_contract +
  assumes power_cut: "ok g \<Longrightarrow> ok (power_cycle g)"
begin

lemma line_run_durable: "all_gear ok fl \<Longrightarrow> all_gear ok (line_run events fl)"
proof (induction events arbitrary: fl)
  case (Cons e events)
  have "all_gear ok (fleet_power_cycle fl)"
    unfolding fleet_power_cycle_def
    by (rule all_gear_for) (simp_all add: gear_keeps Cons.prems power_cut)
  then have "all_gear ok (line_step e fl)"
    using Cons.prems by (cases e) (simp_all add: exchange_keeps advance_keeps)
  then show ?case
    using Cons by (simp add: line_run_def)
qed (simp add: line_run_def)

end

lemma fleet_new_gear:
  assumes "\<And>s. s \<in> set specs \<Longrightarrow> ok (gear_new s) \<and> ok (gear_new (s\<lparr>short_address := None\<rparr>))"
  shows "all_gear ok (fleet_new specs res seed)"
  using assms by (auto simp: all_gear_def fleet_new_def list_all_iff)

section \<open>Queries\<close>

text \<open>A query only moves the report, the walk and what \<open>identity_query_reply\<close> moves.\<close>

lemma gear_query_reply_state:
  "\<exists>w h. snd (gear_query_reply command g) \<in> {h, snd (identity_query_reply command h)} \<and>
     (h = g\<lparr>device_type_walk := w\<rparr> \<or> h = load_report_for_query command (g\<lparr>device_type_walk := w\<rparr>))"
proof -
  define h1 where "h1 = g\<lparr>device_type_walk :=
      if command \<noteq> QueryDeviceType \<and> command \<noteq> QueryNextDeviceType then None else device_type_walk g\<rparr>"
  define h2 where "h2 = (if is_dt8 h1 then load_report_for_query command h1 else h1)"
  have h1: "(if command \<noteq> QueryDeviceType \<and> command \<noteq> QueryNextDeviceType
         then g\<lparr>device_type_walk := None\<rparr> else g) = h1"
    by (simp add: h1_def)
  have "gear_query_reply command g = (case level_query_reply h2 command of
       Some outcome \<Rightarrow> (outcome, h2)
     | None \<Rightarrow> (case identity_query_reply command h2 of
                 (Some outcome, g) \<Rightarrow> (outcome, g) | (None, g) \<Rightarrow> (NoAnswer, g)))"
    unfolding gear_query_reply_def Let_def h1 h2_def by (rule refl)
  then have "snd (gear_query_reply command g) \<in> {h2, snd (identity_query_reply command h2)}"
    by (simp add: case_prod_beta split: option.split)
  moreover have "h2 = h1 \<or> h2 = load_report_for_query command h1"
    by (simp add: h2_def)
  ultimately show ?thesis
    unfolding h1_def by blast
qed

section \<open>Frames that must come twice\<close>

text \<open>
  The data byte of a special command has no opcode, but right after an ENABLE DEVICE TYPE the
  fleet takes it for one: DTR0 with the value of a colour configuration opcode is awaited twice.
\<close>

lemma special_data_read_as_opcode:
  "decode_frame 0xA3F2 = Some (Special (Dtr0 0xF2))"
  "\<not> requires_repeat_under (decode_frame 0xA3F2) 0xA3 0xF2 None"
  "requires_repeat_under (decode_frame 0xA3F2) 0xA3 0xF2 (Some (code Color))"
  by code_simp+

end
