(* ===== verification/Level_Band.thy ===== *)
theory Level_Band
  imports Gear_Contract
begin

text \<open>
  The light level of every gear stays between its minimum and maximum level, or is off,
  whatever frames the line carries (\<open>Gear::set_level\<close>, \<open>set_min_level\<close>,
  \<open>set_max_level\<close>, \<open>reset\<close> and the commands of \<open>apply_level_write\<close>).
\<close>

section \<open>The level stays in its band\<close>

definition levels_ok :: "Gear \<Rightarrow> bool" where
  "levels_ok g \<longleftrightarrow> 1 \<le> phm (spec g) \<and> min_level_floor g \<le> min_level g \<and> min_level g \<le> max_level g \<and> max_level g \<le> 254 \<and>
     phm (spec g) \<le> 254 \<and> (level g = 0 \<or> (min_level g \<le> level g \<and> level g \<le> max_level g))"

text \<open>What \<open>levels_ok\<close> looks at.\<close>

definition level_view :: "Gear \<Rightarrow> u8 \<times> u8 \<times> u8 \<times> u8 \<times> u8 list" where
  "level_view g = (level g, min_level g, max_level g, phm (spec g), device_types (spec g))"

lemma levels_ok_view: "level_view g = level_view h \<Longrightarrow> levels_ok g = levels_ok h"
  by (simp add: level_view_def levels_ok_def min_level_floor_def is_dt7_def)

named_theorems level_views \<open>operations that leave the level and its limits alone\<close>

lemma level_view_colour [level_views]:
  "level_view (activate_pending_color g) = level_view g" "level_view (arc_power_activation g) = level_view g"
  "level_view (load_temporaries_from s g) = level_view g" "level_view (copy_report_to_temporary g) = level_view g"
  "level_view (load_report_from_actual g) = level_view g" "level_view (tc_step w g) = level_view g"
  "level_view (xy_step a b g) = level_view g" "level_view (store_gear_features d g) = level_view g"
  by (auto simp: level_view_def activate_pending_color_def arc_power_activation_def load_temporaries_from_def
      copy_report_to_temporary_def load_report_from_actual_def tc_step_def xy_step_def store_gear_features_def
      unlink_all_channels_def commit_pending_cct_def commit_pending_rgbwaf_def Let_def split: ColorMode.split)

lemma level_view_limits:
  "level_view (set_rendered_limit w v g) = level_view g"
  "level_view (g\<lparr>tc_coolest_limit := v\<rparr>) = level_view g" "level_view (g\<lparr>tc_warmest_limit := v\<rparr>) = level_view g"
  "level_view (g\<lparr>spec := (spec g)\<lparr>tc_coolest_mirek := v\<rparr>\<rparr>) = level_view g"
  "level_view (g\<lparr>spec := (spec g)\<lparr>tc_warmest_mirek := v\<rparr>\<rparr>) = level_view g"
  "level_view (g\<lparr>color_ct := v, tc_out_of_range := b\<rparr>) = level_view g"
  by (simp_all add: level_view_def set_rendered_limit_def)

lemma level_view_rendered: "level_view (store_rendered_tc_limit w v g) = level_view g"
proof -
  define k where "k = clamp v (tc_coolest_mirek (spec g)) (tc_warmest_mirek (spec g))"
  define h where "h = set_rendered_limit w k g"
  define h' where "h' = (if w \<and> k < effective_coolest h then h\<lparr>tc_coolest_limit := k\<rparr> else h)"
  have "level_view h' = level_view g"
    by (simp add: h'_def h_def level_view_limits)
  then show ?thesis
    unfolding store_rendered_tc_limit_def Let_def k_def [symmetric] h_def [symmetric] h'_def [symmetric]
    by (simp add: level_view_limits)
qed

lemma level_view_bound: "level_view (bound_rendered_limit lo hi w g) = level_view g"
  by (simp add: bound_rendered_limit_def Let_def level_view_limits)

lemma level_view_physical: "level_view (store_physical_tc_limit w v g) = level_view g"
  by (simp only: store_physical_tc_limit_def Let_def level_view_bound level_view_limits if_distrib [of level_view] if_cancel)

lemma level_view_store_tc [level_views]: "level_view (store_tc_limit v sel g) = level_view g"
  by (simp only: store_tc_limit_def Let_def level_view_rendered level_view_physical level_view_limits
      if_distrib [of level_view] if_cancel)

lemma level_view_dt8 [level_views]: "level_view (apply_dt8_write opcode d0 d1 d2 g) = level_view g"
proof (cases "dt8_from_opcode opcode")
  case (Some command)
  then show ?thesis
    by (cases command) (simp_all add: apply_dt8_write_def Let_def level_views, simp_all add: level_view_def)
qed (simp add: apply_dt8_write_def Let_def)

lemma level_view_staged [level_views]: "level_view (snd (take_staged_colour g)) = level_view g"
  by (simp add: take_staged_colour_def level_view_def Let_def split: ColorMode.split)

lemma level_view_store [level_views]:
  "level_view (store_scene_colour s g) = level_view g" "level_view (store_level_setting command l g) = level_view g"
proof -
  show "level_view (store_scene_colour s g) = level_view g"
    using level_view_staged [of g]
    by (auto simp: store_scene_colour_def level_view_def split: prod.split option.split)
  show "level_view (store_level_setting command l g) = level_view g"
    using level_view_staged [of g]
    by (cases command) (simp_all add: store_level_setting_def level_view_def case_prod_beta)
qed

lemma level_view_memory [level_views]: "level_view (snd (write_memory_location bk ofs v g)) = level_view g"
  by (simp add: write_memory_location_def store_profile_def level_view_def Let_def split: option.split)

lemma level_view_walk [level_views]: "level_view (g\<lparr>device_type_walk := w\<rparr>) = level_view g"
  by (simp add: level_view_def)

lemma level_view_report [level_views]: "level_view (load_report_for_query command g) = level_view g"
  by (cases command) (simp_all add: load_report_for_query_def load_report_from_scene_def
      load_report_from_level_colour_def level_views, simp_all add: level_view_def)

lemma level_view_identity [level_views]: "level_view (snd (identity_query_reply command g)) = level_view g"
  by (cases command) (simp_all add: identity_query_reply_def device_type_reply_def next_device_type_reply_def
      case_prod_beta level_views split: list.split option.split)

lemma level_view_query [level_views]: "level_view (snd (gear_query_reply command g)) = level_view g"
  using gear_query_reply_state [of command g] by (auto simp: level_views)

text \<open>The operations that move the level.\<close>

lemma levels_ok_limits:
  assumes "levels_ok g"
  shows "1 \<le> min_level g" "min_level g \<le> max_level g" "max_level g \<le> 254"
  using assms by (auto simp: levels_ok_def min_level_floor_def split: if_split_asm)

lemma set_level_ok:
  assumes "levels_ok g"
  shows "levels_ok (set_level l g)"
proof -
  have "min_level g \<le> clamp l (min_level g) (max_level g) \<and> clamp l (min_level g) (max_level g) \<le> max_level g"
    using levels_ok_limits [OF assms] by (intro clamp_in_range)
  then show ?thesis
    using assms by (simp add: set_level_def levels_ok_def min_level_floor_def is_dt7_def Let_def split: if_split_asm)
qed

definition limits_ok :: "Gear \<Rightarrow> bool" where
  "limits_ok g \<longleftrightarrow> 1 \<le> phm (spec g) \<and> min_level_floor g \<le> min_level g \<and> min_level g \<le> max_level g \<and>
     max_level g \<le> 254 \<and> phm (spec g) \<le> 254"

lemma readjust_ok: "limits_ok g \<Longrightarrow> levels_ok (readjust_level_into_bounds g)"
  using clamp_in_range [of "min_level g" "max_level g" "level g"]
  by (auto simp: readjust_level_into_bounds_def limits_ok_def levels_ok_def min_level_floor_def is_dt7_def Let_def)

lemma levels_limits: "levels_ok g \<Longrightarrow> limits_ok g"
  by (simp add: levels_ok_def limits_ok_def)

lemma set_min_level_ok:
  assumes "levels_ok g"
  shows "levels_ok (set_min_level v g)"
proof (cases "levels_fixed g")
  case False
  have l: "limits_ok g"
    using assms by (rule levels_limits)
  define m where "m = (if v \<le> min_level_floor g then min_level_floor g
      else if v \<ge> max_level g then max_level g else v)"
  have "min_level_floor g \<le> m" "m \<le> max_level g"
    using l by (auto simp: m_def limits_ok_def)
  then have "limits_ok (g\<lparr>min_level := m\<rparr>)"
    using l by (simp add: limits_ok_def min_level_floor_def is_dt7_def split: if_split_asm)
  then show ?thesis
    using False by (simp add: set_min_level_def Let_def m_def [symmetric] readjust_ok)
qed (simp add: set_min_level_def assms)

lemma u8_below_top: "v \<noteq> 0xFF \<Longrightarrow> v \<le> 254" for v :: u8
proof -
  have "unat v < 256"
    using unsigned_less [of v, where 'a = nat] by simp
  then show "v \<noteq> 0xFF \<Longrightarrow> v \<le> 254"
    by (auto simp: word_le_nat_alt word_unat_eq_iff)
qed

lemma set_max_level_ok:
  assumes "levels_ok g"
  shows "levels_ok (set_max_level v g)"
proof -
  have l: "limits_ok g"
    using assms by (rule levels_limits)
  define m where "m = (if min_level g \<ge> v then min_level g else if v = 0xFF then 0xFE else v)"
  have "min_level g \<le> m" "m \<le> 254"
    using l u8_below_top [of v] by (auto simp: m_def limits_ok_def)
  then have "limits_ok (g\<lparr>max_level := m\<rparr>)"
    using l by (simp add: limits_ok_def min_level_floor_def is_dt7_def split: if_split_asm)
  then show ?thesis
    by (simp add: set_max_level_def m_def [symmetric] readjust_ok)
qed

lemma gear_new_levels: "1 \<le> phm s \<Longrightarrow> phm s \<le> 254 \<Longrightarrow> levels_ok (gear_new s)"
  by (simp add: levels_ok_def gear_new_def min_level_floor_def is_dt7_def)

lemma reset_gear_ok:
  assumes "levels_ok g"
  shows "levels_ok (reset_gear g)"
proof -
  have "levels_ok (gear_new (spec g))"
    using assms by (intro gear_new_levels) (simp_all add: levels_ok_def)
  moreover have "level_view (reset_gear g) = level_view (gear_new (spec g))"
    by (simp add: reset_gear_def Let_def level_view_def)
  ultimately show ?thesis
    using levels_ok_view by blast
qed

lemma apply_dapc_ok: "levels_ok g \<Longrightarrow> levels_ok (apply_dapc l g)"
  using set_level_ok [of "g\<lparr>power_cycle_seen := False\<rparr>"] levels_ok_view [of "g\<lparr>power_cycle_seen := False\<rparr>" g]
  by (simp add: apply_dapc_def Let_def level_view_def)

lemma recall_scene_ok:
  assumes "levels_ok g"
  shows "levels_ok (recall_scene scene g)"
proof -
  define h where "h = (if colour_type (scene_colour g scene) \<noteq> 0xFF then
      (let g = load_temporaries_from (scene_colour g scene) g
       in if automatic_activation g then activate_pending_color g else g) else g)"
  have "level_view h = level_view g"
    by (simp add: h_def Let_def level_views)
  then have "levels_ok h"
    using assms levels_ok_view by blast
  then show ?thesis
    unfolding recall_scene_def Let_def [of "scene_colour g scene"] h_def [symmetric]
    unfolding Let_def by (simp add: set_level_ok split: option.split)
qed

lemma apply_level_write_ok:
  assumes "levels_ok g"
  shows "levels_ok (apply_level_write command g)"
proof -
  define h where "h = (if clears_power_cycle_seen command then g\<lparr>power_cycle_seen := False\<rparr> else g)"
  define k where "k = (if is_arc_power_change command then arc_power_activation h else h)"
  have "level_view k = level_view h" "level_view h = level_view g"
    by (simp_all add: k_def level_views) (simp add: h_def level_view_def)
  then have "levels_ok k"
    using assms levels_ok_view by metis
  then show ?thesis
    unfolding apply_level_write_def Let_def h_def [symmetric] k_def [symmetric]
    by (cases command) (simp_all add: set_level_ok apply_dapc_ok recall_scene_ok level_up_def level_down_def
        step_down_and_off_def on_and_step_up_def)
qed

lemma apply_config_write_ok:
  assumes "levels_ok g"
  shows "levels_ok (apply_config_write command d g)"
proof -
  have settle: "levels_ok (h\<lparr>reset_state := False\<rparr>)" if "levels_ok h" for h
    using that levels_ok_view [of "h\<lparr>reset_state := False\<rparr>" h] by (simp add: level_view_def)
  have same: "levels_ok h" if "level_view h = level_view g" for h
    using that assms levels_ok_view by blast
  have scene: "levels_ok (store_scene_colour sc (set_scene_slot sc v g))" for sc v
    by (rule same) (simp add: level_views, simp add: set_scene_slot_def level_view_def)
  have stored: "levels_ok (store_level_setting c v g)" for c v
    by (rule same) (simp add: level_views)
  have plain: "levels_ok (g\<lparr>fade_time := v\<rparr>)" "levels_ok (g\<lparr>fade_rate := v\<rparr>)"
    "levels_ok (g\<lparr>extended_fade_time := v\<rparr>)" "levels_ok (set_group_bit gr b g)"
    "levels_ok ((set_scene_slot sc w g)\<lparr>scene_colours := cs\<rparr>)" for v gr b sc w cs
    by (rule same, simp add: level_view_def set_group_bit_def set_scene_slot_def Let_def)+
  show ?thesis
    unfolding apply_config_write_def Let_def
    by (cases command) (simp_all add: settle scene stored plain assms set_max_level_ok set_min_level_ok reset_gear_ok)
qed

lemma apply_standard_write_ok:
  assumes "levels_ok g"
  shows "levels_ok (apply_standard_write command d g)"
proof -
  define h where "h = apply_identify_state command
     (if command = EnableWriteMemory then g\<lparr>device_type_walk := None, write_enabled := True\<rparr>
      else g\<lparr>device_type_walk := None\<rparr>)"
  have "level_view h = level_view g"
    by (simp add: h_def apply_identify_state_def level_view_def)
  then have "levels_ok h"
    using assms levels_ok_view by blast
  then show ?thesis
    by (simp add: apply_standard_write_def Let_def h_def [symmetric] apply_config_write_ok apply_level_write_ok)
qed

interpretation level_band: gear_contract levels_ok
proof
  fix g :: Gear and bk ofs v opcode d0 d1 d2 :: u8 and t :: u64 and s :: "u8 option" and command l ft d
    and command7 a
  assume ok: "levels_ok g"
  have same: "levels_ok h" if "level_view h = level_view g" for h
    using that ok levels_ok_view by blast
  show "levels_ok (settle_random t g)"
    by (rule same) (simp add: settle_random_def level_view_def split: option.split)
  show "levels_ok (g\<lparr>spec := (spec g)\<lparr>short_address := s\<rparr>\<rparr>)"
    by (rule same) (simp add: level_view_def)
  show "levels_ok (g\<lparr>pending_random := Some \<lparr>pr_address = a, ready_at_ms = t\<rparr>\<rparr>)"
    by (rule same) (simp add: level_view_def)
  show "levels_ok (g\<lparr>switching := switching_store ft command7 d (switching g)\<rparr>)"
    by (rule same) (simp add: level_view_def)
  show "levels_ok (apply_dapc l g)" "levels_ok (apply_standard_write command d g)"
    using ok by (simp_all add: apply_dapc_ok apply_standard_write_ok)
  show "levels_ok (arc_power_activation g)" "levels_ok (snd (write_memory_location bk ofs v g))"
    "levels_ok (apply_dt8_write opcode d0 d1 d2 g)" "levels_ok (load_report_from_actual g)"
    "levels_ok (snd (gear_query_reply command g))"
    by (rule same, simp add: level_views)+
qed (auto simp: levels_ok_def min_level_floor_def is_dt7_def)

section \<open>Every history of the line\<close>

lemma fleet_levels:
  assumes "list_all (\<lambda>s. 1 \<le> phm s \<and> phm s \<le> 254) specs"
  shows "all_gear levels_ok (fleet_new specs res seed)"
  using assms by (intro fleet_new_gear) (auto simp: list_all_iff intro: gear_new_levels)

text \<open>C8. Whatever frames a line of gear carries and however long it runs, every gear is off or
  between its minimum and its maximum level, and these limits stay ordered, above the physical
  minimum of a dimming gear and at most 254.\<close>

theorem levels_stay_in_band:
  assumes "list_all (\<lambda>s. 1 \<le> phm s \<and> phm s \<le> 254) specs" "PowerCut \<notin> set events"
  shows "list_all (\<lambda>g. (level g = 0 \<or> (min_level g \<le> level g \<and> level g \<le> max_level g)) \<and>
      1 \<le> min_level g \<and> (is_dt7 g \<or> phm (spec g) \<le> min_level g) \<and> min_level g \<le> max_level g \<and> max_level g \<le> 254)
    (gears (line_run events (fleet_new specs res seed)))"
proof -
  have "all_gear levels_ok (line_run events (fleet_new specs res seed))"
    using level_band.line_run_keeps [OF assms(2) fleet_levels [OF assms(1)]] .
  then show ?thesis
    unfolding all_gear_def
    by (rule list.pred_mono_strong) (auto simp: levels_ok_def min_level_floor_def split: if_split_asm dest: levels_ok_limits)
qed

theorem levels_stay_in_band_witness:
  "list_all (\<lambda>g. (level g = 0 \<or> (min_level g \<le> level g \<and> level g \<le> max_level g)) \<and>
      1 \<le> min_level g \<and> (is_dt7 g \<or> phm (spec g) \<le> min_level g) \<and> min_level g \<le> max_level g \<and> max_level g \<le> 254)
    (gears (line_run [FrameHeard 0xA364 False, FrameHeard 0xFF2B False, FrameHeard 0xFF2B False,
       TimePasses 5, FrameHeard 0xFE0A False] (fleet_new demo_specs 0 1)))"
  by (rule levels_stay_in_band) (simp_all add: demo_specs_def spec_dt6_def spec_dt8_def with_metering_def Let_def)

text \<open>
  A power cut is the exception: \<open>power_cycle\<close> takes the power-on level as it was stored, so a
  gear whose minimum was raised above it comes back below its minimum.
\<close>

lemma power_cycle_ignores_limits:
  "let g = (gear_new (spec_dt6 None 0))\<lparr>min_level := 100, power_on := level_setting_factory 1 (spec_dt6 None 0)\<rparr>
   in levels_ok g \<and> level (power_cycle g) = 1 \<and> min_level (power_cycle g) = 100"
  by (simp add: Let_def levels_ok_def gear_new_def spec_dt6_def min_level_floor_def is_dt7_def power_cycle_def
      level_setting_factory_def)

end
