(* ===== verification/Colour_Band.thy ===== *)
theory Colour_Band
  imports Gear_Contract
begin

text \<open>
  The colour temperature of every gear stays between its rendered limits, and those between
  the physical ones, whatever frames the line carries (\<open>Gear::store_tc_limit\<close>,
  \<open>commit_pending_cct\<close>, \<open>tc_step\<close>).
\<close>

section \<open>The limits are ordered\<close>

definition tc_ordered :: "Gear \<Rightarrow> bool" where
  "tc_ordered g \<longleftrightarrow> tc_coolest_mirek (spec g) \<le> effective_coolest g \<and>
     effective_coolest g \<le> effective_warmest g \<and> effective_warmest g \<le> tc_warmest_mirek (spec g)"

definition tc_ok :: "Gear \<Rightarrow> bool" where
  "tc_ok g \<longleftrightarrow> tc_ordered g \<and>
     (color_mode g = Cct \<longrightarrow> effective_coolest g \<le> color_ct g \<and> color_ct g \<le> effective_warmest g)"

lemmas tc_defs = tc_ordered_def effective_coolest_def effective_warmest_def

lemma top_u16: "0xFFFF \<le> v \<Longrightarrow> v = 0xFFFF" for v :: u16
  using unsigned_less [of v, where 'a = nat] by (simp add: word_le_nat_alt word_unat_eq_iff)

lemma rendered_ordered:
  assumes "tc_ordered g"
  shows "tc_ordered (store_rendered_tc_limit warmest v g)"
proof (cases "v = 0xFFFF")
  case True
  then show ?thesis
    using assms by (cases warmest)
      (auto simp: store_rendered_tc_limit_def set_rendered_limit_def tc_defs split: if_split_asm)
next
  case False
  define k where "k = clamp v (tc_coolest_mirek (spec g)) (tc_warmest_mirek (spec g))"
  have k: "tc_coolest_mirek (spec g) \<le> k" "k \<le> tc_warmest_mirek (spec g)"
    using assms clamp_in_range [of "tc_coolest_mirek (spec g)" "tc_warmest_mirek (spec g)" v]
    by (auto simp: k_def tc_ordered_def)
  then have top: "k = 0xFFFF \<Longrightarrow> tc_warmest_mirek (spec g) = 0xFFFF"
    by (simp add: top_u16)
  show ?thesis
  proof (cases warmest)
    case True
    then show ?thesis
      using assms k top False
      by (auto simp: store_rendered_tc_limit_def set_rendered_limit_def tc_defs k_def [symmetric] Let_def not_less
          split: if_split_asm)
  next
    case cool: False
    then show ?thesis
      using assms k top False
      by (auto simp: store_rendered_tc_limit_def set_rendered_limit_def tc_defs k_def [symmetric] Let_def not_less
          split: if_split_asm)
  qed
qed

lemma clamp_mono: "lo \<le> hi \<Longrightarrow> a \<le> b \<Longrightarrow> clamp a lo hi \<le> clamp b lo hi" for a :: "'a::linorder"
  by (auto simp: clamp_def)

text \<open>A limit that is bound to the physical range is the bound one, or as wide as the range.\<close>

lemma bound_effective:
  assumes "lo = tc_coolest_mirek (spec g)" "hi = tc_warmest_mirek (spec g)" "lo \<le> hi"
  shows "effective_coolest (bound_rendered_limit lo hi False g) = clamp (effective_coolest g) lo hi"
    "effective_warmest (bound_rendered_limit lo hi False g) = effective_warmest g"
    "effective_warmest (bound_rendered_limit lo hi True g) = clamp (effective_warmest g) lo hi"
    "effective_coolest (bound_rendered_limit lo hi True g) = effective_coolest g"
proof -
  have top: "clamp (effective_warmest g) lo hi = 0xFFFF \<Longrightarrow> hi = 0xFFFF"
    using clamp_in_range [OF assms(3), of "effective_warmest g"] by (auto dest: top_u16)
  have same: "effective_coolest g = 0xFFFF \<or> clamp (effective_coolest g) lo hi \<noteq> 0xFFFF \<or> lo = 0xFFFF"
    using clamp_in_range [OF assms(3), of "effective_coolest g"] by (auto simp: clamp_def top_u16)
  show "effective_warmest (bound_rendered_limit lo hi False g) = effective_warmest g"
    "effective_coolest (bound_rendered_limit lo hi True g) = effective_coolest g"
    by (simp_all add: bound_rendered_limit_def set_rendered_limit_def effective_warmest_def effective_coolest_def Let_def)
  show "effective_warmest (bound_rendered_limit lo hi True g) = clamp (effective_warmest g) lo hi"
    using top assms(2) by (auto simp: bound_rendered_limit_def set_rendered_limit_def Let_def)
      (auto simp: effective_warmest_def)
  show "effective_coolest (bound_rendered_limit lo hi False g) = clamp (effective_coolest g) lo hi"
    using same assms(1) by (auto simp: bound_rendered_limit_def set_rendered_limit_def Let_def)
      (auto simp: effective_coolest_def)
qed

lemma bound_spec [simp]: "spec (bound_rendered_limit lo hi w g) = spec g"
  by (simp add: bound_rendered_limit_def set_rendered_limit_def Let_def)

lemma bound_ordered:
  assumes "tc_coolest_mirek (spec g) \<le> tc_warmest_mirek (spec g)"
    "tc_coolest_limit g \<noteq> 0xFFFF \<Longrightarrow> tc_warmest_limit g \<noteq> 0xFFFF \<Longrightarrow> tc_coolest_limit g \<le> tc_warmest_limit g"
    and r: "r = bound_rendered_limit (tc_coolest_mirek (spec g)) (tc_warmest_mirek (spec g)) True
        (bound_rendered_limit (tc_coolest_mirek (spec g)) (tc_warmest_mirek (spec g)) False g)"
  shows "tc_ordered r"
proof -
  define lo where "lo = tc_coolest_mirek (spec g)"
  define hi where "hi = tc_warmest_mirek (spec g)"
  have le: "lo \<le> hi"
    using assms(1) by (simp add: lo_def hi_def)
  have "clamp (effective_coolest g) lo hi \<le> clamp (effective_warmest g) lo hi"
    using assms(2) clamp_in_range [OF le] clamp_mono [OF le] le
    by (auto simp: effective_coolest_def effective_warmest_def lo_def [symmetric] hi_def [symmetric])
  then show ?thesis
    using bound_effective [OF lo_def hi_def le] clamp_in_range [OF le]
      bound_effective [where g = "bound_rendered_limit lo hi False g" and lo = lo and hi = hi] le
    by (simp add: r tc_ordered_def lo_def [symmetric] hi_def [symmetric])
qed

lemma physical_ordered:
  assumes "tc_ordered g"
  shows "tc_ordered (store_physical_tc_limit warmest v g)"
proof (cases "v = 0xFFFF")
  case False
  define h where "h = (if warmest then g\<lparr>spec := (spec g)\<lparr>tc_warmest_mirek := max v (tc_coolest_mirek (spec g))\<rparr>\<rparr>
      else g\<lparr>spec := (spec g)\<lparr>tc_coolest_mirek := min v (tc_warmest_mirek (spec g))\<rparr>\<rparr>)"
  have "tc_coolest_mirek (spec h) \<le> tc_warmest_mirek (spec h)"
    by (simp add: h_def)
  moreover have "tc_coolest_limit h \<noteq> 0xFFFF \<Longrightarrow> tc_warmest_limit h \<noteq> 0xFFFF \<Longrightarrow> tc_coolest_limit h \<le> tc_warmest_limit h"
    using assms by (cases warmest) (simp_all add: h_def tc_defs)
  ultimately show ?thesis
    using False unfolding store_physical_tc_limit_def Let_def h_def [symmetric] by (simp add: bound_ordered)
qed (simp add: store_physical_tc_limit_def assms)

section \<open>The colour temperature is between them\<close>

lemma tc_ok_ordered: "tc_ok g \<Longrightarrow> tc_ordered g"
  by (simp add: tc_ok_def)

lemma store_tc_limit_ok:
  assumes "tc_ok g"
  shows "tc_ok (store_tc_limit v selector g)"
proof (cases "selector > 3")
  case False
  define h where "h = (if selector = 0 then store_rendered_tc_limit False v g
      else if selector = 1 then store_rendered_tc_limit True v g
      else if selector = 2 then store_physical_tc_limit False v g
      else store_physical_tc_limit True v g)"
  have h: "tc_ordered h"
    using assms by (simp add: h_def rendered_ordered physical_ordered tc_ok_ordered)
  then have "effective_coolest h \<le> effective_warmest h"
    by (simp add: tc_ordered_def)
  then have "effective_coolest h \<le> clamp (color_ct h) (effective_coolest h) (effective_warmest h) \<and>
      clamp (color_ct h) (effective_coolest h) (effective_warmest h) \<le> effective_warmest h"
    by (rule clamp_in_range)
  then show ?thesis
    using False h unfolding store_tc_limit_def Let_def h_def [symmetric]
    by (auto simp: tc_ok_def tc_defs)
qed (simp add: store_tc_limit_def assms)

definition tc_view :: "Gear \<Rightarrow> u16 \<times> u16 \<times> u16 \<times> u16 \<times> ColorMode \<times> u16" where
  "tc_view g = (tc_coolest_mirek (spec g), tc_warmest_mirek (spec g), tc_coolest_limit g, tc_warmest_limit g,
     color_mode g, color_ct g)"

lemma tc_ok_view: "tc_view g = tc_view h \<Longrightarrow> tc_ok g = tc_ok h"
  by (simp add: tc_view_def tc_ok_def tc_defs)

lemma activate_pending_ok:
  assumes "tc_ok g"
  shows "tc_ok (activate_pending_color g)"
proof -
  have "effective_coolest g \<le> effective_warmest g"
    using assms by (simp add: tc_ok_def tc_ordered_def)
  then have "effective_coolest g \<le> clamp (pending_ct g) (effective_coolest g) (effective_warmest g) \<and>
      clamp (pending_ct g) (effective_coolest g) (effective_warmest g) \<le> effective_warmest g"
    by (rule clamp_in_range)
  then show ?thesis
    using assms by (cases "pending_mode g")
      (auto simp: activate_pending_color_def unlink_all_channels_def commit_pending_cct_def commit_pending_rgbwaf_def
        tc_ok_def tc_defs Let_def)
qed

lemma saturating_order:
  "a \<le> saturating_add a b" "saturating_sub a b \<le> a" for a b :: "'a::len word"
proof -
  have "unat a \<le> 2 ^ LENGTH('a) - 1"
    using unsigned_less [of a, where 'a = nat] by linarith
  then show "a \<le> saturating_add a b" "saturating_sub a b \<le> a"
    by (simp_all add: word_le_nat_alt unat_saturating_add unat_saturating_sub)
qed

lemma tc_step_ok:
  assumes "tc_ok g"
  shows "tc_ok (tc_step warmer g)"
proof (cases "color_mode g = Cct")
  case True
  define k where "k = (if warmer then min (saturating_add (color_ct g) 1) (effective_warmest g)
      else max (saturating_sub (color_ct g) 1) (effective_coolest g))"
  have band: "effective_coolest g \<le> color_ct g" "color_ct g \<le> effective_warmest g"
    "effective_coolest g \<le> effective_warmest g"
    using assms True by (simp_all add: tc_ok_def tc_ordered_def)
  have "effective_coolest g \<le> saturating_add (color_ct g) 1" "saturating_sub (color_ct g) 1 \<le> effective_warmest g"
    using band saturating_order [of "color_ct g" 1] by (blast intro: order_trans)+
  then have k: "effective_coolest g \<le> k" "k \<le> effective_warmest g"
    using band by (simp_all add: k_def)
  define h where "h = g\<lparr>color_ct := k, tc_out_of_range := False\<rparr>"
  have "effective_coolest h = effective_coolest g" "effective_warmest h = effective_warmest g" "spec h = spec g"
    "color_ct h = k"
    by (simp_all add: h_def effective_coolest_def effective_warmest_def)
  then have "tc_ok h"
    using assms k by (simp add: tc_ok_def tc_ordered_def)
  then show ?thesis
    using True unfolding tc_step_def k_def [symmetric] h_def by simp
qed (simp add: tc_step_def assms)

named_theorems tc_views \<open>operations that leave the colour temperature and its limits alone\<close>

lemma tc_view_colour [tc_views]:
  "tc_view (load_temporaries_from s g) = tc_view g" "tc_view (copy_report_to_temporary g) = tc_view g"
  "tc_view (load_report_from_actual g) = tc_view g" "tc_view (xy_step a b g) = tc_view g"
  "tc_view (store_gear_features d g) = tc_view g"
  by (auto simp: tc_view_def load_temporaries_from_def copy_report_to_temporary_def load_report_from_actual_def
      xy_step_def store_gear_features_def Let_def)

lemma tc_view_staged [tc_views]: "tc_view (snd (take_staged_colour g)) = tc_view g"
  by (simp add: take_staged_colour_def tc_view_def Let_def split: ColorMode.split)

lemma tc_view_store [tc_views]:
  "tc_view (store_scene_colour s g) = tc_view g" "tc_view (store_level_setting command l g) = tc_view g"
proof -
  show "tc_view (store_scene_colour s g) = tc_view g"
    using tc_view_staged [of g] by (auto simp: store_scene_colour_def tc_view_def split: prod.split option.split)
  show "tc_view (store_level_setting command l g) = tc_view g"
    using tc_view_staged [of g] by (cases command) (simp_all add: store_level_setting_def tc_view_def case_prod_beta)
qed

lemma tc_view_level [tc_views]:
  "tc_view (set_level l g) = tc_view g" "tc_view (apply_dapc l g) = tc_view g"
  "tc_view (readjust_level_into_bounds g) = tc_view g" "tc_view (set_min_level l g) = tc_view g"
  "tc_view (set_max_level l g) = tc_view g" "tc_view (level_up d g) = tc_view g" "tc_view (level_down d g) = tc_view g"
  "tc_view (step_down_and_off g) = tc_view g" "tc_view (on_and_step_up g) = tc_view g"
proof -
  have set: "tc_view (set_level l h) = tc_view h" for l h
    by (simp add: set_level_def tc_view_def Let_def)
  have readjust: "tc_view (readjust_level_into_bounds h) = tc_view h" for h
    by (simp add: readjust_level_into_bounds_def tc_view_def Let_def)
  show "tc_view (set_level l g) = tc_view g" "tc_view (readjust_level_into_bounds g) = tc_view g"
    by (rule set readjust)+
  show "tc_view (level_up d g) = tc_view g" "tc_view (level_down d g) = tc_view g"
    "tc_view (step_down_and_off g) = tc_view g" "tc_view (on_and_step_up g) = tc_view g"
    by (simp_all add: set level_up_def level_down_def step_down_and_off_def on_and_step_up_def)
  show "tc_view (apply_dapc l g) = tc_view g" "tc_view (set_min_level l g) = tc_view g" "tc_view (set_max_level l g) = tc_view g"
    by (simp_all add: apply_dapc_def set_min_level_def set_max_level_def set readjust Let_def) (simp_all add: tc_view_def)
qed

lemma tc_view_memory [tc_views]: "tc_view (snd (write_memory_location bk ofs v g)) = tc_view g"
  by (simp add: write_memory_location_def store_profile_def tc_view_def Let_def split: option.split)

lemma tc_view_walk [tc_views]: "tc_view (g\<lparr>device_type_walk := w\<rparr>) = tc_view g"
  by (simp add: tc_view_def)

lemma tc_view_report [tc_views]: "tc_view (load_report_for_query command g) = tc_view g"
  by (cases command) (simp_all add: load_report_for_query_def load_report_from_scene_def
      load_report_from_level_colour_def tc_views, simp_all add: tc_view_def)

lemma tc_view_identity [tc_views]: "tc_view (snd (identity_query_reply command g)) = tc_view g"
  by (cases command) (simp_all add: identity_query_reply_def device_type_reply_def next_device_type_reply_def
      case_prod_beta tc_views split: list.split option.split)

lemma tc_view_query [tc_views]: "tc_view (snd (gear_query_reply command g)) = tc_view g"
  using gear_query_reply_state [of command g] by (auto simp: tc_views)

section \<open>Commands\<close>

lemma arc_activation_tc: "tc_ok g \<Longrightarrow> tc_ok (arc_power_activation g)"
  by (simp add: arc_power_activation_def activate_pending_ok)

lemma recall_scene_tc:
  assumes "tc_ok g"
  shows "tc_ok (recall_scene scene g)"
proof -
  define t where "t = load_temporaries_from (scene_colour g scene) g"
  define h where "h = (if colour_type (scene_colour g scene) \<noteq> 0xFF
      then (if automatic_activation t then activate_pending_color t else t) else g)"
  have "tc_view t = tc_view g"
    by (simp add: t_def tc_views)
  then have "tc_ok t"
    using assms tc_ok_view by blast
  then have h: "tc_ok h"
    using assms by (simp add: h_def activate_pending_ok)
  have "tc_ok (set_level l h)" for l
    using h tc_ok_view [OF tc_view_level(1)] by blast
  then show ?thesis
    using h unfolding recall_scene_def Let_def t_def [symmetric] h_def [symmetric] by (simp split: option.split)
qed

lemma level_write_tc:
  assumes "tc_ok g"
  shows "tc_ok (apply_level_write command g)"
proof -
  define h where "h = (if clears_power_cycle_seen command then g\<lparr>power_cycle_seen := False\<rparr> else g)"
  define k where "k = (if is_arc_power_change command then arc_power_activation h else h)"
  have "tc_view h = tc_view g"
    by (simp add: h_def tc_view_def)
  then have "tc_ok h"
    using assms tc_ok_view by blast
  then have k: "tc_ok k"
    by (simp add: k_def arc_activation_tc)
  then have same: "tc_ok x" if "tc_view x = tc_view k" for x
    using that tc_ok_view by blast
  show ?thesis
    unfolding apply_level_write_def Let_def h_def [symmetric] k_def [symmetric]
    by (cases command) (simp_all add: k recall_scene_tc same tc_views)
qed

lemma gear_new_tc: "tc_coolest_mirek s \<le> tc_warmest_mirek s \<Longrightarrow> tc_ok (gear_new s)"
  by (auto simp: tc_ok_def tc_defs gear_new_def)

lemma reset_tc:
  assumes "tc_ok g"
  shows "tc_ok (reset_gear g)"
proof -
  have "tc_coolest_mirek (spec g) \<le> effective_coolest g" "effective_warmest g \<le> tc_warmest_mirek (spec g)"
    "effective_coolest g \<le> effective_warmest g"
    using assms by (simp_all add: tc_ok_def tc_ordered_def)
  moreover have "effective_coolest (reset_gear g) = tc_coolest_mirek (spec g)"
    "effective_warmest (reset_gear g) = tc_warmest_mirek (spec g)" "spec (reset_gear g) = spec g"
    "color_mode (reset_gear g) = color_mode g" "color_ct (reset_gear g) = color_ct g"
    by (simp_all add: reset_gear_def gear_new_def effective_coolest_def effective_warmest_def Let_def)
  ultimately show ?thesis
    using assms by (auto simp: tc_ok_def tc_ordered_def)
qed

lemma config_write_tc:
  assumes "tc_ok g"
  shows "tc_ok (apply_config_write command d g)"
proof (cases "command = Reset")
  case True
  then show ?thesis
    by (simp add: apply_config_write_def reset_tc assms)
next
  case False
  have settle: "tc_view (h\<lparr>reset_state := False\<rparr>) = tc_view h" for h
    by (simp add: tc_view_def)
  have plain: "tc_view (h\<lparr>fade_time := v\<rparr>) = tc_view h" "tc_view (h\<lparr>fade_rate := v\<rparr>) = tc_view h"
    "tc_view (h\<lparr>extended_fade_time := v\<rparr>) = tc_view h" "tc_view (set_group_bit gr b h) = tc_view h"
    "tc_view (set_scene_slot sc v h) = tc_view h" "tc_view (h\<lparr>scene_colours := cs\<rparr>) = tc_view h" for h v gr b sc cs
    by (simp_all add: tc_view_def set_group_bit_def set_scene_slot_def Let_def)
  have "tc_view (apply_config_write command d g) = tc_view g"
    using False unfolding apply_config_write_def Let_def by (cases command) (simp_all add: settle plain tc_views)
  then show ?thesis
    using assms tc_ok_view by blast
qed

lemma standard_write_tc:
  assumes "tc_ok g"
  shows "tc_ok (apply_standard_write command d g)"
proof -
  define h where "h = apply_identify_state command
     (if command = EnableWriteMemory then g\<lparr>device_type_walk := None, write_enabled := True\<rparr>
      else g\<lparr>device_type_walk := None\<rparr>)"
  have "tc_view h = tc_view g"
    by (simp add: h_def apply_identify_state_def tc_view_def)
  then have "tc_ok h"
    using assms tc_ok_view by blast
  then show ?thesis
    by (simp add: apply_standard_write_def Let_def h_def [symmetric] config_write_tc level_write_tc)
qed

lemma dt8_write_tc:
  assumes "tc_ok g"
  shows "tc_ok (apply_dt8_write opcode d0 d1 d2 g)"
proof -
  have same: "tc_ok h" if "tc_view h = tc_view g" for h
    using that assms tc_ok_view by blast
  have staged: "tc_view (g\<lparr>pending_x := w, pending_mode := m\<rparr>) = tc_view g"
    "tc_view (g\<lparr>pending_y := w, pending_mode := m\<rparr>) = tc_view g"
    "tc_view (g\<lparr>pending_ct := w, pending_mode := m\<rparr>) = tc_view g"
    "tc_view (g\<lparr>rgbwaf := r, pending_mode := m\<rparr>) = tc_view g" for w m r
    by (simp_all add: tc_view_def)
  show ?thesis
  proof (cases "dt8_from_opcode opcode")
    case (Some command)
    then show ?thesis
      unfolding apply_dt8_write_def Let_def
      by (cases command) (simp_all add: assms activate_pending_ok tc_step_ok store_tc_limit_ok same tc_views staged)
  qed (simp add: apply_dt8_write_def assms Let_def)
qed

interpretation colour_band: durable_gear_contract tc_ok
proof
  fix g :: Gear and bk ofs v opcode d0 d1 d2 :: u8 and t :: u64 and s :: "u8 option" and command l ft d
    and command7 a
  assume ok: "tc_ok g"
  have same: "tc_ok h" if "tc_view h = tc_view g" for h
    using that ok tc_ok_view by blast
  show "tc_ok (settle_random t g)"
    by (rule same) (simp add: settle_random_def tc_view_def split: option.split)
  show "tc_ok (g\<lparr>spec := (spec g)\<lparr>short_address := s\<rparr>\<rparr>)" "tc_ok (power_cycle g)"
    "tc_ok (g\<lparr>pending_random := Some \<lparr>pr_address = a, ready_at_ms = t\<rparr>\<rparr>)"
    "tc_ok (g\<lparr>switching := switching_store ft command7 d (switching g)\<rparr>)"
    by (rule same, simp add: tc_view_def power_cycle_def Let_def)+
  show "tc_ok (arc_power_activation g)" "tc_ok (apply_standard_write command d g)"
    "tc_ok (apply_dt8_write opcode d0 d1 d2 g)"
    using ok by (simp_all add: arc_activation_tc standard_write_tc dt8_write_tc)
  show "tc_ok (apply_dapc l g)" "tc_ok (snd (write_memory_location bk ofs v g))"
    "tc_ok (load_report_from_actual g)" "tc_ok (snd (gear_query_reply command g))"
    by (rule same, simp add: tc_views)+
qed (auto simp: tc_ok_def tc_defs)

section \<open>Every history of the line\<close>

lemma fleet_colours:
  assumes "list_all (\<lambda>s. tc_coolest_mirek s \<le> tc_warmest_mirek s) specs"
  shows "all_gear tc_ok (fleet_new specs res seed)"
  using assms by (intro fleet_new_gear) (auto simp: list_all_iff intro: gear_new_tc)

text \<open>C9. Whatever frames and power cuts a line sees, the colour temperature limits of every gear
  stay ordered (physical coolest, coolest, warmest, physical warmest) and a gear in the colour
  temperature mode shows a temperature between its limits.\<close>

theorem colour_temperature_in_band:
  assumes "list_all (\<lambda>s. tc_coolest_mirek s \<le> tc_warmest_mirek s) specs"
  shows "list_all (\<lambda>g. tc_coolest_mirek (spec g) \<le> effective_coolest g \<and> effective_coolest g \<le> effective_warmest g \<and>
      effective_warmest g \<le> tc_warmest_mirek (spec g) \<and>
      (color_mode g = Cct \<longrightarrow> effective_coolest g \<le> color_ct g \<and> color_ct g \<le> effective_warmest g))
    (gears (line_run events (fleet_new specs res seed)))"
  using colour_band.line_run_durable [OF fleet_colours [OF assms], of events]
  by (simp add: all_gear_def tc_ok_def [abs_def] tc_ordered_def conj_assoc)

theorem colour_temperature_in_band_witness:
  "list_all (\<lambda>g. tc_coolest_mirek (spec g) \<le> effective_coolest g \<and> effective_coolest g \<le> effective_warmest g \<and>
      effective_warmest g \<le> tc_warmest_mirek (spec g) \<and>
      (color_mode g = Cct \<longrightarrow> effective_coolest g \<le> color_ct g \<and> color_ct g \<le> effective_warmest g))
    (gears (line_run [FrameHeard 0xA320 False, FrameHeard 0xC303 False, FrameHeard 0xC108 False, FrameHeard 0x09E7 False,
       FrameHeard 0xC108 False, FrameHeard 0x09E2 False, PowerCut] (fleet_new demo_specs 0 1)))"
  by (rule colour_temperature_in_band) (simp add: demo_specs_def spec_dt6_def spec_dt8_def with_metering_def Let_def)

end
