(* ===== verification/Gear_Shape.thy ===== *)
theory Gear_Shape
  imports Gear_Contract
begin

text \<open>
  The shape of a gear's variables: the arrays of \<open>gear.rs\<close> keep the sizes their types
  give them, addresses stay in the range of their fields, and the values with a bounded range
  (switching thresholds, the extended fade time) stay in it.
\<close>

definition colour_shape :: "ColourSetting \<Rightarrow> bool" where
  "colour_shape s \<longleftrightarrow> length (cs_levels s) = 6"

definition rgbwaf_shape :: "Rgbwaf \<Rightarrow> bool" where
  "rgbwaf_shape r \<longleftrightarrow> length (pending_levels r) = 6 \<and> length (rw_levels r) = 6"

definition switching_shape :: "Switching \<Rightarrow> bool" where
  "switching_shape s \<longleftrightarrow> length (thresholds s) = 4 \<and> thresholds s ! 0 \<noteq> 0 \<and> thresholds s ! 1 \<noteq> 0"

definition spec_shape :: "GearSpec \<Rightarrow> bool" where
  "spec_shape s \<longleftrightarrow> (case short_address s of Some a \<Rightarrow> a < 64 | None \<Rightarrow> True) \<and>
     random_address s \<le> 0x00FFFFFF \<and> rgbwaf_channels s \<le> 6"

definition pending_shape :: "PendingRandom option \<Rightarrow> bool" where
  "pending_shape p = (case p of Some q \<Rightarrow> pr_address q \<le> 0x00FFFFFE | None \<Rightarrow> True)"

definition gear_shape :: "Gear \<Rightarrow> bool" where
  "gear_shape g \<longleftrightarrow> spec_shape (spec g) \<and> pending_shape (pending_random g) \<and>
     length (scenes g) = 16 \<and> length (scene_colours g) = 16 \<and> list_all colour_shape (scene_colours g) \<and>
     colour_shape (ls_colour (power_on g)) \<and> colour_shape (ls_colour (system_failure g)) \<and> colour_shape (report g) \<and>
     rgbwaf_shape (rgbwaf g) \<and> switching_shape (switching g) \<and> extended_fade_time g \<le> 0x4F"

section \<open>Parts\<close>

lemma mask_shape [simp]:
  "colour_shape colour_mask" "colour_shape (colour_mask\<lparr>colour_type := t\<rparr>)"
  "colour_shape (colour_mask\<lparr>colour_type := t, cs_tc := z\<rparr>)"
  "colour_shape (colour_mask\<lparr>colour_type := t, cs_x := x, cs_y := y\<rparr>)"
  "length ls = 6 \<Longrightarrow> colour_shape (colour_mask\<lparr>colour_type := t, cs_levels := ls, cs_control := k\<rparr>)"
  "colour_shape (factory_colour s)"
  by (simp_all add: colour_shape_def colour_mask_def factory_colour_def)

lemma rgbwaf_shape_simps [simp]:
  "rgbwaf_shape rgbwaf_at_power_up" "rgbwaf_shape (r\<lparr>pending_control := k\<rparr>) = rgbwaf_shape r"
  "rgbwaf_shape (r\<lparr>rw_control := k\<rparr>) = rgbwaf_shape r"
  by (simp_all add: rgbwaf_shape_def rgbwaf_at_power_up_def)

lemma spec_shape_tc [simp]:
  "spec_shape (s\<lparr>tc_coolest_mirek := v\<rparr>) = spec_shape s" "spec_shape (s\<lparr>tc_warmest_mirek := v\<rparr>) = spec_shape s"
  by (simp_all add: spec_shape_def)

lemma switching_store_shape: "switching_shape s \<Longrightarrow> switching_shape (switching_store ft command d s)"
proof (cases command)
  case (StoreDtrAsThreshold t)
  then show "switching_shape s \<Longrightarrow> ?thesis"
    by (cases t) (auto simp: switching_store_def switching_shape_def within_range_def nth_list_update)
qed (simp_all add: switching_store_def switching_shape_def)

lemma scene_colour_shape: "gear_shape g \<Longrightarrow> colour_shape (scene_colour g s)"
  by (simp add: gear_shape_def scene_colour_def list_all_length)

section \<open>Operations\<close>

lemma gear_new_shape: "spec_shape s \<Longrightarrow> gear_shape (gear_new s)"
  by (simp add: gear_shape_def gear_new_def pending_shape_def level_setting_factory_def switching_factory_def
      switching_shape_def list_all_iff)

lemma shape_limits:
  "gear_shape (set_rendered_limit w v g) = gear_shape g"
  "gear_shape (g\<lparr>tc_coolest_limit := v\<rparr>) = gear_shape g" "gear_shape (g\<lparr>tc_warmest_limit := v\<rparr>) = gear_shape g"
  "gear_shape (g\<lparr>spec := (spec g)\<lparr>tc_coolest_mirek := v\<rparr>\<rparr>) = gear_shape g"
  "gear_shape (g\<lparr>spec := (spec g)\<lparr>tc_warmest_mirek := v\<rparr>\<rparr>) = gear_shape g"
  "gear_shape (g\<lparr>color_ct := v, tc_out_of_range := b\<rparr>) = gear_shape g"
  by (simp_all add: gear_shape_def set_rendered_limit_def)

lemma shape_rendered: "gear_shape (store_rendered_tc_limit w v g) = gear_shape g"
proof -
  define k where "k = clamp v (tc_coolest_mirek (spec g)) (tc_warmest_mirek (spec g))"
  define h where "h = set_rendered_limit w k g"
  define h' where "h' = (if w \<and> k < effective_coolest h then h\<lparr>tc_coolest_limit := k\<rparr> else h)"
  have "gear_shape h' = gear_shape g"
    by (simp add: h'_def h_def shape_limits)
  then show ?thesis
    unfolding store_rendered_tc_limit_def Let_def k_def [symmetric] h_def [symmetric] h'_def [symmetric]
    by (simp add: shape_limits)
qed

lemma shape_bound: "gear_shape (bound_rendered_limit lo hi w g) = gear_shape g"
  by (simp add: bound_rendered_limit_def Let_def shape_limits)

lemma shape_store_tc: "gear_shape (store_tc_limit v sel g) = gear_shape g"
proof -
  have physical: "gear_shape (store_physical_tc_limit w v g) = gear_shape g" for w
    by (simp only: store_physical_tc_limit_def Let_def shape_bound shape_limits if_distrib [of gear_shape] if_cancel)
  show ?thesis
    by (simp only: store_tc_limit_def Let_def shape_rendered physical shape_limits if_distrib [of gear_shape] if_cancel)
qed

lemma shape_temporaries: "gear_shape g \<Longrightarrow> colour_shape s \<Longrightarrow> gear_shape (load_temporaries_from s g)"
  by (simp add: load_temporaries_from_def gear_shape_def Let_def) (simp add: rgbwaf_shape_def colour_shape_def)

lemma shape_activate: "gear_shape g \<Longrightarrow> gear_shape (activate_pending_color g)"
  by (cases "pending_mode g") (simp_all add: activate_pending_color_def unlink_all_channels_def commit_pending_cct_def
      commit_pending_rgbwaf_def gear_shape_def Let_def, simp add: rgbwaf_shape_def)

lemma shape_staged: "gear_shape g \<Longrightarrow> gear_shape (snd (take_staged_colour g))"
  "gear_shape g \<Longrightarrow> fst (take_staged_colour g) = Some s \<Longrightarrow> colour_shape s"
proof -
  show "gear_shape g \<Longrightarrow> gear_shape (snd (take_staged_colour g))"
    by (cases "pending_mode g") (simp_all add: take_staged_colour_def Let_def, simp_all add: gear_shape_def)
  show "gear_shape g \<Longrightarrow> fst (take_staged_colour g) = Some s \<Longrightarrow> colour_shape s"
    by (cases "pending_mode g") (auto simp: take_staged_colour_def Let_def gear_shape_def rgbwaf_shape_def)
qed

lemma shape_scene_colours:
  assumes "gear_shape g" "colour_shape c"
  shows "gear_shape (g\<lparr>scene_colours := (scene_colours g)[i := c]\<rparr>)"
proof -
  have "list_all colour_shape ((scene_colours g)[i := c])"
    using assms by (auto simp: gear_shape_def list_all_iff dest: set_update_subset_insert [THEN subsetD])
  then show ?thesis
    using assms(1) by (simp add: gear_shape_def)
qed

lemma shape_store_scene: "gear_shape g \<Longrightarrow> gear_shape (store_scene_colour s g)"
proof (cases "take_staged_colour g")
  case (Pair staged h)
  assume "gear_shape g"
  then have h: "gear_shape h" "\<And>c. staged = Some c \<Longrightarrow> colour_shape c"
    using shape_staged [of g] Pair by auto
  then show ?thesis
    by (cases staged) (simp_all add: store_scene_colour_def Pair shape_scene_colours)
qed

lemma shape_apply_setting:
  "colour_shape (ls_colour s) \<Longrightarrow> (\<And>c. staged = Some c \<Longrightarrow> colour_shape c) \<Longrightarrow> colour_shape (ls_colour (apply_setting l staged s))"
  by (simp add: apply_setting_def Let_def split: option.split)

lemma shape_store_level: "gear_shape g \<Longrightarrow> gear_shape (store_level_setting command l g)"
proof (cases "take_staged_colour g")
  case (Pair staged h)
  assume "gear_shape g"
  then have h: "gear_shape h" "\<And>c. staged = Some c \<Longrightarrow> colour_shape c"
    using shape_staged [of g] Pair by auto
  have "gear_shape (h\<lparr>power_on := apply_setting l staged (power_on h)\<rparr>)"
    "gear_shape (h\<lparr>system_failure := apply_setting l staged (system_failure h)\<rparr>)"
    using h by (simp_all add: gear_shape_def shape_apply_setting)
  then show ?thesis
    using h by (cases command) (simp_all add: store_level_setting_def Pair)
qed

lemma shape_set_level: "gear_shape (set_level l g) = gear_shape g"
  by (simp add: set_level_def gear_shape_def Let_def)

lemma shape_readjust: "gear_shape (readjust_level_into_bounds g) = gear_shape g"
  by (simp add: readjust_level_into_bounds_def gear_shape_def Let_def)

lemma shape_levels:
  "gear_shape (apply_dapc l g) = gear_shape g" "gear_shape (set_min_level l g) = gear_shape g"
  "gear_shape (set_max_level l g) = gear_shape g" "gear_shape (level_up d g) = gear_shape g"
  "gear_shape (level_down d g) = gear_shape g" "gear_shape (step_down_and_off g) = gear_shape g"
  "gear_shape (on_and_step_up g) = gear_shape g"
proof -
  have plain: "gear_shape (g\<lparr>min_level := m\<rparr>) = gear_shape g" "gear_shape (g\<lparr>max_level := m\<rparr>) = gear_shape g"
    "gear_shape (g\<lparr>power_cycle_seen := b\<rparr>) = gear_shape g" for m b
    by (simp_all add: gear_shape_def)
  show "gear_shape (apply_dapc l g) = gear_shape g" "gear_shape (set_min_level l g) = gear_shape g"
    "gear_shape (set_max_level l g) = gear_shape g" "gear_shape (level_up d g) = gear_shape g"
    "gear_shape (level_down d g) = gear_shape g" "gear_shape (step_down_and_off g) = gear_shape g"
    "gear_shape (on_and_step_up g) = gear_shape g"
    by (simp_all add: apply_dapc_def set_min_level_def set_max_level_def level_up_def level_down_def
        step_down_and_off_def on_and_step_up_def shape_set_level shape_readjust plain Let_def)
qed

lemma shape_arc_activation: "gear_shape g \<Longrightarrow> gear_shape (arc_power_activation g)"
  by (simp add: arc_power_activation_def shape_activate)

lemma shape_recall_scene:
  assumes "gear_shape g"
  shows "gear_shape (recall_scene scene g)"
proof -
  define t where "t = load_temporaries_from (scene_colour g scene) g"
  define h where "h = (if colour_type (scene_colour g scene) \<noteq> 0xFF
      then (if automatic_activation t then activate_pending_color t else t) else g)"
  have "gear_shape t"
    using assms by (simp add: t_def shape_temporaries scene_colour_shape)
  then have "gear_shape h"
    using assms by (simp add: h_def shape_activate)
  then show ?thesis
    unfolding recall_scene_def Let_def t_def [symmetric] h_def [symmetric]
    by (simp add: shape_set_level split: option.split)
qed

lemma shape_level_write:
  assumes "gear_shape g"
  shows "gear_shape (apply_level_write command g)"
proof -
  define h where "h = (if clears_power_cycle_seen command then g\<lparr>power_cycle_seen := False\<rparr> else g)"
  define k where "k = (if is_arc_power_change command then arc_power_activation h else h)"
  have "gear_shape h"
    using assms by (simp add: h_def gear_shape_def)
  then have "gear_shape k"
    by (simp add: k_def shape_arc_activation)
  then show ?thesis
    unfolding apply_level_write_def Let_def h_def [symmetric] k_def [symmetric]
    by (cases command) (simp_all add: shape_levels shape_set_level shape_recall_scene)
qed

lemma shape_reset:
  assumes "gear_shape g"
  shows "gear_shape (reset_gear g)"
proof -
  have n: "gear_shape (gear_new (spec g))"
    using assms by (intro gear_new_shape) (simp add: gear_shape_def)
  have "rgbwaf_shape ((rgbwaf (gear_new (spec g)))\<lparr>rw_levels := rw_levels (rgbwaf g), rw_control := rw_control (rgbwaf g)\<rparr>)"
    using assms n by (simp add: gear_shape_def rgbwaf_shape_def)
  moreover have "switching_shape ((switching (gear_new (spec g)))\<lparr>switch_status := switch_status (switching g)\<rparr>)"
    using n by (simp add: gear_shape_def switching_shape_def)
  ultimately show ?thesis
    using n by (simp add: reset_gear_def Let_def gear_shape_def)
qed

lemma shape_config_write:
  assumes "gear_shape g"
  shows "gear_shape (apply_config_write command d g)"
proof -
  have settle: "gear_shape (h\<lparr>reset_state := False\<rparr>) = gear_shape h" for h
    by (simp add: gear_shape_def)
  have slot: "gear_shape (set_scene_slot sc v g)" for sc v
    using assms by (simp add: set_scene_slot_def gear_shape_def)
  have plain: "gear_shape (g\<lparr>fade_time := v\<rparr>)" "gear_shape (g\<lparr>fade_rate := v\<rparr>)" "gear_shape (set_group_bit gr b g)"
    for v gr b
    using assms by (simp_all add: gear_shape_def set_group_bit_def Let_def)
  have fade: "gear_shape (g\<lparr>extended_fade_time := (if v > 0x4F then 0 else v)\<rparr>)" for v
    using assms by (simp add: gear_shape_def not_less)
  show ?thesis
    unfolding apply_config_write_def Let_def
    by (cases command) (simp_all only: settle slot plain fade assms shape_store_level shape_store_scene
        shape_scene_colours mask_shape shape_levels shape_reset StandardCommand.case)
qed

lemma shape_standard_write:
  assumes "gear_shape g"
  shows "gear_shape (apply_standard_write command d g)"
proof -
  define h where "h = apply_identify_state command
     (if command = EnableWriteMemory then g\<lparr>device_type_walk := None, write_enabled := True\<rparr>
      else g\<lparr>device_type_walk := None\<rparr>)"
  have "gear_shape h"
    using assms by (simp add: h_def apply_identify_state_def gear_shape_def)
  then show ?thesis
    by (simp add: apply_standard_write_def Let_def h_def [symmetric] shape_config_write shape_level_write)
qed

lemma shape_dt8_write:
  assumes "gear_shape g"
  shows "gear_shape (apply_dt8_write opcode d0 d1 d2 g)"
proof -
  have staged: "gear_shape (g\<lparr>pending_x := w, pending_mode := m\<rparr>)" "gear_shape (g\<lparr>pending_y := w, pending_mode := m\<rparr>)"
    "gear_shape (g\<lparr>pending_ct := w, pending_mode := m\<rparr>)" "gear_shape (store_gear_features d g)"
    "gear_shape (tc_step b g)" "gear_shape (xy_step b b' g)" for w m d b b'
    using assms by (simp_all add: gear_shape_def store_gear_features_def tc_step_def xy_step_def Let_def)
  have rgb: "gear_shape (g\<lparr>rgbwaf := r, pending_mode := m\<rparr>)" if "rgbwaf_shape r" for r m
    using assms that by (simp add: gear_shape_def)
  have levels: "length (pending_levels (rgbwaf g)) = 6" "rgbwaf_shape (rgbwaf g)" "colour_shape (report g)"
    using assms by (simp_all add: gear_shape_def rgbwaf_shape_def)
  then have "rgbwaf_shape ((rgbwaf g)\<lparr>pending_levels := [a, b, c] @ drop 3 (pending_levels (rgbwaf g))\<rparr>)"
    "rgbwaf_shape ((rgbwaf g)\<lparr>pending_levels := take 3 (pending_levels (rgbwaf g)) @ [a, b, c]\<rparr>)" for a b c
    by (simp_all add: rgbwaf_shape_def)
  note rgbs = rgb [OF this(1)] rgb [OF this(2)]
  have control: "gear_shape (g\<lparr>rgbwaf := (rgbwaf g)\<lparr>pending_control := k\<rparr>, pending_mode := m\<rparr>)" for k m
    using levels by (simp add: rgb)
  show ?thesis
  proof (cases "dt8_from_opcode opcode")
    case (Some command)
    then show ?thesis
      unfolding apply_dt8_write_def Let_def
      by (cases command) (simp_all only: option.case Dt8Command.case assms staged rgbs control shape_activate shape_store_tc
          copy_report_to_temporary_def shape_temporaries levels)
  qed (simp add: apply_dt8_write_def assms Let_def)
qed

lemma shape_memory: "gear_shape g \<Longrightarrow> gear_shape (snd (write_memory_location bk ofs v g))"
  by (simp add: write_memory_location_def store_profile_def Let_def split: option.split) (simp add: gear_shape_def)

lemma shape_report: "gear_shape g \<Longrightarrow> gear_shape (load_report_from_actual g)"
  by (cases "color_mode g") (simp_all add: load_report_from_actual_def gear_shape_def rgbwaf_shape_def)

lemma shape_query:
  assumes "gear_shape g"
  shows "gear_shape (snd (gear_query_reply command g))"
proof -
  have walk: "gear_shape (h\<lparr>device_type_walk := w\<rparr>) = gear_shape h" for h w
    by (simp add: gear_shape_def)
  have identity: "gear_shape (snd (identity_query_reply command h)) = gear_shape h" for h
    by (cases command) (simp_all add: identity_query_reply_def device_type_reply_def next_device_type_reply_def
        case_prod_beta walk split: list.split option.split)
  have scene: "gear_shape (h\<lparr>report := c\<rparr>)" if "gear_shape h" "colour_shape c" for h c
    using that by (simp add: gear_shape_def)
  have settings: "colour_shape (ls_colour (power_on h))" "colour_shape (ls_colour (system_failure h))" if "gear_shape h" for h
    using that by (simp_all add: gear_shape_def)
  have report: "gear_shape (load_report_for_query command h)" if "gear_shape h" for h
    using that by (cases command) (simp_all add: load_report_for_query_def shape_report load_report_from_scene_def
        load_report_from_level_colour_def scene scene_colour_shape settings)
  show ?thesis
    using gear_query_reply_state [of command g] assms by (auto simp: walk identity report)
qed

lemma shape_settle: "gear_shape g \<Longrightarrow> gear_shape (settle_random t g)"
proof (cases "pending_random g")
  case (Some p)
  assume g: "gear_shape g"
  have "pr_address p \<le> 0x00FFFFFE"
    using g by (simp add: gear_shape_def pending_shape_def Some)
  then have "pr_address p \<le> 0x00FFFFFF"
    by (rule order_trans) simp
  then show ?thesis
    using g by (simp add: settle_random_def Some gear_shape_def pending_shape_def spec_shape_def)
qed (simp add: settle_random_def)

lemma shape_power_cycle: "gear_shape g \<Longrightarrow> gear_shape (power_cycle g)"
  by (simp add: power_cycle_def Let_def gear_shape_def pending_shape_def)

interpretation variables: durable_gear_contract gear_shape
proof
  fix g :: Gear and t a and s :: "u8 option" and ft command7 d
  assume ok: "gear_shape g"
  show "gear_shape (g\<lparr>switching := switching_store ft command7 d (switching g)\<rparr>)"
    using ok by (simp add: gear_shape_def switching_store_shape)
  show "a \<le> 0x00FFFFFE \<Longrightarrow> gear_shape (g\<lparr>pending_random := Some \<lparr>pr_address = a, ready_at_ms = t\<rparr>\<rparr>)"
    using ok by (simp add: gear_shape_def pending_shape_def)
  show "(case s of Some a \<Rightarrow> a < 64 | None \<Rightarrow> True) \<Longrightarrow> gear_shape (g\<lparr>spec := (spec g)\<lparr>short_address := s\<rparr>\<rparr>)"
    using ok by (simp add: gear_shape_def spec_shape_def)
qed (simp_all add: shape_settle shape_power_cycle shape_query shape_report shape_memory shape_dt8_write
    shape_standard_write shape_arc_activation shape_levels, simp_all add: gear_shape_def)

section \<open>Every history of the line\<close>

lemma fleet_shape:
  assumes "list_all spec_shape specs"
  shows "all_gear gear_shape (fleet_new specs res seed)"
  using assms by (intro fleet_new_gear) (auto simp: list_all_iff spec_shape_def intro!: gear_new_shape)

text \<open>C10. Whatever frames and power cuts a line sees, the variables of every gear keep their types:
  the 16 scenes with their colours of six channels, the two sets of six channel levels, the four
  switching thresholds with a non-zero pair of rising ones, short addresses below 64, random
  addresses of 24 bits, an extended fade time of at most \<open>0x4F\<close>.\<close>

theorem variables_keep_their_types:
  assumes "list_all spec_shape specs"
  shows "list_all gear_shape (gears (line_run events (fleet_new specs res seed)))"
  using variables.line_run_durable [OF fleet_shape [OF assms], of events] by (simp add: all_gear_def)

theorem variables_keep_their_types_witness:
  "list_all gear_shape (gears (line_run [FrameHeard 0xA300 False, FrameHeard 0xFFE1 False, FrameHeard 0xA780 False,
     TimePasses 200, PowerCut, FrameHeard 0xFF80 False] (fleet_new demo_specs 0 1)))"
  by (rule variables_keep_their_types)
    (simp add: demo_specs_def spec_dt6_def spec_dt8_def with_metering_def spec_shape_def demo_random_address_def Let_def)

end
