(* ===== verification/Wire_Discipline.thy ===== *)
theory Wire_Discipline
  imports Fleet_Wire
begin

text \<open>
  How the controller (\<open>DaliController\<close> in
  \<open>dali2rust-dali-runtime/src/runtime/controller.rs\<close>) uses an
  arbitrary wire: how many frames a command may cost, where a hold or a lease may stop it,
  when a frame leaves, and that its retry loops end by themselves.
\<close>

section \<open>A wire that counts its transfers\<close>

definition metered :: "'w Wire \<Rightarrow> (nat \<times> 'w) Wire" where
  "metered io =
     \<lparr>clock_ms = (\<lambda>(n, w). clock_ms io w),
      sleep_us = (\<lambda>us (n, w). (n, sleep_us io us w)),
      xfer16 = (\<lambda>f e s (n, w). case xfer16 io f e s w of (r, w) \<Rightarrow> (r, (Suc n, w))),
      xfer24 = (\<lambda>f e s (n, w). case xfer24 io f e s w of (r, w) \<Rightarrow> (r, (Suc n, w))),
      foreign_activity = (\<lambda>(n, w). foreign_activity io w),
      tx_settle_ticks = (\<lambda>(n, w). tx_settle_ticks io w),
      frame24_supported = (\<lambda>(n, w). frame24_supported io w),
      arrival_tickets = (\<lambda>(n, w). arrival_tickets io w)\<rparr>"

abbreviation transfers :: "(nat \<times> 'w) DaliController \<Rightarrow> nat" where
  "transfers c \<equiv> fst (world c)"

text \<open>An action that puts at most \<open>k\<close> frames on the wire.\<close>

definition costs :: "((nat \<times> 'w) DaliController \<Rightarrow> 'r \<times> (nat \<times> 'w) DaliController) \<Rightarrow> nat \<Rightarrow> bool" where
  "costs m k \<longleftrightarrow> (\<forall>c. transfers (snd (m c)) \<le> transfers c + k)"

lemma costs_andThen:
  assumes "costs m i" "\<And>x. costs (f x) j" "i + j \<le> k"
  shows "costs (andThen m f) k"
  unfolding costs_def
proof
  fix c
  obtain r d where d: "m c = (r, d)"
    by (metis prod.exhaust)
  have first: "transfers d \<le> transfers c + i"
    using assms(1) [unfolded costs_def, rule_format, of c] by (simp add: d)
  have "transfers (snd (f x d)) \<le> transfers c + k" for x
    using assms(2) [unfolded costs_def, rule_format, of x d] first assms(3) by linarith
  then show "transfers (snd (andThen m f c)) \<le> transfers c + k"
    using first assms(3) by (cases r) (simp_all add: andThen_def d)
qed

lemma costs_pass: "costs (pass x) k" "costs (\<lambda>c. (g c, c)) k"
  by (simp_all add: costs_def)

lemma costs_weaken: "costs m i \<Longrightarrow> i \<le> k \<Longrightarrow> costs m k"
  unfolding costs_def by (force intro: order_trans)

lemma sleep_metered: "transfers (sleep (metered io) us c) = transfers c"
  by (simp add: sleep_def metered_def case_prod_beta)

lemma wait_metered: "transfers (session_wait (metered io) us c) = transfers c"
  by (simp add: session_wait_def Let_def sleep_metered)

lemma perform_metered: "costs (perform_exchange (metered io) f e us) 1"
  by (auto simp: costs_def perform_exchange_def metered_def case_prod_beta Let_def split: WireFrame.split option.split prod.split)

lemma break_world [quiet_simps]: "world (break_unit e c) = world c"
  by (simp add: break_unit_def)

lemma retry_metered: "transfers (snd (retry_or_fail (metered io) a n e c)) = transfers c"
  by (simp add: retry_or_fail_def Let_def case_prod_beta quiet_simps sleep_metered)

lemma resolve_metered: "transfers (snd (resolve_exchange_outcome (metered io) ex e a n f c)) = transfers c"
  by (simp add: resolve_exchange_outcome_def retry_query_no_answer_def retry_metered split: TransferOutcome.split WireFrame.split)

lemma judge_metered: "costs (judge_send_twice_interval (metered io)) 0"
  by (auto simp: costs_def judge_send_twice_interval_def Let_def quiet_simps split: option.split)

lemma attempts_metered: "costs (exchange_attempts (metered io) f e n cont a m) m"
  unfolding costs_def
proof (induction m arbitrary: cont a)
  case 0
  then show ?case by (simp add: quiet_simps)
next
  case (Suc m)
  show ?case
  proof
    fix c :: "(nat \<times> 'a) DaliController"
    define c1 where "c1 = credit_natural_release (metered io) (c\<lparr>at_step_boundary := False\<rparr>)"
    obtain p us c2 where c2: "next_settle (metered io) c1 = ((p, us), c2)"
      by (metis prod.exhaust)
    have "world c2 = world c1"
      using quiet_settle(2) [of "metered io" c1] by (simp add: c2)
    then have w2: "world c2 = world c"
      by (simp add: c1_def quiet_simps)
    obtain r c3 where c3: "perform_exchange (metered io) f e us (session_wait (metered io) us c2) = (r, c3)"
      by (metis prod.exhaust)
    have w3: "transfers c3 \<le> transfers c + 1"
      using perform_metered [of io f e us, unfolded costs_def, rule_format, of "session_wait (metered io) us c2"]
      by (simp add: c3 w2 wait_metered)
    show "transfers (snd (exchange_attempts (metered io) f e n cont a (Suc m) c)) \<le> transfers c + Suc m"
    proof (cases "held_by c = None \<and> \<not> must_yield (metered io) c")
      case True
      show ?thesis
      proof (cases r)
        case (Inl x)
        then show ?thesis
          using True w3 by (simp add: Let_def c1_def [symmetric] c2 c3)
      next
        case (Inr ex)
        define c4 where "c4 = note_frame_transmitted (metered io) (obs_outcome ex) p c3"
        obtain q c5 where c5: "resolve_exchange_outcome (metered io) ex e a n f c4 = (q, c5)"
          by (metis prod.exhaust)
        have w5: "transfers c5 \<le> transfers c + 1"
          using resolve_metered [of io ex e a n f c4] w3 by (simp add: c5) (simp add: c4_def quiet_simps)
        have "transfers (snd (exchange_attempts (metered io) f e n k (a + 1) m c5)) \<le> transfers c + Suc m" for k
          using Suc [rule_format, of k "a + 1" c5] w5 by linarith
        then show ?thesis
          using True Inr w5 by (cases q) (auto simp: Let_def c1_def [symmetric] c2 c3 c4_def [symmetric] c5 split: option.split)
      qed
    qed (auto split: option.split)
  qed
qed

lemma exchange_metered: "costs (exchange_with_attempts (metered io) f e n) (unat n)"
  using attempts_metered [of io f e n False 0 "unat n"]
  by (simp add: costs_def exchange_with_attempts_def split: option.split)

lemma once_metered: "costs (exchange_once (metered io) f e) 1"
  unfolding exchange_once_def
  by (rule costs_andThen [of _ 1 _ 0]) (use exchange_metered [of io _ _ 1] in \<open>simp_all add: costs_pass\<close>)

text \<open>The frames of one attempt at a unit: the device type prelude, the frame, its repetition.\<close>

definition unit_frames :: "ForwardFrame option \<Rightarrow> bool \<Rightarrow> nat" where
  "unit_frames enable repeats = (if enable = None then 0 else 1) + (if repeats then 2 else 1)"

lemma try_unit_metered: "costs (try_unit_once (metered io) enable f e repeats) (unit_frames enable repeats)"
proof -
  have prelude: "costs (case enable of Some en \<Rightarrow> andThen (exchange_once (metered io) en False) (\<lambda>r. pass (snd r)) | None \<Rightarrow> pass False)
      (if enable = None then 0 else 1)"
    by (cases enable) (auto simp: costs_pass intro!: costs_andThen [of _ 1 _ 0] once_metered)
  have judged: "costs (andThen (judge_send_twice_interval (metered io)) (\<lambda>_. pass x)) 0" for x :: "DaliResponse \<times> bool"
    by (rule costs_andThen [OF judge_metered costs_pass(1)]) simp
  have again: "costs (andThen (exchange_once (metered io) f e)
      (\<lambda>(again, observed2). andThen (judge_send_twice_interval (metered io)) (\<lambda>_. pass (again, k \<or> observed \<or> observed2)))) 1" for k observed
    by (rule costs_andThen [OF once_metered, of _ 0]) (auto simp: judged)
  have body: "costs (case x of (backward, observed) \<Rightarrow> if repeats then andThen (exchange_once (metered io) f e)
          (\<lambda>(again, observed2). andThen (judge_send_twice_interval (metered io))
             (\<lambda>_. pass (again, cont \<or> observed \<or> observed2)))
        else pass (backward, cont \<or> observed)) (if repeats then 1 else 0)" for cont x
    using again [of cont "snd x"] by (cases x) (simp add: costs_pass)
  have "costs (andThen (exchange_once (metered io) f e) (\<lambda>(backward, observed).
      if repeats then andThen (exchange_once (metered io) f e)
          (\<lambda>(again, observed2). andThen (judge_send_twice_interval (metered io))
             (\<lambda>_. pass (again, cont \<or> observed \<or> observed2)))
      else pass (backward, cont \<or> observed))) (if repeats then 2 else 1)" for cont
    by (rule costs_andThen [OF once_metered body]) simp
  then show ?thesis
    unfolding try_unit_once_def unit_frames_def by (rule costs_andThen [OF prelude]) simp
qed

lemma unit_attempts_metered:
  assumes "costs once k"
  shows "costs (unit_attempts (metered io) once n a m) (m * k)"
  unfolding costs_def
proof (induction m arbitrary: a)
  case (Suc m)
  show ?case
  proof
    fix c :: "(nat \<times> 'a) DaliController"
    obtain r c1 where c1: "once c = (r, c1)"
      by (metis prod.exhaust)
    have w1: "transfers c1 \<le> transfers c + k"
      using assms [unfolded costs_def, rule_format, of c] by (simp add: c1)
    show "transfers (snd (unit_attempts (metered io) once n a (Suc m) c)) \<le> transfers c + Suc m * k"
    proof (cases r)
      case (Inl x)
      obtain q c2 where c2: "retry_or_fail (metered io) a n x c1 = (q, c2)"
        by (metis prod.exhaust)
      have "transfers c2 = transfers c1"
        using retry_metered [of io a n x c1] by (simp add: c2)
      moreover have "transfers (note_unit_reopened c2) = transfers c2"
        by (simp add: note_unit_reopened_def quiet_simps)
      ultimately have "transfers (snd (unit_attempts (metered io) once n (a + 1) m (note_unit_reopened c2))) \<le> transfers c + Suc m * k"
        using Suc [rule_format, of "a + 1" "note_unit_reopened c2"] w1 by simp
      then show ?thesis
        using w1 \<open>transfers c2 = transfers c1\<close> by (cases q) (simp_all add: c1 Inl c2)
    qed (use w1 in \<open>simp add: c1\<close>)
  qed
qed simp

lemma send_unit_metered:
  "transfers (snd (send_unit (metered io) enable f e repeats c))
     \<le> transfers c + unat (attempts_here c (effective_max_attempts (retry_policy c))) * unit_frames enable repeats"
  using unit_attempts_metered [OF try_unit_metered [of io enable f e repeats], of io, unfolded costs_def, rule_format]
  by (simp add: send_unit_def Let_def)

lemma tx_open_state [simp]:
  "retry_policy (tx_open ex c) = retry_policy c" "unit_state (tx_open ex c) = unit_state c"
  by (simp_all add: tx_open_def Let_def)

text \<open>C12. However the wire behaves, a command costs at most the frames of its unit (the device type
  prelude of an extended command, the frame, the repetition of a configuration command) times the
  attempts of the retry policy, and a single attempt inside a larger unit.\<close>

theorem command_cost_bound:
  "transfers (snd (send_command_observed (metered io) cmd c)) \<le> transfers c +
     (if unit_state c = None then unat (effective_max_attempts (retry_policy c)) else 1) *
     ((if \<exists>a x. cmd = Extended a x then 1 else 0) + (if requires_repeat cmd then 2 else 1))"
proof -
  have frames: "unit_frames (enable_frame cmd) r = (if \<exists>a x. cmd = Extended a x then 1 else 0) + (if r then 2 else 1)" for r
    by (cases cmd) (simp_all add: unit_frames_def enable_frame_def)
  have "snd (send_command_observed (metered io) cmd c) = tx_close (snd (send_unit (metered io) (enable_frame cmd)
      (to_forward_frame cmd) (is_query cmd) (requires_repeat cmd) (tx_open False c)))"
    by (simp add: send_command_observed_def enable_frame_def [symmetric] andThen_def run_transaction_def case_prod_beta Let_def
        split: sum.split)
  then show ?thesis
    using send_unit_metered [of io "enable_frame cmd" "to_forward_frame cmd" "is_query cmd" "requires_repeat cmd" "tx_open False c"]
    by (simp add: quiet_simps attempts_here_def frames split: if_split_asm)
qed

section \<open>A held line\<close>

lemma held_exchange:
  assumes "held_by c = Some cause" "unit_broken_by c = None" "0 < unat n"
  shows "exchange_with_attempts io f e n c = (Err (Held cause), c)"
  using assms by (cases "unat n") (simp_all add: exchange_with_attempts_def)

lemma held_try_unit:
  assumes "held_by c = Some cause" "unit_broken_by c = None"
  shows "try_unit_once io enable f e repeats c = (Err (Held cause), c)"
  using held_exchange [OF assms, of 1 io] by (cases enable) (simp_all add: try_unit_once_def exchange_once_def andThen_def)

lemma held_send_unit:
  assumes "held_by c = Some cause" "unit_broken_by c = None"
  shows "send_unit io enable f e repeats c = (Err (Held cause), c)"
proof -
  obtain m where "unat (attempts_here c (effective_max_attempts (retry_policy c))) = Suc m"
    using attempts_here_pos gr0_implies_Suc by blast
  then show ?thesis
    using held_try_unit [OF assms] by (simp add: send_unit_def unit_retryable_def)
qed

text \<open>C11. While the line is held, a command that opens a transaction is refused with the cause of
  the hold before anything is transmitted: the world, the session and the counters are as they were.\<close>

theorem held_line_refuses_commands:
  assumes "hold c = Some h" "h (world c) = Some cause" "depth (tx c) = 0" "step_depth c = 0" "unit_state c = None"
  shows "send_command_observed io cmd c = (Err (Held cause), c\<lparr>tx := tx_default\<rparr>)"
proof -
  have "held_by (tx_open False c) = Some cause" "unit_broken_by (tx_open False c) = None"
    using assms by (simp_all add: held_by_def inside_started_def tx_open_def tx_default_def unit_broken_by_def Let_def)
  then have "send_unit io enable f e repeats (tx_open False c) = (Err (Held cause), tx_open False c)" for enable f e repeats
    by (rule held_send_unit)
  moreover have "tx_close (tx_open False c) = c\<lparr>tx := tx_default\<rparr>"
    using assms by (simp add: tx_open_def tx_close_def close_outermost_def tx_default_def Let_def saturating_add_def saturating_sub_def)
  ultimately show ?thesis
    by (simp add: send_command_observed_def run_transaction_def andThen_def Let_def)
qed

definition idle_controller :: "FleetWorld DaliController" where
  "idle_controller = controller_new fleet_io False (world_new (fleet_new demo_specs 0 1))"

lemma idle_fields:
  "hold idle_controller = None" "lease idle_controller = None" "tx idle_controller = tx_default"
  "unit_state idle_controller = None" "step_depth idle_controller = 0"
  by (simp_all add: idle_controller_def world_new_def controller_new_def with_retry_policy_def)

theorem held_line_refuses_commands_witness:
  "send_command_observed fleet_io (Standard Broadcast Off) (idle_controller\<lparr>hold := Some (\<lambda>_. Some Quiescent)\<rparr>)
     = (Err (Held Quiescent), idle_controller\<lparr>hold := Some (\<lambda>_. Some Quiescent), tx := tx_default\<rparr>)"
  by (rule trans [OF held_line_refuses_commands [of _ "\<lambda>_. Some Quiescent" Quiescent]])
    (simp_all add: idle_fields tx_default_def)

section \<open>A started transaction\<close>

text \<open>What a broken unit may carry: the errors of the retry loop.\<close>

definition broken_fairly :: "'w DaliController \<Rightarrow> bool" where
  "broken_fairly c = (case unit_broken_by c of None \<Rightarrow> True | Some e \<Rightarrow> unit_retryable e)"

definition interruption :: "FrameError \<Rightarrow> bool" where
  "interruption e \<longleftrightarrow> e = Preempted \<or> (\<exists>cause. e = Held cause)"

lemma started_free: "inside_started c \<Longrightarrow> held_by c = None" "inside_started c \<Longrightarrow> \<not> must_yield io c"
  by (simp_all add: held_by_def must_yield_def)

named_theorems started_simps \<open>the controller's bookkeeping keeps a transaction open\<close>

lemma started_credit [started_simps]: "inside_started (credit_natural_release io c) = inside_started c"
  by (simp add: credit_natural_release_def inside_started_def)

lemma started_boundary [started_simps]: "inside_started (c\<lparr>at_step_boundary := b\<rparr>) = inside_started c"
  by (simp add: inside_started_def)

lemma started_settle [started_simps]: "inside_started (snd (next_settle io c)) = inside_started c"
  by (simp add: next_settle_def random_settle_within_def next_retry_jitter_def Let_def case_prod_beta counted_def inside_started_def)

lemma started_wait [started_simps]: "inside_started (session_wait io us c) = inside_started c"
  by (simp add: session_wait_def sleep_def inside_started_def Let_def)

lemma started_perform [started_simps]: "inside_started (snd (perform_exchange io f e us c)) = inside_started c"
  by (simp add: perform_exchange_def inside_started_def Let_def split: WireFrame.split prod.split option.split)

lemma started_note [started_simps]: "inside_started c \<Longrightarrow> inside_started (note_frame_transmitted io oc p c)"
  by (auto simp: note_frame_transmitted_def note_outcome_counter_def note_settle_window_def note_unit_started_def
      counted_def Let_def inside_started_def split: TransferOutcome.splits option.splits)

lemma started_retry [started_simps]: "inside_started (snd (retry_or_fail io a n e c)) = inside_started c"
  by (simp add: retry_or_fail_def next_retry_jitter_def sleep_def counted_def break_unit_def inside_started_def Let_def)

lemma started_resolve [started_simps]: "inside_started (snd (resolve_exchange_outcome io ex e a n f c)) = inside_started c"
  by (simp add: resolve_exchange_outcome_def retry_query_no_answer_def started_simps split: TransferOutcome.split WireFrame.split)

lemma retry_error: "fst (retry_or_fail io a n e c) = Inl x \<Longrightarrow> x = e"
  by (auto simp: retry_or_fail_def Let_def split: if_split_asm prod.split_asm)

lemma resolve_error: "fst (resolve_exchange_outcome io ex e a n f c) = Inl x \<Longrightarrow> unit_retryable x"
  by (auto simp: resolve_exchange_outcome_def retry_query_no_answer_def unit_retryable_def
      split: TransferOutcome.split_asm WireFrame.split_asm if_split_asm dest: retry_error)

lemma perform_error: "fst (perform_exchange io f e us c) = Inl x \<Longrightarrow> x = TransportError"
  by (auto simp: perform_exchange_def Let_def split: prod.split_asm option.split_asm)

lemma started_attempts:
  assumes "inside_started c" "fst (exchange_attempts io f e n cont a m c) = Inl x"
  shows "\<not> interruption x"
  using assms
proof (induction m arbitrary: cont a c)
  case (Suc m)
  define c1 where "c1 = credit_natural_release io (c\<lparr>at_step_boundary := False\<rparr>)"
  obtain p us c2 where c2: "next_settle io c1 = ((p, us), c2)"
    by (metis prod.exhaust)
  have s2: "inside_started c2"
    using started_settle [of io c1] Suc.prems(1) by (simp add: c2) (simp add: c1_def started_simps)
  obtain r c3 where c3: "perform_exchange io f e us (session_wait io us c2) = (r, c3)"
    by (metis prod.exhaust)
  have s3: "inside_started c3"
    using started_perform [of io f e us "session_wait io us c2"] s2 by (simp add: c3 started_simps)
  show ?case
  proof (cases r)
    case (Inl y)
    then have "x = TransportError"
      using Suc.prems perform_error [of io f e us "session_wait io us c2" y]
      by (simp add: started_free Let_def c1_def [symmetric] c2 c3)
    then show ?thesis
      by (simp add: interruption_def)
  next
    case (Inr ex)
    define c4 where "c4 = note_frame_transmitted io (obs_outcome ex) p c3"
    obtain q c5 where c5: "resolve_exchange_outcome io ex e a n f c4 = (q, c5)"
      by (metis prod.exhaust)
    have s5: "inside_started c5"
      using started_resolve [of io ex e a n f c4] s3 by (simp add: c5) (simp add: c4_def started_simps)
    have run: "fst (exchange_attempts io f e n cont a (Suc m) c) = (case q of Inl e \<Rightarrow> Inl e
        | Inr (Some oc) \<Rightarrow> Inr \<lparr>obs_outcome = oc, contended = cont \<or> contended ex\<rparr>
        | Inr None \<Rightarrow> fst (exchange_attempts io f e n (cont \<or> contended ex) (a + 1) m c5))"
      using Suc.prems(1) Inr
      by (simp add: started_free Let_def c1_def [symmetric] c2 c3 c4_def [symmetric] c5 split: sum.split option.split)
    show ?thesis
    proof (cases q)
      case (Inl y)
      then have "unit_retryable x"
        using Suc.prems(2) run resolve_error [of io ex e a n f c4 y] by (simp add: c5)
      then show ?thesis
        by (auto simp: interruption_def unit_retryable_def)
    next
      case (Inr oc)
      then show ?thesis
        using Suc.prems(2) run Suc.IH [OF s5] by (auto split: option.split_asm)
    qed
  qed
qed (simp add: interruption_def)

text \<open>C5. A transaction that has put its first frame on the line is not interrupted: whatever holds
  or leases exist, an exchange inside it never ends with \<open>Held\<close> or \<open>Preempted\<close>.\<close>

theorem started_transaction_uninterrupted:
  assumes "inside_started c" "broken_fairly c"
  shows "case fst (exchange_with_attempts io f e n c) of Inl x \<Rightarrow> \<not> interruption x | Inr _ \<Rightarrow> True"
proof (cases "unit_broken_by c")
  case None
  then show ?thesis
    using started_attempts [OF assms(1), of io f e n False 0 "unat n"]
    by (simp add: exchange_with_attempts_def split: sum.split)
next
  case (Some y)
  then show ?thesis
    using assms(2) by (auto simp: exchange_with_attempts_def broken_fairly_def interruption_def unit_retryable_def)
qed

theorem started_transaction_uninterrupted_witness:
  "case fst (exchange_with_attempts fleet_io (Forward16 (to_forward_frame (Standard Broadcast QueryStatus))) True 3
      (idle_controller\<lparr>hold := Some (\<lambda>_. Some Passive),
         tx := tx_default\<lparr>depth := 1, first_frame_sent := True\<rparr>\<rparr>)) of
     Inl x \<Rightarrow> \<not> interruption x | Inr _ \<Rightarrow> True"
  by (rule started_transaction_uninterrupted)
    (simp_all add: inside_started_def broken_fairly_def unit_broken_by_def idle_fields)

section \<open>When a frame leaves\<close>

lemma settle_arith:
  fixes lo hi :: u32 and j :: u64
  assumes "unat lo = L" "unat hi = H" "3 \<le> L" "L \<le> H" "H < 1000"
  shows "unat (saturating_sub (lo + ucast (j mod ucast (saturating_add (saturating_sub hi lo) 1))) 3 * 104 + 312)
    = (L + unat j mod (H - L + 1)) * 104"
proof -
  define r where "r = unat j mod (H - L + 1)"
  have r: "r \<le> H - L"
    using mod_less_divisor [of "H - L + 1" "unat j"] by (simp add: r_def)
  have span: "unat (saturating_add (saturating_sub hi lo) 1) = H - L + 1"
    using assms by (simp add: unat_saturating_add unat_saturating_sub)
  then have "unat (j mod ucast (saturating_add (saturating_sub hi lo) 1)) = r"
    using assms(5) by (simp add: unat_mod_distrib unsigned_ucast_eq take_bit_nat_eq_self r_def)
  then have "unat (ucast (j mod ucast (saturating_add (saturating_sub hi lo) 1)) :: u32) = r"
    using r assms(5) by (simp add: unsigned_ucast_eq take_bit_nat_eq_self)
  then have "unat (lo + ucast (j mod ucast (saturating_add (saturating_sub hi lo) 1))) = L + r"
    using r assms by (simp add: unat_word_ariths)
  then have "unat (saturating_sub (lo + ucast (j mod ucast (saturating_add (saturating_sub hi lo) 1))) 3) = L + r - 3"
    by (simp add: unat_saturating_sub)
  then have "unat (saturating_sub (lo + ucast (j mod ucast (saturating_add (saturating_sub hi lo) 1))) 3 * 104 + 312)
      = (L + r - 3) * 104 + 312"
    using r assms by (simp add: unat_word_ariths)
  also have "\<dots> = (L + r) * 104"
    using assms(3) by (simp add: diff_mult_distrib)
  finally show ?thesis
    by (simp add: r_def)
qed

text \<open>C15. A randomised settling time falls, with the three ticks the transmitter adds, inside the band
  of the frame's priority, so it neither claims a higher priority nor leaves the window.\<close>

theorem random_settle_in_band:
  "contains_settle_us p (fst (random_settle_within p c) + 3 * 104)"
proof -
  define j where "j = fst (next_retry_jitter c)"
  define lo where "lo = div_ceil (min_settle_us p) 104 + 3"
  define hi where "hi = max_settle_us p div 104"
  have ticks: "3 \<le> unat lo" "unat lo \<le> unat hi" "unat hi < 1000"
    "unat (min_settle_us p) \<le> unat lo * 104" "unat hi * 104 \<le> unat (max_settle_us p)"
    by (cases p; simp add: lo_def hi_def div_ceil_def)+
  define r where "r = unat j mod (unat hi - unat lo + 1)"
  have "r \<le> unat hi - unat lo"
    using mod_less_divisor [of "unat hi - unat lo + 1" "unat j"] by (simp add: r_def)
  then have r: "unat lo * 104 \<le> (unat lo + r) * 104" "(unat lo + r) * 104 \<le> unat hi * 104"
    using ticks(2) by simp_all
  have "unat (fst (random_settle_within p c) + 3 * 104) = (unat lo + r) * 104"
    using settle_arith [OF refl refl ticks(1,2,3), of j]
    by (simp add: random_settle_within_def Let_def case_prod_beta lo_def hi_def j_def r_def)
  then show ?thesis
    using r ticks by (simp add: contains_settle_us_def word_le_nat_alt)
qed

section \<open>The retry loops end by themselves\<close>

lemma retry_remaining: "has_retry_remaining a n \<Longrightarrow> unat a + 1 < unat n"
  using unsigned_less [of n, where 'a = nat]
  by (auto simp: has_retry_remaining_def word_less_nat_alt unat_saturating_add min_def split: if_split_asm)

lemma retry_again:
  "fst (retry_or_fail io a n e c) = Inr x \<Longrightarrow> x = None \<and> unat a + 1 < unat n"
  using retry_remaining [of a n]
  by (auto simp: retry_or_fail_def Let_def split: if_split_asm prod.split_asm)

lemma next_attempt:
  fixes a n :: u8
  assumes "unat a + 1 < unat n"
  shows "unat (a + 1) = unat a + 1"
  using assms unsigned_less [of n, where 'a = nat] by (simp add: unat_word_ariths)

lemma rerun_again: "fst (reruns_after io u a n c) \<Longrightarrow> unat a + 1 < unat n"
  using retry_again [of io a n "the (broken_by u)" c]
  by (auto simp: reruns_after_def split: option.split_asm prod.split_asm sum.split_asm)

lemma reruns_fuel:
  assumes "unat n - unat a \<le> Suc m" "unat n - unat a \<le> Suc k"
  shows "unit_reruns io ex run n a m s c = unit_reruns io ex run n a k s c"
  using assms
proof (induction m arbitrary: a k s c)
  case 0
  obtain r s1 c1 where c1: "run_transaction ex (run s) (c\<lparr>unit_state := Some unit_default\<rparr>) = ((r, s1), c1)"
    by (metis prod.exhaust)
  obtain again d where d: "reruns_after io (case unit_state c1 of Some u \<Rightarrow> u | None \<Rightarrow> unit_default) a n (c1\<lparr>unit_state := None\<rparr>)
      = (again, d)"
    by (metis prod.exhaust)
  have "again \<Longrightarrow> unat a + 1 < unat n"
    using rerun_again [of io "case unit_state c1 of Some u \<Rightarrow> u | None \<Rightarrow> unit_default" a n "c1\<lparr>unit_state := None\<rparr>"]
    by (simp add: d)
  then have "\<not> again"
    using "0.prems"(1) by linarith
  then show ?case
    by (simp add: unit_reruns.simps [of io ex run n a _ s c] c1 d Let_def del: unit_reruns.simps)
next
  case (Suc m)
  obtain r s1 c1 where c1: "run_transaction ex (run s) (c\<lparr>unit_state := Some unit_default\<rparr>) = ((r, s1), c1)"
    by (metis prod.exhaust)
  obtain again d where d: "reruns_after io (case unit_state c1 of Some u \<Rightarrow> u | None \<Rightarrow> unit_default) a n (c1\<lparr>unit_state := None\<rparr>)
      = (again, d)"
    by (metis prod.exhaust)
  show ?case
  proof (cases again)
    case True
    then have a: "unat a + 1 < unat n"
      using rerun_again [of io "case unit_state c1 of Some u \<Rightarrow> u | None \<Rightarrow> unit_default" a n "c1\<lparr>unit_state := None\<rparr>"]
      by (simp add: d)
    then obtain k' where k: "k = Suc k'"
      using Suc.prems(2) by (cases k) auto
    have "unit_reruns io ex run n (a + 1) m s1 d = unit_reruns io ex run n (a + 1) k' s1 d"
      using Suc.prems by (intro Suc.IH) (simp_all add: next_attempt [OF a] k)
    then show ?thesis
      by (simp add: unit_reruns.simps [of io ex run n a _ s c] c1 d k Let_def del: unit_reruns.simps)
  qed (simp add: unit_reruns.simps [of io ex run n a _ s c] c1 d Let_def del: unit_reruns.simps)
qed

lemma unit_attempts_fuel:
  assumes "unat n - unat a \<le> m" "0 < m"
  shows "unit_attempts io once n a m c = unit_attempts io once n a (Suc m) c"
  using assms
proof (induction m arbitrary: a c)
  case (Suc m)
  obtain r c1 where c1: "once c = (r, c1)"
    by (metis prod.exhaust)
  show ?case
  proof (cases r)
    case (Inl x)
    obtain q c2 where c2: "retry_or_fail io a n x c1 = (q, c2)"
      by (metis prod.exhaust)
    show ?thesis
    proof (cases q)
      case (Inr y)
      then have a: "unat a + 1 < unat n"
        using retry_again [of io a n x c1] by (simp add: c2)
      then have "unit_attempts io once n (a + 1) m (note_unit_reopened c2)
          = unit_attempts io once n (a + 1) (Suc m) (note_unit_reopened c2)"
        using Suc.prems by (intro Suc.IH) (simp_all add: next_attempt)
      then show ?thesis
        by (simp add: unit_attempts.simps(2) [where c = c] c1 Inl c2 Inr del: unit_attempts.simps)
    qed (simp add: c1 Inl c2)
  qed (simp add: c1)
qed simp

lemma unit_attempts_enough:
  assumes "unat n \<le> m" "0 < unat n"
  shows "unit_attempts io once n 0 m c = unit_attempts io once n 0 (unat n) c"
  using assms(1)
proof (induction m rule: dec_induct)
  case (step m)
  then show ?case
    using unit_attempts_fuel [of n 0 m io once c] assms(2) by (simp del: unit_attempts.simps)
qed (rule refl)

text \<open>C13. The two retry loops of a unit end by themselves: with any number of iterations from the
  attempts of the retry policy on, the rerun loop returns what \<open>run_unit\<close> returns, whatever the
  unit does, and the attempt loop what \<open>send_unit\<close> returns, whatever the wire does.\<close>

theorem retry_loops_end:
  assumes "unit_state c = None" "unat (effective_max_attempts (retry_policy c)) \<le> m"
  shows "run_unit io ex run s c = unit_reruns io ex run (effective_max_attempts (retry_policy c)) 0 m s c \<and>
    send_unit io enable f e repeats c
       = unit_attempts io (try_unit_once io enable f e repeats) (effective_max_attempts (retry_policy c)) 0 m c"
  using assms unit_attempts_enough [OF assms(2), of io "try_unit_once io enable f e repeats" c]
    reruns_fuel [of "effective_max_attempts (retry_policy c)" 0 m "unat (effective_max_attempts (retry_policy c))" io ex run s c]
    attempts_here_pos [of c "retry_policy c"]
  by (simp_all add: run_unit_def send_unit_def attempts_here_def Let_def del: unit_reruns.simps unit_attempts.simps)

theorem retry_loops_end_witness:
  "run_unit fleet_io False (\<lambda>n c. ((n, Suc n), break_unit FrameError.Collision c)) 0 idle_controller
     = unit_reruns fleet_io False (\<lambda>n c. ((n, Suc n), break_unit FrameError.Collision c)) 3 0 100 0 idle_controller"
proof -
  have "effective_max_attempts (retry_policy idle_controller) = 3"
    by (simp add: idle_controller_def world_new_def controller_new_def with_retry_policy_def retry_policy_default_def
        retry_policy_new_def effective_max_attempts_def)
  then show ?thesis
    using retry_loops_end [of idle_controller 100 fleet_io False "\<lambda>n c. ((n, Suc n), break_unit FrameError.Collision c)" 0]
    by (simp add: idle_fields del: unit_reruns.simps)
qed

section \<open>Commands complete\<close>

text \<open>C14. On a line of modelled gear that nobody holds or preempts, every command completes: it
  returns a response, uncontended, and leaves the controller ready for the next command.\<close>

theorem commands_complete:
  assumes "quiet c"
  shows "\<exists>r c'. send_command_observed fleet_io cmd c = (Ok (r, False), c') \<and> quiet c'"
  using send_command_observed_fleet [OF assms, of cmd] by blast

theorem commands_complete_witness:
  "\<exists>r c'. send_command_observed fleet_io (Standard Broadcast QueryStatus) idle_controller = (Ok (r, False), c') \<and> quiet c'"
  by (rule commands_complete) (simp add: quiet_def unit_broken_by_def idle_fields)

end
