(* ===== verification/Majority.thy ===== *)
theory Majority
  imports Executor
begin

text \<open>
  The votes over repeated reads (\<open>majority.rs\<close>): what value wins, that the table of
  \<open>majority_optional_byte\<close> and the list of \<open>majority_optional\<close> agree, and what
  a confirmed read returns and costs.
\<close>

section \<open>The tally\<close>

definition tally_step :: "'t option \<Rightarrow> ('t \<times> u8) list \<times> u8 \<Rightarrow> ('t \<times> u8) list \<times> u8" where
  "tally_step s = (\<lambda>(tally, none_count).
     case s of Some v \<Rightarrow> (bump v tally, none_count) | None \<Rightarrow> (tally, saturating_add none_count 1))"

text \<open>The tally of the samples seen so far: each value once, with how often it was seen.\<close>

definition tallies :: "'t option list \<Rightarrow> ('t \<times> u8) list \<Rightarrow> u8 \<Rightarrow> bool" where
  "tallies xs tally none_count \<longleftrightarrow> distinct (map fst tally) \<and> fst ` set tally = {v. Some v \<in> set xs} \<and>
     (\<forall>(v, n) \<in> set tally. unat n = count_list xs (Some v)) \<and> unat none_count = count_list xs None"

lemma bump_keys: "fst ` set (bump v t) = insert v (fst ` set t)"
  by (induction t rule: bump.induct [of _ v]) auto

lemma bump_distinct: "distinct (map fst t) \<Longrightarrow> distinct (map fst (bump v t))"
proof (induction v t rule: bump.induct)
  case (2 v seen n rest)
  moreover have "set (map fst (bump v rest)) = insert v (set (map fst rest))"
    using bump_keys [of v rest] by simp
  ultimately show ?case
    by (cases "seen = v") simp_all
qed simp

lemma bump_counts:
  "distinct (map fst t) \<Longrightarrow> (w, m) \<in> set (bump v t) \<Longrightarrow>
     (w \<noteq> v \<and> (w, m) \<in> set t) \<or> (w = v \<and> ((\<exists>n. (v, n) \<in> set t \<and> m = saturating_add n 1) \<or> (v \<notin> fst ` set t \<and> m = 1)))"
proof (induction v t rule: bump.induct)
  case (2 v seen n rest)
  then show ?case
    by (cases "seen = v") (auto intro: rev_image_eqI)
qed simp

lemma saturating_count: "unat (saturating_add n 1) = unat n + 1" if "unat n < 255" for n :: u8
  using that by (simp add: unat_saturating_add)

lemma tallies_step:
  assumes "tallies xs tally none_count" "length xs < 255"
  shows "case tally_step s (tally, none_count) of (t, n) \<Rightarrow> tallies (xs @ [s]) t n"
proof -
  have less: "count_list xs x < 255" for x
    using count_le_length [of xs x] assms(2) by linarith
  show ?thesis
  proof (cases s)
    case None
    then show ?thesis
      using assms less [of None] by (auto simp: tally_step_def tallies_def saturating_count)
  next
    case (Some v)
    have keys: "fst ` set (bump v tally) = {w. Some w \<in> set (xs @ [s])}"
      using assms(1) by (auto simp: bump_keys tallies_def Some)
    have "unat m = count_list (xs @ [s]) (Some w)" if "(w, m) \<in> set (bump v tally)" for w m
      using bump_counts [OF _ that] assms(1) less [of "Some v"] Some
      by (auto simp: tallies_def saturating_count count_list_0_iff)
    then show ?thesis
      using assms(1) keys bump_distinct [of tally v] by (auto simp: tally_step_def tallies_def Some)
  qed
qed

lemma tallies_fold:
  "length xs \<le> 255 \<Longrightarrow> case fold tally_step xs ([], 0) of (t, n) \<Rightarrow> tallies xs t n"
proof (induction xs rule: rev_induct)
  case Nil
  then show ?case by (simp add: tallies_def)
next
  case (snoc x xs)
  obtain t n where t: "fold tally_step xs ([], 0) = (t, n)"
    by (metis prod.exhaust)
  then show ?case
    using snoc tallies_step [of xs t n x] by simp
qed

section \<open>The winner\<close>

text \<open>What wins a vote: a value, or silence, seen at least twice and more often than anything else.\<close>

definition wins :: "'t option list \<Rightarrow> 't option \<Rightarrow> bool" where
  "wins xs r \<longleftrightarrow> 2 \<le> count_list xs r \<and> (\<forall>x. x \<noteq> r \<longrightarrow> count_list xs x < count_list xs r)"

lemma wins_unique: "wins xs r \<Longrightarrow> wins xs q \<Longrightarrow> r = q"
  unfolding wins_def by (metis less_asym)

definition best_of :: "('t \<times> u8) list \<Rightarrow> u8" where
  "best_of tally = fold (\<lambda>p. max (snd p)) tally 0"

lemma best_Max: "best_of t = Max (set (0 # map snd t))"
  unfolding Max.set_eq_fold by (simp add: best_of_def fold_map comp_def)

lemma best_bounds: "(v, m) \<in> set t \<Longrightarrow> m \<le> best_of t"
  unfolding best_Max by (rule Max_ge) force+

lemma best_attained: "best_of t = 0 \<or> (\<exists>v. (v, best_of t) \<in> set t)"
proof -
  have "best_of t \<in> set (0 # map snd t)"
    unfolding best_Max by (rule Max_in) simp_all
  then show ?thesis
    by auto
qed

definition winner_of :: "('t \<times> u8) list \<Rightarrow> ('t \<times> u8) option" where
  "winner_of tally =
     (let best_count = best_of tally;
          tied = (length (filter (\<lambda>p. snd p = best_count) tally) > 1)
      in if best_count \<ge> 2 \<and> \<not> tied then List.find (\<lambda>p. snd p = best_count) tally else None)"

lemma winner_entry:
  assumes "winner_of tally = Some (v, c)"
  shows "(v, c) \<in> set tally" "2 \<le> c" "c = best_of tally"
    "length (filter (\<lambda>p. snd p = c) tally) \<le> 1"
proof -
  have w: "2 \<le> best_of tally" "\<not> length (filter (\<lambda>p. snd p = best_of tally) tally) > 1"
    "List.find (\<lambda>p. snd p = best_of tally) tally = Some (v, c)"
    using assms by (simp_all add: winner_of_def Let_def split: if_split_asm)
  then obtain i where i: "i < length tally" "snd (tally ! i) = best_of tally" "tally ! i = (v, c)"
    unfolding find_Some_iff by metis
  then show c: "c = best_of tally" and "(v, c) \<in> set tally"
    by (simp, metis nth_mem)
  then show "2 \<le> c" "length (filter (\<lambda>p. snd p = c) tally) \<le> 1"
    using w by simp_all
qed

lemma winner_above:
  assumes "winner_of tally = Some (v, c)" "(w, m) \<in> set tally" "w \<noteq> v"
  shows "m < c"
proof (rule ccontr)
  assume "\<not> m < c"
  then have "m = c"
    using best_bounds [OF assms(2)] winner_entry(3) [OF assms(1)] by simp
  then have "{(v, c), (w, c)} \<subseteq> set (filter (\<lambda>p. snd p = c) tally)"
    using assms(2) winner_entry(1) [OF assms(1)] by simp
  then have "card {(v, c), (w, c)} \<le> length (filter (\<lambda>p. snd p = c) tally)"
    by (meson List.finite_set card_length card_mono le_trans)
  then show False
    using winner_entry(4) [OF assms(1)] assms(3) by simp
qed

lemma winner_exists:
  assumes "distinct (map fst tally)" "(v, c) \<in> set tally" "2 \<le> c" "\<And>w m. (w, m) \<in> set tally \<Longrightarrow> w \<noteq> v \<Longrightarrow> m < c"
  shows "winner_of tally = Some (v, c)"
proof -
  have only: "p = (v, c)" if "p \<in> set tally" "c \<le> snd p" for p
  proof (cases "fst p = v")
    case True
    then have "(v, snd p) \<in> set tally"
      using that(1) by (cases p) simp
    then show ?thesis
      using eq_key_imp_eq_value [OF assms(1) _ assms(2)] True by (cases p) simp
  next
    case False
    then show ?thesis
      using that assms(4) [of "fst p" "snd p"] by simp
  qed
  have best: "best_of tally = c"
  proof (rule antisym)
    show low: "c \<le> best_of tally"
      using assms(2) by (rule best_bounds)
    from best_attained [of tally] show "best_of tally \<le> c"
    proof
      assume "\<exists>w. (w, best_of tally) \<in> set tally"
      then obtain w where "(w, best_of tally) \<in> set tally" ..
      then show ?thesis
        using only [of "(w, best_of tally)"] low by simp
    qed simp
  qed
  have "set (filter (\<lambda>p. snd p = c) tally) = {(v, c)}"
  proof
    show "set (filter (\<lambda>p. snd p = c) tally) \<subseteq> {(v, c)}"
    proof
      fix p assume "p \<in> set (filter (\<lambda>p. snd p = c) tally)"
      then have "p \<in> set tally" "c \<le> snd p"
        by simp_all
      then show "p \<in> {(v, c)}"
        using only by blast
    qed
  qed (simp add: assms(2))
  moreover have "distinct (filter (\<lambda>p. snd p = c) tally)"
    using assms(1) by (simp add: distinct_map)
  ultimately have single: "length (filter (\<lambda>p. snd p = c) tally) = 1"
    using distinct_card [of "filter (\<lambda>p. snd p = c) tally"] by simp
  obtain q where q: "List.find (\<lambda>p. snd p = c) tally = Some q"
    using assms(2) by (cases "List.find (\<lambda>p. snd p = c) tally") (auto simp: find_None_iff)
  then obtain i where "i < length tally" "snd (tally ! i) = c" "tally ! i = q"
    unfolding find_Some_iff by metis
  then have "q \<in> set tally" "c \<le> snd q"
    using nth_mem by blast+
  then have "q = (v, c)"
    by (rule only)
  then show ?thesis
    using assms(3) q by (simp add: winner_of_def best single)
qed

section \<open>The vote\<close>

definition vote :: "('t \<times> u8) list \<Rightarrow> u8 \<Rightarrow> 't option option" where
  "vote tally none_count =
     (let silent = (if none_count \<ge> 2 \<and> none_count > best_of tally then Some None else None)
      in case winner_of tally of
           Some (v, count) \<Rightarrow>
             if count > none_count then Some (Some v)
             else if count = none_count \<and> none_count \<ge> 2 then None
             else if none_count < 2 then Some (Some v)
             else silent
         | None \<Rightarrow> silent)"

lemma majority_vote: "majority_optional xs = (case fold tally_step xs ([], 0) of (t, n) \<Rightarrow> vote t n)"
  by (simp add: majority_optional_def vote_def winner_of_def best_of_def tally_step_def [abs_def] Let_def case_prod_beta)

lemma tallied:
  assumes "tallies xs t n"
  shows "(v, m) \<in> set t \<Longrightarrow> unat m = count_list xs (Some v)"
    "0 < count_list xs (Some v) \<Longrightarrow> \<exists>m. (v, m) \<in> set t"
    "unat n = count_list xs None" "distinct (map fst t)"
proof -
  assume "0 < count_list xs (Some v)"
  then have "v \<in> fst ` set t"
    using assms by (auto simp: tallies_def count_list_0_iff)
  then show "\<exists>m. (v, m) \<in> set t"
    by auto
qed (use assms in \<open>auto simp: tallies_def\<close>)

lemma best_below:
  assumes "tallies xs t n"
  shows "best_of t < k \<longleftrightarrow> 0 < k \<and> (\<forall>v. count_list xs (Some v) < unat k)"
proof
  assume below: "best_of t < k"
  have "count_list xs (Some v) < unat k" for v
  proof (cases "count_list xs (Some v) = 0")
    case True
    then show ?thesis
      using below by (auto simp: word_less_nat_alt)
  next
    case False
    then obtain m where "(v, m) \<in> set t"
      using tallied(2) [OF assms] by blast
    then show ?thesis
      using best_bounds [of v m t] below tallied(1) [OF assms] by (force simp: word_less_nat_alt word_le_nat_alt)
  qed
  then show "0 < k \<and> (\<forall>v. count_list xs (Some v) < unat k)"
    using below by (auto simp: word_less_nat_alt)
next
  assume "0 < k \<and> (\<forall>v. count_list xs (Some v) < unat k)"
  then show "best_of t < k"
    using best_attained [of t] tallied(1) [OF assms] by (force simp: word_less_nat_alt)
qed

lemma winner_wins:
  assumes t: "tallies xs t n"
  shows "winner_of t = Some (v, c) \<longleftrightarrow>
    unat c = count_list xs (Some v) \<and> 2 \<le> count_list xs (Some v) \<and>
    (\<forall>w. w \<noteq> v \<longrightarrow> count_list xs (Some w) < count_list xs (Some v))"
proof
  assume win: "winner_of t = Some (v, c)"
  have c: "unat c = count_list xs (Some v)"
    using tallied(1) [OF t winner_entry(1) [OF win]] .
  have "count_list xs (Some w) < count_list xs (Some v)" if "w \<noteq> v" for w
  proof (cases "count_list xs (Some w) = 0")
    case True
    then show ?thesis
      using winner_entry(2) [OF win] by (simp add: word_le_nat_alt c)
  next
    case False
    then obtain m where m: "(w, m) \<in> set t"
      using tallied(2) [OF t] by blast
    then show ?thesis
      using winner_above [OF win m that] tallied(1) [OF t m] by (simp add: word_less_nat_alt c)
  qed
  then show "unat c = count_list xs (Some v) \<and> 2 \<le> count_list xs (Some v) \<and>
      (\<forall>w. w \<noteq> v \<longrightarrow> count_list xs (Some w) < count_list xs (Some v))"
    using c winner_entry(2) [OF win] by (simp add: word_le_nat_alt)
next
  assume r: "unat c = count_list xs (Some v) \<and> 2 \<le> count_list xs (Some v) \<and>
      (\<forall>w. w \<noteq> v \<longrightarrow> count_list xs (Some w) < count_list xs (Some v))"
  then obtain m where m: "(v, m) \<in> set t"
    using tallied(2) [OF t, of v] by auto
  have "m = c"
    using tallied(1) [OF t m] r by (simp add: word_unat_eq_iff)
  with m have "(v, c) \<in> set t"
    by simp
  then show "winner_of t = Some (v, c)"
    using r tallied(1) [OF t] by (intro winner_exists tallied(4) [OF t]) (auto simp: word_le_nat_alt word_less_nat_alt)
qed

lemma vote_wins:
  assumes t: "tallies xs t n"
  shows "vote t n = Some r \<longleftrightarrow> wins xs r"
proof -
  have n: "unat n = count_list xs None"
    using tallied(3) [OF t] .
  have silence: "2 \<le> n \<and> best_of t < n \<longleftrightarrow> wins xs None"
    unfolding best_below [OF t] by (auto simp: wins_def n word_le_nat_alt word_less_nat_alt)
  show ?thesis
  proof (cases "winner_of t")
    case None
    have "\<not> wins xs (Some v)" for v
    proof
      assume w: "wins xs (Some v)"
      then obtain m where "(v, m) \<in> set t"
        using tallied(2) [OF t, of v] by (auto simp: wins_def)
      then have "winner_of t = Some (v, m)"
        using w tallied(1) [OF t] by (simp add: winner_wins [OF t] wins_def)
      with None show False
        by simp
    qed
    then show ?thesis
      using silence None by (cases r) (auto simp: vote_def Let_def)
  next
    case (Some p)
    obtain v c where p: "p = (v, c)"
      by (cases p)
    have c: "unat c = count_list xs (Some v)" "2 \<le> count_list xs (Some v)"
      "\<And>w. w \<noteq> v \<Longrightarrow> count_list xs (Some w) < count_list xs (Some v)"
      using Some winner_wins [OF t] by (auto simp: p)
    have other: "x = None \<or> count_list xs x \<le> count_list xs (Some v)" for x
    proof (cases "x = Some v")
      case False
      then show ?thesis
        using c(3) by (cases x) (auto intro: less_imp_le)
    qed simp
    have only: "wins xs (Some w) \<longleftrightarrow> w = v \<and> n < c" for w
    proof
      assume w: "wins xs (Some w)"
      have "w = v"
      proof (rule ccontr)
        assume "w \<noteq> v"
        then show False
          using c(3) [of w] w [unfolded wins_def, THEN conjunct2, rule_format, of "Some v"] by simp
      qed
      then show "w = v \<and> n < c"
        using w [unfolded wins_def, THEN conjunct2, rule_format, of None] by (simp add: n c(1) word_less_nat_alt)
    next
      assume "w = v \<and> n < c"
      then have w: "w = v" "count_list xs None < count_list xs (Some v)"
        by (simp_all add: n c(1) word_less_nat_alt)
      have "count_list xs x < count_list xs (Some v)" if "x \<noteq> Some v" for x
        using that w(2) c(3) by (cases x) auto
      then show "wins xs (Some w)"
        using c(2) by (simp add: wins_def w(1))
    qed
    have quiet: "wins xs None \<longleftrightarrow> c < n"
    proof
      assume "wins xs None"
      then show "c < n"
        unfolding wins_def by (simp add: n c(1) word_less_nat_alt)
    next
      assume "c < n"
      then have more: "count_list xs (Some v) < count_list xs None"
        by (simp add: n c(1) word_less_nat_alt)
      then have "count_list xs x < count_list xs None" if "x \<noteq> None" for x
        using other [of x] that by linarith
      then show "wins xs None"
        using order_trans [OF c(2) less_imp_le [OF more]] by (simp add: wins_def)
    qed
    have "vote t n = (if n < c then Some (Some v) else if c < n then Some None else None)"
      using silence quiet c(2) Some by (auto simp: vote_def Let_def p not_less word_le_nat_alt word_less_nat_alt c(1) n word_unat_eq_iff)
    then show ?thesis
      using only quiet by (cases r) (auto split: if_split_asm)
  qed
qed

lemma majority_wins: "length xs \<le> 255 \<Longrightarrow> majority_optional xs = Some r \<longleftrightarrow> wins xs r"
  using tallies_fold [of xs] by (auto simp: majority_vote vote_wins split: prod.split)

text \<open>C24. For up to 255 samples the vote over repeated reads is exact: it returns a value, or
  silence, precisely when that answer was seen at least twice and strictly more often than every
  other answer.\<close>

theorem majority_is_exact:
  assumes "length samples \<le> 255"
  shows "majority_optional samples = Some r \<longleftrightarrow>
    2 \<le> count_list samples r \<and> (\<forall>x. x \<noteq> r \<longrightarrow> count_list samples x < count_list samples r)"
  using majority_wins [OF assms] by (simp add: wins_def)

theorem majority_is_exact_witness:
  "majority_optional [Some 3, None, Some 3, Some (4 :: nat)] = Some (Some 3)"
  by (rule majority_is_exact [THEN iffD2]) (auto split: if_split_asm)

section \<open>The table of bytes\<close>

text \<open>The entries of the table that were seen, in ascending order of their byte.\<close>

definition entries_from :: "nat \<Rightarrow> u8 list \<Rightarrow> (u8 \<times> u8) list" where
  "entries_from k counts = filter (\<lambda>p. snd p \<noteq> 0) (zip (map word_of_nat [k..<k + length counts]) counts)"

definition scan_step :: "u8 \<times> u8 \<Rightarrow> (u8 \<times> u8) option \<times> bool \<Rightarrow> (u8 \<times> u8) option \<times> bool" where
  "scan_step = (\<lambda>(v, n) (best, tied). case best of
     None \<Rightarrow> (Some (v, n), False)
   | Some (w, m) \<Rightarrow> if m < n then (Some (v, n), False) else if n = m then (best, True) else (best, tied))"

lemma scan_step_simps:
  "scan_step (v, n) (None, tied) = (Some (v, n), False)"
  "scan_step (v, n) (Some (w, m), tied) =
     (if m < n then (Some (v, n), False) else if n = m then (Some (w, m), True) else (Some (w, m), tied))"
  by (simp_all add: scan_step_def)

lemma entries_Cons:
  "entries_from k (n # counts) = (if n = 0 then [] else [(word_of_nat k, n)]) @ entries_from (Suc k) counts"
proof -
  have "[k..<k + length (n # counts)] = k # [Suc k..<Suc k + length counts]"
    by (subst upt_conv_Cons) simp_all
  then show ?thesis
    unfolding entries_from_def by (simp del: upt_Suc)
qed

lemma scan_entries:
  "best_unique_scan counts k best tied = fold scan_step (entries_from k counts) (best, tied)"
proof (induction counts arbitrary: k best tied)
  case (Cons n counts)
  then show ?case
    by (cases best) (auto simp: entries_Cons scan_step_simps)
qed (simp add: entries_from_def)

lemma scan_best:
  "es \<noteq> [] \<Longrightarrow> \<forall>p \<in> set es. snd p \<noteq> 0 \<Longrightarrow>
     \<exists>v. fold scan_step es (None, False) = (Some (v, best_of es), length (filter (\<lambda>p. snd p = best_of es) es) > 1) \<and>
       (v, best_of es) \<in> set es"
proof (induction es rule: rev_induct)
  case (snoc p es)
  obtain u n where p: "p = (u, n)"
    by (cases p)
  have best: "best_of (es @ [(u, n)]) = max n (best_of es)"
    by (simp add: best_of_def)
  show ?case
  proof (cases "es = []")
    case True
    then show ?thesis
      using snoc.prems by (simp add: p scan_step_simps best_of_def)
  next
    case False
    then obtain v where v: "fold scan_step es (None, False) = (Some (v, best_of es), length (filter (\<lambda>p. snd p = best_of es) es) > 1)"
        "(v, best_of es) \<in> set es"
      using snoc by auto
    have none: "filter (\<lambda>q. snd q = n) es = []" if "best_of es < n"
      using that best_bounds [of _ _ es] by (auto simp: filter_empty_conv) (metis not_le prod.collapse)
    have some: "filter (\<lambda>q. snd q = best_of es) es \<noteq> []"
      using v(2) by (force simp: filter_empty_conv)
    consider "best_of es < n" | "n = best_of es" | "n < best_of es"
      by (rule linorder_cases)
    then show ?thesis
    proof cases
      case 1
      then show ?thesis
        by (auto simp: v(1) best p scan_step_simps none max_def)
    next
      case 2
      then show ?thesis
        using v(2) some by (auto simp: v(1) best [unfolded 2] p scan_step_simps)
    next
      case 3
      then show ?thesis
        using v(2) by (auto simp: v(1) best p scan_step_simps max_def)
    qed
  qed
qed simp

lemma find_first: "filter P xs = q # qs \<Longrightarrow> List.find P xs = Some q"
  by (induction xs) (auto split: if_split_asm)

lemma best_unique_winner:
  assumes "es = entries_from 0 counts"
  shows "best_unique_byte counts = winner_of es"
proof (cases "es = []")
  case True
  then show ?thesis
    using assms by (simp add: best_unique_byte_def scan_entries winner_of_def best_of_def)
next
  case False
  have "\<forall>p \<in> set es. snd p \<noteq> 0"
    by (simp add: assms entries_from_def)
  then obtain v where v: "fold scan_step es (None, False) = (Some (v, best_of es), length (filter (\<lambda>p. snd p = best_of es) es) > 1)"
      "(v, best_of es) \<in> set es"
    using scan_best [OF False] by blast
  have "List.find (\<lambda>p. snd p = best_of es) es = Some (v, best_of es)"
    if single: "\<not> length (filter (\<lambda>p. snd p = best_of es) es) > 1"
  proof -
    obtain q where q: "filter (\<lambda>p. snd p = best_of es) es = [q]"
      using single v(2) by (cases "filter (\<lambda>p. snd p = best_of es) es") (force simp: filter_empty_conv)+
    then have "q = (v, best_of es)"
    proof -
      have "(v, best_of es) \<in> set (filter (\<lambda>p. snd p = best_of es) es)"
        using v(2) by simp
      then show ?thesis
        unfolding q by simp
    qed
    then show ?thesis
      using q by (simp add: find_first)
  qed
  then show ?thesis
    by (simp add: best_unique_byte_def scan_entries assms [symmetric] v(1) winner_of_def Let_def)
qed

lemma entries_table:
  assumes "length counts = 256"
  shows "(v, n) \<in> set (entries_from 0 counts) \<longleftrightarrow> n \<noteq> 0 \<and> counts ! unat v = n"
proof -
  have "(v, n) \<in> set (zip (map word_of_nat [0..<256]) counts) \<longleftrightarrow> counts ! unat v = n"
  proof
    assume "(v, n) \<in> set (zip (map word_of_nat [0..<256]) counts)"
    then show "counts ! unat v = n"
      using assms by (auto simp: set_zip unat_of_nat)
  next
    assume "counts ! unat v = n"
    then show "(v, n) \<in> set (zip (map word_of_nat [0..<256]) counts)"
      using assms unsigned_less [of v, where 'a = nat]
      by (auto simp: set_zip intro!: exI [of _ "unat v"])
  qed
  then show ?thesis
    by (auto simp: entries_from_def assms)
qed

lemma entries_distinct:
  assumes "length counts = 256"
  shows "distinct (map fst (entries_from 0 counts))"
proof -
  have "inj_on (word_of_nat :: nat \<Rightarrow> u8) {0..<256}"
    by (rule inj_on_inverseI [of _ unat]) (simp add: unat_of_nat)
  then have "distinct (map (word_of_nat :: nat \<Rightarrow> u8) [0..<256])"
    by (simp add: distinct_map)
  then have "distinct (map fst (zip (map (word_of_nat :: nat \<Rightarrow> u8) [0..<256]) counts))"
    using assms by simp
  then show ?thesis
    unfolding entries_from_def by (simp add: assms distinct_map_filter)
qed

definition byte_step :: "u8 option \<Rightarrow> u8 list \<times> u8 \<Rightarrow> u8 list \<times> u8" where
  "byte_step s = (\<lambda>(counts, none_count).
     case s of Some v \<Rightarrow> (tally_byte v counts, none_count) | None \<Rightarrow> (counts, saturating_add none_count 1))"

lemma byte_step_simps:
  "byte_step None (counts, n) = (counts, saturating_add n 1)"
  "byte_step (Some v) (counts, n) = (tally_byte v counts, n)"
  by (simp_all add: byte_step_def)

lemma table_fold:
  "length xs \<le> 255 \<Longrightarrow> case fold byte_step xs (replicate 256 0, 0) of (counts, n) \<Rightarrow>
     length counts = 256 \<and> (\<forall>v. unat (counts ! unat v) = count_list xs (Some v)) \<and> unat n = count_list xs None"
proof (induction xs rule: rev_induct)
  case Nil
  then show ?case
    using unsigned_less [where 'a = nat and 'b = 8] by simp
next
  case (snoc x xs)
  obtain counts n where f: "fold byte_step xs (replicate 256 0, 0) = (counts, n)"
    by (metis prod.exhaust)
  have ih: "length counts = 256" "\<And>v. unat (counts ! unat v) = count_list xs (Some v)" "unat n = count_list xs None"
    using snoc by (simp_all add: f)
  have less: "count_list xs y < 255" for y
    using count_le_length [of xs y] snoc.prems by simp
  have in_table: "unat (v :: u8) < 256" for v
    using unsigned_less [of v, where 'a = nat] by simp
  show ?case
  proof (cases x)
    case None
    then show ?thesis
      using ih less [of None] by (simp add: f byte_step_simps saturating_count)
  next
    case (Some v)
    then show ?thesis
      using ih less [of "Some v"] in_table
      by (auto simp: f byte_step_simps tally_byte_def saturating_count nth_list_update dest: unsigned_word_eqI)
  qed
qed

lemma table_tallies:
  assumes "length counts = 256" "\<And>v. unat (counts ! unat v) = count_list xs (Some v)" "unat n = count_list xs None"
  shows "tallies xs (entries_from 0 counts) n"
proof -
  have "v \<in> fst ` set (entries_from 0 counts) \<longleftrightarrow> Some v \<in> set xs" for v
  proof -
    have "v \<in> fst ` set (entries_from 0 counts) \<longleftrightarrow> counts ! unat v \<noteq> 0"
      by (auto simp: image_iff entries_table [OF assms(1)] Bex_def)
    also have "\<dots> \<longleftrightarrow> count_list xs (Some v) \<noteq> 0"
      using assms(2) [of v] by (simp add: word_unat_eq_iff)
    finally show ?thesis
      by (simp add: count_list_0_iff)
  qed
  then show ?thesis
    using assms(2,3) entries_distinct [OF assms(1)] by (auto simp: tallies_def entries_table [OF assms(1)])
qed

lemma table_best: "fold max counts 0 = best_of (entries_from 0 counts)"
proof -
  have "map snd (filter (\<lambda>p. snd p \<noteq> 0) ps) = filter (\<lambda>n. n \<noteq> 0) (map snd ps)" for ps :: "(u8 \<times> u8) list"
    by (induction ps) auto
  then have "map snd (entries_from 0 counts) = filter (\<lambda>n. n \<noteq> 0) counts"
    by (simp add: entries_from_def)
  then have "set (0 # map snd (entries_from 0 counts)) = set (0 # counts)"
    by auto
  then show ?thesis
    unfolding best_Max Max.set_eq_fold [symmetric] by simp
qed

lemma byte_vote:
  "majority_optional_byte xs = (case fold byte_step xs (replicate 256 0, 0) of (counts, n) \<Rightarrow> vote (entries_from 0 counts) n)"
  by (simp add: majority_optional_byte_def vote_def best_unique_winner [OF refl] table_best byte_step_def [abs_def]
      Let_def case_prod_beta)

text \<open>C25. The two votes agree: for up to 255 byte samples the 256-entry table of
  \<open>majority_optional_byte\<close> elects what the list of \<open>majority_optional\<close> elects.\<close>

theorem byte_table_equivalent:
  assumes "length samples \<le> 255"
  shows "majority_optional_byte samples = majority_optional samples"
proof -
  obtain counts n where f: "fold byte_step samples (replicate 256 0, 0) = (counts, n)"
    by (metis prod.exhaust)
  have "tallies samples (entries_from 0 counts) n"
    using table_fold [OF assms] by (intro table_tallies) (simp_all add: f)
  then have "majority_optional_byte samples = Some r \<longleftrightarrow> wins samples r" for r
    by (simp add: byte_vote f vote_wins)
  then have "majority_optional_byte samples = Some r \<longleftrightarrow> majority_optional samples = Some r" for r
    by (simp add: majority_wins [OF assms])
  then show ?thesis
    by (cases "majority_optional samples") (metis not_None_eq)+
qed

theorem byte_table_equivalent_witness:
  "majority_optional_byte [Some 7, None, Some 7] = majority_optional [Some 7, None, Some 7]"
  by (rule byte_table_equivalent) simp

section \<open>Confirmed reads\<close>

text \<open>A read on a state that counts the reads made of it.\<close>

lemma confirm_samples_reads:
  assumes "\<And>c. fst (snd (read_once c)) \<le> Suc (fst c)"
  shows "fst (snd (confirm_samples read_once n samples c)) \<le> fst c + n"
proof (induction n arbitrary: samples c)
  case (Suc n)
  obtain r d where d: "read_once c = (r, d)"
    by (cases "read_once c")
  have step: "fst d \<le> Suc (fst c)"
    using assms [of c] by (simp add: d)
  show ?case
  proof (cases r)
    case (Inr p)
    have "fst (snd (confirm_samples read_once n (samples @ [fst p]) d)) \<le> fst c + Suc n"
      using Suc [of "samples @ [fst p]" d] step by linarith
    then show ?thesis
      using step by (cases p; cases "majority_optional (samples @ [fst p])") (simp_all add: d Inr Let_def)
  qed (use step in \<open>simp add: d\<close>)
qed simp

text \<open>C31. A confirmed read makes at most the configured number of reads, two at least, whatever the
  reads return.\<close>

theorem confirm_read_bound:
  assumes "\<And>c. fst (snd (read_once c)) \<le> Suc (fst c)"
  shows "fst (snd (confirm_observed_query policy read_once c)) \<le> fst c + unat (effective_max_samples policy)"
proof -
  obtain r d where d: "read_once c = (r, d)"
    by (cases "read_once c")
  have first: "fst d \<le> Suc (fst c)"
    using assms [of c] by (simp add: d)
  have two: "2 \<le> unat (effective_max_samples policy)"
    by (simp add: effective_max_samples_def word_less_nat_alt)
  have "fst (snd (confirm_samples read_once (unat (effective_max_samples policy) - 1) samples d))
      \<le> fst c + unat (effective_max_samples policy)" for samples
    using confirm_samples_reads [OF assms, of "unat (effective_max_samples policy) - 1" samples d] first two by linarith
  then show ?thesis
    using first two by (cases r) (auto simp: confirm_observed_query_def andThen_def d)
qed

theorem confirm_read_bound_witness:
  "fst (snd (confirm_observed_query content_confirm_default
      (\<lambda>(n, w). (Ok (if even n then Some n else None, True), (Suc n, w))) (0, ()))) \<le> 5"
  using confirm_read_bound [of "\<lambda>(n, w). (Ok (if even n then Some n else None, True), (Suc n, w))"
      content_confirm_default "(0, ())"]
  by (simp add: content_confirm_default_def effective_max_samples_def case_prod_beta)

end
