(* ===== verification/Executor_Rules.thy ===== *)
theory Executor_Rules
  imports Wire_Discipline
begin

text \<open>
  What the helpers of the executors promise (\<open>helpers.rs\<close>, \<open>config.rs\<close>): the
  classes of a transport error survive its rendering as text, fade times map to the nearest step,
  and the verify-and-repair loop drives at most three times.
\<close>

section \<open>Errors\<close>

lemma transport_error_table:
  "map_transport_error e = (case e of Held cause \<Rightarrow> Conflict (hold_message cause)
     | Preempted \<Rightarrow> OperationFailed ''preempted''
     | FrameError.Collision \<Rightarrow> OperationFailed ''bus_contended'' | FrameError.BusBusy \<Rightarrow> OperationFailed ''bus_contended''
     | _ \<Rightarrow> OperationFailed ''dali_transport_error'')"
proof (cases e)
  case (Held cause)
  then show ?thesis
    by (cases cause) (simp_all add: map_transport_error_def held_cause_in_def)
qed (simp_all add: map_transport_error_def held_cause_in_def)

text \<open>C28. Although transport errors reach the executors as text, their classes survive: an error is
  reported as a hold, a preemption or bus contention exactly when it was one, the three classes
  exclude each other, and the hold keeps its cause.\<close>

theorem transport_error_classes:
  "(is_held (map_transport_error e) \<longleftrightarrow> (\<exists>cause. e = Held cause)) \<and>
   (is_preempted (map_transport_error e) \<longleftrightarrow> e = Preempted) \<and>
   (is_bus_contended (map_transport_error e) \<longleftrightarrow> e = FrameError.Collision \<or> e = FrameError.BusBusy) \<and>
   map_transport_error (Held cause) = Conflict (hold_message cause) \<and>
   \<not> is_device_absent (map_transport_error e)"
proof (cases e)
  case (Held other)
  then show ?thesis
    by (cases other) (simp_all add: transport_error_table is_held_def is_preempted_def is_bus_contended_def is_device_absent_def)
qed (simp_all add: transport_error_table is_held_def is_preempted_def is_bus_contended_def is_device_absent_def)

section \<open>Fade times\<close>

definition fade_scan :: "u32 \<Rightarrow> nat list \<Rightarrow> u8 \<times> u32 \<Rightarrow> u8 \<times> u32" where
  "fade_scan ms = fold (\<lambda>step (best_step, best_diff).
     let diff = abs_diff ms (FADE_TIME_MS ! step)
     in if diff < best_diff then (word_of_nat step, diff) else (best_step, best_diff))"

lemma fade_scan_best:
  assumes "fade_scan ms steps (b, d) = (b', d')"
  shows "d' \<le> d" "\<And>k. k \<in> set steps \<Longrightarrow> d' \<le> abs_diff ms (FADE_TIME_MS ! k)"
    "(b', d') = (b, d) \<or> (\<exists>k \<in> set steps. b' = word_of_nat k \<and> d' = abs_diff ms (FADE_TIME_MS ! k))"
proof -
  have "d' \<le> d \<and> (\<forall>k \<in> set steps. d' \<le> abs_diff ms (FADE_TIME_MS ! k)) \<and>
      ((b', d') = (b, d) \<or> (\<exists>k \<in> set steps. b' = word_of_nat k \<and> d' = abs_diff ms (FADE_TIME_MS ! k)))"
    using assms
  proof (induction steps arbitrary: b d)
    case (Cons s steps)
    show ?case
    proof (cases "abs_diff ms (FADE_TIME_MS ! s) < d")
      case True
      then have "fade_scan ms steps (word_of_nat s, abs_diff ms (FADE_TIME_MS ! s)) = (b', d')"
        using Cons.prems by (simp add: fade_scan_def Let_def)
      from Cons.IH [OF this] True show ?thesis
        by (auto dest: order_trans)
    next
      case False
      then have "fade_scan ms steps (b, d) = (b', d')"
        using Cons.prems by (simp add: fade_scan_def Let_def)
      from Cons.IH [OF this] False show ?thesis
        by (auto simp: not_less dest: order_trans)
    qed
  qed (simp add: fade_scan_def)
  then show "d' \<le> d" "\<And>k. k \<in> set steps \<Longrightarrow> d' \<le> abs_diff ms (FADE_TIME_MS ! k)"
    "(b', d') = (b, d) \<or> (\<exists>k \<in> set steps. b' = word_of_nat k \<and> d' = abs_diff ms (FADE_TIME_MS ! k))"
    by blast+
qed

lemma abs_diff_top: "abs_diff ms 700 \<noteq> (- 1 :: u32)"
proof -
  have "unat (abs_diff ms 700) < 2 ^ 32 - 1"
    using unsigned_less [of ms, where 'a = nat]
    by (cases "ms < 700") (auto simp: abs_diff_def unat_sub word_less_nat_alt word_le_nat_alt not_less)
  then show ?thesis
    by (auto simp: unsigned_minus_1_eq_mask mask_eq_exp_minus_1)
qed

lemma fade_step_time: "k \<le> 15 \<Longrightarrow> fade_time_ms_from_dtr0 (word_of_nat k) = FADE_TIME_MS ! k"
  by (simp add: fade_time_ms_from_dtr0_def FADE_TIME_MS_def unat_of_nat)

lemma fade_steps_round_trip:
  "list_all (\<lambda>k. fade_time_dtr0_from_ms (FADE_TIME_MS ! k) = word_of_nat k) [0..<16]"
  by code_simp

text \<open>C29. A fade time is programmed as the nearest of the fifteen steps, and the time of a step
  comes back as that step.\<close>

theorem fade_time_nearest:
  assumes "ms \<noteq> 0" "1 \<le> k" "k \<le> 15"
  shows "abs_diff ms (fade_time_ms_from_dtr0 (fade_time_dtr0_from_ms ms)) \<le> abs_diff ms (FADE_TIME_MS ! k) \<and>
    fade_time_dtr0_from_ms (FADE_TIME_MS ! k) = word_of_nat k"
proof -
  obtain b d where scan: "fade_scan ms [1..<16] (1, - 1) = (b, d)"
    by (cases "fade_scan ms [1..<16] (1, - 1)")
  have b: "fade_time_dtr0_from_ms ms = b"
    using assms(1) scan by (simp add: fade_time_dtr0_from_ms_def fade_scan_def)
  have "d \<le> abs_diff ms 700"
    using fade_scan_best(2) [OF scan, of 1] by (simp add: FADE_TIME_MS_def)
  then have "d \<noteq> - 1"
    using abs_diff_top [of ms] by (auto simp: word_order.extremum_unique)
  then obtain s where "s \<in> {1..<16}" "b = word_of_nat s" "d = abs_diff ms (FADE_TIME_MS ! s)"
    using fade_scan_best(3) [OF scan] by auto
  moreover have "d \<le> abs_diff ms (FADE_TIME_MS ! k)"
    using fade_scan_best(2) [OF scan, of k] assms by simp
  ultimately show ?thesis
    using fade_steps_round_trip assms(3) by (simp add: b fade_step_time list_all_iff)
qed

theorem fade_time_nearest_witness:
  "abs_diff 1234 (fade_time_ms_from_dtr0 (fade_time_dtr0_from_ms 1234)) \<le> abs_diff 1234 (FADE_TIME_MS ! 3) \<and>
   fade_time_dtr0_from_ms (FADE_TIME_MS ! 3) = word_of_nat 3"
  by (rule fade_time_nearest) simp_all

section \<open>Program, verify, repair\<close>

lemma costs_repair:
  assumes "costs drive k"
  shows "costs (repair_loop drive converged n latest readback) (n * k)"
  unfolding costs_def
proof (induction n arbitrary: latest readback)
  case (Suc n)
  show ?case
  proof
    fix c :: "(nat \<times> 'a) DaliController"
    define c1 where "c1 = (if latest \<noteq> None then note_workaround ProgramRepair c else c)"
    obtain r c2 where c2: "drive c1 = (r, c2)"
      by (cases "drive c1")
    have "transfers c1 = transfers c"
      by (simp add: c1_def note_workaround_def quiet_simps)
    then have w2: "transfers c2 \<le> transfers c + k"
      using assms [unfolded costs_def, rule_format, of c1] by (simp add: c2)
    have "transfers (snd (repair_loop drive converged n l r c2)) \<le> transfers c + Suc n * k" for l r
      using Suc [rule_format, of l r c2] w2 by simp
    then show "transfers (snd (repair_loop drive converged (Suc n) latest readback c)) \<le> transfers c + Suc n * k"
      using w2 unfolding repair_loop.simps Let_def c1_def [symmetric] c2 by (auto split: sum.split)
  qed
qed simp

text \<open>C30. Programming with verification drives at most three times: whatever one drive costs on the
  wire, the whole loop costs at most three times that.\<close>

theorem verify_repair_cost:
  assumes "costs drive k"
  shows "costs (program_with_verify_repair drive converged) (3 * k)"
  unfolding program_with_verify_repair_def
  by (rule costs_andThen [OF assms costs_repair [OF assms]]) simp

lemma costs_mapErr: "costs m k \<Longrightarrow> costs (mapErr f m) k"
  by (simp add: costs_def mapErr_def case_prod_beta split: sum.split)

definition confirm_level :: "(nat \<times> FleetWorld) Wire \<Rightarrow> ((nat \<times> FleetWorld) DaliController, SemanticDaliError, u8 option) act" where
  "confirm_level io = send_standard_query_once io Broadcast QueryActualLevel"

theorem verify_repair_cost_witness:
  "costs (program_with_verify_repair (confirm_level (metered fleet_io)) (\<lambda>r. r = Some 254)) 3"
proof -
  have "costs (confirm_level (metered fleet_io)) 1"
    unfolding confirm_level_def send_standard_query_once_def
    by (rule costs_andThen [OF costs_mapErr [OF once_metered], of _ 0]) (auto simp: costs_pass)
  from verify_repair_cost [OF this] show ?thesis
    by simp
qed

end
