(* ===== verification/Level_Projection.thy ===== *)
theory Level_Projection
  imports Level_Band
begin

text \<open>
  The projection of a gear's state without asking it: \<open>resolve\<close> of
  \<open>dali2rust-domain/src/dali/level_transition.rs\<close> computes the level a relative command
  leaves, from the last known level and limits, and \<open>status.rs\<close> unpacks the status byte.
  Both are checked against the gear of theory \<open>Gear\<close>: what they claim is what the gear does.
\<close>

section \<open>Level transitions\<close>

datatype LevelTransition =
    LtRecallMaxLevel | LtRecallMinLevel | LtStepUp | LtStepDown | LtStepDownAndOff | LtOnAndStepUp
  | LtGoToLastActiveLevel | LtUp | LtDown

definition level_transition_of :: "StandardCommand \<Rightarrow> LevelTransition option" where
  "level_transition_of command =
     (case command of RecallMaxLevel \<Rightarrow> Some LtRecallMaxLevel | RecallMinLevel \<Rightarrow> Some LtRecallMinLevel
      | StepUp \<Rightarrow> Some LtStepUp | StepDown \<Rightarrow> Some LtStepDown | StepDownAndOff \<Rightarrow> Some LtStepDownAndOff
      | OnAndStepUp \<Rightarrow> Some LtOnAndStepUp | GoToLastActiveLevel \<Rightarrow> Some LtGoToLastActiveLevel | _ \<Rightarrow> None)"

record LevelContext =
  ctx_target_level :: "u8 option"
  ctx_min_level :: "u8 option"
  ctx_max_level :: "u8 option"
  ctx_last_active_level :: "u8 option"

datatype TransitionOutcome = LevelIs u8 | Unchanged | OnAtUnknownLevel | UnknownLevel

definition absolute :: "u8 option \<Rightarrow> u8 option \<Rightarrow> TransitionOutcome" where
  "absolute v stored =
     (case v of None \<Rightarrow> OnAtUnknownLevel
      | Some l \<Rightarrow> if stored = Some l then Unchanged else LevelIs l)"

definition unresolved :: "LevelTransition \<Rightarrow> TransitionOutcome" where
  "unresolved transition = (case transition of LtOnAndStepUp \<Rightarrow> OnAtUnknownLevel | _ \<Rightarrow> UnknownLevel)"

definition step_transition :: "LevelTransition \<Rightarrow> LevelContext \<Rightarrow> TransitionOutcome" where
  "step_transition transition ctx =
     (case (ctx_target_level ctx, ctx_min_level ctx, ctx_max_level ctx) of
        (Some t, Some lo, Some hi) \<Rightarrow>
          if lo > hi then unresolved transition
          else (case transition of
                  LtStepUp \<Rightarrow> if t = 0 then Unchanged else if t \<ge> hi then Unchanged
                    else if t \<ge> lo then LevelIs (saturating_add t 1) else UnknownLevel
                | LtStepDown \<Rightarrow> if t = 0 then Unchanged else if t \<le> lo then Unchanged
                    else if t \<le> hi then LevelIs (saturating_sub t 1) else UnknownLevel
                | LtStepDownAndOff \<Rightarrow> if t = 0 then Unchanged else if t \<le> lo then LevelIs 0
                    else if t \<le> hi then LevelIs (saturating_sub t 1) else UnknownLevel
                | LtOnAndStepUp \<Rightarrow> if t = 0 then LevelIs lo else if t \<ge> hi then Unchanged
                    else if t \<ge> lo then LevelIs (saturating_add t 1) else OnAtUnknownLevel
                | _ \<Rightarrow> UnknownLevel)
      | _ \<Rightarrow> unresolved transition)"

definition dim :: "LevelTransition \<Rightarrow> LevelContext \<Rightarrow> TransitionOutcome" where
  "dim transition ctx =
     (case ctx_target_level ctx of
        None \<Rightarrow> UnknownLevel
      | Some t \<Rightarrow>
          (let at_bound = (if transition = LtUp
                 then (case ctx_max_level ctx of Some hi \<Rightarrow> t \<ge> hi | None \<Rightarrow> False)
                 else (case ctx_min_level ctx of Some lo \<Rightarrow> t \<le> lo | None \<Rightarrow> False))
           in if t = 0 \<or> at_bound then Unchanged else OnAtUnknownLevel))"

definition resolve :: "LevelTransition \<Rightarrow> LevelContext \<Rightarrow> TransitionOutcome" where
  "resolve transition ctx =
     (case transition of
        LtRecallMaxLevel \<Rightarrow> absolute (ctx_max_level ctx) (ctx_target_level ctx)
      | LtRecallMinLevel \<Rightarrow> absolute (ctx_min_level ctx) (ctx_target_level ctx)
      | LtGoToLastActiveLevel \<Rightarrow> absolute (ctx_last_active_level ctx) (ctx_target_level ctx)
      | LtUp \<Rightarrow> dim transition ctx
      | LtDown \<Rightarrow> dim transition ctx
      | _ \<Rightarrow> step_transition transition ctx)"

section \<open>Status bytes\<close>

record StatusFlags =
  sf_raw :: u8
  sf_lamp_failure :: bool
  sf_gear_failure :: bool
  sf_lamp_on :: bool
  sf_limit_error :: bool
  sf_fade_running :: bool
  sf_reset_state :: bool
  sf_missing_short_address :: bool
  sf_power_cycle_seen :: bool

definition status_decode :: "u8 \<Rightarrow> StatusFlags" where
  "status_decode r =
     \<lparr>sf_raw = r, sf_lamp_failure = (r AND 0x02 \<noteq> 0), sf_gear_failure = (r AND 0x01 \<noteq> 0),
      sf_lamp_on = (r AND 0x04 \<noteq> 0), sf_limit_error = (r AND 0x08 \<noteq> 0), sf_fade_running = (r AND 0x10 \<noteq> 0),
      sf_reset_state = (r AND 0x20 \<noteq> 0), sf_missing_short_address = (r AND 0x40 \<noteq> 0),
      sf_power_cycle_seen = (r AND 0x80 \<noteq> 0)\<rparr>"

definition status_encode :: "StatusFlags \<Rightarrow> u8" where
  "status_encode f =
     (let r = 0;
          r = (if sf_gear_failure f then r OR 0x01 else r);
          r = (if sf_lamp_failure f then r OR 0x02 else r);
          r = (if sf_lamp_on f then r OR 0x04 else r);
          r = (if sf_limit_error f then r OR 0x08 else r);
          r = (if sf_fade_running f then r OR 0x10 else r);
          r = (if sf_reset_state f then r OR 0x20 else r);
          r = (if sf_missing_short_address f then r OR 0x40 else r)
      in if sf_power_cycle_seen f then r OR 0x80 else r)"

text \<open>C32. The two directions of the status byte are inverse: encoding the flags of a byte gives the
  byte, and decoding an encoded set of flags gives the flags.\<close>

theorem status_round_trip:
  "status_encode (status_decode r) = r \<and> (status_decode (status_encode f))\<lparr>sf_raw := sf_raw f\<rparr> = f"
proof
  show "status_encode (status_decode r) = r"
    by (rule all_octets [of "\<lambda>r. status_encode (status_decode r) = r"]) code_simp
  show "(status_decode (status_encode f))\<lparr>sf_raw := sf_raw f\<rparr> = f"
    by (cases f) (auto simp: status_encode_def status_decode_def Let_def)
qed

section \<open>Agreement with the gear\<close>

text \<open>What a registry that has read the gear knows of it.\<close>

definition known_levels :: "Gear \<Rightarrow> LevelContext" where
  "known_levels g = \<lparr>ctx_target_level = Some (level g), ctx_min_level = Some (min_level g),
     ctx_max_level = Some (max_level g), ctx_last_active_level = Some (last_active_level g)\<rparr>"

definition outcome_of :: "TransitionOutcome \<Rightarrow> u8 \<Rightarrow> u8 \<Rightarrow> bool" where
  "outcome_of oc before after = (case oc of LevelIs l \<Rightarrow> after = l | Unchanged \<Rightarrow> after = before
     | OnAtUnknownLevel \<Rightarrow> after > 0 | UnknownLevel \<Rightarrow> False)"

text \<open>The variables a level command reads.\<close>

definition dimming :: "Gear \<Rightarrow> u8 \<times> u8 \<times> u8 \<times> u8" where
  "dimming g = (level g, min_level g, max_level g, last_active_level g)"

lemma dimming_activation: "dimming (arc_power_activation g) = dimming g"
  by (auto simp: dimming_def arc_power_activation_def activate_pending_color_def unlink_all_channels_def
      commit_pending_cct_def commit_pending_rgbwaf_def Let_def split: ColorMode.split)

text \<open>The level a command leaves, as a function of these variables.\<close>

definition level_after :: "StandardCommand \<Rightarrow> u8 \<times> u8 \<times> u8 \<times> u8 \<Rightarrow> u8" where
  "level_after command = (\<lambda>(l, lo, hi, active).
     let set = (\<lambda>v. if v = 0 then 0 else clamp v lo hi) in
     case command of RecallMaxLevel \<Rightarrow> set hi | RecallMinLevel \<Rightarrow> set lo | GoToLastActiveLevel \<Rightarrow> set active
     | StepUp \<Rightarrow> if l > 0 then set (saturating_add l 1) else l
     | StepDown \<Rightarrow> if l > 0 then set (max (saturating_sub l 1) lo) else l
     | StepDownAndOff \<Rightarrow> if l \<le> lo then 0 else set (saturating_sub l 1)
     | OnAndStepUp \<Rightarrow> if l = 0 then set lo else set (saturating_add l 1)
     | _ \<Rightarrow> l)"

lemma level_set_level: "level (set_level l g) = (if l = 0 then 0 else clamp l (min_level g) (max_level g))"
  by (simp add: set_level_def Let_def)

lemma level_write_after:
  assumes "level_transition_of command = Some t"
  shows "level (apply_level_write command g) = level_after command (dimming g)"
proof -
  define h where "h = (if clears_power_cycle_seen command then g\<lparr>power_cycle_seen := False\<rparr> else g)"
  define k where "k = (if is_arc_power_change command then arc_power_activation h else h)"
  have "dimming k = dimming h" "dimming h = dimming g"
    by (simp_all add: k_def dimming_activation) (simp add: h_def dimming_def)
  then have k: "level k = level g" "min_level k = min_level g" "max_level k = max_level g"
      "last_active_level k = last_active_level g"
    by (simp_all add: dimming_def)
  show ?thesis
    unfolding apply_level_write_def Let_def h_def [symmetric] k_def [symmetric]
    using assms by (cases command) (simp_all add: level_transition_of_def level_after_def dimming_def level_set_level k
        level_up_def level_down_def step_down_and_off_def on_and_step_up_def)
qed

lemma standard_write_after:
  assumes "level_transition_of command = Some t"
  shows "level (apply_standard_write command d g) = level_after command (dimming g)"
proof -
  define h where "h = apply_identify_state command
     (if command = EnableWriteMemory then g\<lparr>device_type_walk := None, write_enabled := True\<rparr>
      else g\<lparr>device_type_walk := None\<rparr>)"
  have "dimming h = dimming g"
    by (simp add: h_def apply_identify_state_def dimming_def)
  moreover have "apply_config_write command d x = x" for x
    using assms by (cases command) (simp_all add: level_transition_of_def apply_config_write_def Let_def)
  ultimately show ?thesis
    using level_write_after [OF assms, of h] by (simp add: apply_standard_write_def Let_def h_def [symmetric])
qed

lemma unat_clamp: "unat (clamp a b c) = clamp (unat a) (unat b) (unat c)" for a b c :: "'a::len word"
  by (simp add: clamp_def word_less_nat_alt)

lemma after_step:
  fixes l lo hi active :: u8
  assumes "1 \<le> lo" "lo \<le> hi" "hi \<le> 254" "l = 0 \<or> (lo \<le> l \<and> l \<le> hi)" "lo \<le> active" "active \<le> hi"
    "level_transition_of command = Some t"
  shows "outcome_of (resolve t \<lparr>ctx_target_level = Some l, ctx_min_level = Some lo, ctx_max_level = Some hi,
      ctx_last_active_level = Some active\<rparr>) l (level_after command (l, lo, hi, active))"
  using assms
  by (cases command)
    (auto simp: level_transition_of_def level_after_def resolve_def absolute_def step_transition_def outcome_of_def Let_def
      word_le_nat_alt word_less_nat_alt word_unat_eq_iff unat_clamp unat_saturating_add unat_saturating_sub clamp_def)

text \<open>C26. What the registry projects for a relative level command is what the gear does: from the
  levels it has read of a gear with valid limits, the projected level is the level the gear goes to,
  \<open>Unchanged\<close> is said only when the level stays, and no case is left unknown.\<close>

theorem projection_matches_gear:
  assumes "levels_ok g" "min_level g \<le> last_active_level g" "last_active_level g \<le> max_level g"
    "level_transition_of command = Some t"
  shows "outcome_of (resolve t (known_levels g)) (level g) (level (apply_standard_write command d g))"
proof -
  have "level g = 0 \<or> (min_level g \<le> level g \<and> level g \<le> max_level g)"
    using assms(1) by (simp add: levels_ok_def)
  then show ?thesis
    using after_step [OF levels_ok_limits [OF assms(1)] _ assms(2,3,4), of "level g"]
    by (simp add: standard_write_after [OF assms(4)] known_levels_def dimming_def)
qed

theorem projection_matches_gear_witness:
  "outcome_of (resolve LtStepDownAndOff (known_levels (set_level 1 (gear_new (spec_dt6 None 0))))) 1
     (level (apply_standard_write StepDownAndOff 0 (set_level 1 (gear_new (spec_dt6 None 0)))))"
proof -
  have "levels_ok (set_level 1 (gear_new (spec_dt6 None 0)))"
    by (rule set_level_ok, rule gear_new_levels) (simp_all add: spec_dt6_def)
  moreover have "level (set_level 1 (gear_new (spec_dt6 None 0))) = 1" "min_level (set_level 1 (gear_new (spec_dt6 None 0))) = 1"
    "max_level (set_level 1 (gear_new (spec_dt6 None 0))) = 254" "last_active_level (set_level 1 (gear_new (spec_dt6 None 0))) = 1"
    by (simp_all add: set_level_def gear_new_def spec_dt6_def clamp_def)
  ultimately show ?thesis
    using projection_matches_gear [of "set_level 1 (gear_new (spec_dt6 None 0))" StepDownAndOff LtStepDownAndOff 0]
    by (simp add: level_transition_of_def)
qed

text \<open>
  The limits on the last active level are needed: lowering the maximum of a gear that is off leaves
  its last active level above it, and the projection, which does not clamp, then names a level the
  gear does not go to.
\<close>

lemma last_active_projection_unclamped:
  "let g = set_max_level 100 (gear_new (spec_dt6 None 0)) in
   levels_ok g \<and> resolve LtGoToLastActiveLevel (known_levels g) = LevelIs 254 \<and>
   level (apply_standard_write GoToLastActiveLevel 0 g) = 100"
  by code_simp

text \<open>C27. The status byte of a gear without injected faults, unpacked, tells the gear's state flag by
  flag: lamp, limit, reset, power cycle and missing address.\<close>

theorem status_tells_gear:
  assumes "forced_status (faults g) = 0"
  shows "status_decode (status_byte g) =
    \<lparr>sf_raw = status_byte g, sf_lamp_failure = (lamp_failure g \<or> lamp_failure_from_207 g), sf_gear_failure = False,
     sf_lamp_on = lamp_on g, sf_limit_error = limit_error g, sf_fade_running = False, sf_reset_state = reset_state g,
     sf_missing_short_address = (short_address (spec g) = None), sf_power_cycle_seen = power_cycle_seen g\<rparr>"
  by (simp add: status_decode_def) (simp add: status_byte_def assms Let_def)

theorem status_tells_gear_witness:
  "status_decode (status_byte (gear_new (spec_dt6 None 0))) =
    \<lparr>sf_raw = 0xE0, sf_lamp_failure = False, sf_gear_failure = False, sf_lamp_on = False, sf_limit_error = False,
     sf_fade_running = False, sf_reset_state = True, sf_missing_short_address = True, sf_power_cycle_seen = True\<rparr>"
proof -
  define g where "g = gear_new (spec_dt6 None 0)"
  have "status_byte g = 0xE0" "\<not> lamp_failure g" "\<not> lamp_failure_from_207 g" "\<not> lamp_on g" "\<not> limit_error g"
    "reset_state g" "short_address (spec g) = None" "power_cycle_seen g" "forced_status (faults g) = 0"
    unfolding g_def by code_simp+
  then show ?thesis
    using status_tells_gear [of g] unfolding g_def by simp
qed

end
