(* ===== verification/Line_Code.thy ===== *)
theory Line_Code
  imports Manchester
begin

text \<open>
  The line code is inverted by the decoder: a capture in which every bit of an encoded frame fills one
  sample byte is decoded to that frame, and the phase search of any capture ends.
\<close>

section \<open>The phase search ends\<close>

lemma search_last: "ps_step s > 4 \<Longrightarrow> phase_search_run w s = Some (accepted (ps_best s))"
  by (subst phase_search_run.simps) (auto simp: phase_search_step_def)

lemma step_progress:
  assumes "phase_search_step w s = (Searching, s')"
  shows "unat (ps_step s') = Suc (unat (ps_step s)) \<and> unat (ps_step s') \<le> 4"
proof (cases "ps_step s = 0")
  case True
  with assms show ?thesis
    by (auto simp: phase_search_step_def Let_def split: if_split_asm)
next
  case False
  with assms have "ps_step s' = saturating_add (ps_step s) 1" "\<not> 4 < ps_step s" "\<not> 4 < ps_step s'"
    by (auto simp: phase_search_step_def Let_def split: if_split_asm option.split_asm)
  then show ?thesis
    by (simp add: word_less_nat_alt unat_saturating_add)
qed

lemma search_ends: "phase_search_run w s \<noteq> None"
proof (induction "4 - unat (ps_step s)" arbitrary: s rule: less_induct)
  case less
  obtain r s' where step: "phase_search_step w s = (r, s')"
    by (cases "phase_search_step w s")
  show ?case
  proof (cases r)
    case Searching
    with step_progress [of w s s'] step have "unat (ps_step s') = Suc (unat (ps_step s))" "unat (ps_step s') \<le> 4"
      by simp_all
    then have "4 - unat (ps_step s') < 4 - unat (ps_step s)"
      by linarith
    from less [OF this] show ?thesis
      by (subst phase_search_run.simps) (simp add: step Searching)
  next
    case Done
    then show ?thesis
      by (subst phase_search_run.simps) (simp add: step)
  qed
qed

text \<open>C16. Decoding a capture always returns, whatever was sampled and however many samples are claimed.\<close>

theorem capture_decoding_ends: "decode_sniffed ev \<noteq> None \<and> decode_backward_byte ev \<noteq> None"
proof -
  have "try_decode ev p \<noteq> None" for p
    by (simp add: try_decode_def search_ends)
  then show ?thesis
    by (auto simp: decode_sniffed_def decode_sniffed_with_phase_def decode_backward_byte_def
        split: option.split IsrDecode.split) (metis not_Some_eq)+
qed

section \<open>Peeking at aligned samples\<close>

definition sample_of :: "bool \<Rightarrow> u8" where
  "sample_of b = (if b then 0x0F else 0xF0)"

definition glue :: "nat \<Rightarrow> u8 \<Rightarrow> u8 \<Rightarrow> u8" where
  "glue j a b = ucast ((push_bit j (ucast a) :: u16) OR drop_bit (8 - j) (ucast b))"

definition stop_of :: "u8 \<Rightarrow> PeekStop" where
  "stop_of v = (if v = 0xFF then PeekIdle else if v = 0 then PeekHeld else PeekNone)"

lemma position_split:
  assumes "k \<le> 64" "j < 8"
  shows "drop_bit 3 (word_of_nat (8 * k + j) :: u16) = word_of_nat k"
    and "(word_of_nat (8 * k + j) :: u16) AND 7 = word_of_nat j"
    and "0 \<le> sint (word_of_nat (8 * k + j) :: u16)"
proof -
  have u: "unat (word_of_nat (8 * k + j) :: u16) = 8 * k + j" "unat (word_of_nat k :: u16) = k"
    "unat (word_of_nat j :: u16) = j"
    using assms by (simp_all add: unat_of_nat del: of_nat_add of_nat_mult)
  show "drop_bit 3 (word_of_nat (8 * k + j) :: u16) = word_of_nat k"
    using assms u by (simp add: word_unat_eq_iff drop_bit_eq_div unat_div_distrib del: of_nat_add of_nat_mult)
  have "x AND 7 = take_bit 3 x" for x :: u16
    unfolding take_bit_eq_mask by (simp add: mask_eq_exp_minus_1)
  moreover have "(8 * k + j) mod 8 = j"
    using assms(2) by simp
  ultimately show "(word_of_nat (8 * k + j) :: u16) AND 7 = word_of_nat j"
    using u by (simp add: word_unat_eq_iff take_bit_eq_mod unat_mod_distrib del: of_nat_add of_nat_mult)
  show "0 \<le> sint (word_of_nat (8 * k + j) :: u16)"
    using assms by (simp add: signed_of_nat signed_take_bit_int_eq_self del: of_nat_add of_nat_mult)
qed

lemma peek_glue:
  assumes "k \<le> 64" "j < 8" "window_byte w (word_of_nat k) = Some a" "window_byte w (word_of_nat (Suc k)) = Some b"
  shows "peek8 w (word_of_nat (8 * k + j)) 0 = (glue j a b, stop_of (glue j a b))"
proof -
  have "saturating_add (word_of_nat k) (1 :: u16) = word_of_nat (Suc k)"
    using assms(1) by (simp add: word_unat_eq_iff unat_saturating_add unat_of_nat del: of_nat_Suc)
  moreover have "unat (word_of_nat j :: u16) = j"
    using assms(2) by (simp add: unat_of_nat)
  ultimately show ?thesis
    using assms position_split [OF assms(1,2)] by (simp add: peek8_def Let_def glue_def stop_of_def)
qed

lemma glue_whole [simp]: "glue 0 a b = a"
proof -
  have "drop_bit 8 (ucast b :: u16) = 0"
    by (rule bit_word_eqI) (simp add: bit_simps)
  then show ?thesis
    by (simp add: glue_def unsigned_ucast_eq take_bit_word_eq_self)
qed

lemma weight_sample: "sample_weight (sample_of c) = (if c then 25 else 24)"
  by (cases c; simp add: sample_of_def; code_simp)

lemma weight_early: "sample_weight (glue 7 (sample_of p) (sample_of c)) \<le> 24"
  by (cases p; cases c; simp add: sample_of_def; code_simp)

lemma weight_late:
  assumes "nxt \<in> {0x0F, 0xF0, 0xFF}"
  shows "sample_weight (glue 1 (sample_of c) nxt) \<le> 24" "stop_of (glue 1 (sample_of c) nxt) = PeekNone"
  using assms by (cases c; elim insertE; simp add: sample_of_def; code_simp)+

lemma peek_around:
  assumes "k \<le> 60" "window_byte w (word_of_nat k) = Some (sample_of p)" "window_byte w (word_of_nat (k + 1)) = Some (sample_of c)"
    "window_byte w (word_of_nat (k + 2)) = Some nxt" "nxt \<in> {0x0F, 0xF0, 0xFF}"
  shows "weighted_peek_around w (word_of_nat (8 * (k + 1))) 0 = (if c then 25 else 24, 8, PeekNone)"
proof -
  have centre: "peek8 w (word_of_nat (8 * (k + 1))) 0 = (sample_of c, stop_of (sample_of c))"
    using peek_glue [of "k + 1" 0 w "sample_of c" nxt] assms by simp
  have "(word_of_nat (8 * (k + 1)) :: u16) - 1 = word_of_nat (8 * k + 7)"
    by simp
  then have early: "peek8 w (word_of_nat (8 * (k + 1)) - 1) 0 = (glue 7 (sample_of p) (sample_of c), stop_of (glue 7 (sample_of p) (sample_of c)))"
    using peek_glue [of k 7 w "sample_of p" "sample_of c"] assms by (simp add: add.commute)
  have "saturating_add (word_of_nat (8 * (k + 1)) :: u16) 1 = word_of_nat (8 * (k + 1) + 1)"
    using assms(1) by (simp add: word_unat_eq_iff unat_saturating_add unat_of_nat del: of_nat_Suc of_nat_add of_nat_mult)
  then have late: "peek8 w (saturating_add (word_of_nat (8 * (k + 1))) 1) 0 = (glue 1 (sample_of c) nxt, stop_of (glue 1 (sample_of c) nxt))"
    using peek_glue [of "k + 1" 1 w "sample_of c" nxt] assms by simp
  have "\<not> (if c then 25 else 24 :: u8) < sample_weight (glue 7 (sample_of p) (sample_of c))"
    "\<not> (if c then 25 else 24 :: u8) < sample_weight (glue 1 (sample_of c) nxt)"
    using weight_early [of p c] weight_late(1) [OF assms(5), of c] by (auto simp: not_less intro: order_trans)
  then show ?thesis
    unfolding weighted_peek_around_def centre early late
    using weight_late(2) [OF assms(5), of c] by (simp add: weight_sample)
qed

lemma peek_start:
  assumes "window_byte w 0 = Some (sample_of True)" "window_byte w 1 = Some (sample_of c)"
  shows "weighted_peek_around w 1 0 = (25, 7, PeekNone)"
proof -
  have p: "peek8 w (word_of_nat j) 0 = (glue j (sample_of True) (sample_of c), stop_of (glue j (sample_of True) (sample_of c)))"
    if "j < 8" for j
    using peek_glue [of 0 j w "sample_of True" "sample_of c"] that assms by simp
  have "saturating_add 1 1 = (2 :: u16)"
    by (simp add: saturating_add_def)
  moreover have "sample_weight (glue 1 (sample_of True) (sample_of c)) < 25"
      "sample_weight (glue 2 (sample_of True) (sample_of c)) < 25" "stop_of (glue 2 (sample_of True) (sample_of c)) = PeekNone"
    by (cases c; simp add: sample_of_def; code_simp)+
  ultimately show ?thesis
    using p [of 0] p [of 1] p [of 2] by (auto simp: weighted_peek_around_def weight_sample Let_def not_less less_imp_le)
qed

lemma peek_end:
  assumes "k \<le> 60" "window_byte w (word_of_nat k) = Some 0xFF" "window_byte w (word_of_nat (k + 1)) = Some 0xFF"
  shows "snd (snd (weighted_peek_around w (word_of_nat (8 * k)) 0)) = PeekIdle"
proof -
  have "saturating_add (word_of_nat (8 * k) :: u16) 1 = word_of_nat (8 * k + 1)"
    using assms(1) by (simp add: word_unat_eq_iff unat_saturating_add unat_of_nat del: of_nat_Suc of_nat_add of_nat_mult)
  moreover have "glue 1 0xFF 0xFF = 0xFF"
    by code_simp
  ultimately have "peek8 w (saturating_add (word_of_nat (8 * k)) 1) 0 = (0xFF, PeekIdle)"
    using peek_glue [of k 1 w "0xFF" "0xFF"] assms by (simp add: stop_of_def)
  then show ?thesis
    by (simp add: weighted_peek_around_def case_prod_beta Let_def)
qed

section \<open>The decoding loop\<close>

text \<open>The bits of a frame, decoded into its octets from position \<open>k\<close> on.\<close>

fun push_from :: "nat \<Rightarrow> bool list \<Rightarrow> u8 list \<Rightarrow> u8 list" where
  "push_from k [] d = d"
| "push_from k (b # bs) d = push_from (Suc k) bs (push_decoded_bit (word_of_nat k) (if b then 25 else 24) d)"

text \<open>A window in which the start bit and the bits \<open>bs\<close> fill one byte each, before an idle line.\<close>

definition clean :: "SampleWindow \<Rightarrow> bool list \<Rightarrow> bool" where
  "clean w bs \<longleftrightarrow> length bs \<le> 31 \<and> win_bits w > word_of_nat (8 * (length bs + 1) + 1) \<and>
     (\<forall>i < length bs + 3. window_byte w (word_of_nat i) = Some ((map sample_of (True # bs) @ [0xFF, 0xFF]) ! i))"

lemma clean_byte:
  assumes "clean w bs"
  shows "i \<le> length bs \<Longrightarrow> window_byte w (word_of_nat i) = Some (sample_of ((True # bs) ! i))"
    and "window_byte w (word_of_nat (length bs + 1)) = Some 0xFF"
    and "window_byte w (word_of_nat (length bs + 2)) = Some 0xFF"
proof -
  have b: "\<And>i. i < length bs + 3 \<Longrightarrow> window_byte w (word_of_nat i) = Some ((map sample_of (True # bs) @ [0xFF, 0xFF]) ! i)"
    using assms by (simp add: clean_def)
  show "i \<le> length bs \<Longrightarrow> window_byte w (word_of_nat i) = Some (sample_of ((True # bs) ! i))"
    using b [of i] by (simp add: nth_append del: list.map)
  show "window_byte w (word_of_nat (length bs + 1)) = Some 0xFF" "window_byte w (word_of_nat (length bs + 2)) = Some 0xFF"
    using b [of "length bs + 1"] b [of "length bs + 2"] by (simp_all add: nth_append)
qed

lemma clean_next:
  assumes "clean w bs" "i \<le> length bs"
  shows "\<exists>nxt. window_byte w (word_of_nat (i + 1)) = Some nxt \<and> nxt \<in> {0x0F, 0xF0, 0xFF}"
proof (cases "i = length bs")
  case True
  with clean_byte(2) [OF assms(1)] show ?thesis
    by auto
next
  case False
  with assms have "i + 1 \<le> length bs"
    by simp
  from clean_byte(1) [OF assms(1) this] show ?thesis
    by (auto simp: sample_of_def)
qed

lemma clean_room:
  assumes "clean w bs" "k \<le> 8 * (length bs + 1)"
  shows "saturating_add (word_of_nat k) 1 < win_bits w"
proof -
  have "unat (word_of_nat (8 * (length bs + 1) + 1) :: u16) = 8 * (length bs + 1) + 1"
    "unat (word_of_nat k :: u16) = k"
    using assms by (simp_all add: clean_def unat_of_nat del: of_nat_Suc of_nat_add of_nat_mult)
  with assms show ?thesis
    by (simp add: clean_def word_less_nat_alt unat_saturating_add del: of_nat_Suc of_nat_add of_nat_mult)
qed

lemma loop_clean:
  assumes w: "clean w bs" and k: "1 \<le> k" "k \<le> length bs + 1" "pd_bit_len out = word_of_nat k"
  shows "\<exists>out'. decode_loop w 32 0 (word_of_nat (8 * k)) out = Some out' \<and> pd_bit_len out' = word_of_nat (length bs + 1) \<and>
    pd_phase_ticks out' = pd_phase_ticks out \<and> pd_data out' = push_from k (drop (k - 1) bs) (pd_data out)"
  using k
proof (induction "length bs + 1 - k" arbitrary: k out)
  case 0
  have len: "length bs \<le> 31"
    using w by (simp add: clean_def)
  have at: "k = length bs + 1"
    using 0 by simp
  have "unat (word_of_nat k :: u8) = k"
    using len at by (simp add: unat_of_nat del: of_nat_Suc of_nat_add)
  then have small: "word_of_nat k \<le> (32 :: u8)"
    using len at by (simp add: word_le_nat_alt)
  have "snd (snd (weighted_peek_around w (word_of_nat (8 * k)) 0)) = PeekIdle"
    using peek_end [of k w] clean_byte(2,3) [OF w] len at by simp
  then show ?case
    using clean_room [OF w, of "8 * k"] 0 small at
    by (subst decode_loop.simps) (simp add: case_prod_beta del: of_nat_Suc of_nat_add of_nat_mult)
next
  case (Suc m)
  have len: "length bs \<le> 31"
    using w by (simp add: clean_def)
  have k: "1 \<le> k" "k \<le> length bs"
    using Suc by simp_all
  have u: "unat (word_of_nat k :: u8) = k"
    using len k by (simp add: unat_of_nat)
  then have small: "word_of_nat k \<le> (32 :: u8)"
    using len k by (simp add: word_le_nat_alt)
  have next_len: "saturating_add (word_of_nat k) 1 = (word_of_nat (Suc k) :: u8)"
    using len k u by (simp add: word_unat_eq_iff unat_saturating_add unat_of_nat del: of_nat_Suc)
  have u8: "unat (word_of_nat (8 * k) :: u16) = 8 * k" "unat (word_of_nat (8 * Suc k) :: u16) = 8 * Suc k"
    using len k by (simp_all add: unat_of_nat del: of_nat_Suc of_nat_add of_nat_mult)
  have "unat (saturating_add (word_of_nat (8 * k)) 8 :: u16) = 8 * Suc k"
    using len k unfolding unat_saturating_add u8 by simp
  then have next_pos: "saturating_add (word_of_nat (8 * k)) 8 = (word_of_nat (8 * Suc k) :: u16)"
    unfolding word_unat_eq_iff u8 .
  define c where "c = bs ! (k - 1)"
  have c: "drop (k - 1) bs = c # drop k bs"
    using k by (simp add: c_def Cons_nth_drop_Suc [symmetric])
  obtain nxt where nxt: "window_byte w (word_of_nat (k + 1)) = Some nxt" "nxt \<in> {0x0F, 0xF0, 0xFF}"
    using clean_next [OF w k(2)] by blast
  have "weighted_peek_around w (word_of_nat (8 * (k - 1 + 1))) 0 = (if c then 25 else 24, 8, PeekNone)"
    using clean_byte(1) [OF w, of "k - 1"] clean_byte(1) [OF w, of k] nxt k len
    by (intro peek_around [of "k - 1" w "(True # bs) ! (k - 1)" c nxt]) (simp_all add: c_def nth_Cons' eval_nat_numeral)
  then have peek: "weighted_peek_around w (word_of_nat (8 * k)) 0 = (if c then 25 else 24, 8, PeekNone)"
    using k by simp
  define next_out where "next_out = out\<lparr>pd_score := saturating_add (pd_score out) (ucast (if c then 25 else 24 :: u8)),
     pd_data := push_decoded_bit (pd_bit_len out) (if c then 25 else 24) (pd_data out),
     pd_bit_len := saturating_add (pd_bit_len out) 1\<rparr>"
  have unfold: "decode_loop w 32 0 (word_of_nat (8 * k)) out = decode_loop w 32 0 (word_of_nat (8 * Suc k)) next_out"
    using clean_room [OF w, of "8 * k"] small k Suc.prems(3) next_pos
    by (subst decode_loop.simps) (simp add: peek next_out_def del: of_nat_Suc of_nat_mult)
  have "\<exists>out'. decode_loop w 32 0 (word_of_nat (8 * Suc k)) next_out = Some out' \<and> pd_bit_len out' = word_of_nat (length bs + 1) \<and>
    pd_phase_ticks out' = pd_phase_ticks next_out \<and> pd_data out' = push_from (Suc k) (drop (Suc k - 1) bs) (pd_data next_out)"
    using Suc k by (intro Suc.hyps(1)) (simp_all add: next_out_def next_len del: of_nat_Suc)
  then show ?case
    unfolding unfold c using Suc.prems(3) by (simp add: next_out_def)
qed

lemma decode_clean:
  assumes w: "clean w bs" and "bs \<noteq> []"
  shows "\<exists>score. decode_phase w 32 0 =
    \<lparr>pd_bit_len = word_of_nat (length bs), pd_phase_ticks = 0, pd_score = score, pd_data = push_from 1 bs (replicate 8 0)\<rparr>"
proof -
  have len: "length bs \<le> 31"
    using w by (simp add: clean_def)
  define first where "first = (phase_failed 0)\<lparr>pd_score := saturating_add 0 (ucast (25 :: u8)),
     pd_data := push_decoded_bit 0 25 (replicate 8 0), pd_bit_len := saturating_add 0 1\<rparr>"
  have start: "weighted_peek_around w 1 0 = (25, 7, PeekNone)"
    using peek_start [of w "bs ! 0"] clean_byte(1) [OF w, of 0] clean_byte(1) [OF w, of 1] assms(2)
    by (simp add: Suc_le_eq)
  have "saturating_add 1 1 < win_bits w"
    using clean_room [OF w, of 1] by simp
  moreover have "saturating_add 1 7 = (8 :: u16)"
    by (simp add: saturating_add_def)
  ultimately have "decode_loop w 32 0 1 (phase_failed 0) = decode_loop w 32 0 (word_of_nat (8 * 1)) first"
    by (subst decode_loop.simps) (simp add: start first_def phase_failed_def)
  with loop_clean [OF w, of 1 first] obtain out where out: "decode_loop w 32 0 1 (phase_failed 0) = Some out"
    "pd_bit_len out = word_of_nat (length bs + 1)" "pd_phase_ticks out = 0" "pd_data out = push_from 1 bs (replicate 8 0)"
    by (auto simp: first_def phase_failed_def saturating_add_def push_decoded_bit_def)
  have "unat (word_of_nat (length bs + 1) :: u8) = length bs + 1" "unat (word_of_nat (length bs) :: u8) = length bs"
    using len by (simp_all add: unat_of_nat del: of_nat_Suc of_nat_add)
  then have "1 < pd_bit_len out" "saturating_sub (pd_bit_len out) 1 = word_of_nat (length bs)"
    using assms(2) by (simp_all add: out(2) word_less_nat_alt word_unat_eq_iff unat_saturating_sub del: of_nat_Suc of_nat_add)
  with out show ?thesis
    by (cases out) (simp add: decode_phase_def)
qed

section \<open>Octets\<close>

definition horner :: "bool list \<Rightarrow> u8" where
  "horner bs = foldl (\<lambda>v b. push_bit 1 v OR ((if b then 25 else 24) AND 1)) 0 bs"

lemma horner_octet: "horner (map (bit v) (rev [0..<8])) = v"
  by (rule all_octets [of "\<lambda>v. horner (map (bit v) (rev [0..<8])) = v"]) code_simp

lemma horner_slice: "horner (map (bit x) (rev [k..<k + 8])) = ucast (drop_bit k x)" for x :: u32
proof -
  have "map (bit x) (rev [k..<k + 8]) = map (bit (ucast (drop_bit k x) :: u8)) (rev [0..<8])"
    by (simp add: upt_conv_Cons bit_simps)
  then show ?thesis
    by (simp add: horner_octet)
qed

lemma push_decoded:
  assumes "j < 8" "i < 8" "length d = 8"
  shows "push_decoded_bit (word_of_nat (8 * j + i + 1)) v d = d[j := push_bit 1 (if i = 0 then 0 else d ! j) OR (v AND 1)]"
proof -
  have u: "unat (word_of_nat (8 * j + i) :: u8) = 8 * j + i" "unat (word_of_nat (8 * j + i + 1) :: u8) = 8 * j + i + 1"
    using assms by (simp_all add: unat_of_nat del: of_nat_Suc of_nat_add of_nat_mult)
  have p: "(word_of_nat (8 * j + i + 1) :: u8) - 1 = word_of_nat (8 * j + i)"
    by simp
  have "x AND 7 = take_bit 3 x" for x :: u8
    unfolding take_bit_eq_mask by (simp add: mask_eq_exp_minus_1)
  then have "x AND 7 = x mod 8" for x :: u8
    by (simp add: take_bit_eq_mod)
  then have "(word_of_nat (8 * j + i) :: u8) AND 7 = 0 \<longleftrightarrow> i = 0"
    using u(1) assms(2) by (simp add: word_unat_eq_iff unat_mod_distrib del: of_nat_add of_nat_mult)
  moreover have "unat (drop_bit 3 (word_of_nat (8 * j + i) :: u8)) = j"
    using u(1) assms(2) by (simp add: drop_bit_eq_div unat_div_distrib del: of_nat_add of_nat_mult)
  moreover have "(word_of_nat (8 * j + i + 1) :: u8) \<noteq> 0"
    using u(2) by (simp add: word_unat_eq_iff del: of_nat_Suc of_nat_add of_nat_mult)
  ultimately show ?thesis
    unfolding push_decoded_bit_def Let_def p using assms(1,3) by simp
qed

lemma push_from_append: "push_from k (as @ bs) d = push_from (k + length as) bs (push_from k as d)"
  by (induction as arbitrary: k d) simp_all

lemma push_rest:
  assumes "j < 8" "length d = 8" "1 \<le> i" "i + length bs \<le> 8"
  shows "push_from (8 * j + i + 1) bs d = d[j := foldl (\<lambda>v b. push_bit 1 v OR ((if b then 25 else 24) AND 1)) (d ! j) bs]"
  using assms
proof (induction bs arbitrary: i d)
  case (Cons b bs)
  have "push_from (8 * j + i + 1) (b # bs) d =
      push_from (8 * j + Suc i + 1) bs (d[j := push_bit 1 (d ! j) OR ((if b then 25 else 24) AND 1)])"
    using Cons.prems push_decoded [of j i d] by (simp del: of_nat_Suc of_nat_add of_nat_mult)
  also have "\<dots> = (d[j := push_bit 1 (d ! j) OR ((if b then 25 else 24) AND 1)])
      [j := foldl (\<lambda>v b. push_bit 1 v OR ((if b then 25 else 24) AND 1))
         (d[j := push_bit 1 (d ! j) OR ((if b then 25 else 24) AND 1)] ! j) bs]"
    using Cons.prems by (intro Cons.IH) simp_all
  finally show ?case
    using Cons.prems by simp
qed simp

lemma push_octet:
  assumes "j < 8" "length d = 8" "length bs = 8"
  shows "push_from (8 * j + 1) (bs @ rest) d = push_from (8 * Suc j + 1) rest (d[j := horner bs])"
proof -
  obtain b cs where bs: "bs = b # cs" "length cs = 7"
    using assms(3) by (auto simp: length_Suc_conv eval_nat_numeral)
  have "push_from (8 * j + 1) bs d = push_from (8 * j + 1 + 1) cs (d[j := push_bit 1 0 OR ((if b then 25 else 24) AND 1)])"
    using push_decoded [of j 0 d] assms by (simp add: bs del: of_nat_Suc of_nat_add of_nat_mult)
  also have "\<dots> = d[j := horner bs]"
    using push_rest [of j "d[j := push_bit 1 0 OR ((if b then 25 else 24) AND 1)]" 1 cs] assms bs
    by (simp add: horner_def)
  finally show ?thesis
    using assms(3) by (simp add: push_from_append add.commute)
qed

section \<open>Round trip\<close>

lemma slice_24: "rev [0..<24] = rev [16..<16 + 8] @ rev [8..<8 + 8] @ rev [0..<0 + 8]"
  by code_simp

lemma slice_16: "rev [0..<16] = rev [8..<8 + 8] @ rev [0..<0 + 8]"
  by code_simp

lemma push_frame:
  fixes x :: u32
  shows "push_from 1 (map (bit x) (rev [0..<8])) (replicate 8 0) = [ucast x, 0, 0, 0, 0, 0, 0, 0]"
    and "push_from 1 (map (bit x) (rev [0..<16])) (replicate 8 0) = [ucast (drop_bit 8 x), ucast x, 0, 0, 0, 0, 0, 0]"
    and "push_from 1 (map (bit x) (rev [0..<24])) (replicate 8 0) =
      [ucast (drop_bit 16 x), ucast (drop_bit 8 x), ucast x, 0, 0, 0, 0, 0]"
proof -
  have z: "replicate 8 0 = [0, 0, 0, 0, 0, 0, 0, 0 :: u8]"
    by (simp add: numeral_eq_Suc)
  define slice where "slice k = map (bit x) (rev [k..<k + 8])" for k
  have len: "length (slice k) = 8" for k
    by (simp add: slice_def)
  have h: "horner (slice k) = ucast (drop_bit k x)" for k
    unfolding slice_def by (rule horner_slice)
  have o: "push_from 1 (slice k @ rest) d = push_from 9 rest (d[0 := ucast (drop_bit k x)])"
    "push_from 9 (slice k @ rest) d = push_from 17 rest (d[1 := ucast (drop_bit k x)])"
    "push_from 17 (slice k @ rest) d = push_from 25 rest (d[2 := ucast (drop_bit k x)])" if "length d = 8" for k rest d
    using push_octet [of 0 d "slice k" rest] push_octet [of 1 d "slice k" rest] push_octet [of 2 d "slice k" rest] that
    by (simp_all add: h len del: One_nat_def)
  have s8: "map (bit x) (rev [0..<8]) = slice 0 @ []"
    by (simp add: slice_def)
  show "push_from 1 (map (bit x) (rev [0..<8])) (replicate 8 0) = [ucast x, 0, 0, 0, 0, 0, 0, 0]"
    unfolding s8 z by (subst o) simp_all
  have s16: "map (bit x) (rev [0..<16]) = slice 8 @ slice 0 @ []"
    unfolding slice_16 map_append by (simp only: slice_def append_Nil2)
  show "push_from 1 (map (bit x) (rev [0..<16])) (replicate 8 0) = [ucast (drop_bit 8 x), ucast x, 0, 0, 0, 0, 0, 0]"
    unfolding s16 by (simp only: o length_list_update length_replicate) (simp add: z)
  have s24: "map (bit x) (rev [0..<24]) = slice 16 @ slice 8 @ slice 0 @ []"
    unfolding slice_24 map_append by (simp only: slice_def append_Nil2)
  show "push_from 1 (map (bit x) (rev [0..<24])) (replicate 8 0) =
      [ucast (drop_bit 16 x), ucast (drop_bit 8 x), ucast x, 0, 0, 0, 0, 0]"
    unfolding s24 by (simp only: o length_list_update length_replicate) (simp add: z)
qed

text \<open>A capture of a frame: its start bit and its bits fill a sample byte each, and the line is idle
  for two sample bytes and more after them.\<close>

definition captures :: "RxCompletedEvent \<Rightarrow> bool list \<Rightarrow> bool" where
  "captures ev bs \<longleftrightarrow> length bs \<le> 31 \<and> ev_isr_decode ev = NotDecoded \<and> length (ev_samples ev) = 64 \<and>
     (\<exists>t rest. 2 \<le> t \<and> length bs + 1 + t \<le> 64 \<and> ev_sample_count ev = word_of_nat (length bs + 1 + t) \<and>
        ev_samples ev = map sample_of (True # bs) @ replicate t 0xFF @ rest)"

lemma clean_capture:
  assumes "captures ev bs"
  shows "clean (of_capture (ev_samples ev) (ev_sample_count ev)) bs"
proof -
  obtain t rest where t: "2 \<le> t" "length bs + 1 + t \<le> 64" "ev_sample_count ev = word_of_nat (length bs + 1 + t)"
    and sm: "ev_samples ev = map sample_of (True # bs) @ replicate t 0xFF @ rest"
    using assms by (auto simp: captures_def)
  define n where "n = length bs + 1 + t"
  have n: "n \<le> 64" "length bs + 3 \<le> n" "ev_sample_count ev = word_of_nat n"
    using t by (simp_all add: n_def)
  have u: "unat (word_of_nat n :: u16) = n" "unat (word_of_nat (Suc n) :: u16) = Suc n"
    using n by (simp_all add: unat_of_nat del: of_nat_Suc of_nat_add)
  define w where "w = of_capture (ev_samples ev) (ev_sample_count ev)"
  have "(if unat (ev_sample_count ev) < 64 then unat (ev_sample_count ev) else 64) = n"
    using n u by simp
  then have w: "w = \<lparr>win_bytes = take n (ev_samples ev) @ [0xFF] @ replicate (66 - n - 1) 0,
      win_len = word_of_nat (n + 1), win_bits = saturating_mul (word_of_nat n) 8\<rparr>"
    unfolding w_def of_capture_def by (simp only: Let_def)
  have "unat (saturating_mul (word_of_nat n) 8 :: u16) = 8 * n"
    using n unfolding unat_saturating_mul u by simp
  moreover have "unat (word_of_nat (8 * (length bs + 1) + 1) :: u16) = 8 * (length bs + 1) + 1"
    using n by (simp add: unat_of_nat del: of_nat_Suc of_nat_add of_nat_mult)
  ultimately have bits: "win_bits w > word_of_nat (8 * (length bs + 1) + 1)"
    using n unfolding w word_less_nat_alt by simp
  have len: "length (ev_samples ev) = 64"
    using assms by (simp add: captures_def)
  have "window_byte w (word_of_nat i) = Some ((map sample_of (True # bs) @ [0xFF, 0xFF]) ! i)" if i: "i < length bs + 3" for i
  proof -
    have ui: "unat (word_of_nat i :: u16) = i"
      using i n by (simp add: unat_of_nat)
    have "\<not> win_len w \<le> word_of_nat i" "i < length (win_bytes w)"
      using i n len unfolding w by (simp_all add: word_le_nat_alt u ui del: of_nat_Suc of_nat_add)
    then have "window_byte w (word_of_nat i) = Some (win_bytes w ! i)"
      by (simp add: window_byte_def list_get_def ui)
    also have "win_bytes w ! i = ev_samples ev ! i"
      using i n len by (simp add: w nth_append)
    also have "\<dots> = (map sample_of (True # bs) @ [0xFF, 0xFF]) ! i"
      unfolding sm using i t(1) by (auto simp: nth_append nth_Cons' simp del: list.map)
    finally show ?thesis .
  qed
  then show ?thesis
    using bits assms unfolding clean_def w_def [symmetric] by (auto simp: captures_def)
qed

lemma search_clean:
  assumes "clean w bs" "3 \<le> length bs" "bit_lengths_contains p (word_of_nat (length bs))"
  shows "phase_search_run w (phase_search_new p) = Some (Some (decode_phase w 32 0))"
proof -
  obtain score where d: "decode_phase w 32 0 =
    \<lparr>pd_bit_len = word_of_nat (length bs), pd_phase_ticks = 0, pd_score = score, pd_data = push_from 1 bs (replicate 8 0)\<rparr>"
    using decode_clean [OF assms(1)] assms(2) by fastforce
  have "length bs \<le> 31"
    using assms(1) by (simp add: clean_def)
  then have "unat (word_of_nat (length bs) :: u8) = length bs"
    by (simp add: unat_of_nat)
  then have "3 \<le> (word_of_nat (length bs) :: u8)"
    using assms(2) by (simp add: word_le_nat_alt)
  then show ?thesis
    using assms(3) by (subst phase_search_run.simps) (simp add: phase_search_step_def phase_search_new_def Let_def d accepted_def)
qed

lemma sniff_capture:
  assumes "captures ev bs" "length bs \<in> {8, 16, 24}"
  shows "decode_sniffed ev = Some (sniffed_from_decoded (word_of_nat (length bs)) (push_from 1 bs (replicate 8 0)))"
proof -
  define w where "w = of_capture (ev_samples ev) (ev_sample_count ev)"
  have w: "clean w bs"
    unfolding w_def by (rule clean_capture [OF assms(1)])
  have "bit_lengths_contains (bit_lengths_of [8, 16, 24]) (word_of_nat (length bs))"
    using assms(2) by (elim insertE; simp) code_simp+
  then have "try_decode ev (bit_lengths_of [8, 16, 24]) = Some (Some (decode_phase w 32 0))"
    using search_clean [OF w] assms(2) by (auto simp: try_decode_def w_def)
  moreover obtain score where "decode_phase w 32 0 =
    \<lparr>pd_bit_len = word_of_nat (length bs), pd_phase_ticks = 0, pd_score = score, pd_data = push_from 1 bs (replicate 8 0)\<rparr>"
    using decode_clean [OF w] assms(2) by fastforce
  moreover have "ev_isr_decode ev = NotDecoded"
    using assms(1) by (simp add: captures_def)
  ultimately show ?thesis
    by (simp add: decode_sniffed_def decode_sniffed_with_phase_def)
qed

text \<open>The bits of a frame in the order they are sent.\<close>

definition frame_bits :: "u32 \<Rightarrow> nat \<Rightarrow> bool list" where
  "frame_bits x n = map (bit x) (rev [0..<n])"

lemma length_frame_bits [simp]: "length (frame_bits x n) = n"
  by (simp add: frame_bits_def)

lemma sniff_backward:
  assumes "captures ev (frame_bits (ucast v) 8)"
  shows "decode_sniffed ev = Some (SniffedBackward8 v)"
  using sniff_capture [OF assms]
  by (simp add: push_frame(1) [folded frame_bits_def, unfolded One_nat_def] sniffed_from_decoded_def unsigned_ucast_eq take_bit_word_eq_self)

lemma sniff_forward16:
  assumes "captures ev (frame_bits (ucast v) 16)"
  shows "decode_sniffed ev = Some (SniffedForward16 v)"
proof -
  have "push_bit 8 (ucast (ucast (drop_bit 8 (ucast v :: u32)) :: u8)) OR ucast (ucast (ucast v :: u32) :: u8) = v"
    by (rule bit_word_eqI) (auto simp: bit_simps)
  then show ?thesis
    using sniff_capture [OF assms] by (simp add: push_frame(2) [folded frame_bits_def, unfolded One_nat_def] sniffed_from_decoded_def)
qed

lemma sniff_forward24:
  assumes "captures ev (frame_bits (push_bit 16 (ucast a) OR push_bit 8 (ucast b) OR ucast c) 24)"
  shows "decode_sniffed ev = Some (SniffedForward24 a b c)"
proof -
  define x :: u32 where "x = push_bit 16 (ucast a) OR push_bit 8 (ucast b) OR ucast c"
  have "ucast (drop_bit 16 x) = a" "ucast (drop_bit 8 x) = b" "ucast x = c"
    by (rule bit_word_eqI; auto simp: x_def bit_simps)+
  then show ?thesis
    using sniff_capture [OF assms [folded x_def]] by (simp add: push_frame(3) [folded frame_bits_def, unfolded One_nat_def] sniffed_from_decoded_def)
qed

end
