(* ===== verification/Phy.thy ===== *)
theory Phy
  imports Manchester
begin

text \<open>
  The bit-banged physical layer: the state machine \<open>DaliBitbangPhy\<close> of
  \<open>dali2rust-dali-phy/src/fsm.rs\<close>. One \<open>tick\<close> samples the line and drives it; the level it samples is an
  argument and the level it drives is the field \<open>hal_high\<close>.
\<close>

datatype BusState = BusIdle | BusRx | BusTx | BusCollisionTx

datatype RxState = RxEmpty | RxReceiving | RxCompleted

datatype TxPollResult = TxOk | TxCollision | TxTransmitting | TxYielded

datatype CollisionPolicy = PolicyAuto | PolicyOff | PolicyOn

definition settle_ticks_on_wire :: "u16 \<Rightarrow> u8 \<Rightarrow> u16" where
  "settle_ticks_on_wire pre_idle_ticks lead = saturating_add pre_idle_ticks (ucast lead)"

definition TX_ARM_LEAD_TICKS :: u8 where "TX_ARM_LEAD_TICKS = 3"

definition restart_gate_for :: "u8 \<Rightarrow> u8" where
  "restart_gate_for release_to_edge_ticks = saturating_sub release_to_edge_ticks (TX_ARM_LEAD_TICKS + 1)"

definition ceil_ticks_for_window :: "u32 \<Rightarrow> u32 \<Rightarrow> u8" where
  "ceil_ticks_for_window min_us tick_us =
     ucast (if min_us mod tick_us = 0 then min_us div tick_us else min_us div tick_us + 1)"

definition COLLISION_BREAK_TICKS :: u8 where
  "COLLISION_BREAK_TICKS = ceil_ticks_for_window 1200 104"

definition COLLISION_CHECK_TICK :: u8 where
  "COLLISION_CHECK_TICK = COLLISION_BREAK_TICKS + 2"

record DaliBitbangPhy =
  hal_high :: bool
  tx_busy :: bool
  bus_state :: BusState
  idlecnt :: u16
  high_run_ticks :: u16
  rx_state :: RxState
  rx_data :: "u8 list"
  rx_pos :: u16
  rx_byte :: u8
  rx_bit_cnt :: u8
  rx_idle :: u8
  rx_debounce :: u8
  low_run_ticks :: u16
  tx_hb_data :: "u8 list"
  tx_hb_len :: u8
  tx_hb_cnt :: u8
  tx_sp_cnt :: u8
  tx_high :: u8
  tx_collision :: u8
  tx_idle_after_break :: bool
  tx_armed :: u8
  tx_yielded :: bool
  tx_answer :: bool
  rx_pre_idle :: u8
  tx_pre_idle :: u16
  collision_policy :: CollisionPolicy
  last_rx :: RxCompletedEvent

definition set_bus_idle :: "DaliBitbangPhy \<Rightarrow> DaliBitbangPhy" where
  "set_bus_idle s = s\<lparr>hal_high := True, idlecnt := high_run_ticks s, rx_debounce := 0, bus_state := BusIdle, tx_busy := False\<rparr>"

definition phy_new :: "bool \<Rightarrow> DaliBitbangPhy" where
  "phy_new driven_high =
     (let s = set_bus_idle
        \<lparr>hal_high = driven_high, tx_busy = False, bus_state = BusIdle, idlecnt = 0, high_run_ticks = 0, rx_state = RxEmpty,
         rx_data = replicate 64 0, rx_pos = 0, rx_byte = 0, rx_bit_cnt = 0, rx_idle = 0, rx_debounce = 0, low_run_ticks = 0,
         tx_hb_data = replicate 9 0, tx_hb_len = 0, tx_hb_cnt = 0, tx_sp_cnt = 0, tx_high = 0, tx_collision = 0,
         tx_idle_after_break = False, tx_armed = 0, tx_yielded = False, tx_answer = False, rx_pre_idle = 0, tx_pre_idle = 0,
         collision_policy = PolicyAuto, last_rx = rx_completed_new\<rparr>
      in s\<lparr>rx_state := RxEmpty, tx_collision := 0\<rparr>)"

definition set_collision_policy :: "CollisionPolicy \<Rightarrow> DaliBitbangPhy \<Rightarrow> DaliBitbangPhy" where
  "set_collision_policy p s = s\<lparr>collision_policy := p\<rparr>"

definition enter_rx :: "DaliBitbangPhy \<Rightarrow> DaliBitbangPhy" where
  "enter_rx s = s\<lparr>rx_pre_idle := (if idlecnt s > 0xFF then 0xFF else ucast (idlecnt s)), rx_pos := 0, rx_bit_cnt := 0,
     rx_idle := 0, rx_byte := 0, rx_state := RxReceiving, bus_state := BusRx\<rparr>"

definition finish_rx_and_notify :: "DaliBitbangPhy \<Rightarrow> DaliBitbangPhy" where
  "finish_rx_and_notify s = s\<lparr>last_rx := (last_rx s)\<lparr>ev_sample_count := rx_pos s, ev_samples := rx_data s,
     ev_pre_idle_ticks := rx_pre_idle s\<rparr>\<rparr>"

definition tick_rx :: "u8 \<Rightarrow> DaliBitbangPhy \<Rightarrow> DaliBitbangPhy" where
  "tick_rx bus_is_high s =
     (let s = s\<lparr>rx_byte := push_bit 1 (rx_byte s) OR bus_is_high, rx_bit_cnt := rx_bit_cnt s + 1\<rparr>;
          s = (if rx_bit_cnt s = 8 then
                 (let idx = min (unat (rx_pos s)) 63;
                      s = (if idx < length (rx_data s) then s\<lparr>rx_data := (rx_data s)[idx := rx_byte s]\<rparr> else s);
                      s = s\<lparr>rx_pos := saturating_add (rx_pos s) 1\<rparr>;
                      s = (if unat (rx_pos s) > 63 then s\<lparr>rx_pos := 63\<rparr> else s)
                  in s\<lparr>rx_bit_cnt := 0\<rparr>)
               else s)
      in if bus_is_high \<noteq> 0 then
           (let s = s\<lparr>rx_idle := saturating_add (rx_idle s) 1\<rparr> in
            if rx_idle s \<ge> 16 then
              (let s = (if unat (rx_pos s) < length (rx_data s)
                        then s\<lparr>rx_data := (rx_data s)[unat (rx_pos s) := 0xFF]\<rparr> else s);
                   s = s\<lparr>rx_pos := saturating_add (rx_pos s) 1\<rparr>;
                   s = s\<lparr>rx_state := RxCompleted\<rparr>
               in finish_rx_and_notify (set_bus_idle s))
            else s)
         else s\<lparr>rx_idle := 0\<rparr>)"

definition tick_idle :: "u8 \<Rightarrow> DaliBitbangPhy \<Rightarrow> DaliBitbangPhy" where
  "tick_idle bus_is_high s =
     (if bus_is_high \<noteq> 0 then
        (let s = s\<lparr>rx_debounce := 0\<rparr>
         in if idlecnt s \<noteq> 0xFFFF then s\<lparr>idlecnt := idlecnt s + 1\<rparr> else s)
      else
        (let s = s\<lparr>rx_debounce := saturating_add (rx_debounce s) 1\<rparr> in
         if rx_debounce s \<ge> 2 then (tick_rx 0 ^^ unat (rx_debounce s)) (enter_rx s) else s))"

definition tick_tx_armed :: "u8 \<Rightarrow> DaliBitbangPhy \<Rightarrow> DaliBitbangPhy" where
  "tick_tx_armed bus_is_high s =
     (if bus_is_high = 0 \<and> \<not> tx_answer s then
        tick_idle bus_is_high (set_bus_idle (s\<lparr>tx_yielded := True, tx_armed := 0\<rparr>))
      else s\<lparr>tx_armed := saturating_sub (tx_armed s) 1\<rparr>)"

definition tx_collision_detected :: "u8 \<Rightarrow> DaliBitbangPhy \<Rightarrow> bool" where
  "tx_collision_detected bus_is_high s =
     (let policy_ok = (collision_policy s = PolicyOn \<or> collision_policy s = PolicyAuto \<and> tx_hb_len s \<noteq> 22)
      in policy_ok \<and> tx_high s \<noteq> 0 \<and> bus_is_high = 0 \<and> (tx_sp_cnt s = 1 \<or> tx_sp_cnt s = 2))"

definition enter_collision_tx :: "DaliBitbangPhy \<Rightarrow> DaliBitbangPhy" where
  "enter_collision_tx s =
     (let s = (if tx_collision s \<noteq> 0xFF then s\<lparr>tx_collision := tx_collision s + 1\<rparr> else s)
      in s\<lparr>tx_sp_cnt := 0, tx_idle_after_break := False, bus_state := BusCollisionTx\<rparr>)"

definition tick_tx :: "u8 \<Rightarrow> DaliBitbangPhy \<Rightarrow> DaliBitbangPhy" where
  "tick_tx bus_is_high s =
     (if tx_armed s \<noteq> 0 then tick_tx_armed bus_is_high s
      else if tx_hb_cnt s \<ge> tx_hb_len s then set_bus_idle s
      else if tx_collision_detected bus_is_high s then enter_collision_tx s
      else if tx_sp_cnt s = 0 then
        (case list_get (tx_hb_data s) (unat (drop_bit 3 (tx_hb_cnt s))) of
           None \<Rightarrow> set_bus_idle s
         | Some byte \<Rightarrow>
             (let bitmask = drop_bit (unat (tx_hb_cnt s AND 7)) 0x80;
                  s = (if byte AND bitmask \<noteq> 0 then s\<lparr>hal_high := False, tx_high := 0\<rparr> else s\<lparr>hal_high := True, tx_high := 1\<rparr>);
                  s = s\<lparr>tx_hb_cnt := tx_hb_cnt s + 1, tx_sp_cnt := 4\<rparr>
              in s\<lparr>tx_sp_cnt := saturating_sub (tx_sp_cnt s) 1\<rparr>))
      else s\<lparr>tx_sp_cnt := saturating_sub (tx_sp_cnt s) 1\<rparr>)"

definition tick_collision_tx :: "u8 \<Rightarrow> DaliBitbangPhy \<Rightarrow> DaliBitbangPhy" where
  "tick_collision_tx bus_is_high s =
     (let s = s\<lparr>tx_sp_cnt := tx_sp_cnt s + 1\<rparr> in
      if tx_sp_cnt s \<le> COLLISION_BREAK_TICKS then s\<lparr>hal_high := False\<rparr>
      else
        (let s = s\<lparr>hal_high := True\<rparr> in
         if tx_sp_cnt s < COLLISION_CHECK_TICK then s
         else
           (let s = set_bus_idle (s\<lparr>tx_idle_after_break := (bus_is_high \<noteq> 0)\<rparr>)
            in if bus_is_high = 0 then tick_idle bus_is_high s else s)))"

definition tick :: "bool \<Rightarrow> DaliBitbangPhy \<Rightarrow> DaliBitbangPhy" where
  "tick level s =
     (let bus_is_high = (if level then 1 else 0);
          s = s\<lparr>low_run_ticks := (if bus_is_high \<noteq> (0 :: u8) then 0 else saturating_add (low_run_ticks s) 1)\<rparr>;
          s = s\<lparr>high_run_ticks := (if bus_is_high \<noteq> 0 then saturating_add (high_run_ticks s) 1 else 0)\<rparr>
      in case bus_state s of
           BusIdle \<Rightarrow> tick_idle bus_is_high s
         | BusRx \<Rightarrow> tick_rx bus_is_high s
         | BusTx \<Rightarrow> tick_tx bus_is_high s
         | BusCollisionTx \<Rightarrow> tick_collision_tx bus_is_high s)"

definition load_tx :: "HalfBitBuffer \<Rightarrow> bool \<Rightarrow> DaliBitbangPhy \<Rightarrow> bool \<times> DaliBitbangPhy" where
  "load_tx halfbits answer s =
     (if hb_length halfbits = 0 \<or> hb_length halfbits > MAX_DATA_HALF_BITS then (False, s)
      else (True, s\<lparr>tx_answer := answer, tx_pre_idle := idlecnt s, tx_hb_data := hb_data halfbits,
        tx_hb_len := hb_length halfbits, tx_hb_cnt := 0, tx_sp_cnt := 0, tx_collision := 0, tx_idle_after_break := False,
        tx_yielded := False, tx_armed := TX_ARM_LEAD_TICKS, rx_state := RxEmpty, bus_state := BusTx, tx_busy := True\<rparr>))"

definition start_tx :: "HalfBitBuffer \<Rightarrow> DaliBitbangPhy \<Rightarrow> bool \<times> DaliBitbangPhy" where
  "start_tx halfbits s = (if bus_state s = BusIdle then load_tx halfbits False s else (False, s))"

definition start_answer :: "HalfBitBuffer \<Rightarrow> DaliBitbangPhy \<Rightarrow> bool \<times> DaliBitbangPhy" where
  "start_answer halfbits s =
     (if bus_state s = BusIdle \<or> bus_state s = BusRx then load_tx halfbits True s else (False, s))"

definition line_debouncing :: "DaliBitbangPhy \<Rightarrow> bool" where
  "line_debouncing s \<longleftrightarrow> rx_debounce s \<noteq> 0"

definition poll_tx_state :: "DaliBitbangPhy \<Rightarrow> TxPollResult \<times> DaliBitbangPhy" where
  "poll_tx_state s =
     (if tx_yielded s then (TxYielded, s\<lparr>tx_yielded := False\<rparr>)
      else if tx_collision s \<noteq> 0 then (TxCollision, s\<lparr>tx_collision := 0\<rparr>)
      else if bus_state s = BusTx then (TxTransmitting, s)
      else (TxOk, s))"

definition take_idle_after_break :: "DaliBitbangPhy \<Rightarrow> bool \<times> DaliBitbangPhy" where
  "take_idle_after_break s = (tx_idle_after_break s, s\<lparr>tx_idle_after_break := False\<rparr>)"

definition acknowledge_rx_frame :: "DaliBitbangPhy \<Rightarrow> DaliBitbangPhy" where
  "acknowledge_rx_frame s = (if rx_state s = RxCompleted then s\<lparr>rx_state := RxEmpty\<rparr> else s)"

definition take_completed_rx_event :: "DaliBitbangPhy \<Rightarrow> RxCompletedEvent option \<times> DaliBitbangPhy" where
  "take_completed_rx_event s =
     (if rx_state s \<noteq> RxCompleted then (None, s) else (Some (last_rx s), acknowledge_rx_frame s))"

end
