(* ===== verification/Phy_Line.thy ===== *)
theory Phy_Line
  imports Phy Line_Code
begin

text \<open>
  Physical layers on one line: the level of the line is high when nobody drives it low, and all of them
  tick on it. A frame one of them sends is received and decoded by the others, and two different frames
  sent at once are noticed.
\<close>

section \<open>The half-bits of an encoded frame\<close>

definition half_bit :: "u8 list \<Rightarrow> nat \<Rightarrow> bool" where
  "half_bit d i = bit (d ! (i div 8)) (7 - i mod 8)"

definition packs :: "u8 list \<Rightarrow> bool list \<Rightarrow> bool" where
  "packs d hs \<longleftrightarrow> length d = 9 \<and> (\<forall>i < 72. half_bit d i = (i < length hs \<and> hs ! i))"

definition holds :: "HalfBitBuffer \<Rightarrow> bool list \<Rightarrow> bool" where
  "holds buf hs \<longleftrightarrow> packs (hb_data buf) hs \<and> hb_length buf = word_of_nat (length hs) \<and> even (length hs) \<and> length hs \<le> 72"

lemma pair_position:
  fixes m :: nat
  assumes "m \<le> 6" "m' < 8" "L = 8 * q + m" "i = 8 * q' + m'"
  shows "q' = q \<and> 6 - m \<le> 7 - m' \<and> 7 - m' - (6 - m) = 1 \<longleftrightarrow> i = L"
    and "q' = q \<and> 6 - m \<le> 7 - m' \<and> 7 - m' - (6 - m) = 0 \<longleftrightarrow> i = L + 1"
proof -
  show "q' = q \<and> 6 - m \<le> 7 - m' \<and> 7 - m' - (6 - m) = 1 \<longleftrightarrow> i = L"
  proof
    assume "i = L"
    then have q: "q' = q"
      using assms by arith
    have "m' = m"
      using assms \<open>i = L\<close> unfolding q by linarith
    with q show "q' = q \<and> 6 - m \<le> 7 - m' \<and> 7 - m' - (6 - m) = 1"
      using assms(1) by simp
  qed (use assms in auto)
  show "q' = q \<and> 6 - m \<le> 7 - m' \<and> 7 - m' - (6 - m) = 0 \<longleftrightarrow> i = L + 1"
  proof
    assume "i = L + 1"
    then have q: "q' = q"
      using assms by arith
    have "m' = m + 1"
      using assms \<open>i = L + 1\<close> unfolding q by linarith
    with q show "q' = q \<and> 6 - m \<le> 7 - m' \<and> 7 - m' - (6 - m) = 0"
      using assms(1) by simp
  qed (use assms in auto)
qed

lemma push_pair_bits:
  assumes "even L" "L < 72" "i < 72" "p \<in> {0, 1, 2 :: u8}"
  shows "(i div 8 = L div 8 \<and> bit (push_bit (6 - L mod 8) p) (7 - i mod 8)) \<longleftrightarrow> (i = L \<and> bit p 1 \<or> i = L + 1 \<and> bit p 0)"
proof -
  have p: "bit p k \<longleftrightarrow> k = 1 \<and> bit p 1 \<or> k = 0 \<and> bit p 0" for k
  proof (cases "k \<le> 1")
    case True
    then show ?thesis
      by (cases k) auto
  next
    case False
    then have "\<not> bit p k"
      using assms(4) by (elim insertE emptyE) (simp_all add: bit_1_iff bit_2_iff)
    with False show ?thesis
      by simp
  qed
  define q m q' m' where "q = L div 8" "m = L mod 8" "q' = i div 8" "m' = i mod 8"
  have m: "m \<le> 6" "m' < 8" "L = 8 * q + m" "i = 8 * q' + m'"
    using assms(1) unfolding q_m_q'_m'_def by presburger+
  have "bit (push_bit (6 - m) p) (7 - m') \<longleftrightarrow> 6 - m \<le> 7 - m' \<and> bit p (7 - m' - (6 - m))"
  proof -
    have "7 - m' < 8"
      by linarith
    then show ?thesis
      by (simp add: bit_push_bit_iff)
  qed
  with p [of "7 - m' - (6 - m)"] pair_position [OF m] show ?thesis
    unfolding q_m_q'_m'_def [symmetric] by blast
qed

lemma push_pair_holds:
  assumes "holds buf hs" "length hs \<le> 70" "p \<in> {0, 1, 2}"
  shows "holds (push_pair p buf) (hs @ [bit p 1, bit p 0])"
proof -
  define L where "L = length hs"
  have L: "even L" "L \<le> 70" "hb_length buf = word_of_nat L" and d: "length (hb_data buf) = 9"
    and old: "\<And>i. i < 72 \<Longrightarrow> half_bit (hb_data buf) i = (i < L \<and> hs ! i)"
    using assms by (auto simp: holds_def packs_def L_def)
  have u: "unat (word_of_nat L :: u8) = L" "unat (word_of_nat (L + 2) :: u8) = L + 2"
    using L by (simp_all add: unat_of_nat del: of_nat_Suc of_nat_add)
  have pos: "unat (drop_bit 3 (word_of_nat L :: u8)) = L div 8"
    using u by (simp add: drop_bit_eq_div unat_div_distrib)
  have "x AND 7 = take_bit 3 x" for x :: u8
    unfolding take_bit_eq_mask by (simp add: mask_eq_exp_minus_1)
  then have "unat (word_of_nat L AND 7 :: u8) = L mod 8"
    using u by (simp add: take_bit_eq_mod unat_mod_distrib)
  moreover have "L mod 8 \<le> 6"
    using L(1) by presburger
  ultimately have shift: "unat (6 - (word_of_nat L AND 7) :: u8) = 6 - L mod 8"
    by (subst unat_sub) (simp_all add: word_le_nat_alt)
  have len: "saturating_add (word_of_nat L) 2 = (word_of_nat (L + 2) :: u8)"
    using L(2) u by (simp add: word_unat_eq_iff unat_saturating_add del: of_nat_Suc of_nat_add)
  have "L div 8 < 9"
    using L(2) by simp
  then have buf: "push_pair p buf = \<lparr>hb_data = (hb_data buf)[L div 8 := hb_data buf ! (L div 8) OR push_bit (6 - L mod 8) p],
      hb_length = word_of_nat (L + 2)\<rparr>"
    by (cases buf) (use L(3) d in \<open>simp add: push_pair_def Let_def pos shift len checked_shl_def unwrap_or_def del: of_nat_Suc of_nat_add\<close>)
  have "half_bit (hb_data (push_pair p buf)) i = (i < L + 2 \<and> (hs @ [bit p 1, bit p 0]) ! i)" if i: "i < 72" for i
  proof -
    have "half_bit (hb_data (push_pair p buf)) i =
        (half_bit (hb_data buf) i \<or> i div 8 = L div 8 \<and> bit (push_bit (6 - L mod 8) p) (7 - i mod 8))"
      using \<open>L div 8 < 9\<close> i d by (auto simp: buf half_bit_def nth_list_update bit_or_iff)
    also have "\<dots> = (i < L \<and> hs ! i \<or> (i = L \<and> bit p 1 \<or> i = L + 1 \<and> bit p 0))"
      unfolding old [OF i] using push_pair_bits [of L i p] L i assms(3) by simp
    also have "\<dots> = (i < L + 2 \<and> (hs @ [bit p 1, bit p 0]) ! i)"
      by (auto simp: nth_append L_def nth_Cons' less_Suc_eq)
    finally show ?thesis .
  qed
  then show ?thesis
    using L assms d unfolding holds_def packs_def by (simp add: buf L_def)
qed

definition pair_of :: "bool \<Rightarrow> bool list" where
  "pair_of b = [b, \<not> b]"

lemma encode_bits_holds:
  assumes "holds out hs" "length hs + 2 * n \<le> 72" "n \<le> 32"
  shows "holds (encode_bits x n out) (hs @ concat (map pair_of (frame_bits x n)))"
  using assms
proof (induction n arbitrary: out hs)
  case (Suc n)
  have bit: "unwrap_or (checked_shr x n) 0 AND 1 \<noteq> 0 \<longleftrightarrow> bit x n"
    using Suc.prems(3) by (simp add: checked_shr_def unwrap_or_def and_one_eq bit_iff_odd_drop_bit mod_2_eq_odd)
  define b where "b = bit x n"
  have "holds (push_pair (if b then 0b10 else 0b01) out) (hs @ pair_of b)"
    using push_pair_holds [OF Suc.prems(1), of "if b then 2 else 1"] Suc.prems(2)
    by (cases b) (simp_all add: pair_of_def bit_simps)
  then have "holds (encode_bits x n (push_pair (if b then 0b10 else 0b01) out)) ((hs @ pair_of b) @ concat (map pair_of (frame_bits x n)))"
    using Suc.prems by (intro Suc.IH) (simp_all add: pair_of_def)
  then show ?case
    using bit by (simp add: b_def frame_bits_def)
qed (simp add: frame_bits_def)

lemma encode_holds:
  assumes "n \<le> 32" "unat bit_count = n"
  shows "holds (halfbits_encode x bit_count) (concat (map pair_of (True # frame_bits x n)) @ replicate 4 False)"
proof -
  have "half_bit (replicate 9 0) i = False" if "i < 72" for i
    using that by (simp add: half_bit_def)
  then have "holds \<lparr>hb_data = replicate 9 0, hb_length = 0\<rparr> []"
    by (simp add: holds_def packs_def)
  from push_pair_holds [OF this, of 2] have "holds (push_pair 2 \<lparr>hb_data = replicate 9 0, hb_length = 0\<rparr>) (pair_of True)"
    by (simp add: pair_of_def bit_simps)
  from encode_bits_holds [OF this, of n x] assms(1)
  have all: "holds (encode_bits x n (push_pair 2 \<lparr>hb_data = replicate 9 0, hb_length = 0\<rparr>))
      (pair_of True @ concat (map pair_of (frame_bits x n)))" (is "holds ?buf ?hs")
    by (simp add: pair_of_def)
  have "length (concat (map pair_of bs)) = 2 * length bs" for bs
    by (induction bs) (simp_all add: pair_of_def)
  then have "length ?hs \<le> 66"
    using assms(1) by (simp add: pair_of_def)
  then have "holds (push_pair 0 (push_pair 0 ?buf)) ((?hs @ [False, False]) @ [False, False])"
    using push_pair_holds [OF push_pair_holds [OF all, of 0], of 0] by simp
  then show ?thesis
    by (simp add: halfbits_encode_def assms(2) numeral_eq_Suc)
qed

section \<open>The transmitter\<close>

definition sampled :: "bool \<Rightarrow> DaliBitbangPhy \<Rightarrow> DaliBitbangPhy" where
  "sampled l s = s\<lparr>low_run_ticks := (if l then 0 else saturating_add (low_run_ticks s) 1),
     high_run_ticks := (if l then saturating_add (high_run_ticks s) 1 else 0)\<rparr>"

lemma tick_sampled:
  "tick l s = (case bus_state s of BusIdle \<Rightarrow> tick_idle (if l then 1 else 0) (sampled l s)
     | BusRx \<Rightarrow> tick_rx (if l then 1 else 0) (sampled l s) | BusTx \<Rightarrow> tick_tx (if l then 1 else 0) (sampled l s)
     | BusCollisionTx \<Rightarrow> tick_collision_tx (if l then 1 else 0) (sampled l s))"
  by (cases "bus_state s"; cases l; simp add: tick_def sampled_def Let_def)

text \<open>A physical layer that has started \<open>i\<close> of the half-bits \<open>hs\<close> and holds the last one for \<open>j\<close> more ticks.\<close>

definition sending :: "bool list \<Rightarrow> nat \<Rightarrow> nat \<Rightarrow> DaliBitbangPhy \<Rightarrow> bool" where
  "sending hs i j s \<longleftrightarrow> bus_state s = BusTx \<and> tx_armed s = 0 \<and> packs (tx_hb_data s) hs \<and>
     tx_hb_len s = word_of_nat (length hs) \<and> tx_hb_cnt s = word_of_nat i \<and> tx_sp_cnt s = word_of_nat j \<and>
     tx_collision s = 0 \<and> \<not> tx_yielded s \<and> i \<le> length hs \<and> length hs \<le> 72 \<and>
     hal_high s = (i = 0 \<or> \<not> hs ! (i - 1)) \<and> (0 < i \<longrightarrow> tx_high s = (if hal_high s then 1 else 0))"

definition armed :: "bool list \<Rightarrow> nat \<Rightarrow> DaliBitbangPhy \<Rightarrow> bool" where
  "armed hs k s \<longleftrightarrow> sending hs 0 0 (s\<lparr>tx_armed := 0\<rparr>) \<and> tx_armed s = word_of_nat k"

lemma armed_tick:
  assumes "armed hs (Suc k) s" "k \<le> 2"
  shows "armed hs k (tick True s)" "hal_high (tick True s)"
proof -
  have "word_of_nat (Suc k) \<noteq> (0 :: u8)" "saturating_sub (word_of_nat (Suc k)) 1 = (word_of_nat k :: u8)"
    using assms(2) by (simp_all add: word_unat_eq_iff unat_saturating_sub unat_of_nat del: of_nat_Suc)
  with assms show "armed hs k (tick True s)" "hal_high (tick True s)"
    by (auto simp: armed_def sending_def tick_def Let_def tick_tx_def tick_tx_armed_def)
qed

lemma packs_bit:
  assumes "packs d hs" "i < length hs" "length hs \<le> 72"
  shows "\<exists>byte. list_get d (unat (drop_bit 3 (word_of_nat i :: u8))) = Some byte \<and>
    (byte AND drop_bit (unat ((word_of_nat i :: u8) AND 7)) 0x80 \<noteq> 0 \<longleftrightarrow> hs ! i)"
proof -
  have u: "unat (word_of_nat i :: u8) = i"
    using assms by (simp add: unat_of_nat)
  have pos: "unat (drop_bit 3 (word_of_nat i :: u8)) = i div 8"
    using u by (simp add: drop_bit_eq_div unat_div_distrib)
  have "x AND 7 = take_bit 3 x" for x :: u8
    unfolding take_bit_eq_mask by (simp add: mask_eq_exp_minus_1)
  then have m: "unat (word_of_nat i AND 7 :: u8) = i mod 8"
    using u by (simp add: take_bit_eq_mod unat_mod_distrib)
  have "drop_bit n (0x80 :: u8) = push_bit (7 - n) 1" if "n < 8" for n
  proof -
    have "n \<in> {0, 1, 2, 3, 4, 5, 6, 7}"
      using that by auto
    then show ?thesis
      by (elim insertE emptyE) (simp_all add: drop_bit_eq_div)
  qed
  then have "byte AND drop_bit (i mod 8) 0x80 \<noteq> 0 \<longleftrightarrow> bit byte (7 - i mod 8)" for byte :: u8
    by (simp add: bit_iff_and_push_bit_not_eq_0)
  moreover have "i div 8 < length d" "half_bit d i = hs ! i"
    using assms by (auto simp: packs_def)
  ultimately show ?thesis
    unfolding pos m by (simp add: list_get_def half_bit_def)
qed

lemma less_len:
  assumes "i \<le> 72" "n \<le> 72"
  shows "(word_of_nat n :: u8) \<le> word_of_nat i \<longleftrightarrow> n \<le> i"
  using assms by (simp add: word_le_nat_alt unat_of_nat)

lemma sending_next:
  assumes "sending hs i 0 s" "i < length hs"
  shows "sending hs (Suc i) 3 (tick l s)"
proof -
  have s: "bus_state s = BusTx" "tx_armed s = 0" "packs (tx_hb_data s) hs" "tx_hb_len s = word_of_nat (length hs)"
    "tx_hb_cnt s = word_of_nat i" "tx_sp_cnt s = 0" "tx_collision s = 0" "\<not> tx_yielded s" "length hs \<le> 72"
    using assms by (simp_all add: sending_def)
  obtain byte where b: "list_get (tx_hb_data s) (unat (drop_bit 3 (word_of_nat i :: u8))) = Some byte"
    "byte AND drop_bit (unat ((word_of_nat i :: u8) AND 7)) 0x80 \<noteq> 0 \<longleftrightarrow> hs ! i"
    using packs_bit [OF s(3) assms(2) s(9)] by blast
  have n: "\<not> word_of_nat (length hs) \<le> (word_of_nat i :: u8)"
    using assms(2) s(9) by (simp add: less_len)
  have three: "saturating_sub 4 1 = (3 :: u8)"
    by (simp add: saturating_sub_def)
  show ?thesis
    using s n b assms(2) by (cases "hs ! i") (simp_all add: sending_def tick_def Let_def tick_tx_def tx_collision_detected_def three)
qed

lemma sending_hold:
  assumes "sending hs i (Suc j) s" "j \<le> 2" "i < length hs" "0 < i" "l \<or> \<not> hal_high s \<or> j = 2"
  shows "sending hs i j (tick l s)"
proof -
  have s: "bus_state s = BusTx" "tx_armed s = 0" "packs (tx_hb_data s) hs" "tx_hb_len s = word_of_nat (length hs)"
    "tx_hb_cnt s = word_of_nat i" "tx_sp_cnt s = word_of_nat (Suc j)" "tx_collision s = 0" "\<not> tx_yielded s" "length hs \<le> 72"
    "hal_high s = (\<not> hs ! (i - 1))" "tx_high s = (if hal_high s then 1 else 0)"
    using assms by (simp_all add: sending_def)
  have n: "\<not> word_of_nat (length hs) \<le> (word_of_nat i :: u8)"
    using assms(3) s(9) by (simp add: less_len)
  have j: "saturating_sub (word_of_nat (Suc j)) 1 = (word_of_nat j :: u8)" "word_of_nat (Suc j) \<noteq> (0 :: u8)"
    using assms(2) by (simp_all add: word_unat_eq_iff unat_saturating_sub unat_of_nat del: of_nat_Suc)
  have c: "word_of_nat (Suc j) = (1 :: u8) \<or> word_of_nat (Suc j) = (2 :: u8) \<Longrightarrow> j \<noteq> 2"
    using assms(2) by auto
  then have "\<not> tx_collision_detected (if l then 1 else 0) s'" if "tx_high s' = tx_high s" "tx_sp_cnt s' = tx_sp_cnt s" for s' :: DaliBitbangPhy
    using assms(5) s(6,11) that by (auto simp: tx_collision_detected_def Let_def split: if_split_asm)
  then show ?thesis
    using s n j assms(3,4) by (simp add: sending_def tick_def Let_def tick_tx_def del: of_nat_Suc)
qed

text \<open>After the last half-bit the line is left idle.\<close>

definition idle_after :: "DaliBitbangPhy \<Rightarrow> bool" where
  "idle_after s \<longleftrightarrow> bus_state s = BusIdle \<and> hal_high s \<and> tx_collision s = 0 \<and> \<not> tx_yielded s"

lemma sending_end:
  assumes "sending hs (length hs) j s"
  shows "idle_after (tick l s)"
  using assms by (simp add: sending_def idle_after_def tick_def Let_def tick_tx_def set_bus_idle_def)

lemma idle_after_tick: "idle_after s \<Longrightarrow> idle_after (tick True s)"
  by (simp add: idle_after_def tick_def Let_def tick_idle_def)

text \<open>A listener: it never drives the line.\<close>

definition listener :: "DaliBitbangPhy \<Rightarrow> bool" where
  "listener s \<longleftrightarrow> hal_high s \<and> (bus_state s = BusIdle \<or> bus_state s = BusRx)"

lemma listener_tick_rx: "listener s \<Longrightarrow> listener (tick_rx l s)"
  by (simp add: listener_def tick_rx_def Let_def finish_rx_and_notify_def set_bus_idle_def)

lemma listener_tick:
  assumes "listener s"
  shows "listener (tick l s)"
proof -
  have "listener ((tick_rx 0 ^^ n) s)" if "listener s" for n s
    using that by (induction n) (simp_all add: listener_tick_rx)
  moreover have "listener (enter_rx s)" if "hal_high s" for s
    using that by (simp add: listener_def enter_rx_def)
  ultimately have idle: "listener (tick_idle b s)" if "hal_high s" "bus_state s = BusIdle" for b s
    using that by (simp add: tick_idle_def Let_def) (simp add: listener_def)
  define s1 where "s1 = sampled l s"
  have "hal_high s1" "bus_state s1 = bus_state s"
    using assms by (simp_all add: listener_def s1_def sampled_def)
  then have s1: "bus_state s = BusIdle \<Longrightarrow> listener (tick_idle b s1)" "bus_state s = BusRx \<Longrightarrow> listener s1" for b
    by (simp_all add: idle) (simp add: listener_def)
  consider "bus_state s = BusIdle" | "bus_state s = BusRx"
    using assms by (auto simp: listener_def)
  then show ?thesis
    unfolding tick_sampled s1_def [symmetric] by cases (simp_all add: s1 listener_tick_rx)
qed

section \<open>What a transmitter drives\<close>

definition echo :: "nat \<Rightarrow> DaliBitbangPhy \<Rightarrow> DaliBitbangPhy" where
  "echo n s = ((\<lambda>s. tick (hal_high s) s) ^^ n) s"

lemma echo_Suc: "echo (Suc n) s = tick (hal_high (echo n s)) (echo n s)"
  by (simp add: echo_def)

lemma echo_armed:
  assumes "armed hs 3 a" "k \<le> 3"
  shows "armed hs (3 - k) (echo k a) \<and> hal_high (echo k a)"
  using assms(2)
proof (induction k)
  case 0
  then show ?case
    using assms(1) by (simp add: echo_def armed_def sending_def)
next
  case (Suc k)
  then have "armed hs (Suc (2 - k)) (echo k a)" "hal_high (echo k a)"
    by (simp_all add: Suc_diff_le numeral_3_eq_3 numeral_2_eq_2)
  with armed_tick [of hs "2 - k" "echo k a"] show ?case
    by (simp add: echo_Suc)
qed

lemma echo_half_bit:
  assumes "sending hs i 0 (echo k a)" "i < length hs"
  shows "sending hs (Suc i) 3 (echo (k + 1) a)"
    and "Suc i < length hs \<Longrightarrow> j \<le> 3 \<Longrightarrow> sending hs (Suc i) (3 - j) (echo (k + 1 + j) a)"
proof -
  show first: "sending hs (Suc i) 3 (echo (k + 1) a)"
    using sending_next [OF assms] by (simp add: echo_Suc)
  show "sending hs (Suc i) (3 - j) (echo (k + 1 + j) a)" if "Suc i < length hs" "j \<le> 3"
    using that(2)
  proof (induction j)
    case 0
    then show ?case
      using first by simp
  next
    case (Suc j)
    then have "sending hs (Suc i) (Suc (2 - j)) (echo (k + 1 + j) a)"
      by (simp add: Suc_diff_le numeral_3_eq_3 numeral_2_eq_2)
    then have "sending hs (Suc i) (2 - j) (tick (hal_high (echo (k + 1 + j) a)) (echo (k + 1 + j) a))"
      using that(1) by (intro sending_hold) auto
    then show ?case
      by (simp add: echo_Suc)
  qed
qed

lemma echo_sending:
  assumes "armed hs 3 a" "i < length hs"
  shows "sending hs i 0 (echo (3 + 4 * i) a)"
  using assms(2)
proof (induction i)
  case 0
  have "armed hs 0 (echo 3 a)"
    using echo_armed [OF assms(1), of 3] by simp
  then show ?case
    by (simp add: armed_def sending_def)
next
  case (Suc i)
  then have "sending hs i 0 (echo (3 + 4 * i) a)"
    by simp
  from echo_half_bit(2) [OF this, of 3] Suc.prems show ?case
    by (simp add: add.commute)
qed

lemma echo_idle:
  assumes "armed hs 3 a" "hs \<noteq> []"
  shows "idle_after (echo (4 * length hs + 1 + m) a)"
proof (induction m)
  case 0
  have "sending hs (length hs - 1) 0 (echo (3 + 4 * (length hs - 1)) a)"
    using assms by (intro echo_sending) simp_all
  from echo_half_bit(1) [OF this] assms(2) have "sending hs (length hs) 3 (echo (4 * length hs) a)"
    by (simp add: diff_mult_distrib2 Suc_le_eq)
  from sending_end [OF this] show ?case
    by (simp add: echo_Suc)
next
  case (Suc m)
  then show ?case
    using idle_after_tick [of "echo (4 * length hs + 1 + m) a"] by (simp add: echo_Suc idle_after_def)
qed

lemma echo_drive:
  assumes "armed hs 3 a" "i < length hs" "j < 4" "\<not> last hs"
  shows "hal_high (echo (4 + 4 * i + j) a) = (\<not> hs ! i)"
proof -
  have s: "sending hs i 0 (echo (3 + 4 * i) a)"
    using assms by (intro echo_sending)
  show ?thesis
  proof (cases "Suc i < length hs \<or> j = 0")
    case True
    then have "\<exists>k. sending hs (Suc i) k (echo (4 + 4 * i + j) a)"
      using echo_half_bit(1) [OF s assms(2)] echo_half_bit(2) [OF s assms(2), of j] assms(3) by (auto simp: add.commute)
    then show ?thesis
      by (auto simp: sending_def)
  next
    case False
    then have i: "i = length hs - 1" "hs \<noteq> []" "0 < j"
      using assms(2) by auto
    then have at: "4 + 4 * i + j = 4 * length hs + 1 + (j - 1)"
      by (simp add: diff_mult_distrib2 Suc_le_eq)
    have "hal_high (echo (4 + 4 * i + j) a)"
      unfolding at using echo_idle [OF assms(1) i(2), of "j - 1"] by (simp only: idle_after_def)
    then show ?thesis
      using assms(4) i by (simp add: last_conv_nth)
  qed
qed

definition levels_of :: "bool list \<Rightarrow> bool list" where
  "levels_of hs = concat (map (\<lambda>h. replicate 4 (\<not> h)) hs)"

lemma echo_levels:
  assumes "armed hs 3 a" "hs \<noteq> []" "\<not> last hs"
  shows "map (\<lambda>k. hal_high (echo k a)) [0..<4 + 4 * length hs + m] = replicate 4 True @ levels_of hs @ replicate m True"
proof -
  have four: "replicate 4 x = [x, x, x, x]" for x :: bool
    by (simp add: numeral_eq_Suc)
  have "hal_high (echo k a)" if "k \<le> 3" for k
    using echo_armed [OF assms(1) that] by simp
  then have lead: "map (\<lambda>k. hal_high (echo k a)) [0..<4] = replicate 4 True"
    by (intro nth_equalityI) simp_all
  have "map (\<lambda>k. hal_high (echo k a)) [4..<4 + 4 * n] = levels_of (take n hs)" if "n \<le> length hs" for n
    using that
  proof (induction n)
    case (Suc n)
    have "[4..<4 + 4 * Suc n] = [4..<4 + 4 * n] @ [4 + 4 * n + 0, 4 + 4 * n + 1, 4 + 4 * n + 2, 4 + 4 * n + 3]"
    proof -
      have at: "4 + 4 * Suc n = Suc (Suc (Suc (Suc (4 + 4 * n))))"
        by simp
      show ?thesis
        unfolding at upt_Suc by simp
    qed
    moreover have "hal_high (echo (4 + 4 * n + j) a) = (\<not> hs ! n)" if "j < 4" for j
      using echo_drive [OF assms(1) _ that assms(3), of n] Suc.prems by simp
    note this [of 0] this [of 1] this [of 2] this [of 3]
    ultimately show ?case
      using Suc by (simp add: levels_of_def take_Suc_conv_app_nth four)
  qed (simp add: levels_of_def)
  from this [of "length hs"] have body: "map (\<lambda>k. hal_high (echo k a)) [4..<4 + 4 * length hs] = levels_of hs"
    by simp
  have "hal_high (echo (4 + 4 * length hs + k) a)" for k
    using echo_idle [OF assms(1,2), of "3 + k"] by (simp add: idle_after_def add.commute add.left_commute numeral_eq_Suc)
  then have "map (\<lambda>k. hal_high (echo k a)) [4 + 4 * length hs..<4 + 4 * length hs + m] = replicate m True"
    by (intro nth_equalityI) simp_all
  moreover have "[0..<4 + 4 * length hs + m] = [0..<4] @ [4..<4 + 4 * length hs] @ [4 + 4 * length hs..<4 + 4 * length hs + m]"
    unfolding upt_add_eq_append [OF le0, of "4 + 4 * length hs" m] upt_add_eq_append [OF le0, of 4 "4 * length hs"]
    by (rule append_assoc)
  ultimately show ?thesis
    by (simp only: map_append lead body)
qed

section \<open>The receiver\<close>

definition shift_in :: "u8 \<Rightarrow> bool \<Rightarrow> u8" where
  "shift_in x l = push_bit 1 x OR (if l then 1 else 0)"

type_synonym rx_core = "u8 list \<times> u16 \<times> u8 \<times> u8 \<times> u8"

definition core_of :: "DaliBitbangPhy \<Rightarrow> rx_core" where
  "core_of s = (rx_data s, rx_pos s, rx_byte s, rx_bit_cnt s, rx_idle s)"

definition core_next :: "bool \<Rightarrow> rx_core \<Rightarrow> rx_core" where
  "core_next l = (\<lambda>(d, p, x, c, r).
     if c + 1 = 8 then (d[unat p := shift_in x l], p + 1, shift_in x l, 0, if l then r + 1 else 0)
     else (d, p, shift_in x l, c + 1, if l then r + 1 else 0))"

text \<open>What a receiving physical layer keeps while it samples.\<close>

definition receiving :: "DaliBitbangPhy \<Rightarrow> bool" where
  "receiving s \<longleftrightarrow> bus_state s = BusRx \<and> hal_high s \<and> length (rx_data s) = 64 \<and> ev_isr_decode (last_rx s) = NotDecoded"

lemma tick_rx_core:
  assumes "receiving s" "rx_pos s < 63" "rx_idle s < 15"
  shows "core_of (tick_rx (if l then 1 else 0) s) = core_next l (core_of s) \<and> receiving (tick_rx (if l then 1 else 0) s)"
proof -
  have "unat (rx_pos s) < 63" "unat (rx_idle s) < 15"
    using assms(2,3) by (simp_all add: word_less_nat_alt)
  then have "saturating_add (rx_pos s) 1 = rx_pos s + 1" "saturating_add (rx_idle s) 1 = rx_idle s + 1"
    "\<not> 16 \<le> rx_idle s + 1" "unat (rx_pos s + 1) \<le> 63"
    by (simp_all add: saturating_add_def word_less_nat_alt word_le_nat_alt unat_word_ariths)
  with assms(1) \<open>unat (rx_pos s) < 63\<close> show ?thesis
    by (auto simp: receiving_def core_of_def core_next_def tick_rx_def Let_def shift_in_def)
qed

lemma tick_core:
  assumes "receiving s" "rx_pos s < 63" "rx_idle s < 15"
  shows "core_of (tick l s) = core_next l (core_of s)" "receiving (tick l s)"
proof -
  have "receiving (sampled l s)" "rx_pos (sampled l s) < 63" "rx_idle (sampled l s) < 15" "core_of (sampled l s) = core_of s"
    using assms by (simp_all add: receiving_def sampled_def core_of_def)
  moreover have "bus_state s = BusRx"
    using assms(1) by (simp add: receiving_def)
  ultimately show "core_of (tick l s) = core_next l (core_of s)" "receiving (tick l s)"
    using tick_rx_core [of "sampled l s" l] by (simp_all add: tick_sampled)
qed

text \<open>A run of ticks that stays inside the buffer and sees no idle line.\<close>

fun undisturbed :: "bool list \<Rightarrow> rx_core \<Rightarrow> bool" where
  "undisturbed [] c = True"
| "undisturbed (l # ls) c = (fst (snd c) < 63 \<and> snd (snd (snd (snd c))) < 15 \<and> undisturbed ls (core_next l c))"

lemma ticks_core:
  assumes "receiving s" "undisturbed ls (core_of s)"
  shows "core_of (fold tick ls s) = fold core_next ls (core_of s) \<and> receiving (fold tick ls s)"
  using assms
proof (induction ls arbitrary: s)
  case (Cons l ls)
  then have "rx_pos s < 63" "rx_idle s < 15"
    by (simp_all add: core_of_def)
  from tick_core [OF Cons.prems(1) this] Cons show ?case
    by simp
qed simp

definition byte_levels :: "bool \<Rightarrow> bool list" where
  "byte_levels b = replicate 4 (\<not> b) @ replicate 4 b"

lemma byte_levels_list: "byte_levels b = [\<not> b, \<not> b, \<not> b, \<not> b, b, b, b, b]"
  by (simp add: byte_levels_def numeral_eq_Suc)

lemma shift_octet:
  "shift_in (shift_in (shift_in (shift_in (shift_in (shift_in (shift_in (shift_in x (\<not> b)) (\<not> b)) (\<not> b)) (\<not> b)) b) b) b) b = sample_of b"
proof (cases b)
  case True
  have "shift_in (shift_in (shift_in (shift_in (shift_in (shift_in (shift_in (shift_in x False) False) False) False) True) True) True) True = 0x0F"
    by (rule all_octets [of "\<lambda>x. shift_in (shift_in (shift_in (shift_in (shift_in (shift_in (shift_in (shift_in x False) False) False) False) True) True) True) True = 0x0F"]) code_simp
  with True show ?thesis
    by (simp add: sample_of_def)
next
  case False
  have "shift_in (shift_in (shift_in (shift_in (shift_in (shift_in (shift_in (shift_in x True) True) True) True) False) False) False) False = 0xF0"
    by (rule all_octets [of "\<lambda>x. shift_in (shift_in (shift_in (shift_in (shift_in (shift_in (shift_in (shift_in x True) True) True) True) False) False) False) False = 0xF0"]) code_simp
  with False show ?thesis
    by (simp add: sample_of_def)
qed

lemma core_byte:
  assumes "r = 0 \<or> r = 4" "p < 63"
  shows "undisturbed (byte_levels b) (d, p, x, 0, r)"
    and "fold core_next (byte_levels b) (d, p, x, 0, r) = (d[unat p := sample_of b], p + 1, sample_of b, 0, if b then 4 else 0)"
  using assms shift_octet [of x b] unfolding byte_levels_list
  by (cases b; auto simp: core_next_def)+

text \<open>A receiver that has sampled the bytes of the bits \<open>bs\<close>.\<close>

definition heard :: "bool list \<Rightarrow> DaliBitbangPhy \<Rightarrow> bool" where
  "heard bs s \<longleftrightarrow> receiving s \<and> bs \<noteq> [] \<and> length bs \<le> 33 \<and>
     (\<exists>d x. core_of s = (d, word_of_nat (length bs), x, 0, if last bs then 4 else 0) \<and> take (length bs) d = map sample_of bs)"

lemma small_pos: "n \<le> 40 \<Longrightarrow> unat (word_of_nat n :: u16) = n \<and> (word_of_nat n :: u16) < 63"
  by (simp add: unat_of_nat word_less_nat_alt)

lemma heard_next:
  assumes "heard bs s" "length bs \<le> 32"
  shows "heard (bs @ [b]) (fold tick (byte_levels b) s)"
proof -
  obtain d x where s: "receiving s" "core_of s = (d, word_of_nat (length bs), x, 0, if last bs then 4 else 0)"
    "take (length bs) d = map sample_of bs"
    using assms(1) by (auto simp: heard_def)
  have d: "length d = 64"
    using s(1,2) by (auto simp: receiving_def core_of_def)
  have n: "unat (word_of_nat (length bs) :: u16) = length bs" "(word_of_nat (length bs) :: u16) < 63"
    using small_pos assms(2) by simp_all
  have r: "(if last bs then 4 else 0 :: u8) = 0 \<or> (if last bs then 4 else 0 :: u8) = 4"
    by simp
  from ticks_core [OF s(1), of "byte_levels b"] core_byte [OF r n(2), of b d x]
  have "core_of (fold tick (byte_levels b) s) =
      (d[length bs := sample_of b], word_of_nat (length bs) + 1, sample_of b, 0, if b then 4 else 0)"
    "receiving (fold tick (byte_levels b) s)"
    by (simp_all add: s(2) n(1))
  then show ?thesis
    using s(3) d assms(2) by (auto simp: heard_def take_Suc_conv_app_nth add.commute)
qed

lemma heard_all:
  assumes "heard bs s" "length bs + length cs \<le> 33"
  shows "heard (bs @ cs) (fold tick (concat (map byte_levels cs)) s)"
  using assms
proof (induction cs arbitrary: bs s)
  case (Cons c cs)
  then have "heard (bs @ [c]) (fold tick (byte_levels c) s)"
    by (intro heard_next) simp_all
  with Cons.IH [of "bs @ [c]"] Cons.prems show ?case
    by simp
qed simp

text \<open>An idle receiver takes up the start bit.\<close>

definition waiting :: "DaliBitbangPhy \<Rightarrow> bool" where
  "waiting s \<longleftrightarrow> bus_state s = BusIdle \<and> hal_high s \<and> rx_debounce s = 0 \<and> length (rx_data s) = 64 \<and>
     ev_isr_decode (last_rx s) = NotDecoded"

lemma waiting_high: "waiting s \<Longrightarrow> waiting (tick True s)"
  by (simp add: waiting_def tick_sampled sampled_def tick_idle_def Let_def)

lemma waiting_highs: "waiting s \<Longrightarrow> waiting (fold tick (replicate n True) s)"
  by (induction n arbitrary: s) (simp_all add: waiting_high)

lemma start_heard:
  assumes "waiting s"
  shows "heard [True] (fold tick (byte_levels True) s)"
proof -
  have low: "saturating_add 0 1 = (1 :: u8)" "\<not> 2 \<le> (1 :: u8)"
    by (simp_all add: saturating_add_def word_le_nat_alt)
  have "bus_state (tick False s) = BusIdle" "rx_debounce (tick False s) = 1" "hal_high (tick False s)"
    "length (rx_data (tick False s)) = 64" "ev_isr_decode (last_rx (tick False s)) = NotDecoded"
    using assms by (simp_all add: waiting_def tick_sampled sampled_def tick_idle_def Let_def low)
  then obtain t where t: "t = sampled False (tick False s)" "rx_debounce t = 1" "bus_state (tick False s) = BusIdle"
    "hal_high t" "length (rx_data t) = 64" "ev_isr_decode (last_rx t) = NotDecoded"
    by (simp add: sampled_def)
  define e where "e = enter_rx (t\<lparr>rx_debounce := 2\<rparr>)"
  have e: "receiving e" "core_of e = (rx_data t, 0, 0, 0, 0)"
    using t by (simp_all add: e_def enter_rx_def receiving_def core_of_def)
  have twice: "(tick_rx 0 ^^ 2) u = tick_rx 0 (tick_rx 0 u)" for u
    by (simp add: numeral_2_eq_2)
  have two: "tick False (tick False s) = tick_rx 0 (tick_rx 0 e)"
    unfolding tick_sampled [of False "tick False s"] t(1) [symmetric]
    using t twice by (simp add: tick_idle_def Let_def e_def saturating_add_def)
  have e1: "core_of (tick_rx 0 e) = core_next False (core_of e)" "receiving (tick_rx 0 e)"
    using tick_rx_core [OF e(1), of False] e(2) by (simp_all add: core_of_def)
  then have e2: "core_of (tick_rx 0 (tick_rx 0 e)) = core_next False (core_next False (core_of e))" "receiving (tick_rx 0 (tick_rx 0 e))"
    using tick_rx_core [OF e1(2), of False] e(2) by (simp_all add: core_of_def core_next_def)
  have split: "byte_levels True = [False, False] @ [False, False, True, True, True, True]"
    by (simp add: byte_levels_list)
  have "undisturbed (byte_levels True) (rx_data t, 0, 0, 0, 0)"
    by (rule core_byte) simp_all
  then have c: "undisturbed [False, False, True, True, True, True] (core_next False (core_next False (core_of e)))"
    by (simp add: byte_levels_list e(2))
  have "fold core_next (byte_levels True) (rx_data t, 0, 0, 0, 0) =
      ((rx_data t)[unat (0 :: u16) := sample_of True], 0 + 1, sample_of True, 0, if True then 4 else 0)"
    by (rule core_byte) simp_all
  then have f: "fold core_next [False, False, True, True, True, True] (core_next False (core_next False (core_of e))) =
      ((rx_data t)[0 := sample_of True], 1, sample_of True, 0, 4)"
    by (simp add: byte_levels_list e(2))
  have "core_of (fold tick (byte_levels True) s) = ((rx_data t)[0 := sample_of True], 1, sample_of True, 0, 4) \<and>
      receiving (fold tick (byte_levels True) s)"
    using ticks_core [OF e2(2), of "[False, False, True, True, True, True]"] c f e2(1) two by (simp add: byte_levels_list)
  moreover have "take 1 ((rx_data t)[0 := sample_of True]) = [sample_of True]"
    using t(5) by (cases "rx_data t") simp_all
  ultimately show ?thesis
    by (simp add: heard_def)
qed

text \<open>Sixteen high samples complete the capture.\<close>

definition completed :: "RxCompletedEvent \<Rightarrow> DaliBitbangPhy \<Rightarrow> bool" where
  "completed ev s \<longleftrightarrow> bus_state s = BusIdle \<and> rx_state s = RxCompleted \<and> last_rx s = ev"

lemma completed_highs: "completed ev s \<Longrightarrow> completed ev (fold tick (replicate n True) s)"
  by (induction n arbitrary: s) (simp_all add: completed_def tick_sampled sampled_def tick_idle_def Let_def)

lemma last_sample:
  assumes "receiving s" "core_of s = (d, p, x, c, 15)" "p < 60"
  shows "\<exists>ev. completed ev (tick True s) \<and> ev_isr_decode ev = NotDecoded \<and>
    ev_sample_count ev = (if c + 1 = 8 then p + 2 else p + 1) \<and>
    ev_samples ev = (if c + 1 = 8 then d[unat p := shift_in x True, unat p + 1 := 0xFF] else d[unat p := 0xFF])"
proof -
  have p: "unat p < 60"
    using assms(3) by (simp add: word_less_nat_alt)
  then have a: "saturating_add p 1 = p + 1" "saturating_add (p + 1) 1 = p + 2" "unat (p + 1) = unat p + 1" "16 \<le> saturating_add 15 (1 :: u8)"
    by (simp_all add: saturating_add_def word_less_nat_alt word_le_nat_alt unat_word_ariths)
  have s: "rx_data s = d" "rx_pos s = p" "rx_byte s = x" "rx_bit_cnt s = c" "rx_idle s = 15" "bus_state s = BusRx" "length d = 64"
    "ev_isr_decode (last_rx s) = NotDecoded"
    using assms(1,2) by (auto simp: core_of_def receiving_def)
  show ?thesis
  proof (cases "c + 1 = 8")
    case True
    then show ?thesis
      using s a p by (simp add: completed_def tick_sampled sampled_def tick_rx_def Let_def finish_rx_and_notify_def set_bus_idle_def shift_in_def)
  next
    case False
    then show ?thesis
      using s a p by (simp add: completed_def tick_sampled sampled_def tick_rx_def Let_def finish_rx_and_notify_def set_bus_idle_def)
  qed
qed

lemma shift_high:
  "shift_in (shift_in (shift_in (shift_in (shift_in (shift_in (shift_in (shift_in x True) True) True) True) True) True) True) True = 0xFF"
  by (rule all_octets [of "\<lambda>x. shift_in (shift_in (shift_in (shift_in (shift_in (shift_in (shift_in (shift_in x True) True) True) True) True) True) True) True = 0xFF"]) code_simp

lemma core_highs:
  assumes "p < 60"
  shows "undisturbed (replicate 11 True) (d, p, x, 0, 4)"
    and "\<exists>y. fold core_next (replicate 11 True) (d, p, x, 0, 4) = (d[unat p := 0xFF], p + 1, y, 3, 15)"
    and "undisturbed (replicate 15 True) (d, p, x, 0, 0)"
    and "\<exists>y. fold core_next (replicate 15 True) (d, p, x, 0, 0) = (d[unat p := 0xFF], p + 1, y, 7, 15) \<and> shift_in y True = 0xFF"
proof -
  have p: "p < 63" "p + 1 < 63" "unat (p + 1) = unat p + 1"
    using assms by (simp_all add: word_less_nat_alt unat_word_ariths)
  have r: "replicate 11 True = replicate 8 True @ replicate 3 True" "replicate 15 True = replicate 8 True @ replicate 7 True"
    by (simp_all flip: replicate_add)
  have l: "replicate 8 True = [True, True, True, True, True, True, True, True]" "replicate 3 True = [True, True, True]"
    "replicate 7 True = [True, True, True, True, True, True, True]"
    by (simp_all add: numeral_eq_Suc)
  show "undisturbed (replicate 11 True) (d, p, x, 0, 4)" "undisturbed (replicate 15 True) (d, p, x, 0, 0)"
    unfolding r l using p by (simp_all add: core_next_def)
  show "\<exists>y. fold core_next (replicate 11 True) (d, p, x, 0, 4) = (d[unat p := 0xFF], p + 1, y, 3, 15)"
    "\<exists>y. fold core_next (replicate 15 True) (d, p, x, 0, 0) = (d[unat p := 0xFF], p + 1, y, 7, 15) \<and> shift_in y True = 0xFF"
    unfolding r l using p shift_high [of x] shift_high [of "0xFF"] by (simp_all add: core_next_def)
qed

lemma update_tail:
  assumes "take n d = xs" "length d = 64" "n \<le> 40"
  shows "\<exists>rest. d[n := v, n + 1 := v] = xs @ replicate 2 v @ rest"
    and "\<exists>rest. d[n := v, n + 1 := v, n + 2 := v] = xs @ replicate 3 v @ rest"
proof -
  have "\<exists>a b c rest. e = a # b # c # rest" if "3 \<le> length e" for e :: "'a list"
    using that by (cases e; cases "tl e"; cases "tl (tl e)") auto
  moreover have "3 \<le> length (drop n d)"
    using assms(2,3) by simp
  ultimately obtain a b c rest where e: "drop n d = a # b # c # rest"
    by blast
  have "d = xs @ a # b # c # rest"
    using append_take_drop_id [of n d] by (simp add: assms(1) e)
  moreover have "n = length xs"
    using assms by auto
  ultimately show "\<exists>rest. d[n := v, n + 1 := v] = xs @ replicate 2 v @ rest"
    "\<exists>rest. d[n := v, n + 1 := v, n + 2 := v] = xs @ replicate 3 v @ rest"
    by (simp_all add: list_update_append numeral_eq_Suc)
qed

lemma heard_end:
  assumes "heard (True # bs) s" "length bs \<le> 31"
  shows "\<exists>ev. completed ev (fold tick (replicate 16 True) s) \<and> captures ev bs"
proof -
  define p where "p = length (True # bs)"
  obtain d x where s: "receiving s" "core_of s = (d, word_of_nat p, x, 0, if last (True # bs) then 4 else 0)"
    "take p d = map sample_of (True # bs)"
    using assms(1) by (auto simp: heard_def p_def)
  have d: "length d = 64"
    using s(1,2) by (auto simp: receiving_def core_of_def)
  have u: "unat (word_of_nat p :: u16) = p" "(word_of_nat p :: u16) < 60" "p \<le> 32"
    using assms(2) by (simp_all add: p_def unat_of_nat word_less_nat_alt del: of_nat_Suc)
  have up: "unat (word_of_nat p + 1 :: u16) = p + 1" "(word_of_nat p + 1 :: u16) < 60"
    using u by (simp_all add: word_less_nat_alt unat_word_ariths)
  show ?thesis
  proof (cases "last (True # bs)")
    case True
    obtain y where y: "fold core_next (replicate 11 True) (core_of s) = (d[p := 0xFF], word_of_nat p + 1, y, 3, 15)"
      using core_highs(2) [OF u(2), of d x] True by (auto simp: s(2) u(1))
    have "core_of (fold tick (replicate 11 True) s) = (d[p := 0xFF], word_of_nat p + 1, y, 3, 15)"
      "receiving (fold tick (replicate 11 True) s)"
      using ticks_core [OF s(1), of "replicate 11 True"] core_highs(1) [OF u(2), of d x] True y by (simp_all add: s(2))
    from last_sample [OF this(2,1) up(2)] obtain ev where ev: "completed ev (tick True (fold tick (replicate 11 True) s))"
      "ev_isr_decode ev = NotDecoded" "ev_sample_count ev = word_of_nat (p + 2)" "ev_samples ev = d[p := 0xFF, p + 1 := 0xFF]"
      by (auto simp: up(1) add.assoc)
    have "replicate 16 True = replicate 11 True @ [True] @ replicate 4 True"
      by (simp add: numeral_eq_Suc)
    then have "completed ev (fold tick (replicate 16 True) s)"
      using completed_highs [OF ev(1), of 4] by simp
    moreover have "captures ev bs"
      using ev update_tail(1) [OF s(3) d, of "0xFF"] u(3) d assms(2) unfolding captures_def
      by (intro conjI exI [of _ 2]) (auto simp: p_def)
    ultimately show ?thesis
      by blast
  next
    case False
    obtain y where y: "fold core_next (replicate 15 True) (core_of s) = (d[p := 0xFF], word_of_nat p + 1, y, 7, 15)" "shift_in y True = 0xFF"
      using core_highs(4) [OF u(2), of d x] False by (auto simp: s(2) u(1))
    have "core_of (fold tick (replicate 15 True) s) = (d[p := 0xFF], word_of_nat p + 1, y, 7, 15)"
      "receiving (fold tick (replicate 15 True) s)"
      using ticks_core [OF s(1), of "replicate 15 True"] core_highs(3) [OF u(2), of d x] False y by (simp_all add: s(2))
    from last_sample [OF this(2,1) up(2)] obtain ev where ev: "completed ev (tick True (fold tick (replicate 15 True) s))"
      "ev_isr_decode ev = NotDecoded" "ev_sample_count ev = word_of_nat (p + 3)"
      "ev_samples ev = d[p := 0xFF, p + 1 := 0xFF, p + 2 := 0xFF]"
      by (auto simp: up(1) y(2) add.assoc)
    have "replicate 16 True = replicate 15 True @ [True]"
      by (simp add: numeral_eq_Suc)
    then have "completed ev (fold tick (replicate 16 True) s)"
      using ev(1) by simp
    moreover have "captures ev bs"
      using ev update_tail(2) [OF s(3) d, of "0xFF"] u(3) d assms(2) unfolding captures_def
      by (intro conjI exI [of _ 3]) (auto simp: p_def)
    ultimately show ?thesis
      by blast
  qed
qed

section \<open>One line\<close>

text \<open>The line is low when anyone drives it low; everyone samples it before driving it.\<close>

definition line_tick :: "DaliBitbangPhy \<times> DaliBitbangPhy \<Rightarrow> DaliBitbangPhy \<times> DaliBitbangPhy" where
  "line_tick = (\<lambda>(a, b). let level = hal_high a \<and> hal_high b in (tick level a, tick level b))"

lemma line_listener:
  assumes "listener b"
  shows "(line_tick ^^ n) (a, b) = (echo n a, fold tick (map (\<lambda>k. hal_high (echo k a)) [0..<n]) b)
    \<and> listener (fold tick (map (\<lambda>k. hal_high (echo k a)) [0..<n]) b)"
proof (induction n)
  case (Suc n)
  then show ?case
    by (auto simp: line_tick_def Let_def echo_Suc listener_tick) (simp_all add: listener_def)
qed (simp add: echo_def assms)

lemma levels_frame: "levels_of (concat (map pair_of bs) @ replicate 4 False) = concat (map byte_levels bs) @ replicate 16 True"
proof -
  have "levels_of (pair_of b) = byte_levels b" for b
    by (simp add: levels_of_def pair_of_def byte_levels_def)
  then have "levels_of (concat (map pair_of bs)) = concat (map byte_levels bs)"
    by (induction bs) (simp_all add: levels_of_def)
  moreover have "levels_of (replicate 4 False) = replicate 16 True"
    by (simp add: levels_of_def numeral_eq_Suc)
  ultimately show ?thesis
    by (simp add: levels_of_def)
qed

lemma length_pairs: "length (concat (map pair_of bs)) = 2 * length bs"
  by (induction bs) (simp_all add: pair_of_def)

text \<open>A frame sent on a line with an idle listener is captured by it.\<close>

lemma frame_captured:
  assumes "start_tx hb a = (True, a')" "hal_high a" "holds hb (concat (map pair_of (True # bs)) @ replicate 4 False)"
    "waiting b" "length bs \<le> 31" "24 + 8 * (length bs + 1) \<le> n"
  shows "\<exists>a'' b'' ev. (line_tick ^^ n) (a', b) = (a'', b'') \<and> idle_after a'' \<and> completed ev b'' \<and> captures ev bs"
proof -
  define hs where "hs = concat (map pair_of (True # bs)) @ replicate 4 False"
  have hs: "hs \<noteq> []" "\<not> last hs" "length hs = 2 * (length bs + 1) + 4"
    unfolding hs_def length_append length_pairs by (simp_all add: numeral_eq_Suc)
  have hb: "packs (hb_data hb) hs" "hb_length hb = word_of_nat (length hs)" "length hs \<le> 72"
    using assms(3) by (simp_all add: holds_def hs_def)
  have a: "armed hs 3 a'"
    using assms(1,2) hb by (auto simp: start_tx_def load_tx_def armed_def sending_def TX_ARM_LEAD_TICKS_def split: if_split_asm)
  define m where "m = n - (4 + 4 * length hs)"
  have n: "n = 4 + 4 * length hs + m"
    using assms(6) by (simp add: m_def hs(3))
  have levels: "map (\<lambda>k. hal_high (echo k a')) [0..<n] =
      replicate 4 True @ byte_levels True @ concat (map byte_levels bs) @ replicate 16 True @ replicate m True"
    unfolding n echo_levels [OF a hs(1,2)] by (simp add: hs_def levels_frame [of "True # bs", simplified])
  have "heard [True] (fold tick (byte_levels True) (fold tick (replicate 4 True) b))"
    by (intro start_heard waiting_highs assms)
  then have "heard (True # bs) (fold tick (concat (map byte_levels bs)) (fold tick (byte_levels True) (fold tick (replicate 4 True) b)))"
    using heard_all [of "[True]" _ bs] assms(5) by simp
  from heard_end [OF this assms(5)] obtain ev where ev: "captures ev bs"
    "completed ev (fold tick (map (\<lambda>k. hal_high (echo k a')) [0..<n]) b)"
    unfolding levels fold_append o_apply using completed_highs by blast
  have "idle_after (echo n a')"
    using echo_idle [OF a hs(1), of "3 + m"] by (simp add: n add.commute add.left_commute numeral_eq_Suc)
  moreover have "listener b"
    using assms(4) by (simp add: waiting_def listener_def)
  ultimately show ?thesis
    using line_listener [of b n a'] ev by blast
qed

text \<open>How the frames of the line are encoded.\<close>

fun line_encoding :: "SniffedFrame \<Rightarrow> HalfBitBuffer option" where
  "line_encoding (SniffedForward16 frame) = Some (encode_forward16_raw frame)"
| "line_encoding (SniffedForward24 addr opcode data) = Some (encode_forward24_raw addr opcode data)"
| "line_encoding (SniffedBackward8 v) = Some (halfbits_encode (ucast v) 8)"
| "line_encoding (UnsupportedLength len) = None"
| "line_encoding DecodeFailed = None"

lemma encoding_bits:
  assumes "line_encoding f = Some hb"
  shows "\<exists>bs. length bs \<le> 24 \<and> holds hb (concat (map pair_of (True # bs)) @ replicate 4 False) \<and>
    (\<forall>ev. captures ev bs \<longrightarrow> decode_sniffed ev = Some f)"
proof (cases f)
  case (SniffedForward16 v)
  then show ?thesis
    using assms encode_holds [of 16 16 "ucast v"] sniff_forward16
    by (intro exI [of _ "frame_bits (ucast v) 16"]) (auto simp: encode_forward16_raw_def)
next
  case (SniffedForward24 a b c)
  then show ?thesis
    using assms encode_holds [of 24 24 "push_bit 16 (ucast a) OR push_bit 8 (ucast b) OR ucast c"] sniff_forward24
    by (intro exI [of _ "frame_bits (push_bit 16 (ucast a) OR push_bit 8 (ucast b) OR ucast c) 24"]) (auto simp: encode_forward24_raw_def)
next
  case (SniffedBackward8 v)
  then show ?thesis
    using assms encode_holds [of 8 8 "ucast v"] sniff_backward
    by (intro exI [of _ "frame_bits (ucast v) 8"]) auto
qed (use assms in simp_all)

text \<open>C6. A frame crosses the line: when a physical layer starts to send the encoding of a frame on an idle
  line, then after the ticks of the frame the sender is idle again with nothing to report, and an idle
  listener has completed a capture that decodes to exactly that frame.\<close>

theorem frame_crosses_line:
  assumes "line_encoding frame = Some hb" "start_tx hb sender = (True, sending_phy)" "hal_high sender"
    and "bus_state receiver = BusIdle" "hal_high receiver" "rx_debounce receiver = 0" "length (rx_data receiver) = 64"
    and "ev_isr_decode (last_rx receiver) = NotDecoded" "224 \<le> ticks"
  shows "\<exists>sent received ev. (line_tick ^^ ticks) (sending_phy, receiver) = (sent, received) \<and>
    bus_state sent = BusIdle \<and> fst (poll_tx_state sent) = TxOk \<and>
    fst (take_completed_rx_event received) = Some ev \<and> decode_sniffed ev = Some frame"
proof -
  obtain bs where bs: "length bs \<le> 24" "holds hb (concat (map pair_of (True # bs)) @ replicate 4 False)"
    "\<And>ev. captures ev bs \<Longrightarrow> decode_sniffed ev = Some frame"
    using encoding_bits [OF assms(1)] by blast
  have "waiting receiver"
    using assms by (simp add: waiting_def)
  with frame_captured [OF assms(2,3) bs(2), of receiver ticks] bs(1) assms(9)
  obtain sent received ev where "(line_tick ^^ ticks) (sending_phy, receiver) = (sent, received)"
    "idle_after sent" "completed ev received" "captures ev bs"
    by auto
  with bs(3) show ?thesis
    by (auto simp: idle_after_def poll_tx_state_def completed_def take_completed_rx_event_def)
qed

theorem frame_crosses_line_witness:
  "\<exists>sent received ev. (line_tick ^^ 224) (snd (start_tx (encode_forward16_raw 0xFF05) (phy_new True)), phy_new True) = (sent, received) \<and>
    bus_state sent = BusIdle \<and> fst (poll_tx_state sent) = TxOk \<and>
    fst (take_completed_rx_event received) = Some ev \<and> decode_sniffed ev = Some (SniffedForward16 0xFF05)"
proof (rule frame_crosses_line)
  show "line_encoding (SniffedForward16 0xFF05) = Some (encode_forward16_raw 0xFF05)"
    by simp
  have "hb_length (encode_forward16_raw 0xFF05) = 38"
    by code_simp
  then show "start_tx (encode_forward16_raw 0xFF05) (phy_new True) = (True, snd (start_tx (encode_forward16_raw 0xFF05) (phy_new True)))"
    by (simp add: start_tx_def load_tx_def phy_new_def Let_def set_bus_idle_def MAX_DATA_HALF_BITS_def)
qed (simp_all add: phy_new_def set_bus_idle_def rx_completed_new_def Let_def)

section \<open>Two talkers\<close>

text \<open>What receiving leaves of the state of a transmission.\<close>

definition untouched :: "DaliBitbangPhy \<Rightarrow> DaliBitbangPhy \<Rightarrow> bool" where
  "untouched s t \<longleftrightarrow> tx_collision t = tx_collision s \<and> tx_yielded t = tx_yielded s \<and> collision_policy t = collision_policy s \<and>
     (bus_state t = BusTx \<longrightarrow> bus_state s = BusTx)"

lemma untouched_trans: "untouched s t \<Longrightarrow> untouched t u \<Longrightarrow> untouched s u"
  by (auto simp: untouched_def)

lemma untouched_sampled: "untouched s (sampled l s)"
  by (simp add: untouched_def sampled_def)

lemma untouched_set_bus_idle: "untouched s (set_bus_idle s)"
  by (simp add: untouched_def set_bus_idle_def)

lemma untouched_rx: "untouched s (tick_rx l s)"
  by (simp add: untouched_def tick_rx_def Let_def finish_rx_and_notify_def set_bus_idle_def)

lemma untouched_rx_run: "untouched s ((tick_rx l ^^ n) s)"
proof (induction n)
  case 0
  show ?case
    by (simp add: untouched_def)
next
  case (Suc n)
  from untouched_trans [OF this untouched_rx] show ?case
    by simp
qed

lemma untouched_idle: "untouched s (tick_idle l s)"
proof -
  define e where "e = enter_rx (s\<lparr>rx_debounce := saturating_add (rx_debounce s) 1\<rparr>)"
  have "untouched s e"
    by (simp add: untouched_def e_def enter_rx_def)
  from untouched_trans [OF this untouched_rx_run] have "untouched s ((tick_rx 0 ^^ n) e)" for n .
  then show ?thesis
    by (simp add: tick_idle_def Let_def e_def [symmetric]) (simp add: untouched_def)
qed

lemma tick_policy: "collision_policy (tick l s) = collision_policy s"
proof -
  have idle: "collision_policy (tick_idle b u) = collision_policy u" for b u
    using untouched_idle [of u b] by (simp add: untouched_def)
  have rx: "collision_policy (tick_rx b u) = collision_policy u" for b u
    using untouched_rx [of u b] by (simp add: untouched_def)
  have off: "collision_policy (set_bus_idle u) = collision_policy u" for u
    by (simp add: set_bus_idle_def)
  have "collision_policy (tick_tx b u) = collision_policy u" for b u
    by (simp add: tick_tx_def tick_tx_armed_def enter_collision_tx_def Let_def idle off split: option.split)
  moreover have "collision_policy (tick_collision_tx b u) = collision_policy u" for b u
    by (simp add: tick_collision_tx_def Let_def idle off)
  moreover have "collision_policy (sampled b s) = collision_policy s" for b
    by (simp add: sampled_def)
  ultimately show ?thesis
    by (simp add: tick_sampled idle rx split: BusState.split)
qed

text \<open>A talker that has noticed a collision reports it until it is asked.\<close>

definition collided :: "DaliBitbangPhy \<Rightarrow> bool" where
  "collided s \<longleftrightarrow> tx_collision s \<noteq> 0 \<and> \<not> tx_yielded s \<and> bus_state s \<noteq> BusTx"

lemma collided_untouched: "collided s \<Longrightarrow> untouched s t \<Longrightarrow> collided t"
  by (auto simp: collided_def untouched_def)

lemma collided_break:
  assumes "collided s"
  shows "collided (tick_collision_tx l s)"
proof -
  have held: "collided (s\<lparr>tx_sp_cnt := n, hal_high := h\<rparr>)" for n h
    using assms by (simp add: collided_def)
  have off: "collided (set_bus_idle (s\<lparr>tx_sp_cnt := n, hal_high := h, tx_idle_after_break := q\<rparr>))" for n h q
    using assms by (simp add: collided_def set_bus_idle_def)
  show ?thesis
    by (simp add: tick_collision_tx_def Let_def held off collided_untouched [OF off untouched_idle])
qed

lemma collided_tick:
  assumes "collided s"
  shows "collided (tick l s)"
proof -
  have s: "collided (sampled l s)" "bus_state s \<noteq> BusTx"
    using collided_untouched [OF assms untouched_sampled] assms by (simp_all add: collided_def)
  then show ?thesis
    using collided_untouched [OF s(1) untouched_idle] collided_untouched [OF s(1) untouched_rx] collided_break [OF s(1)]
    by (auto simp: tick_sampled split: BusState.split)
qed

definition watches :: "nat \<Rightarrow> DaliBitbangPhy \<Rightarrow> bool" where
  "watches n s \<longleftrightarrow> collision_policy s = PolicyOn \<or> collision_policy s = PolicyAuto \<and> n \<noteq> 22"

lemma watches_tick [simp]: "watches n (tick l s) = watches n s"
  by (simp add: watches_def tick_policy)

lemma sending_collides:
  assumes "sending hs i 2 s" "i < length hs" "0 < i" "watches (length hs) s" "hal_high s"
  shows "collided (tick False s)"
proof -
  have s: "bus_state s = BusTx" "tx_armed s = 0" "tx_hb_len s = word_of_nat (length hs)" "tx_hb_cnt s = word_of_nat i"
    "tx_sp_cnt s = 2" "tx_collision s = 0" "\<not> tx_yielded s" "length hs \<le> 72" "tx_high s = 1"
    using assms by (simp_all add: sending_def)
  have n: "\<not> word_of_nat (length hs) \<le> (word_of_nat i :: u8)"
    using assms(2) s(8) by (simp add: less_len)
  have "(word_of_nat (length hs) :: u8) = 22 \<Longrightarrow> length hs = 22"
    using s(8) by (simp add: word_unat_eq_iff unat_of_nat)
  then have "tx_collision_detected 0 (sampled False s)"
    using assms(4) s by (auto simp: tx_collision_detected_def Let_def sampled_def watches_def)
  then show ?thesis
    using s n by (simp add: tick_sampled tick_tx_def sampled_def enter_collision_tx_def Let_def collided_def)
qed

text \<open>Two talkers that have driven the same half-bits so far, in step.\<close>

lemma talkers_step:
  assumes "sending hs i 0 a" "sending hs' i 0 b" "Suc i < length hs" "length hs' = length hs" "hs ! i = hs' ! i"
  shows "\<exists>a' b'. (line_tick ^^ 4) (a, b) = (a', b') \<and> sending hs (Suc i) 0 a' \<and> sending hs' (Suc i) 0 b' \<and>
    (watches n a' \<longleftrightarrow> watches n a) \<and> (watches n b' \<longleftrightarrow> watches n b)"
proof -
  have hold: "sending hs (Suc i) j (tick (hal_high x \<and> hal_high y) x) \<and> sending hs' (Suc i) j (tick (hal_high x \<and> hal_high y) y)"
    if "sending hs (Suc i) (Suc j) x" "sending hs' (Suc i) (Suc j) y" "j \<le> 2" for x y j
  proof -
    have "hal_high x = hal_high y"
      using that assms(5) by (simp add: sending_def)
    with that assms(3,4) show ?thesis
      by (intro conjI sending_hold) auto
  qed
  define f where "f = line_tick"
  have f: "f (x, y) = (tick (hal_high x \<and> hal_high y) x, tick (hal_high x \<and> hal_high y) y)" for x y
    by (simp add: f_def line_tick_def Let_def)
  have 1: "sending hs (Suc i) 3 (fst (f (a, b)))" "sending hs' (Suc i) 3 (snd (f (a, b)))"
    using assms by (simp_all add: f sending_next)
  have more: "sending hs (Suc i) j (fst (f p)) \<and> sending hs' (Suc i) j (snd (f p))"
    if "sending hs (Suc i) (Suc j) (fst p)" "sending hs' (Suc i) (Suc j) (snd p)" "j \<le> 2" for p j
    using hold [OF that] f [of "fst p" "snd p"] by simp
  have w: "watches n (fst (f p)) = watches n (fst p)" "watches n (snd (f p)) = watches n (snd p)" for p
    using f [of "fst p" "snd p"] by simp_all
  have "(line_tick ^^ 4) (a, b) = f (f (f (f (a, b))))"
    by (simp add: f_def numeral_eq_Suc)
  moreover have "sending hs (Suc i) 0 (fst (f (f (f (f (a, b)))))) \<and> sending hs' (Suc i) 0 (snd (f (f (f (f (a, b))))))"
    using more [of 2 "f (a, b)"] more [of 1 "f (f (a, b))"] more [of 0 "f (f (f (a, b)))"] 1
    by (simp add: numeral_eq_Suc)
  ultimately show ?thesis
    by (intro exI [of _ "fst (f (f (f (f (a, b)))))"] exI [of _ "snd (f (f (f (f (a, b)))))"]) (simp add: w)
qed

lemma talkers_meet:
  assumes "armed hs 3 a" "armed hs' 3 b" "length hs' = length hs" "i < length hs" "take i hs = take i hs'"
  shows "\<exists>a' b'. (line_tick ^^ (3 + 4 * i)) (a, b) = (a', b') \<and> sending hs i 0 a' \<and> sending hs' i 0 b' \<and>
    (watches n a' \<longleftrightarrow> watches n a) \<and> (watches n b' \<longleftrightarrow> watches n b)"
  using assms(4,5)
proof (induction i)
  case 0
  have armed: "armed hs k (fst (line_tick p)) \<and> armed hs' k (snd (line_tick p)) \<and>
      (watches n (fst (line_tick p)) \<longleftrightarrow> watches n (fst p)) \<and> (watches n (snd (line_tick p)) \<longleftrightarrow> watches n (snd p))"
    if "armed hs (Suc k) (fst p)" "armed hs' (Suc k) (snd p)" "k \<le> 2" for p k
  proof -
    have "hal_high (fst p)" "hal_high (snd p)"
      using that by (simp_all add: armed_def sending_def)
    with armed_tick(1) [OF that(1,3)] armed_tick(1) [OF that(2,3)] show ?thesis
      by (cases p) (simp add: line_tick_def Let_def)
  qed
  define p where "p = line_tick (line_tick (line_tick (a, b)))"
  have p: "(line_tick ^^ (3 + 4 * 0)) (a, b) = p"
    by (simp add: p_def numeral_eq_Suc)
  have "armed hs 0 (fst p) \<and> armed hs' 0 (snd p) \<and> (watches n (fst p) \<longleftrightarrow> watches n a) \<and> (watches n (snd p) \<longleftrightarrow> watches n b)"
    using armed [of 2 "(a, b)"] armed [of 1 "line_tick (a, b)"] armed [of 0 "line_tick (line_tick (a, b))"] assms(1,2)
    by (simp add: p_def numeral_eq_Suc)
  then have "sending hs 0 0 (fst p)" "sending hs' 0 0 (snd p)" "watches n (fst p) \<longleftrightarrow> watches n a" "watches n (snd p) \<longleftrightarrow> watches n b"
    by (simp_all add: armed_def sending_def)
  then show ?case
    unfolding p by (intro exI [of _ "fst p"] exI [of _ "snd p"]) simp
next
  case (Suc i)
  have "take i hs = take i hs'" "hs ! i = hs' ! i"
    using Suc.prems assms(3) by (simp_all add: take_Suc_conv_app_nth)
  with Suc obtain a' b' where ab: "(line_tick ^^ (3 + 4 * i)) (a, b) = (a', b')" "sending hs i 0 a'" "sending hs' i 0 b'"
    "watches n a' \<longleftrightarrow> watches n a" "watches n b' \<longleftrightarrow> watches n b"
    by auto
  obtain c d where cd: "(line_tick ^^ 4) (a', b') = (c, d)" "sending hs (Suc i) 0 c" "sending hs' (Suc i) 0 d"
    "watches n c \<longleftrightarrow> watches n a'" "watches n d \<longleftrightarrow> watches n b'"
    using talkers_step [OF ab(2,3) Suc.prems(1) assms(3) \<open>hs ! i = hs' ! i\<close>, of n] by auto
  have "3 + 4 * Suc i = 4 + (3 + 4 * i)"
    by simp
  then have "(line_tick ^^ (3 + 4 * Suc i)) (a, b) = (line_tick ^^ 4) ((line_tick ^^ (3 + 4 * i)) (a, b))"
    by (simp only: funpow_add [of 4 "3 + 4 * i"] o_apply)
  then have "(line_tick ^^ (3 + 4 * Suc i)) (a, b) = (c, d)"
    unfolding ab(1) cd(1) .
  with cd ab show ?case
    by blast
qed

lemma talkers_clash:
  assumes "sending hs i 0 a" "sending hs' i 0 b" "Suc i < length hs" "length hs' = length hs" "hs ! i \<noteq> hs' ! i"
    "watches (length hs) a" "watches (length hs) b"
  shows "\<exists>a' b'. (line_tick ^^ 3) (a, b) = (a', b') \<and> (collided a' \<or> collided b')"
proof -
  define f where "f = line_tick"
  have f: "f (x, y) = (tick (hal_high x \<and> hal_high y) x, tick (hal_high x \<and> hal_high y) y)" for x y
    by (simp add: f_def line_tick_def Let_def)
  obtain a1 b1 where 1: "f (a, b) = (a1, b1)" "sending hs (Suc i) 3 a1" "sending hs' (Suc i) 3 b1" "watches (length hs) a1" "watches (length hs) b1"
    using assms by (simp add: f sending_next)
  obtain a2 b2 where 2: "f (a1, b1) = (a2, b2)" "sending hs (Suc i) 2 a2" "sending hs' (Suc i) 2 b2" "watches (length hs) a2" "watches (length hs) b2"
    using 1 assms(3,4) sending_hold [of hs "Suc i" 2 a1] sending_hold [of hs' "Suc i" 2 b1] by (simp add: f numeral_eq_Suc)
  have high: "hal_high a2 = (\<not> hs ! i)" "hal_high b2 = (\<not> hs' ! i)"
    using 2 by (simp_all add: sending_def)
  have "collided (tick False a2) \<or> collided (tick False b2)"
    using sending_collides [OF 2(2)] sending_collides [OF 2(3)] 2 assms high by auto
  moreover have "(hal_high a2 \<and> hal_high b2) = False"
    using high assms(5) by auto
  ultimately have "\<exists>a' b'. f (a2, b2) = (a', b') \<and> (collided a' \<or> collided b')"
    unfolding f by auto
  moreover have "(line_tick ^^ 3) (a, b) = f (a2, b2)"
    using 1 2 by (simp add: f_def numeral_eq_Suc)
  ultimately show ?thesis
    by simp
qed

lemma collided_line: "collided (fst p) \<or> collided (snd p) \<Longrightarrow> collided (fst ((line_tick ^^ n) p)) \<or> collided (snd ((line_tick ^^ n) p))"
proof (induction n)
  case (Suc n)
  then show ?case
    by (cases "(line_tick ^^ n) p") (auto simp: line_tick_def Let_def collided_tick)
qed simp

lemma talkers_collide:
  assumes "armed hs 3 a" "armed hs' 3 b" "length hs' = length hs" "hs \<noteq> hs'" "\<not> last hs" "\<not> last hs'" "hs \<noteq> []"
    "watches (length hs) a" "watches (length hs) b" "4 * length hs + 4 \<le> n"
  shows "collided (fst ((line_tick ^^ n) (a, b))) \<or> collided (snd ((line_tick ^^ n) (a, b)))"
proof -
  define i where "i = (LEAST i. i < length hs \<and> hs ! i \<noteq> hs' ! i)"
  have "\<exists>i. i < length hs \<and> hs ! i \<noteq> hs' ! i"
    using assms(3,4) nth_equalityI [of hs hs'] by auto
  from LeastI_ex [OF this, folded i_def] have i: "i < length hs" "hs ! i \<noteq> hs' ! i"
    by blast+
  have "hs ! k = hs' ! k" if "k < i" for k
    using not_less_Least [of k "\<lambda>i. i < length hs \<and> hs ! i \<noteq> hs' ! i", folded i_def] that i(1) by auto
  then have same: "take i hs = take i hs'"
    using i(1) assms(3) by (intro nth_equalityI) simp_all
  have "hs' \<noteq> []"
    using assms(3,7) by auto
  then have "i \<noteq> length hs - 1"
    using i(2) assms(3,5,6,7) by (auto simp: last_conv_nth)
  then have "Suc i < length hs"
    using i(1) by simp
  obtain a1 b1 where ab: "(line_tick ^^ (3 + 4 * i)) (a, b) = (a1, b1)" "sending hs i 0 a1" "sending hs' i 0 b1"
    "watches (length hs) a1" "watches (length hs) b1"
    using talkers_meet [OF assms(1-3) i(1) same, of "length hs"] assms(8,9) by auto
  obtain c d where cd: "(line_tick ^^ 3) (a1, b1) = (c, d)" "collided c \<or> collided d"
    using talkers_clash [OF ab(2,3) \<open>Suc i < length hs\<close> assms(3) i(2) ab(4,5)] by auto
  define m where "m = n - (3 + (3 + 4 * i))"
  have n: "n = m + (3 + (3 + 4 * i))"
    using assms(10) \<open>Suc i < length hs\<close> by (simp add: m_def)
  have "(line_tick ^^ n) (a, b) = (line_tick ^^ m) ((line_tick ^^ 3) ((line_tick ^^ (3 + 4 * i)) (a, b)))"
    unfolding n by (simp only: funpow_add [of m "3 + (3 + 4 * i)"] funpow_add [of 3 "3 + 4 * i"] o_apply)
  then show ?thesis
    using collided_line [of "(c, d)" m] cd ab(1) by simp
qed

lemma pairs_inject: "concat (map pair_of bs) = concat (map pair_of cs) \<Longrightarrow> bs = cs"
proof (induction bs arbitrary: cs)
  case Nil
  then show ?case
    by (cases cs) (simp_all add: pair_of_def)
next
  case (Cons b bs)
  then show ?case
    by (cases cs) (auto simp: pair_of_def)
qed

lemma capture_exists:
  assumes "length bs \<le> 24"
  shows "\<exists>ev. captures ev bs"
proof
  show "captures (rx_completed_new\<lparr>ev_samples := map sample_of (True # bs) @ replicate 2 0xFF @ replicate (61 - length bs) 0,
      ev_sample_count := word_of_nat (length bs + 1 + 2)\<rparr>) bs"
    unfolding captures_def using assms by (intro conjI exI [of _ 2]) (auto simp: rx_completed_new_def)
qed

text \<open>C7. Two talkers notice each other: when two physical layers that watch for collisions start different
  frames of one length on an idle line in the same tick, at least one of them ends with a collision to report,
  so neither frame is taken for sent unnoticed.\<close>

theorem two_talkers_collide:
  assumes "line_encoding frame = Some hb" "line_encoding other = Some hb'" "frame \<noteq> other" "hb_length hb = hb_length hb'"
    and "start_tx hb first = (True, first')" "start_tx hb' second = (True, second')" "hal_high first" "hal_high second"
    and "collision_policy first = PolicyOn \<or> collision_policy first = PolicyAuto \<and> hb_length hb \<noteq> 22"
    and "collision_policy second = PolicyOn \<or> collision_policy second = PolicyAuto \<and> hb_length hb \<noteq> 22"
    and "292 \<le> ticks" "(line_tick ^^ ticks) (first', second') = (end1, end2)"
  shows "fst (poll_tx_state end1) = TxCollision \<or> fst (poll_tx_state end2) = TxCollision"
proof -
  obtain bs where bs: "length bs \<le> 24" "holds hb (concat (map pair_of (True # bs)) @ replicate 4 False)"
    "\<And>ev. captures ev bs \<Longrightarrow> decode_sniffed ev = Some frame"
    using encoding_bits [OF assms(1)] by blast
  obtain cs where cs: "length cs \<le> 24" "holds hb' (concat (map pair_of (True # cs)) @ replicate 4 False)"
    "\<And>ev. captures ev cs \<Longrightarrow> decode_sniffed ev = Some other"
    using encoding_bits [OF assms(2)] by blast
  define hs hs' where "hs = concat (map pair_of (True # bs)) @ replicate 4 False" "hs' = concat (map pair_of (True # cs)) @ replicate 4 False"
  have "bs \<noteq> cs"
    using capture_exists [OF bs(1)] bs(3) cs(3) assms(3) by auto
  then have ne: "hs \<noteq> hs'"
    using pairs_inject [of "True # bs" "True # cs"] by (auto simp: hs_hs'_def)
  have tail: "hs \<noteq> []" "\<not> last hs" "\<not> last hs'"
    by (simp_all add: hs_hs'_def numeral_eq_Suc)
  have hb: "packs (hb_data hb) hs" "hb_length hb = word_of_nat (length hs)" "length hs \<le> 72"
    "packs (hb_data hb') hs'" "hb_length hb' = word_of_nat (length hs')" "length hs' \<le> 72"
    using bs(2) cs(2) by (simp_all only: holds_def hs_hs'_def)
  have unat: "unat (word_of_nat n :: u8) = n" if "n \<le> 72" for n
    using that by (simp add: unat_of_nat)
  have len: "length hs' = length hs"
    using assms(4) unat [OF hb(3)] unat [OF hb(6)] by (simp add: hb(2,5) word_unat_eq_iff)
  have "length hs = 22 \<Longrightarrow> hb_length hb = 22"
    by (simp add: hb(2))
  then have watch: "watches (length hs) first'" "watches (length hs) second'"
    using assms(5,6,9,10) by (auto simp: watches_def start_tx_def load_tx_def split: if_split_asm)
  have "armed hs 3 first'" "armed hs' 3 second'"
    using assms(5-8) hb by (auto simp: start_tx_def load_tx_def armed_def sending_def TX_ARM_LEAD_TICKS_def split: if_split_asm)
  from talkers_collide [OF this len ne tail(2,3,1) watch, of ticks] hb(3) assms(11,12) show ?thesis
    by (auto simp: collided_def poll_tx_state_def)
qed

theorem two_talkers_collide_witness:
  "fst (poll_tx_state (fst ((line_tick ^^ 292) (snd (start_tx (encode_forward16_raw 0xFF05) (phy_new True)),
       snd (start_tx (encode_forward16_raw 0xFF00) (phy_new True)))))) = TxCollision \<or>
   fst (poll_tx_state (snd ((line_tick ^^ 292) (snd (start_tx (encode_forward16_raw 0xFF05) (phy_new True)),
       snd (start_tx (encode_forward16_raw 0xFF00) (phy_new True)))))) = TxCollision"
proof (rule two_talkers_collide [of "SniffedForward16 0xFF05" _ "SniffedForward16 0xFF00"])
  have hb: "hb_length (encode_forward16_raw 0xFF05) = 38" "hb_length (encode_forward16_raw 0xFF00) = 38"
    by code_simp+
  then show "start_tx (encode_forward16_raw 0xFF05) (phy_new True) = (True, snd (start_tx (encode_forward16_raw 0xFF05) (phy_new True)))"
    "start_tx (encode_forward16_raw 0xFF00) (phy_new True) = (True, snd (start_tx (encode_forward16_raw 0xFF00) (phy_new True)))"
    by (simp_all add: start_tx_def load_tx_def phy_new_def Let_def set_bus_idle_def MAX_DATA_HALF_BITS_def)
  show "hb_length (encode_forward16_raw 0xFF05) = hb_length (encode_forward16_raw 0xFF00)"
    "collision_policy (phy_new True) = PolicyOn \<or> collision_policy (phy_new True) = PolicyAuto \<and> hb_length (encode_forward16_raw 0xFF05) \<noteq> 22"
    "collision_policy (phy_new True) = PolicyOn \<or> collision_policy (phy_new True) = PolicyAuto \<and> hb_length (encode_forward16_raw 0xFF05) \<noteq> 22"
    by (simp_all add: hb phy_new_def set_bus_idle_def Let_def)
qed (simp_all add: phy_new_def set_bus_idle_def Let_def)

end
