(* ===== verification/Spec2Isabelle.thy ===== *)
theory Spec2Isabelle
  imports Wire_Address Device_Commands Commands Wire_Codec Session Memory_Banks Gear Fleet Controller
    Executor Discovery Commissioning Overlap Fleet_Wire Line_View Random_Search Line_Queries Line_Identity Line_Commissioning Line_Session
    Gear_Contract Level_Band Colour_Band Gear_Shape Wire_Discipline Majority Executor_Rules Level_Projection
    Manchester Line_Code Phy Phy_Line
begin

text \<open>
  A verification library for a DALI-2 lighting controller written in Rust (\<open>src/crates\<close>). A DALI line
  carries 16-bit forward frames from the controller to up to 64 control gear and 8-bit backward frames with
  their answers. The controller decides when a frame may be sent and when to repeat it, the executors above it
  discover gear and give them short addresses, and below it a bit-banged physical layer turns frames into line
  levels. The repository also has a model of the gear, which its simulator and tests run against; it is part
  of what is verified here.

  \<^bold>\<open>The parts and their theories.\<close> Paths are under \<open>src/crates\<close>; definitions have the names of the
  functions they translate; a prefix of a field or a constructor only keeps equal names apart.

  \<^item> \<open>Prelude\<close>: machine integers as words, saturating arithmetic, results as \<open>Err\<close>/\<open>Ok\<close>, and
    \<open>act\<close>, a method that takes \<open>&mut self\<close> and returns a \<open>Result\<close>.
  \<^item> \<open>Wire_Address\<close>, \<open>Device_Commands\<close>, \<open>Commands\<close>, \<open>Wire_Codec\<close>: the frames, addresses and commands
    of \<open>dali2rust-domain/src/dali\<close> (\<open>frame.rs\<close>, \<open>net\<close>, \<open>devices\<close>, \<open>pres\<close>) and the decoder of
    wire bytes. Shown: decoding inverts encoding on canonical commands, and the query table agrees with
    the decoder.
  \<^item> \<open>Session\<close>: settling times, waits and backoff (\<open>ses\<close>). Shown: the bands of the priorities are
    disjoint and ordered, the wait reaches the settling time exactly, the backoff stays in its envelope.
  \<^item> \<open>Memory_Banks\<close>, \<open>Gear\<close>, \<open>Fleet\<close>: \<open>dali2rust-gear-model\<close>, with the bank layouts of the domain
    crate. A \<open>Gear\<close> is a record with the variables of the struct, a \<open>GearFleet\<close> a list of gear with the
    registers they share; \<open>exchange\<close> is the effect of one frame on all of them.
  \<^item> \<open>Gear_Contract\<close>, \<open>Level_Band\<close>, \<open>Colour_Band\<close>, \<open>Gear_Shape\<close>: a locale for the properties of a
    gear that every operation keeps, and its three interpretations on the gear model: levels between
    their limits, colour temperatures between theirs, variables within their types.
  \<^item> \<open>Controller\<close>: \<open>DaliController\<close> of \<open>dali2rust-dali-runtime/src/runtime/controller\<close>: attempts,
    transactions, units, leases and holds, over a \<open>Wire\<close>, the record of the transport and clock operations
    the code calls. \<open>Wire_Discipline\<close> shows for every wire what a command costs, that the retry loops end,
    that a held line refuses a command before it is sent and that a started transaction is not interrupted;
    and that commands complete on a line of modelled gear.
  \<^item> \<open>Executor\<close>, \<open>Majority\<close>, \<open>Executor_Rules\<close>: the helpers of the executors: error classes, votes
    over repeated reads, confirmed reads, verify and repair.
  \<^item> \<open>Discovery\<close>, \<open>Commissioning\<close>: the two executors and the worker loops that drive them.
  \<^item> \<open>Overlap\<close>, \<open>Fleet_Wire\<close>: \<open>SimDaliTransport\<close> of \<open>dali2rust-adapters\<close> as a \<open>Wire\<close>: a
    transfer is an exchange with the fleet, and simultaneous answers are read as the decoder of
    \<open>dali2rust-dali-codec\<close> reads their overlap.
  \<^item> \<open>Line_View\<close>, \<open>Random_Search\<close>, \<open>Line_Queries\<close>, \<open>Line_Identity\<close>, \<open>Line_Commissioning\<close>,
    \<open>Line_Session\<close>: the executors on that wire. \<open>Line_View\<close> abstracts a gear to its \<open>Station\<close>, what
    addressing sees of it; \<open>Random_Search\<close> is the locale of the search, interpreted on the real probe;
    the others follow queries, detection, the drain loop and a whole session. The properties of this
    theory are the results.
  \<^item> \<open>Level_Projection\<close>: the level the registry projects without asking and the status byte
    (\<open>level_transition.rs\<close>, \<open>status.rs\<close>), against the gear.
  \<^item> \<open>Manchester\<close>, \<open>Line_Code\<close>, \<open>Phy\<close>, \<open>Phy_Line\<close>: half-bit encoding, the phase search of a
    capture and the tick-driven state machine of \<open>dali2rust-dali-phy\<close> and \<open>dali2rust-dali-codec\<close>. Two
    physical layers are put on one line: a frame crosses it unchanged, and two frames at once are noticed.

  \<^bold>\<open>Loops, bounds and fuel.\<close> A bounded loop of the code recurses over its own bound: the attempts of the
  retry policy, the samples of a confirmed read, the steps of the device-type walk. The bisection, the drain
  loop, the recording of a capture and its decoding are functions with termination proofs. Two loops of the
  controller are unbounded in the code and carry a counter here (\<open>unit_attempts\<close>, \<open>unit_reruns\<close>);
  \<open>Wire_Discipline\<close> shows that the attempts of the policy are enough and more change nothing. The phase
  search is a partial function whose \<open>None\<close> is divergence, and \<open>Line_Code\<close> excludes it.

  \<^bold>\<open>Where the model differs from the code.\<close>
  \<^item> A transfer on the modelled line takes no time; the clock moves by sleeping, and so a clock that is read
    twice without a sleep between gives one value.
  \<^item> \<open>clamp\<close> of \<open>core\<close> panics on an empty range and the one of \<open>Prelude\<close> does not: \<open>Level_Band\<close>
    and \<open>Colour_Band\<close> show that the ranges are not empty where the gear clamps.
  \<^item> The closure of \<open>program_with_verify_repair\<close> has the controller as its only state.
  \<^item> Two histories are left out of the invariant of the levels and of the projection because the code
    does not have the property there: a power cut after the minimum level was raised
    (\<open>power_cycle_ignores_limits\<close>), and a last active level outside the limits
    (\<open>last_active_projection_unclamped\<close>).

  \<^bold>\<open>Not modelled.\<close> The input devices of part 103 and 24-bit exchanges with them; the interrupt core of the
  physical layer with its lock-free cells, whose correctness is about memory orderings that a sequential
  model does not show; registers and pins; the message bus, the runtimes of rules, registry, polling, human-centric
  lighting, redundancy and operations, which are concurrent actors over channels; HTTP, MQTT, WebSocket, OTA and
  display code, which is I/O; the typed part 251 readings; test fixtures and test setters. Of the simulated
  transport, the log of sent frames, the injection of foreign frames and the gauges of the wire load.
\<close>

section \<open>An example line\<close>

definition example_spec :: "u8 option \<Rightarrow> u32 \<Rightarrow> u8 list \<Rightarrow> GearSpec" where
  "example_spec s a ts = \<lparr>short_address = s, random_address = a, device_types = ts, tc_capable = False,
     xy_capable = False, rgbwaf_channels = 0, tc_coolest_mirek = 0, tc_warmest_mirek = 0, phm = 1,
     energy_reporting = False, diagnostics_reporting = False, bus_unit_extension = False, luminaire_format = None,
     holds_dtr0_on_unimplemented = False, indicator_byte_unimplemented = False, switching_features = 0,
     switching_gear_type = 0\<rparr>"

definition example_line :: "FleetWorld DaliController" where
  "example_line = controller_new fleet_io False
     (world_new (fleet_new [example_spec None 0x123456 [6], example_spec (Some 0) 0xABCDEF [6], example_spec None 0x000042 [6, 8]] 0 1))"

lemma example_stations:
  "stations (line example_line) = map (\<lambda>sp. \<lparr>st_enabled = True, st_initialise = False, st_withdrawn = False,
     st_pending = None, st_drop = 0, st_spec = sp\<rparr>) [example_spec None 0x123456 [6], example_spec (Some 0) 0xABCDEF [6], example_spec None 0x000042 [6, 8]]"
  by (simp add: example_line_def controller_new_def world_new_def with_retry_policy_def line_now_def advance_to_ms_def for_gears_def
      settle_random_def fleet_new_def gear_new_def no_faults_def is_reserved_def stations_def station_def example_spec_def Let_def)

lemma example_attentive: "attentive example_line" "timely (world example_line)" "rng (fleet (world example_line)) = 1"
proof -
  have "quiet example_line"
    by (simp add: example_line_def controller_new_def world_new_def with_retry_policy_def quiet_def unit_broken_by_def)
  moreover have "regs (line example_line) = regs_default" "reserved (line example_line) = 0"
    by (simp_all add: example_line_def controller_new_def world_new_def with_retry_policy_def line_now_def advance_to_ms_def fleet_new_def Let_def)
  ultimately show "attentive example_line"
    by (simp add: attentive_def calm_def example_stations regs_default_def example_spec_def)
  show "timely (world example_line)" "rng (fleet (world example_line)) = 1"
    by (simp_all add: example_line_def controller_new_def world_new_def with_retry_policy_def timely_def fleet_new_def rng_new_def)
qed

lemma example_commissionable: "commissionable [] (rng (fleet (world example_line))) (stations (line example_line))"
  unfolding example_stations example_attentive(3) by code_simp

text \<open>The same line in the middle of a session: the unaddressed gear are in the initialisation state.\<close>

definition example_session :: "FleetWorld DaliController" where
  "example_session = example_line\<lparr>world := (world example_line)\<lparr>fleet :=
     for_gears (\<lambda>g. short_address (spec g) = None) (\<lambda>g. g\<lparr>initialise := True\<rparr>) (fleet (world example_line))\<rparr>\<rparr>"

lemma example_session_stations:
  "stations (line example_session) = map (\<lambda>sp. \<lparr>st_enabled = True, st_initialise = short_address sp = None,
     st_withdrawn = False, st_pending = None, st_drop = 0, st_spec = sp\<rparr>)
     [example_spec None 0x123456 [6], example_spec (Some 0) 0xABCDEF [6], example_spec None 0x000042 [6, 8]]"
  by (simp add: example_session_def example_line_def controller_new_def world_new_def with_retry_policy_def line_now_def advance_to_ms_def
      for_gears_def settle_random_def fleet_new_def gear_new_def no_faults_def is_reserved_def stations_def station_def
      example_spec_def Let_def)

lemma example_session_attentive: "attentive example_session"
proof -
  have "quiet example_session"
    by (simp add: example_session_def example_line_def controller_new_def world_new_def with_retry_policy_def quiet_def unit_broken_by_def)
  moreover have "regs (line example_session) = regs_default" "reserved (line example_session) = 0"
    by (simp_all add: example_session_def example_line_def controller_new_def world_new_def with_retry_policy_def line_now_def
        advance_to_ms_def fleet_new_def Let_def)
  ultimately show ?thesis
    by (simp add: attentive_def calm_def example_session_stations regs_default_def example_spec_def)
qed

section \<open>Commissioning end to end\<close>

text \<open>
  C1. A commissioning session on a line of modelled gear (INITIALISE, RANDOMISE, the search and
  programming loop, TERMINATE) ends without error. Afterwards every enabled gear has a short
  address, gear that had one keep it, nobody is left in the initialisation state, and enabled
  gear share no address that they did not share before. Asked of the line: the controller is
  idle and the gear answer without faults, the drawn random addresses differ and there are
  enough free short addresses.
\<close>

theorem commissioning_session_addresses_all:
  assumes "attentive c" "timely (world c)" "commissionable used (rng (fleet (world c))) (stations (line c))"
    and "\<forall>st\<in>set (stations (line c)). missing st \<longrightarrow> typed (device_types (st_spec st))"
  shows "\<exists>ds c'. commission_unaddressed_once fleet_io retries used progress c
        = ((Ok (), used @ map dd_short_address ds, progress @ ds), c')
      \<and> (\<forall>st\<in>set (stations (line c')). st_enabled st \<longrightarrow> short_address (st_spec st) \<noteq> None)
      \<and> list_all2 kept_address (stations (line c)) (stations (line c'))
      \<and> (distinct (map (\<lambda>st. short_address (st_spec st)) (filter (\<lambda>st. st_enabled st \<and> \<not> missing st) (stations (line c)))) \<longrightarrow>
         distinct (map (\<lambda>st. short_address (st_spec st)) (filter st_enabled (stations (line c')))))"
proof -
  obtain ds c' where "commission_unaddressed_once fleet_io retries used progress c
        = ((Ok (), used @ map dd_short_address ds, progress @ ds), c')"
      "stations (line c') = outcome used (rng (fleet (world c))) (stations (line c))"
    using session_fleet [OF assms(1,2) refl refl, of used retries progress] assms(3,4)
    unfolding commissionable_def outcome_def plan_def by blast
  then show ?thesis
    using outcome_complete [OF assms(3)] outcome_keeps [OF assms(3)] outcome_distinct [OF assms(3)] by auto
qed

theorem commissioning_session_addresses_all_witness:
  "\<exists>ds c'. commission_unaddressed_once fleet_io 0 [] [] example_line = ((Ok (), map dd_short_address ds, ds), c')
    \<and> (\<forall>st\<in>set (stations (line c')). st_enabled st \<longrightarrow> short_address (st_spec st) \<noteq> None)"
proof -
  have "\<forall>st\<in>set (stations (line example_line)). missing st \<longrightarrow> typed (device_types (st_spec st))"
    unfolding example_stations by code_simp
  then show ?thesis
    using commissioning_session_addresses_all [OF example_attentive(1,2) example_commissionable, of 0 "[]"] by auto
qed

text \<open>
  C2. The drain loop implements an assignment on the stations of the line: the participating gear,
  in ascending order of their random addresses, receive the free short addresses in ascending
  order and are withdrawn, every other gear is left as it was, and the reported devices describe
  the gear found, in that order.
\<close>

theorem drain_refines_assignment:
  assumes "attentive c" "ready (stations (line c))"
    and "length (search_order (stations (line c))) \<le> length (free_shorts used (stations (line c)))"
  shows "\<exists>ds c'. commission_unaddressed_drain fleet_io retries used progress c
        = ((Ok (), used @ map dd_short_address ds, progress @ ds), c')
      \<and> map dd_short_address ds = take (length (search_order (stations (line c)))) (free_shorts used (stations (line c)))
      \<and> stations (line c') = map (assign (map_of (zip (search_order (stations (line c))) (free_shorts used (stations (line c))))))
          (stations (line c))
      \<and> list_all2 (describes (stations (line c))) ds (search_order (stations (line c)))"
  using drain_fleet [OF assms(1) refl assms(2) refl assms(3)] by blast

theorem drain_refines_assignment_witness:
  "\<exists>ds c'. commission_unaddressed_drain fleet_io 0 [] [] example_session = ((Ok (), map dd_short_address ds, ds), c')
    \<and> map dd_short_address ds = [1, 2]"
proof -
  have "ready (stations (line example_session))"
    unfolding example_session_stations by code_simp
  moreover have order: "search_order (stations (line example_session)) = [0x000042, 0x123456]"
    unfolding example_session_stations by code_simp
  moreover have "take 2 (free_shorts [] (stations (line example_session))) = [1, 2]"
    unfolding example_session_stations by code_simp
  moreover from this have "2 \<le> length (free_shorts [] (stations (line example_session)))"
    by (metis length_Cons length_take list.size(3) min.cobounded1 numeral_2_eq_2)
  ultimately show ?thesis
    using drain_refines_assignment [OF example_session_attentive, of "[]" 0 "[]"] by (auto simp: numeral_2_eq_2)
qed

text \<open>
  C3. The search for the next gear returns the lowest random address of the gear that take part,
  reports that none is left when none takes part, and reports gear that were not reached when none
  takes part although unaddressed gear answer on the line. It changes no station.
\<close>

theorem search_finds_lowest:
  assumes "attentive c"
  shows "\<exists>c'. find_lowest_random_address fleet_io c =
      (if candidates (stations (line c)) \<noteq> {} then Ok (Some (Min (candidates (stations (line c)))))
       else if \<exists>st\<in>set (stations (line c)). missing st then Err (OperationFailed ''unaddressed_gear_not_reached'')
       else Ok None, c')
    \<and> attentive c' \<and> stations (line c') = stations (line c)"
proof -
  have fin: "finite (candidates (stations (line c)))"
    unfolding candidates_def by simp
  show ?thesis
  proof (cases "candidates (stations (line c)) = {}")
    case True
    then show ?thesis
      using find_lowest_missed [OF assms] find_lowest_none [OF assms] by (auto simp: missing_def)
  next
    case False
    then show ?thesis
      using find_lowest_some [OF assms Min_in [OF fin]] Min_le [OF fin] by simp
  qed
qed

theorem search_finds_lowest_witness:
  "\<exists>c'. find_lowest_random_address fleet_io example_session = (Ok (Some 0x000042), c')"
proof -
  have "candidates (stations (line example_session)) = {0x123456, 0x000042}"
  proof -
    have parts: "map random_of (filter participant (stations (line example_session))) = [0x123456, 0x000042]"
      unfolding example_session_stations by code_simp
    have "calm (line example_session)"
      using example_session_attentive by (simp only: attentive_def)
    then show ?thesis
      using arg_cong [OF parts, of set] by (simp only: candidates_participants set_map list.simps(15) empty_set)
  qed
  then show ?thesis
    using search_finds_lowest [OF example_session_attentive] by (auto simp: min_def)
qed

text \<open>
  C4. Detecting the only gear at a short address reports that address, the classification of the gear's
  device types and the set of them, and changes nothing on the line. The set holds the types 0 to 63; for a
  gear with a higher type no set is reported, as in the code.
\<close>

theorem detection_reports_identity:
  assumes "attentive c" "s \<le> 63" "filter (st_matches (Short s)) (stations (line c)) = [st]" "typed (device_types (st_spec st))"
  shows "\<exists>d c'. detect_device fleet_io s c = (Ok (Some d), c') \<and> reports_identity s (device_types (st_spec st)) d
    \<and> attentive c' \<and> stations (line c') = stations (line c)"
proof -
  have "map station (selected (Short s) (line c)) = [st]"
    using assms(3) by (simp add: selected_stations ungrouped_def)
  then obtain g where g: "selected (Short s) (line c) = [g]" "station g = st"
    by auto
  then have "types_of g = device_types (st_spec st)"
    by (auto simp: types_of_def station_def)
  then show ?thesis
    using detect_device_fleet [OF assms(1,2) g(1)] assms(4) by (auto simp: yields_def unmoved_def)
qed

theorem detection_reports_identity_witness:
  "\<exists>d c'. detect_device fleet_io 0 example_session = (Ok (Some d), c') \<and> dd_device_type d = Dt6Led"
proof -
  have "filter (st_matches (Short 0)) (stations (line example_session)) = [stations (line example_session) ! 1]"
    "typed (device_types (st_spec (stations (line example_session) ! 1)))"
    "classify_supported_device_types (device_types (st_spec (stations (line example_session) ! 1))) = Dt6Led"
    unfolding example_session_stations
    by (simp_all add: st_matches_def example_spec_def typed_def classify_supported_device_types_def)
  then show ?thesis
    using detection_reports_identity [OF example_session_attentive, of 0 "stations (line example_session) ! 1"]
    by (auto simp: reports_identity_def)
qed

end
